(* ===== verification/SC_Prelude.thy ===== *)
theory SC_Prelude
  imports Main "HOL-Library.State_Monad" "HOL-Library.Char_ord" "HOL-Library.List_Lexorder"
    "HOL-Library.AList"
begin

text \<open>
  Shared vocabulary of the development.  Go code that threads the state of the cluster through many
  calls is written in the state monad of HOL-Library; a Go result \<open>(x, err)\<close> is a value of the sum
  type \<open>'e + 'a\<close>, with \<open>Inl\<close> the error.  This theory provides the combinators that read as the Go
  idioms (\<open>if err != nil { return err }\<close>), the weakest-precondition calculus used to reason about
  handlers, the notion of a state predicate kept by a handler, and the library facts on lists,
  decimal printing and association lists that the components share.
\<close>

named_theorems wp_simps "weakest preconditions of the state monad, applied as rewrite rules"
named_theorems wp_rules "weakest-precondition rules of the API calls, applied as introduction rules"
named_theorems keeps_intros "a handler keeps a state predicate"

section \<open>State monad with Go results\<close>

definition gets :: "('s \<Rightarrow> 'a) \<Rightarrow> ('s, 'a) state" where
  "gets f = State (\<lambda>s. (f s, s))"

definition modify :: "('s \<Rightarrow> 's) \<Rightarrow> ('s, unit) state" where
  "modify f = State (\<lambda>s. ((), f s))"

lemma run_state_gets [simp]: "run_state (gets f) s = (f s, s)"
  by (simp add: gets_def)

lemma run_state_modify [simp]: "run_state (modify f) s = ((), f s)"
  by (simp add: modify_def)

text \<open>\<open>if err != nil { return err }\<close>: continue with the value, or return the error.\<close>
definition on_ok :: "'e + 'a \<Rightarrow> ('a \<Rightarrow> ('s, 'e + 'b) state) \<Rightarrow> ('s, 'e + 'b) state" where
  "on_ok r k = (case r of Inl e \<Rightarrow> State_Monad.return (Inl e) | Inr a \<Rightarrow> k a)"

lemma on_ok_simps [simp]:
  "on_ok (Inl e) k = State_Monad.return (Inl e)"
  "on_ok (Inr a) k = k a"
  by (simp_all add: on_ok_def)

text \<open>The same on pure results.\<close>
definition bind_result :: "'e + 'a \<Rightarrow> ('a \<Rightarrow> 'e + 'b) \<Rightarrow> 'e + 'b" where
  "bind_result r k = (case r of Inl e \<Rightarrow> Inl e | Inr a \<Rightarrow> k a)"

lemma bind_result_simps [simp]:
  "bind_result (Inl e) k = Inl e"
  "bind_result (Inr a) k = k a"
  by (simp_all add: bind_result_def)

lemma bind_result_eq_Inr:
  "bind_result r k = Inr b \<longleftrightarrow> (\<exists>a. r = Inr a \<and> k a = Inr b)"
  by (cases r) auto

definition isOK :: "'e + 'a \<Rightarrow> bool" where
  "isOK r = (case r of Inl _ \<Rightarrow> False | Inr _ \<Rightarrow> True)"

lemma isOK_simps [simp]: "isOK (Inr a)" "\<not> isOK (Inl e)"
  by (simp_all add: isOK_def)

lemma isOK_iff: "isOK r \<longleftrightarrow> (\<exists>a. r = Inr a)"
  by (cases r) auto

section \<open>Weakest preconditions\<close>

definition wp :: "('s, 'a) state \<Rightarrow> ('a \<Rightarrow> 's \<Rightarrow> bool) \<Rightarrow> 's \<Rightarrow> bool" where
  "wp m Q s = (case run_state m s of (a, s') \<Rightarrow> Q a s')"

lemma wp_return [wp_simps]: "wp (State_Monad.return a) Q s = Q a s"
  by (simp add: wp_def)

lemma wp_bind [wp_simps]: "wp (State_Monad.bind m k) Q s = wp m (\<lambda>a. wp (k a) Q) s"
  by (simp add: wp_def split: prod.split)

lemma wp_gets [wp_simps]: "wp (gets f) Q s = Q (f s) s"
  by (simp add: wp_def)

lemma wp_modify [wp_simps]: "wp (modify f) Q s = Q () (f s)"
  by (simp add: wp_def)

lemma wp_get [wp_simps]: "wp State_Monad.get Q s = Q s s"
  by (simp add: wp_def)

lemma wp_set [wp_simps]: "wp (State_Monad.set s') Q s = Q () s'"
  by (simp add: wp_def)

lemma wp_if [wp_simps]: "wp (if b then m else n) Q s = (if b then wp m Q s else wp n Q s)"
  by simp

lemma wp_case_option [wp_simps]:
  "wp (case x of None \<Rightarrow> m | Some a \<Rightarrow> k a) Q s = (case x of None \<Rightarrow> wp m Q s | Some a \<Rightarrow> wp (k a) Q s)"
  by (cases x) simp_all

lemma wp_case_sum [wp_simps]:
  "wp (case x of Inl e \<Rightarrow> h e | Inr a \<Rightarrow> k a) Q s = (case x of Inl e \<Rightarrow> wp (h e) Q s | Inr a \<Rightarrow> wp (k a) Q s)"
  by (cases x) simp_all

lemma wp_case_prod [wp_simps]:
  "wp (case x of (a, b) \<Rightarrow> k a b) Q s = (case x of (a, b) \<Rightarrow> wp (k a b) Q s)"
  by (cases x) simp_all

lemma wp_on_ok [wp_simps]:
  "wp (on_ok r k) Q s = (case r of Inl e \<Rightarrow> Q (Inl e) s | Inr a \<Rightarrow> wp (k a) Q s)"
  by (cases r) (simp_all add: wp_return)

lemma wp_mono: "wp m P s \<Longrightarrow> (\<And>a s'. P a s' \<Longrightarrow> Q a s') \<Longrightarrow> wp m Q s"
  by (auto simp: wp_def split: prod.splits)

lemma wp_conj: "wp m P s \<Longrightarrow> wp m Q s \<Longrightarrow> wp m (\<lambda>a s'. P a s' \<and> Q a s') s"
  by (auto simp: wp_def split: prod.splits)

lemma wp_True [simp]: "wp m (\<lambda>a s'. True) s"
  by (simp add: wp_def split: prod.split)

lemma wp_run: "wp m Q s \<longleftrightarrow> Q (fst (run_state m s)) (snd (run_state m s))"
  by (simp add: wp_def split: prod.split)

lemma wp_runD: "wp m Q s \<Longrightarrow> run_state m s = (a, s') \<Longrightarrow> Q a s'"
  by (simp add: wp_def)

section \<open>Predicates and relations kept by a handler\<close>

text \<open>
  \<open>keeps R m\<close>: running \<open>m\<close> relates the state before to the state after by \<open>R\<close>.  With \<open>R\<close> reflexive and
  transitive it composes along the code; an invariant \<open>I\<close> is the relation \<open>\<lambda>s s'. I s \<longrightarrow> I s'\<close>.
\<close>
definition keeps :: "('s \<Rightarrow> 's \<Rightarrow> bool) \<Rightarrow> ('s, 'a) state \<Rightarrow> bool" where
  "keeps R m \<longleftrightarrow> (\<forall>s. R s (snd (run_state m s)))"

definition inv_rel :: "('s \<Rightarrow> bool) \<Rightarrow> 's \<Rightarrow> 's \<Rightarrow> bool" where
  "inv_rel I s s' \<longleftrightarrow> (I s \<longrightarrow> I s')"

text \<open>The values a computation can return, from any state.\<close>
definition results :: "('s, 'a) state \<Rightarrow> 'a set" where
  "results m = {a. \<exists>s s'. run_state m s = (a, s')}"

lemma results_return [simp]: "b \<in> results (State_Monad.return a) \<longleftrightarrow> b = a"
  by (auto simp: results_def)

lemma results_bindE:
  assumes "b \<in> results (State_Monad.bind m k)"
  obtains a where "a \<in> results m" "b \<in> results (k a)"
proof -
  obtain s s' where "run_state (State_Monad.bind m k) s = (b, s')" using assms by (auto simp: results_def)
  moreover obtain a s1 where "run_state m s = (a, s1)" by force
  ultimately show thesis by (intro that[of a]) (auto simp: results_def)
qed

lemma results_on_ok: "b \<in> results (on_ok r k) \<Longrightarrow>
    (\<exists>e. r = Inl e \<and> b = Inl e) \<or> (\<exists>a. r = Inr a \<and> b \<in> results (k a))"
  by (cases r) auto

locale handler_relation =
  fixes R :: "'s \<Rightarrow> 's \<Rightarrow> bool"
  assumes refl_R: "R s s"
    and trans_R: "R s t \<Longrightarrow> R t u \<Longrightarrow> R s u"
begin

lemma keeps_return [keeps_intros]: "keeps R (State_Monad.return a)"
  by (simp add: keeps_def refl_R)

lemma keeps_gets [keeps_intros]: "keeps R (gets f)"
  by (simp add: keeps_def refl_R)

lemma keeps_bind [keeps_intros]:
  assumes "keeps R m" and "\<And>a. a \<in> results m \<Longrightarrow> keeps R (k a)"
  shows "keeps R (State_Monad.bind m k)"
  unfolding keeps_def
proof
  fix s
  obtain a s' where m: "run_state m s = (a, s')" by force
  then have "R s s'" using assms(1) by (metis keeps_def snd_conv)
  moreover have "a \<in> results m" using m by (auto simp: results_def)
  then have "R s' (snd (run_state (k a) s'))" using assms(2) by (simp add: keeps_def)
  ultimately show "R s (snd (run_state (State_Monad.bind m k) s))"
    using m by (simp add: trans_R)
qed

lemma keeps_let [keeps_intros]: "keeps R (k v) \<Longrightarrow> keeps R (let x = v in k x)"
  by simp

lemma keeps_if [keeps_intros]:
  "(b \<Longrightarrow> keeps R m) \<Longrightarrow> (\<not> b \<Longrightarrow> keeps R n) \<Longrightarrow> keeps R (if b then m else n)"
  by simp

lemma keeps_option [keeps_intros]:
  "(x = None \<Longrightarrow> keeps R m) \<Longrightarrow> (\<And>a. x = Some a \<Longrightarrow> keeps R (k a)) \<Longrightarrow>
   keeps R (case x of None \<Rightarrow> m | Some a \<Rightarrow> k a)"
  by (cases x) simp_all

lemma keeps_sum [keeps_intros]:
  "(\<And>e. x = Inl e \<Longrightarrow> keeps R (h e)) \<Longrightarrow> (\<And>a. x = Inr a \<Longrightarrow> keeps R (k a)) \<Longrightarrow>
   keeps R (case x of Inl e \<Rightarrow> h e | Inr a \<Rightarrow> k a)"
  by (cases x) simp_all

lemma keeps_prod [keeps_intros]:
  "(\<And>a b. x = (a, b) \<Longrightarrow> keeps R (k a b)) \<Longrightarrow> keeps R (case x of (a, b) \<Rightarrow> k a b)"
  by (cases x) simp

lemma keeps_on_ok [keeps_intros]:
  "(\<And>a. r = Inr a \<Longrightarrow> keeps R (k a)) \<Longrightarrow> keeps R (on_ok r k)"
  by (cases r) (simp_all add: keeps_return)

end

lemma keeps_inv: "keeps (inv_rel I) m \<Longrightarrow> I s \<Longrightarrow> I (snd (run_state m s))"
  by (simp add: keeps_def inv_rel_def)

lemma keeps_wp: "keeps R m \<Longrightarrow> (\<And>a s'. R s s' \<Longrightarrow> Q a s') \<Longrightarrow> wp m Q s"
  by (simp add: keeps_def wp_run)

lemma wp_keeps: "(\<And>s. wp m (\<lambda>_ s'. R s s') s) \<Longrightarrow> keeps R m"
  by (simp add: keeps_def wp_run)

section \<open>Decimal printing\<close>

definition digit_char :: "nat \<Rightarrow> char" where
  "digit_char n = char_of (48 + n)"

fun show_nat :: "nat \<Rightarrow> string" where
  "show_nat n = (if n < 10 then [digit_char n] else show_nat (n div 10) @ [digit_char (n mod 10)])"

declare show_nat.simps [simp del]

definition show_int :: "int \<Rightarrow> string" where
  "show_int i = (if i < 0 then CHR ''-'' # show_nat (nat (- i)) else show_nat (nat i))"

section \<open>Lists and association lists\<close>

text \<open>A Go \<open>map[string]v\<close> is an association list with distinct keys, written by \<^const>\<open>AList.update\<close>.\<close>
definition wf_map :: "('k \<times> 'v) list \<Rightarrow> bool" where
  "wf_map m = distinct (map fst m)"

lemma wf_map_Nil [simp]: "wf_map []"
  by (simp add: wf_map_def)

lemma wf_map_update [simp]: "wf_map m \<Longrightarrow> wf_map (AList.update k v m)"
  by (simp add: wf_map_def distinct_update)

lemma map_of_append_disjoint:
  assumes "fst ` set xs \<inter> fst ` set ys = {}"
  shows "map_of (xs @ ys) k = (case map_of xs k of Some v \<Rightarrow> Some v | None \<Rightarrow> map_of ys k)"
  using assms by (auto simp: map_add_def split: option.splits)

end
