(* ===== verification/SC_Types.thy ===== *)
theory SC_Types
  imports SC_Prelude
begin

text \<open>
  The API types of \<open>pkg/apis/servicecatalog/types.go\<close> (the versioned types are in
  \<open>SC_Conversion\<close>), the part of the Kubernetes object metadata the program reads, and the request
  and error types of the Open Service Broker client.  A Go struct is a record whose fields carry the
  Go names behind a short prefix, a set of string constants is a datatype, a pointer is an \<open>option\<close>,
  a \<open>metav1.Time\<close> is the number of nanoseconds as an \<open>int\<close>, and \<open>[]byte\<close> is a \<open>string\<close> of bytes.
\<close>

section \<open>Metadata\<close>

type_synonym go_time = int

record OwnerReference =
  or_APIVersion :: string
  or_Kind :: string
  or_Name :: string
  or_UID :: string
  or_Controller :: "bool option"
  or_BlockOwnerDeletion :: "bool option"

text \<open>The labels, annotations, initializers, generateName and clusterName of an object are not used by
  the program and are not carried.  A resource version is a number, 0 standing for the empty one.\<close>
record ObjectMeta =
  om_Name :: string
  om_Namespace :: string
  om_UID :: string
  om_ResourceVersion :: nat
  om_Generation :: int
  om_DeletionTimestamp :: "go_time option"
  om_DeletionGracePeriodSeconds :: "int option"
  om_Finalizers :: "string list"
  om_OwnerReferences :: "OwnerReference list"

record ObjectReference =
  oref_Namespace :: string
  oref_Name :: string

definition FinalizerServiceCatalog :: string where
  "FinalizerServiceCatalog = ''kubernetes-incubator/service-catalog''"

section \<open>Conditions\<close>

datatype ConditionStatus = ConditionTrue | ConditionFalse | ConditionUnknown

text \<open>The condition types of brokers, instances and credentials all are \<open>Ready\<close> and \<open>Failed\<close>, and the
  three condition structs have the same fields.\<close>
datatype ConditionType = ConditionReady | ConditionFailed

record Condition =
  c_Type :: ConditionType
  c_Status :: ConditionStatus
  c_LastTransitionTime :: go_time
  c_Reason :: string
  c_Message :: string

section \<open>Brokers\<close>

datatype RelistBehavior = RelistDurationBehavior | RelistManualBehavior | RelistOther string

record AuthInfo =
  ai_Basic :: "ObjectReference option option"
  ai_Bearer :: "ObjectReference option option"
  ai_BasicAuthSecret :: "ObjectReference option"

record BrokerSpec =
  bks_URL :: string
  bks_AuthInfo :: "AuthInfo option"
  bks_InsecureSkipTLSVerify :: bool
  bks_CABundle :: string
  bks_RelistBehavior :: RelistBehavior
  bks_RelistDuration :: "int option"
  bks_RelistRequests :: int

record BrokerStatus =
  bkst_Conditions :: "Condition list"
  bkst_ReconciledGeneration :: int
  bkst_OperationStartTime :: "go_time option"

record ClusterServiceBroker =
  bk_Meta :: ObjectMeta
  bk_Spec :: BrokerSpec
  bk_Status :: BrokerStatus

definition BasicAuthUsernameKey :: string where "BasicAuthUsernameKey = ''username''"
definition BasicAuthPasswordKey :: string where "BasicAuthPasswordKey = ''password''"
definition BearerTokenKey :: string where "BearerTokenKey = ''token''"

section \<open>Classes and plans\<close>

type_synonym RawExtension = string

record ServiceClassSpec =
  scs_ClusterServiceBrokerName :: string
  scs_ExternalName :: string
  scs_ExternalID :: string
  scs_Description :: string
  scs_Bindable :: bool
  scs_PlanUpdatable :: bool
  scs_ExternalMetadata :: "RawExtension option"
  scs_Tags :: "string list"
  scs_Requires :: "string list"

record ServiceClass =
  sc_Meta :: ObjectMeta
  sc_Spec :: ServiceClassSpec

record ServicePlanSpec =
  sps_ClusterServiceBrokerName :: string
  sps_ExternalName :: string
  sps_ExternalID :: string
  sps_Description :: string
  sps_Bindable :: "bool option"
  sps_Free :: bool
  sps_ExternalMetadata :: "RawExtension option"
  sps_ServiceInstanceCreateParameterSchema :: "RawExtension option"
  sps_ServiceInstanceUpdateParameterSchema :: "RawExtension option"
  sps_ServiceInstanceCredentialCreateParameterSchema :: "RawExtension option"
  sps_ServiceClassRef :: string

record ServicePlan =
  sp_Meta :: ObjectMeta
  sp_Spec :: ServicePlanSpec

section \<open>Instances\<close>

record UserInfo =
  ui_Username :: string
  ui_UID :: string
  ui_Groups :: "string list"
  ui_Extra :: "(string \<times> string list) list"

record SecretKeyReference =
  skr_Name :: string
  skr_Key :: string

record ParametersFromSource =
  pfs_SecretKeyRef :: "SecretKeyReference option"

datatype ServiceInstanceOperation =
  InstanceOperationNone | InstanceOperationProvision | InstanceOperationUpdate
| InstanceOperationDeprovision | InstanceOperationOther string

record PropertiesState =
  ps_ExternalServicePlanName :: string
  ps_Parameters :: "RawExtension option"
  ps_ParametersChecksum :: string
  ps_UserInfo :: "UserInfo option"

record InstanceSpec =
  sis_ExternalServiceClassName :: string
  sis_ExternalServicePlanName :: string
  sis_ServiceClassRef :: "ObjectReference option"
  sis_ServicePlanRef :: "ObjectReference option"
  sis_Parameters :: "RawExtension option"
  sis_ParametersFrom :: "ParametersFromSource list"
  sis_ExternalID :: string
  sis_UserInfo :: "UserInfo option"

record InstanceStatus =
  ist_Conditions :: "Condition list"
  ist_AsyncOpInProgress :: bool
  ist_OrphanMitigationInProgress :: bool
  ist_LastOperation :: "string option"
  ist_DashboardURL :: "string option"
  ist_CurrentOperation :: ServiceInstanceOperation
  ist_ReconciledGeneration :: int
  ist_OperationStartTime :: "go_time option"
  ist_InProgressProperties :: "PropertiesState option"
  ist_ExternalProperties :: "PropertiesState option"

record ServiceInstance =
  si_Meta :: ObjectMeta
  si_Spec :: InstanceSpec
  si_Status :: InstanceStatus

text \<open>The zero value of the Go struct.\<close>
definition empty_InstanceStatus :: InstanceStatus where
  "empty_InstanceStatus = \<lparr> ist_Conditions = [], ist_AsyncOpInProgress = False,
     ist_OrphanMitigationInProgress = False, ist_LastOperation = None, ist_DashboardURL = None,
     ist_CurrentOperation = InstanceOperationNone, ist_ReconciledGeneration = 0,
     ist_OperationStartTime = None, ist_InProgressProperties = None, ist_ExternalProperties = None \<rparr>"

section \<open>Credentials (bindings)\<close>

datatype ServiceInstanceCredentialOperation =
  CredentialOperationNone | CredentialOperationBind | CredentialOperationUnbind
| CredentialOperationOther string

record CredentialPropertiesState =
  cps_Parameters :: "RawExtension option"
  cps_ParametersChecksum :: string
  cps_UserInfo :: "UserInfo option"

record CredentialSpec =
  crs_ServiceInstanceRef :: string
  crs_Parameters :: "RawExtension option"
  crs_ParametersFrom :: "ParametersFromSource list"
  crs_SecretName :: string
  crs_ExternalID :: string
  crs_UserInfo :: "UserInfo option"

record CredentialStatus =
  crst_Conditions :: "Condition list"
  crst_CurrentOperation :: ServiceInstanceCredentialOperation
  crst_ReconciledGeneration :: int
  crst_OperationStartTime :: "go_time option"
  crst_InProgressProperties :: "CredentialPropertiesState option"
  crst_ExternalProperties :: "CredentialPropertiesState option"
  crst_OrphanMitigationInProgress :: bool

record ServiceInstanceCredential =
  cr_Meta :: ObjectMeta
  cr_Spec :: CredentialSpec
  cr_Status :: CredentialStatus

definition empty_CredentialStatus :: CredentialStatus where
  "empty_CredentialStatus = \<lparr> crst_Conditions = [], crst_CurrentOperation = CredentialOperationNone,
     crst_ReconciledGeneration = 0, crst_OperationStartTime = None,
     crst_InProgressProperties = None, crst_ExternalProperties = None,
     crst_OrphanMitigationInProgress = False \<rparr>"

definition empty_BrokerStatus :: BrokerStatus where
  "empty_BrokerStatus = \<lparr> bkst_Conditions = [], bkst_ReconciledGeneration = 0,
     bkst_OperationStartTime = None \<rparr>"

section \<open>Secrets\<close>

text \<open>A secret of the core API, of type \<open>Opaque\<close>.\<close>
record Secret =
  sec_Meta :: ObjectMeta
  sec_Data :: "(string \<times> string) list"

section \<open>Errors\<close>

datatype api_reason =
  StatusReasonNotFound | StatusReasonAlreadyExists | StatusReasonConflict | StatusReasonInvalid
| StatusReasonForbidden | StatusReasonBadRequest | StatusReasonOther string

text \<open>
  \<open>HTTPStatusCodeError\<close> carries the status code and the optional error message and description of the
  broker's answer; \<open>UrlError\<close> is a \<open>*url.Error\<close> with its \<open>Timeout()\<close>; \<open>StatusError\<close> is an error of the
  API server; \<open>PlainError\<close> is an error built by \<open>fmt.Errorf\<close> or \<open>errors.New\<close>.  \<open>NilDereference\<close> is the
  Go run-time panic of a nil pointer: no caller of the handlers below recovers from it.
\<close>
datatype go_error =
  HTTPStatusCodeError int "string option" "string option"
| UrlError bool string
| StatusError api_reason string
| PlainError string
| NilDereference

definition IsNotFound :: "go_error \<Rightarrow> bool" where
  "IsNotFound e = (case e of StatusError r _ \<Rightarrow> r = StatusReasonNotFound | _ \<Rightarrow> False)"

definition IsAlreadyExists :: "go_error \<Rightarrow> bool" where
  "IsAlreadyExists e = (case e of StatusError r _ \<Rightarrow> r = StatusReasonAlreadyExists | _ \<Rightarrow> False)"

definition IsConflict :: "go_error \<Rightarrow> bool" where
  "IsConflict e = (case e of StatusError r _ \<Rightarrow> r = StatusReasonConflict | _ \<Rightarrow> False)"

definition IsHTTPError :: "go_error \<Rightarrow> (int \<times> string option \<times> string option) option" where
  "IsHTTPError e = (case e of HTTPStatusCodeError c m d \<Rightarrow> Some (c, m, d) | _ \<Rightarrow> None)"

definition IsGoneError :: "go_error \<Rightarrow> bool" where
  "IsGoneError e = (case e of HTTPStatusCodeError c _ _ \<Rightarrow> c = 410 | _ \<Rightarrow> False)"

definition nil_or :: "string option \<Rightarrow> string" where
  "nil_or s = (case s of None \<Rightarrow> ''<nil>'' | Some x \<Rightarrow> x)"

text \<open>The \<open>Error()\<close> method; the unmarshalling error of a malformed broker answer prints as nil.\<close>
fun error_string :: "go_error \<Rightarrow> string" where
  "error_string (HTTPStatusCodeError c m d) =
     ''Status: '' @ show_int c @ ''; ErrorMessage: '' @ nil_or m @ ''; Description: '' @ nil_or d @
     ''; ResponseError: <nil>''"
| "error_string (UrlError _ s) = s"
| "error_string (StatusError _ s) = s"
| "error_string (PlainError s) = s"
| "error_string NilDereference = ''runtime error: invalid memory address or nil pointer dereference''"

section \<open>Free-form JSON values\<close>

text \<open>A value of Go type \<open>interface{}\<close> produced by a JSON decoder.  A number is carried by the text
  that Go prints for its \<open>float64\<close> value; an object is an association list with distinct keys.\<close>
datatype json =
  JNull | JBool bool | JNum string | JStr string | JArr "json list" | JObj "(string \<times> json) list"

type_synonym json_map = "(string \<times> json) list"

end
