(* ===== verification/SC_FieldValidation.thy ===== *)
theory SC_FieldValidation
  imports SC_Types
begin

text \<open>
  Field errors, names and object metadata: the parts of \<open>k8s.io/apimachinery\<close> that the validators of
  service-catalog call (\<open>util/validation\<close>, \<open>util/validation/field\<close>, \<open>api/validation\<close>).  A regular
  expression of the source is an executable recogniser over the characters of the string; an
  \<open>ErrorList\<close> is a list of \<open>field_error\<close>, without the offending value.
\<close>

section \<open>Field errors and paths\<close>

datatype field_error =
  FieldRequired string string
| FieldInvalid string string
| FieldForbidden string string
| FieldNotSupported string

type_synonym path = string

definition child :: "path \<Rightarrow> string \<Rightarrow> path" where
  "child p name = p @ ''.'' @ name"

definition indexed :: "path \<Rightarrow> nat \<Rightarrow> path" where
  "indexed p i = p @ ''['' @ show_nat i @ '']''"

text \<open>\<open>if cond { allErrs = append(allErrs, e) }\<close>\<close>
definition err_if :: "bool \<Rightarrow> field_error \<Rightarrow> field_error list" where
  "err_if b e = (if b then [e] else [])"

lemma err_if_Nil [simp]: "err_if b e = [] \<longleftrightarrow> \<not> b"
  by (simp add: err_if_def)

lemma set_err_if: "x \<in> set (err_if b e) \<longleftrightarrow> b \<and> x = e"
  by (auto simp: err_if_def)

section \<open>Names\<close>

definition is_lower :: "char \<Rightarrow> bool" where
  "is_lower c \<longleftrightarrow> CHR ''a'' \<le> c \<and> c \<le> CHR ''z''"

definition is_upper :: "char \<Rightarrow> bool" where
  "is_upper c \<longleftrightarrow> CHR ''A'' \<le> c \<and> c \<le> CHR ''Z''"

definition is_digit :: "char \<Rightarrow> bool" where
  "is_digit c \<longleftrightarrow> CHR ''0'' \<le> c \<and> c \<le> CHR ''9''"

definition is_xdigit :: "char \<Rightarrow> bool" where
  "is_xdigit c \<longleftrightarrow> is_digit c \<or> (CHR ''a'' \<le> c \<and> c \<le> CHR ''f'') \<or> (CHR ''A'' \<le> c \<and> c \<le> CHR ''F'')"

text \<open>\<open>E(M*E)?\<close>: a non-empty word of middle characters that begins and ends with an end character.\<close>
definition bracketed :: "(char \<Rightarrow> bool) \<Rightarrow> (char \<Rightarrow> bool) \<Rightarrow> string \<Rightarrow> bool" where
  "bracketed e m s \<longleftrightarrow> s \<noteq> [] \<and> e (hd s) \<and> e (last s) \<and> list_all m (butlast (tl s))"

fun split_on :: "char \<Rightarrow> string \<Rightarrow> string list" where
  "split_on d [] = [[]]"
| "split_on d (c # s) = (if c = d then [] # split_on d s
     else (case split_on d s of [] \<Rightarrow> [[c]] | w # ws \<Rightarrow> (c # w) # ws))"

definition dns1123Label :: "string \<Rightarrow> bool" where
  "dns1123Label = bracketed (\<lambda>c. is_lower c \<or> is_digit c) (\<lambda>c. c = CHR ''-'' \<or> is_lower c \<or> is_digit c)"

definition dns1123Subdomain :: "string \<Rightarrow> bool" where
  "dns1123Subdomain s = list_all dns1123Label (split_on CHR ''.'' s)"

definition qualifiedName :: "string \<Rightarrow> bool" where
  "qualifiedName = bracketed (\<lambda>c. is_lower c \<or> is_upper c \<or> is_digit c)
     (\<lambda>c. c = CHR ''-'' \<or> c = CHR ''_'' \<or> c = CHR ''.'' \<or> is_lower c \<or> is_upper c \<or> is_digit c)"

definition MaxLenError :: "nat \<Rightarrow> string" where
  "MaxLenError n = ''must be no more than '' @ show_nat n @ '' characters''"

definition EmptyError :: string where
  "EmptyError = ''must be non-empty''"

text \<open>The explanation \<open>RegexError\<close> attaches to a regular expression, by the name of the expression.\<close>
definition RegexError :: "string \<Rightarrow> string" where
  "RegexError name = name @ '' does not match the regex used for validation''"

definition IsDNS1123Label :: "string \<Rightarrow> string list" where
  "IsDNS1123Label v =
     (if length v > 63 then [MaxLenError 63] else []) @
     (if \<not> dns1123Label v then [RegexError ''dns1123Label''] else [])"

definition IsDNS1123Subdomain :: "string \<Rightarrow> string list" where
  "IsDNS1123Subdomain v =
     (if length v > 253 then [MaxLenError 253] else []) @
     (if \<not> dns1123Subdomain v then [RegexError ''dns1123Subdomain''] else [])"

definition name_part_errors :: "string \<Rightarrow> string list" where
  "name_part_errors name =
     (if name = [] then [''name part '' @ EmptyError]
      else if length name > 63 then [''name part '' @ MaxLenError 63] else []) @
     (if \<not> qualifiedName name then [''name part '' @ RegexError ''qualifiedName''] else [])"

definition prefix_part_errors :: "string \<Rightarrow> string list" where
  "prefix_part_errors p =
     (if p = [] then [''prefix part '' @ EmptyError]
      else map (\<lambda>m. ''prefix part '' @ m) (IsDNS1123Subdomain p))"

definition IsQualifiedName :: "string \<Rightarrow> string list" where
  "IsQualifiedName v = (case split_on CHR ''/'' v of
     [name] \<Rightarrow> name_part_errors name
   | [p, name] \<Rightarrow> prefix_part_errors p @ name_part_errors name
   | _ \<Rightarrow> [''a qualified name '' @ RegexError ''qualifiedName''])"

text \<open>The name functions are called with \<open>prefix = false\<close> only, since no generateName is carried.\<close>
definition NameIsDNSSubdomain :: "string \<Rightarrow> string list" where
  "NameIsDNSSubdomain name = IsDNS1123Subdomain name"

definition ValidateNamespaceName :: "string \<Rightarrow> string list" where
  "ValidateNamespaceName name = IsDNS1123Label name"

text \<open>\<open>path.ValidatePathSegmentName\<close>: not \<open>.\<close> or \<open>..\<close>, no slash and no percent sign.\<close>
definition ValidatePathSegmentName :: "string \<Rightarrow> string list" where
  "ValidatePathSegmentName name =
     (if name = ''.'' \<or> name = ''..'' then [''may not be '' @ name]
      else (if CHR ''/'' \<in> set name then [''may not contain '' @ ''/''] else []) @
           (if CHR ''%'' \<in> set name then [''may not contain '' @ ''%''] else []))"

section \<open>Object metadata\<close>

definition FinalizerOrphanDependents :: string where "FinalizerOrphanDependents = ''orphan''"
definition FinalizerDeleteDependents :: string where "FinalizerDeleteDependents = ''foregroundDeletion''"

text \<open>\<open>schema.FromAPIVersionAndKind\<close>: group and version, both empty when the string has two slashes.\<close>
definition ParseGroupVersion :: "string \<Rightarrow> (string \<times> string) option" where
  "ParseGroupVersion gv =
     (if gv = [] \<or> gv = ''/'' then Some ([], [])
      else (case split_on CHR ''/'' gv of
              [v] \<Rightarrow> Some ([], v)
            | [g, v] \<Rightarrow> Some (g, v)
            | _ \<Rightarrow> None))"

definition FromAPIVersion :: "string \<Rightarrow> string \<times> string" where
  "FromAPIVersion v = (case ParseGroupVersion v of Some gv \<Rightarrow> gv | None \<Rightarrow> ([], []))"

definition validateOwnerReference :: "OwnerReference \<Rightarrow> path \<Rightarrow> field_error list" where
  "validateOwnerReference r p = (let (group, version) = FromAPIVersion (or_APIVersion r) in
     err_if (version = []) (FieldInvalid (child p ''apiVersion'') ''version must not be empty'') @
     err_if (or_Kind r = []) (FieldInvalid (child p ''kind'') ''kind must not be empty'') @
     err_if (or_Name r = []) (FieldInvalid (child p ''name'') ''name must not be empty'') @
     err_if (or_UID r = []) (FieldInvalid (child p ''uid'') ''uid must not be empty'') @
     err_if (group = [] \<and> version = ''v1'' \<and> or_Kind r = ''Event'')
       (FieldInvalid p ''/v1, Kind=Event is disallowed from being an owner''))"

fun validate_owners :: "OwnerReference list \<Rightarrow> string \<Rightarrow> path \<Rightarrow> field_error list" where
  "validate_owners [] controllerName p = []"
| "validate_owners (r # rs) controllerName p =
     validateOwnerReference r p @
     (if or_Controller r = Some True then
        (if controllerName \<noteq> [] then
           FieldInvalid p ''Only one reference can have Controller set to true.'' #
             validate_owners rs controllerName p
         else validate_owners rs (or_Name r) p)
      else validate_owners rs controllerName p)"

definition ValidateOwnerReferences :: "OwnerReference list \<Rightarrow> path \<Rightarrow> field_error list" where
  "ValidateOwnerReferences rs p = validate_owners rs [] p"

definition ValidateFinalizerName :: "string \<Rightarrow> path \<Rightarrow> field_error list" where
  "ValidateFinalizerName f p = map (\<lambda>m. FieldInvalid p m) (IsQualifiedName f)"

definition ValidateFinalizers :: "string list \<Rightarrow> path \<Rightarrow> field_error list" where
  "ValidateFinalizers fs p =
     concat (map (\<lambda>f. ValidateFinalizerName f p) fs) @
     err_if (FinalizerDeleteDependents \<in> set fs \<and> FinalizerOrphanDependents \<in> set fs)
       (FieldInvalid p ''finalizer orphan and foregroundDeletion cannot be both set'')"

definition ValidateNoNewFinalizers :: "string list \<Rightarrow> string list \<Rightarrow> path \<Rightarrow> field_error list" where
  "ValidateNoNewFinalizers new old p =
     err_if (filter (\<lambda>f. f \<notin> set old) new \<noteq> [])
       (FieldForbidden p ''no new finalizers can be added if the object is being deleted'')"

definition ValidateNonnegativeField :: "int \<Rightarrow> path \<Rightarrow> field_error list" where
  "ValidateNonnegativeField v p = err_if (v < 0) (FieldInvalid p ''must be greater than or equal to 0'')"

definition ValidateObjectMeta :: "ObjectMeta \<Rightarrow> bool \<Rightarrow> (string \<Rightarrow> string list) \<Rightarrow> path \<Rightarrow> field_error list" where
  "ValidateObjectMeta m requiresNamespace nameFn p =
     (if om_Name m = [] then [FieldRequired (child p ''name'') ''name or generateName is required'']
      else map (\<lambda>msg. FieldInvalid (child p ''name'') msg) (nameFn (om_Name m))) @
     (if requiresNamespace then
        (if om_Namespace m = [] then [FieldRequired (child p ''namespace'') []]
         else map (\<lambda>msg. FieldInvalid (child p ''namespace'') msg) (ValidateNamespaceName (om_Namespace m)))
      else err_if (om_Namespace m \<noteq> []) (FieldForbidden (child p ''namespace'') ''not allowed on this type'')) @
     ValidateNonnegativeField (om_Generation m) (child p ''generation'') @
     ValidateOwnerReferences (om_OwnerReferences m) (child p ''ownerReferences'') @
     ValidateFinalizers (om_Finalizers m) (child p ''finalizers'')"

text \<open>
  \<open>ValidateObjectMetaAccessorUpdate\<close> repairs the new metadata before it validates them
  (\<open>RepairMalformedUpdates\<close> is true): an empty UID is filled in, a deletion timestamp cannot be
  removed or changed and a grace period cannot be cleared.
\<close>
definition RepairObjectMeta :: "ObjectMeta \<Rightarrow> ObjectMeta \<Rightarrow> ObjectMeta" where
  "RepairObjectMeta new old = new \<lparr>
     om_UID := (if om_UID new = [] then om_UID old else om_UID new),
     om_DeletionTimestamp :=
       (if om_DeletionTimestamp old \<noteq> None then om_DeletionTimestamp old else om_DeletionTimestamp new),
     om_DeletionGracePeriodSeconds :=
       (if om_DeletionGracePeriodSeconds old \<noteq> None \<and> om_DeletionGracePeriodSeconds new = None
        then om_DeletionGracePeriodSeconds old else om_DeletionGracePeriodSeconds new) \<rparr>"

definition ValidateImmutableField :: "string \<Rightarrow> string \<Rightarrow> path \<Rightarrow> field_error list" where
  "ValidateImmutableField newVal oldVal p = err_if (oldVal \<noteq> newVal) (FieldInvalid p ''field is immutable'')"

definition ValidateObjectMetaUpdate :: "ObjectMeta \<Rightarrow> ObjectMeta \<Rightarrow> path \<Rightarrow> field_error list" where
  "ValidateObjectMetaUpdate new old p =
     err_if (om_DeletionGracePeriodSeconds new \<noteq> None \<and>
             om_DeletionGracePeriodSeconds new \<noteq> om_DeletionGracePeriodSeconds old)
       (FieldInvalid (child p ''deletionGracePeriodSeconds'') ''field is immutable; may only be changed via deletion'') @
     err_if (om_DeletionTimestamp new \<noteq> None \<and> om_DeletionTimestamp new \<noteq> om_DeletionTimestamp old)
       (FieldInvalid (child p ''deletionTimestamp'') ''field is immutable; may only be changed via deletion'') @
     (if om_DeletionTimestamp old \<noteq> None
      then ValidateNoNewFinalizers (om_Finalizers new) (om_Finalizers old) (child p ''finalizers'') else []) @
     err_if (om_ResourceVersion new = 0)
       (FieldInvalid (child p ''resourceVersion'') ''must be specified for an update'') @
     err_if (om_Generation new < om_Generation old)
       (FieldInvalid (child p ''generation'') ''must not be decremented'') @
     ValidateImmutableField (om_Name new) (om_Name old) (child p ''name'') @
     ValidateImmutableField (om_Namespace new) (om_Namespace old) (child p ''namespace'') @
     ValidateImmutableField (om_UID new) (om_UID old) (child p ''uid'') @
     ValidateOwnerReferences (om_OwnerReferences new) (child p ''ownerReferences'')"

section \<open>Facts the components use\<close>

text \<open>The finalizer of service-catalog is a legal qualified name.\<close>
lemma FinalizerServiceCatalog_valid [simp]: "IsQualifiedName FinalizerServiceCatalog = []"
  by (simp add: IsQualifiedName_def FinalizerServiceCatalog_def name_part_errors_def
      prefix_part_errors_def IsDNS1123Subdomain_def dns1123Subdomain_def dns1123Label_def
      qualifiedName_def bracketed_def is_lower_def is_upper_def is_digit_def less_eq_char_def)

lemma ValidateFinalizers_subset:
  assumes "ValidateFinalizers fs p = []" and "set gs \<subseteq> set fs"
  shows "ValidateFinalizers gs q = []"
  using assms by (auto simp: ValidateFinalizers_def ValidateFinalizerName_def)

lemma RepairObjectMeta_keeps_deletion [simp]:
  "om_DeletionTimestamp old \<noteq> None \<Longrightarrow>
   om_DeletionTimestamp (RepairObjectMeta new old) = om_DeletionTimestamp old"
  by (simp add: RepairObjectMeta_def)

lemma split_on_join:
  "concat (map (\<lambda>w. d # w) (split_on d s)) = d # s"
  by (induction s) (auto split: list.splits)

lemma split_on_free: "w \<in> set (split_on d s) \<Longrightarrow> d \<notin> set w"
  by (induction s arbitrary: w) (auto split: if_splits list.splits)

end
