(* ===== verification/SC_Validation.thy ===== *)
theory SC_Validation
  imports SC_FieldValidation
begin

text \<open>
  The validators of \<open>pkg/apis/servicecatalog/validation\<close>.  Each Go function returning an \<open>ErrorList\<close> is a
  function of the same name returning the list of errors in the order of the code; an object is
  valid when the list is empty.  The YAML decoder (\<open>github.com/ghodss/yaml\<close>) enters as the parameter
  \<open>yaml\<close>, a function from bytes to an error or a parameter map.  The lemmas characterise the accepted
  statuses, which is the invariant the API server keeps on every stored instance and credential.
\<close>

type_synonym yaml_decoder = "string \<Rightarrow> go_error + json_map"

section \<open>Common helpers\<close>

definition stringIsHexadecimal :: "string \<Rightarrow> bool" where
  "stringIsHexadecimal s = list_all is_xdigit s"

definition UnmarshalRawParameters :: "yaml_decoder \<Rightarrow> string \<Rightarrow> go_error + json_map" where
  "UnmarshalRawParameters yaml raw = (if length raw > 0 then yaml raw else Inr [])"

definition guidRegexp :: "string \<Rightarrow> bool" where
  "guidRegexp = bracketed (\<lambda>c. is_lower c \<or> is_upper c \<or> is_digit c)
     (\<lambda>c. c = CHR ''-'' \<or> c = CHR ''.'' \<or> is_lower c \<or> is_upper c \<or> is_digit c)"

definition guidMaxLength :: nat where "guidMaxLength = 63"

definition validateExternalID :: "string \<Rightarrow> string list" where
  "validateExternalID v =
     (if length v > guidMaxLength then [MaxLenError guidMaxLength] else []) @
     (if \<not> guidRegexp v then [RegexError ''guid''] else [])"

definition servicePlanNameRegexp :: "string \<Rightarrow> bool" where
  "servicePlanNameRegexp s \<longleftrightarrow> s \<noteq> [] \<and> list_all (\<lambda>c. c = CHR ''-'' \<or> is_lower c \<or> is_digit c) s"

definition servicePlanNameMaxLength :: nat where "servicePlanNameMaxLength = 63"

definition validateServicePlanName :: "string \<Rightarrow> string list" where
  "validateServicePlanName v =
     (if length v > servicePlanNameMaxLength then [MaxLenError servicePlanNameMaxLength] else []) @
     (if \<not> servicePlanNameRegexp v then [RegexError ''servicePlanName''] else [])"

definition validateServiceClassName :: "string \<Rightarrow> string list" where
  "validateServiceClassName = NameIsDNSSubdomain"

definition validateServiceInstanceName :: "string \<Rightarrow> string list" where
  "validateServiceInstanceName = NameIsDNSSubdomain"

definition validateServiceInstanceCredentialName :: "string \<Rightarrow> string list" where
  "validateServiceInstanceCredentialName = NameIsDNSSubdomain"

definition invalid_each :: "path \<Rightarrow> string list \<Rightarrow> field_error list" where
  "invalid_each p msgs = map (FieldInvalid p) msgs"

lemma invalid_each_Nil [simp]: "invalid_each p msgs = [] \<longleftrightarrow> msgs = []"
  by (simp add: invalid_each_def)

text \<open>The errors of the \<open>Ready = True\<close> conditions, each with its index.\<close>
definition ready_forbidden :: "path \<Rightarrow> string \<Rightarrow> Condition list \<Rightarrow> field_error list" where
  "ready_forbidden p msg cs =
     concat (map (\<lambda>(i, c). err_if (c_Type c = ConditionReady \<and> c_Status c = ConditionTrue)
                             (FieldForbidden (indexed (child p ''conditions'') i) msg))
              (enumerate 0 cs))"

section \<open>Service instances\<close>

definition validServiceInstanceOperations :: "ServiceInstanceOperation \<Rightarrow> bool" where
  "validServiceInstanceOperations op \<longleftrightarrow>
     op \<in> {InstanceOperationNone, InstanceOperationProvision, InstanceOperationUpdate,
           InstanceOperationDeprovision}"

definition validate_parametersFrom :: "path \<Rightarrow> ParametersFromSource list \<Rightarrow> field_error list" where
  "validate_parametersFrom p sources = concat (map (\<lambda>s. case pfs_SecretKeyRef s of
       Some r \<Rightarrow>
         err_if (skr_Name r = []) (FieldRequired (child p ''parametersFrom.secretKeyRef.name'') ''name is required'') @
         err_if (skr_Key r = []) (FieldRequired (child p ''parametersFrom.secretKeyRef.key'') ''key is required'')
     | None \<Rightarrow> [FieldRequired (child p ''parametersFrom'') ''source must not be empty if present'']) sources)"

definition validateServiceInstanceSpec :: "yaml_decoder \<Rightarrow> InstanceSpec \<Rightarrow> path \<Rightarrow> bool \<Rightarrow> field_error list" where
  "validateServiceInstanceSpec yaml spec p create =
     err_if (sis_ExternalServiceClassName spec = [])
       (FieldRequired (child p ''externalServiceClassName'') ''externalServiceClassName is required'') @
     invalid_each (child p ''externalServiceClassName'')
       (validateServiceClassName (sis_ExternalServiceClassName spec)) @
     err_if (sis_ExternalServicePlanName spec = [])
       (FieldRequired (child p ''externalServicePlanName'') ''externalServicePlanName is required'') @
     invalid_each (child p ''externalServicePlanName'')
       (validateServicePlanName (sis_ExternalServicePlanName spec)) @
     validate_parametersFrom p (sis_ParametersFrom spec) @
     (case sis_Parameters spec of
        None \<Rightarrow> []
      | Some raw \<Rightarrow>
          err_if (length raw = 0) (FieldRequired (child p ''parameters'') ''inline parameters must not be empty if present'') @
          err_if (\<not> isOK (UnmarshalRawParameters yaml raw))
            (FieldRequired (child p ''parameters'') ''invalid inline parameters''))"

text \<open>The parameters and checksum part, which instances and credentials have in common.\<close>
definition validate_parameters_state ::
  "yaml_decoder \<Rightarrow> RawExtension option \<Rightarrow> string \<Rightarrow> path \<Rightarrow> field_error list" where
  "validate_parameters_state yaml params checksum p =
     (case params of
        None \<Rightarrow> err_if (checksum \<noteq> []) (FieldForbidden (child p ''parametersChecksum'')
                  ''parametersChecksum must be empty when there are no parameters'')
      | Some raw \<Rightarrow>
          (if length raw = 0 then [FieldRequired (child p ''parameters.raw'') ''raw must not be empty'']
           else err_if (\<not> isOK (yaml raw)) (FieldInvalid (child p ''parameters.raw'') ''raw must be valid yaml'')) @
          err_if (checksum = []) (FieldForbidden (child p ''parametersChecksum'')
            ''parametersChecksum must not be empty when there are parameters'')) @
     (if checksum \<noteq> [] then
        err_if (length checksum \<noteq> 64) (FieldInvalid (child p ''parametersChecksum'')
          ''parametersChecksum must be exactly 64 digits'') @
        err_if (\<not> stringIsHexadecimal checksum) (FieldInvalid (child p ''parametersChecksum'')
          ''parametersChecksum must be a hexadecimal number'')
      else [])"

definition validateServiceInstancePropertiesState ::
  "yaml_decoder \<Rightarrow> PropertiesState \<Rightarrow> path \<Rightarrow> bool \<Rightarrow> field_error list" where
  "validateServiceInstancePropertiesState yaml ps p create =
     validate_parameters_state yaml (ps_Parameters ps) (ps_ParametersChecksum ps) p"

definition validateServiceInstanceStatus ::
  "yaml_decoder \<Rightarrow> InstanceStatus \<Rightarrow> path \<Rightarrow> bool \<Rightarrow> field_error list" where
  "validateServiceInstanceStatus yaml status p create =
     (if create then
        err_if (ist_CurrentOperation status \<noteq> InstanceOperationNone)
          (FieldInvalid (child p ''currentOperation'') ''currentOperation must be empty on create'')
      else
        err_if (\<not> validServiceInstanceOperations (ist_CurrentOperation status))
          (FieldNotSupported (child p ''currentOperation''))) @
     (if ist_CurrentOperation status = InstanceOperationNone then
        err_if (ist_OperationStartTime status \<noteq> None) (FieldForbidden (child p ''operationStartTime'')
          ''operationStartTime must not be present when currentOperation is not present'') @
        err_if (ist_AsyncOpInProgress status) (FieldForbidden (child p ''asyncOpInProgress'')
          ''asyncOpInProgress cannot be true when there is no currentOperation'') @
        err_if (ist_LastOperation status \<noteq> None) (FieldForbidden (child p ''lastOperation'')
          ''lastOperation cannot be true when currentOperation is not present'')
      else
        err_if (ist_OperationStartTime status = None) (FieldRequired (child p ''operationStartTime'')
          ''operationStartTime is required when currentOperation is present'') @
        ready_forbidden p
          ''Can not set ServiceInstanceConditionReady to true when there is an operation in progress''
          (ist_Conditions status)) @
     (if ist_CurrentOperation status \<in> {InstanceOperationProvision, InstanceOperationUpdate} then
        err_if (ist_InProgressProperties status = None) (FieldRequired (child p ''inProgressProperties'')
          ''inProgressProperties is required when currentOperation is Provision or Update'')
      else
        err_if (ist_InProgressProperties status \<noteq> None) (FieldForbidden (child p ''inProgressProperties'')
          ''inProgressProperties must not be present when currentOperation is neither Provision nor Update'')) @
     (case ist_InProgressProperties status of None \<Rightarrow> []
      | Some ps \<Rightarrow> validateServiceInstancePropertiesState yaml ps (child p ''inProgressProperties'') create) @
     (case ist_ExternalProperties status of None \<Rightarrow> []
      | Some ps \<Rightarrow> validateServiceInstancePropertiesState yaml ps (child p ''externalProperties'') create)"

definition validateServiceInstanceCreate :: "ServiceInstance \<Rightarrow> field_error list" where
  "validateServiceInstanceCreate i =
     err_if (ist_ReconciledGeneration (si_Status i) \<ge> om_Generation (si_Meta i))
       (FieldInvalid ''status.reconciledGeneration'' ''reconciledGeneration must be less than generation on create'')"

definition validateServiceInstanceUpdate :: "ServiceInstance \<Rightarrow> field_error list" where
  "validateServiceInstanceUpdate i =
     (if ist_ReconciledGeneration (si_Status i) = om_Generation (si_Meta i) then
        err_if (ist_CurrentOperation (si_Status i) \<noteq> InstanceOperationNone)
          (FieldForbidden ''status.currentOperation''
             ''currentOperation must not be present when reconciledGeneration and generation are equal'')
      else
        err_if (ist_ReconciledGeneration (si_Status i) > om_Generation (si_Meta i))
          (FieldInvalid ''status.reconciledGeneration'' ''reconciledGeneration must not be greater than generation''))"

definition internalValidateServiceInstance ::
  "yaml_decoder \<Rightarrow> ServiceInstance \<Rightarrow> bool \<Rightarrow> field_error list" where
  "internalValidateServiceInstance yaml i create =
     ValidateObjectMeta (si_Meta i) True validateServiceInstanceName ''metadata'' @
     validateServiceInstanceSpec yaml (si_Spec i) ''spec'' create @
     validateServiceInstanceStatus yaml (si_Status i) ''status'' create @
     (if create then validateServiceInstanceCreate i else validateServiceInstanceUpdate i)"

definition ValidateServiceInstance :: "yaml_decoder \<Rightarrow> ServiceInstance \<Rightarrow> field_error list" where
  "ValidateServiceInstance yaml i = internalValidateServiceInstance yaml i True"

definition internalValidateServiceInstanceUpdateAllowed ::
  "ServiceInstance \<Rightarrow> ServiceInstance \<Rightarrow> field_error list" where
  "internalValidateServiceInstanceUpdateAllowed new old =
     err_if (om_Generation (si_Meta old) \<noteq> om_Generation (si_Meta new) \<and>
             ist_ReconciledGeneration (si_Status old) \<noteq> om_Generation (si_Meta old))
       (FieldForbidden ''spec'' ''Another update for this service instance is in progress'')"

definition ValidateServiceInstanceUpdate ::
  "yaml_decoder \<Rightarrow> ServiceInstance \<Rightarrow> ServiceInstance \<Rightarrow> field_error list" where
  "ValidateServiceInstanceUpdate yaml new old =
     internalValidateServiceInstanceUpdateAllowed new old @ internalValidateServiceInstance yaml new False"

definition internalValidateServiceInstanceStatusUpdateAllowed ::
  "ServiceInstance \<Rightarrow> ServiceInstance \<Rightarrow> field_error list" where
  "internalValidateServiceInstanceStatusUpdateAllowed new old = []"

definition internalValidateServiceInstanceReferencesUpdateAllowed ::
  "ServiceInstance \<Rightarrow> ServiceInstance \<Rightarrow> field_error list" where
  "internalValidateServiceInstanceReferencesUpdateAllowed new old = []"

definition ValidateServiceInstanceStatusUpdate ::
  "yaml_decoder \<Rightarrow> ServiceInstance \<Rightarrow> ServiceInstance \<Rightarrow> field_error list" where
  "ValidateServiceInstanceStatusUpdate yaml new old =
     internalValidateServiceInstanceStatusUpdateAllowed new old @ internalValidateServiceInstance yaml new False"

definition ValidateServiceInstanceReferencesUpdate ::
  "yaml_decoder \<Rightarrow> ServiceInstance \<Rightarrow> ServiceInstance \<Rightarrow> field_error list" where
  "ValidateServiceInstanceReferencesUpdate yaml new old =
     internalValidateServiceInstanceReferencesUpdateAllowed new old @ internalValidateServiceInstance yaml new False"

section \<open>Credentials\<close>

definition validServiceInstanceCredentialOperations :: "ServiceInstanceCredentialOperation \<Rightarrow> bool" where
  "validServiceInstanceCredentialOperations op \<longleftrightarrow>
     op \<in> {CredentialOperationNone, CredentialOperationBind, CredentialOperationUnbind}"

definition validateServiceInstanceCredentialSpec :: "CredentialSpec \<Rightarrow> path \<Rightarrow> bool \<Rightarrow> field_error list" where
  "validateServiceInstanceCredentialSpec spec p create =
     invalid_each (child p ''instanceRef.name'') (validateServiceInstanceName (crs_ServiceInstanceRef spec)) @
     invalid_each (child p ''secretName'') (NameIsDNSSubdomain (crs_SecretName spec))"

definition validateServiceInstanceCredentialPropertiesState ::
  "yaml_decoder \<Rightarrow> CredentialPropertiesState \<Rightarrow> path \<Rightarrow> bool \<Rightarrow> field_error list" where
  "validateServiceInstanceCredentialPropertiesState yaml ps p create =
     validate_parameters_state yaml (cps_Parameters ps) (cps_ParametersChecksum ps) p"

definition validateServiceInstanceCredentialStatus ::
  "yaml_decoder \<Rightarrow> CredentialStatus \<Rightarrow> path \<Rightarrow> bool \<Rightarrow> field_error list" where
  "validateServiceInstanceCredentialStatus yaml status p create =
     (if create then
        err_if (crst_CurrentOperation status \<noteq> CredentialOperationNone)
          (FieldInvalid (child p ''currentOperation'') ''currentOperation must be empty on create'')
      else
        err_if (\<not> validServiceInstanceCredentialOperations (crst_CurrentOperation status))
          (FieldNotSupported (child p ''currentOperation''))) @
     (if crst_CurrentOperation status = CredentialOperationNone then
        err_if (crst_OperationStartTime status \<noteq> None) (FieldForbidden (child p ''operationStartTime'')
          ''operationStartTime must not be present when currentOperation is not present'')
      else
        err_if (crst_OperationStartTime status = None) (FieldRequired (child p ''operationStartTime'')
          ''operationStartTime is required when currentOperation is present'') @
        ready_forbidden p
          ''Can not set ServiceInstanceCredentialConditionReady to true when there is an operation in progress''
          (crst_Conditions status)) @
     (if crst_CurrentOperation status = CredentialOperationBind then
        err_if (crst_InProgressProperties status = None) (FieldRequired (child p ''inProgressProperties'')
          ''inProgressProperties is required when currentOperation is Bind'')
      else
        err_if (crst_InProgressProperties status \<noteq> None) (FieldForbidden (child p ''inProgressProperties'')
          ''inProgressProperties must not be present when currentOperation is not Bind'')) @
     (case crst_InProgressProperties status of None \<Rightarrow> []
      | Some ps \<Rightarrow> validateServiceInstanceCredentialPropertiesState yaml ps (child p ''inProgressProperties'') create) @
     (case crst_ExternalProperties status of None \<Rightarrow> []
      | Some ps \<Rightarrow> validateServiceInstanceCredentialPropertiesState yaml ps (child p ''externalProperties'') create)"

definition validateServiceInstanceCredentialCreate :: "ServiceInstanceCredential \<Rightarrow> field_error list" where
  "validateServiceInstanceCredentialCreate b =
     err_if (crst_ReconciledGeneration (cr_Status b) \<ge> om_Generation (cr_Meta b))
       (FieldInvalid ''status.reconciledGeneration'' ''reconciledGeneration must be less than generation on create'')"

definition validateServiceInstanceCredentialUpdate :: "ServiceInstanceCredential \<Rightarrow> field_error list" where
  "validateServiceInstanceCredentialUpdate b =
     (if crst_ReconciledGeneration (cr_Status b) = om_Generation (cr_Meta b) then
        err_if (crst_CurrentOperation (cr_Status b) \<noteq> CredentialOperationNone)
          (FieldForbidden ''status.currentOperation''
             ''currentOperation must not be present when reconciledGeneration and generation are equal'')
      else
        err_if (crst_ReconciledGeneration (cr_Status b) > om_Generation (cr_Meta b))
          (FieldInvalid ''status.reconciledGeneration'' ''reconciledGeneration must not be greater than generation''))"

definition internalValidateServiceInstanceCredential ::
  "yaml_decoder \<Rightarrow> ServiceInstanceCredential \<Rightarrow> bool \<Rightarrow> field_error list" where
  "internalValidateServiceInstanceCredential yaml b create =
     ValidateObjectMeta (cr_Meta b) True validateServiceInstanceCredentialName ''metadata'' @
     validateServiceInstanceCredentialSpec (cr_Spec b) ''spec'' create @
     validateServiceInstanceCredentialStatus yaml (cr_Status b) ''status'' create @
     (if create then validateServiceInstanceCredentialCreate b
      else validateServiceInstanceCredentialUpdate b)"

definition ValidateServiceInstanceCredential ::
  "yaml_decoder \<Rightarrow> ServiceInstanceCredential \<Rightarrow> field_error list" where
  "ValidateServiceInstanceCredential yaml b = internalValidateServiceInstanceCredential yaml b True"

definition internalValidateServiceInstanceCredentialUpdateAllowed ::
  "ServiceInstanceCredential \<Rightarrow> ServiceInstanceCredential \<Rightarrow> field_error list" where
  "internalValidateServiceInstanceCredentialUpdateAllowed new old =
     err_if (om_Generation (cr_Meta old) \<noteq> om_Generation (cr_Meta new) \<and>
             crst_ReconciledGeneration (cr_Status old) \<noteq> om_Generation (cr_Meta old))
       (FieldForbidden ''spec'' ''another change to the spec is in progress'')"

definition ValidateServiceInstanceCredentialUpdate ::
  "yaml_decoder \<Rightarrow> ServiceInstanceCredential \<Rightarrow> ServiceInstanceCredential \<Rightarrow> field_error list" where
  "ValidateServiceInstanceCredentialUpdate yaml new old =
     internalValidateServiceInstanceCredentialUpdateAllowed new old @
     internalValidateServiceInstanceCredential yaml new False"

definition ValidateServiceInstanceCredentialStatusUpdate ::
  "yaml_decoder \<Rightarrow> ServiceInstanceCredential \<Rightarrow> ServiceInstanceCredential \<Rightarrow> field_error list" where
  "ValidateServiceInstanceCredentialStatusUpdate yaml new old =
     internalValidateServiceInstanceCredential yaml new False"

section \<open>Brokers\<close>

definition ValidateClusterServiceBrokerName :: "string \<Rightarrow> string list" where
  "ValidateClusterServiceBrokerName = NameIsDNSSubdomain"

definition validate_secret_ref :: "path \<Rightarrow> ObjectReference \<Rightarrow> field_error list" where
  "validate_secret_ref p r =
     invalid_each (child p ''namespace'') (ValidateNamespaceName (oref_Namespace r)) @
     invalid_each (child p ''name'') (NameIsDNSSubdomain (oref_Name r))"

definition validate_auth_info :: "AuthInfo \<Rightarrow> path \<Rightarrow> field_error list" where
  "validate_auth_info ai p =
     (case ai_Basic ai of
        Some (Some r) \<Rightarrow> validate_secret_ref (child p ''authInfo.basic.secretRef'') r
      | Some None \<Rightarrow> [FieldRequired (child p ''authInfo.basic.secretRef'') ''a basic auth secret is required'']
      | None \<Rightarrow>
          (case ai_Bearer ai of
             Some (Some r) \<Rightarrow> validate_secret_ref (child p ''authInfo.bearer.secretRef'') r
           | Some None \<Rightarrow> [FieldRequired (child p ''authInfo.bearer.secretRef'') ''a basic auth secret is required'']
           | None \<Rightarrow>
               (case ai_BasicAuthSecret ai of
                  Some r \<Rightarrow> validate_secret_ref (child p ''authInfo.basicAuthSecret'') r
                | None \<Rightarrow> [FieldRequired (child p ''authInfo'') ''auth config is required''])))"

definition validateClusterServiceBrokerSpec :: "BrokerSpec \<Rightarrow> path \<Rightarrow> field_error list" where
  "validateClusterServiceBrokerSpec spec p =
     err_if (bks_URL spec = []) (FieldRequired (child p ''url'') ''brokers must have a remote url to contact'') @
     (case bks_AuthInfo spec of None \<Rightarrow> [] | Some ai \<Rightarrow> validate_auth_info ai p) @
     err_if (bks_InsecureSkipTLSVerify spec \<and> length (bks_CABundle spec) > 0)
       (FieldInvalid (child p ''caBundle'') ''caBundle cannot be used when insecureSkipTLSVerify is true'') @
     err_if (bks_RelistBehavior spec = RelistOther [])
       (FieldRequired (child p ''relistBehavior'') ''relist behavior is required'') @
     err_if (\<not> (bks_RelistBehavior spec = RelistDurationBehavior \<or> bks_RelistBehavior spec = RelistManualBehavior))
       (FieldRequired (child p ''relistBehavior'') ''relist behavior must be Manual or Duration'') @
     err_if (bks_RelistBehavior spec = RelistDurationBehavior \<and> bks_RelistDuration spec = None)
       (FieldRequired (child p ''relistDuration'') ''relistDuration must be set if relistBehavior is set to Duration'') @
     err_if (bks_RelistBehavior spec = RelistManualBehavior \<and> bks_RelistDuration spec \<noteq> None)
       (FieldRequired (child p ''relistDuration'') ''relistDuration must not be set if relistBehavior is set to Manual'') @
     err_if (bks_RelistRequests spec < 0)
       (FieldRequired (child p ''relistRequests'') ''relistDuration must be greater than zero'')"

definition ValidateClusterServiceBroker :: "ClusterServiceBroker \<Rightarrow> field_error list" where
  "ValidateClusterServiceBroker b =
     ValidateObjectMeta (bk_Meta b) False ValidateClusterServiceBrokerName ''metadata'' @
     validateClusterServiceBrokerSpec (bk_Spec b) ''spec''"

definition ValidateClusterServiceBrokerUpdate ::
  "ClusterServiceBroker \<Rightarrow> ClusterServiceBroker \<Rightarrow> field_error list" where
  "ValidateClusterServiceBrokerUpdate new old = ValidateClusterServiceBroker new"

definition ValidateClusterServiceBrokerStatusUpdate ::
  "ClusterServiceBroker \<Rightarrow> ClusterServiceBroker \<Rightarrow> field_error list" where
  "ValidateClusterServiceBrokerStatusUpdate new old = ValidateClusterServiceBrokerUpdate new old"

section \<open>Classes and plans\<close>

definition validateServiceClassSpec :: "ServiceClassSpec \<Rightarrow> path \<Rightarrow> bool \<Rightarrow> field_error list" where
  "validateServiceClassSpec spec p create =
     err_if (scs_ClusterServiceBrokerName spec = [])
       (FieldRequired (child p ''clusterServiceBrokerName'') ''clusterServiceBrokerName is required'') @
     err_if (scs_ExternalID spec = []) (FieldRequired (child p ''externalID'') ''externalID is required'') @
     err_if (scs_Description spec = []) (FieldRequired (child p ''description'') ''description is required'') @
     invalid_each (child p ''externalName'') (validateServiceClassName (scs_ExternalName spec)) @
     invalid_each (child p ''externalID'') (validateExternalID (scs_ExternalID spec))"

definition internalValidateServiceClass :: "ServiceClass \<Rightarrow> field_error list" where
  "internalValidateServiceClass c =
     ValidateObjectMeta (sc_Meta c) False validateServiceClassName ''metadata'' @
     validateServiceClassSpec (sc_Spec c) ''spec'' True"

definition ValidateServiceClass :: "ServiceClass \<Rightarrow> field_error list" where
  "ValidateServiceClass c = internalValidateServiceClass c"

definition ValidateServiceClassUpdate :: "ServiceClass \<Rightarrow> ServiceClass \<Rightarrow> field_error list" where
  "ValidateServiceClassUpdate new old = internalValidateServiceClass new"

definition validateServicePlanSpec :: "ServicePlanSpec \<Rightarrow> path \<Rightarrow> field_error list" where
  "validateServicePlanSpec spec p =
     err_if (sps_ClusterServiceBrokerName spec = [])
       (FieldRequired (child p ''ClusterServiceBrokerName'') ''ClusterServiceBrokerName is required'') @
     err_if (sps_ExternalID spec = []) (FieldRequired (child p ''externalID'') ''externalID is required'') @
     err_if (sps_Description spec = []) (FieldRequired (child p ''description'') ''description is required'') @
     err_if (sps_ServiceClassRef spec = [])
       (FieldRequired (child p ''serviceClassRef'') ''an owning serviceclass is required'') @
     invalid_each (child p ''externalName'') (validateServicePlanName (sps_ExternalName spec)) @
     invalid_each (child p ''externalID'') (validateExternalID (sps_ExternalID spec)) @
     invalid_each (child p ''serviceClassRef.name'') (validateServiceClassName (sps_ServiceClassRef spec))"

definition internalValidateServicePlan :: "ServicePlan \<Rightarrow> field_error list" where
  "internalValidateServicePlan c =
     ValidateObjectMeta (sp_Meta c) False validateServicePlanName ''metadata'' @
     validateServicePlanSpec (sp_Spec c) ''spec''"

definition ValidateServicePlan :: "ServicePlan \<Rightarrow> field_error list" where
  "ValidateServicePlan c = internalValidateServicePlan c"

definition ValidateServicePlanUpdate :: "ServicePlan \<Rightarrow> ServicePlan \<Rightarrow> field_error list" where
  "ValidateServicePlanUpdate new old = internalValidateServicePlan new @
     err_if (sps_ExternalID (sp_Spec new) \<noteq> sps_ExternalID (sp_Spec old))
       (FieldInvalid ''spec.externalID'' ''externalID cannot change when updating a ServicePlan'')"

section \<open>The accepted statuses\<close>

lemma concat_enumerate_err_if_Nil:
  "concat (map (\<lambda>(i, c). err_if (P c) (e i)) (enumerate n cs)) = [] \<longleftrightarrow> (\<forall>c \<in> set cs. \<not> P c)"
  by (induction cs arbitrary: n) (simp_all add: enumerate_simps)

lemma ready_forbidden_Nil [simp]:
  "ready_forbidden p msg cs = [] \<longleftrightarrow>
   (\<forall>c \<in> set cs. \<not> (c_Type c = ConditionReady \<and> c_Status c = ConditionTrue))"
  unfolding ready_forbidden_def by (rule concat_enumerate_err_if_Nil)

text \<open>What a parameters record must satisfy: a checksum of 64 hexadecimal digits exactly when there
  are parameters, which must decode.\<close>
definition params_ok :: "yaml_decoder \<Rightarrow> RawExtension option \<Rightarrow> string \<Rightarrow> bool" where
  "params_ok yaml params checksum \<longleftrightarrow> (case params of
       None \<Rightarrow> checksum = []
     | Some raw \<Rightarrow> raw \<noteq> [] \<and> isOK (yaml raw) \<and> length checksum = 64 \<and> stringIsHexadecimal checksum)"

lemma validate_parameters_state_Nil [simp]:
  "validate_parameters_state yaml params checksum p = [] \<longleftrightarrow> params_ok yaml params checksum"
  by (auto simp: validate_parameters_state_def params_ok_def split: option.split)

definition properties_ok :: "yaml_decoder \<Rightarrow> PropertiesState option \<Rightarrow> bool" where
  "properties_ok yaml pso \<longleftrightarrow>
     (case pso of None \<Rightarrow> True | Some ps \<Rightarrow> params_ok yaml (ps_Parameters ps) (ps_ParametersChecksum ps))"

definition credential_properties_ok :: "yaml_decoder \<Rightarrow> CredentialPropertiesState option \<Rightarrow> bool" where
  "credential_properties_ok yaml pso \<longleftrightarrow>
     (case pso of None \<Rightarrow> True | Some ps \<Rightarrow> params_ok yaml (cps_Parameters ps) (cps_ParametersChecksum ps))"

definition not_ready_true :: "Condition list \<Rightarrow> bool" where
  "not_ready_true cs \<longleftrightarrow> (\<forall>c \<in> set cs. \<not> (c_Type c = ConditionReady \<and> c_Status c = ConditionTrue))"

text \<open>The status invariant of instances, as one predicate: an operation has a start time and, for
  Provision and Update, its in-progress properties; without an operation nothing of it is left; a
  ready instance has no operation.\<close>
definition instance_status_ok :: "yaml_decoder \<Rightarrow> InstanceStatus \<Rightarrow> bool" where
  "instance_status_ok yaml st \<longleftrightarrow>
     validServiceInstanceOperations (ist_CurrentOperation st) \<and>
     (ist_CurrentOperation st = InstanceOperationNone \<longrightarrow>
        ist_OperationStartTime st = None \<and> \<not> ist_AsyncOpInProgress st \<and> ist_LastOperation st = None) \<and>
     (ist_CurrentOperation st \<noteq> InstanceOperationNone \<longrightarrow>
        ist_OperationStartTime st \<noteq> None \<and> not_ready_true (ist_Conditions st)) \<and>
     (ist_InProgressProperties st \<noteq> None \<longleftrightarrow>
        ist_CurrentOperation st \<in> {InstanceOperationProvision, InstanceOperationUpdate}) \<and>
     properties_ok yaml (ist_InProgressProperties st) \<and> properties_ok yaml (ist_ExternalProperties st)"

lemma validateServiceInstanceStatus_Nil [simp]:
  "validateServiceInstanceStatus yaml st p False = [] \<longleftrightarrow> instance_status_ok yaml st"
  by (cases "ist_CurrentOperation st"; cases "ist_InProgressProperties st"; cases "ist_ExternalProperties st")
     (simp_all add: validateServiceInstanceStatus_def instance_status_ok_def not_ready_true_def
       properties_ok_def validateServiceInstancePropertiesState_def validServiceInstanceOperations_def)

definition credential_status_ok :: "yaml_decoder \<Rightarrow> CredentialStatus \<Rightarrow> bool" where
  "credential_status_ok yaml st \<longleftrightarrow>
     validServiceInstanceCredentialOperations (crst_CurrentOperation st) \<and>
     (crst_CurrentOperation st = CredentialOperationNone \<longrightarrow> crst_OperationStartTime st = None) \<and>
     (crst_CurrentOperation st \<noteq> CredentialOperationNone \<longrightarrow>
        crst_OperationStartTime st \<noteq> None \<and> not_ready_true (crst_Conditions st)) \<and>
     (crst_InProgressProperties st \<noteq> None \<longleftrightarrow> crst_CurrentOperation st = CredentialOperationBind) \<and>
     credential_properties_ok yaml (crst_InProgressProperties st) \<and>
     credential_properties_ok yaml (crst_ExternalProperties st)"

lemma validateServiceInstanceCredentialStatus_Nil [simp]:
  "validateServiceInstanceCredentialStatus yaml st p False = [] \<longleftrightarrow> credential_status_ok yaml st"
  by (cases "crst_CurrentOperation st"; cases "crst_InProgressProperties st"; cases "crst_ExternalProperties st")
     (simp_all add: validateServiceInstanceCredentialStatus_def credential_status_ok_def
       not_ready_true_def credential_properties_ok_def
       validateServiceInstanceCredentialPropertiesState_def validServiceInstanceCredentialOperations_def)

definition generations_ok :: "int \<Rightarrow> int \<Rightarrow> bool \<Rightarrow> bool" where
  "generations_ok reconciled generation op_in_progress \<longleftrightarrow>
     reconciled \<le> generation \<and> (reconciled = generation \<longrightarrow> \<not> op_in_progress)"

lemma validateServiceInstanceUpdate_Nil [simp]:
  "validateServiceInstanceUpdate i = [] \<longleftrightarrow>
   generations_ok (ist_ReconciledGeneration (si_Status i)) (om_Generation (si_Meta i))
     (ist_CurrentOperation (si_Status i) \<noteq> InstanceOperationNone)"
  by (auto simp: validateServiceInstanceUpdate_def generations_ok_def)

lemma validateServiceInstanceCredentialUpdate_Nil [simp]:
  "validateServiceInstanceCredentialUpdate b = [] \<longleftrightarrow>
   generations_ok (crst_ReconciledGeneration (cr_Status b)) (om_Generation (cr_Meta b))
     (crst_CurrentOperation (cr_Status b) \<noteq> CredentialOperationNone)"
  by (auto simp: validateServiceInstanceCredentialUpdate_def generations_ok_def)

end
