(* ===== verification/SC_Registry.thy ===== *)
theory SC_Registry
  imports SC_FieldValidation
begin

text \<open>
  The generic registry of the API server (\<open>k8s.io/apiserver/pkg/registry\<close>): creation, update with
  optimistic concurrency on the resource version, and the deletion flow with finalizers, over a
  REST strategy.  A strategy is a record of the functions of the Go interfaces; the strategies of
  service-catalog never allow an unconditional update or a creation on update, so these two
  branches of the Go code are dead and are left out.  The locale \<open>strategy_contract\<close> is the interface
  between the registry and a strategy: from the laws of a strategy it derives that every operation
  of the registry keeps all stored objects valid.
\<close>

section \<open>Strategies and stores\<close>

record request_ctx =
  ctx_Namespace :: string
  ctx_User :: "UserInfo option"

text \<open>\<open>rs_meta\<close> and \<open>rs_set_meta\<close> are \<open>meta.Accessor\<close>.  \<open>rs_CheckGracefulDelete\<close> is \<open>None\<close> for a strategy
  that is not a \<open>RESTGracefulDeleteStrategy\<close>; it returns the object, which it may modify.  The
  field \<open>EnableGarbageCollection\<close> of the Go store that uses the strategy is kept with it.\<close>
record 'a rest_strategy =
  rs_meta :: "'a \<Rightarrow> ObjectMeta"
  rs_set_meta :: "ObjectMeta \<Rightarrow> 'a \<Rightarrow> 'a"
  rs_NamespaceScoped :: bool
  rs_PrepareForCreate :: "request_ctx \<Rightarrow> 'a \<Rightarrow> 'a"
  rs_Validate :: "'a \<Rightarrow> field_error list"
  rs_PrepareForUpdate :: "request_ctx \<Rightarrow> 'a \<Rightarrow> 'a \<Rightarrow> 'a"
  rs_ValidateUpdate :: "'a \<Rightarrow> 'a \<Rightarrow> field_error list"
  rs_CheckGracefulDelete :: "(request_ctx \<Rightarrow> 'a \<Rightarrow> 'a \<times> bool) option"
  rs_EnableGarbageCollection :: bool

type_synonym store_key = "string \<times> string"

text \<open>The objects of one resource by namespace and name, and the revision of the last write.\<close>
record 'a store =
  st_alist :: "(store_key \<times> 'a) list"
  st_rev :: nat

definition st_objs :: "'a store \<Rightarrow> store_key \<Rightarrow> 'a option" where
  "st_objs st = map_of (st_alist st)"

definition put_object :: "store_key \<Rightarrow> 'a \<Rightarrow> 'a store \<Rightarrow> 'a store" where
  "put_object key x st = st \<lparr> st_alist := AList.update key x (st_alist st), st_rev := Suc (st_rev st) \<rparr>"

definition remove_object :: "store_key \<Rightarrow> 'a store \<Rightarrow> 'a store" where
  "remove_object key st = st \<lparr> st_alist := AList.delete key (st_alist st), st_rev := Suc (st_rev st) \<rparr>"

text \<open>\<open>List\<close> with a selector over the fields of the objects.\<close>
definition list_objects :: "('a \<Rightarrow> bool) \<Rightarrow> 'a store \<Rightarrow> 'a list" where
  "list_objects sel st = filter sel (map snd (st_alist st))"

lemma st_objs_put [simp]: "st_objs (put_object k x st) = (st_objs st)(k \<mapsto> x)"
  by (simp add: st_objs_def put_object_def update_conv')

lemma st_objs_remove [simp]: "st_objs (remove_object k st) = (st_objs st)(k := None)"
  by (simp add: st_objs_def remove_object_def delete_conv')

lemma st_rev_put [simp]: "st_rev (put_object k x st) = Suc (st_rev st)"
  by (simp add: put_object_def)

lemma st_rev_remove [simp]: "st_rev (remove_object k st) = Suc (st_rev st)"
  by (simp add: remove_object_def)

lemma wf_put [simp]: "wf_map (st_alist st) \<Longrightarrow> wf_map (st_alist (put_object k x st))"
  by (simp add: put_object_def)

lemma wf_remove [simp]: "wf_map (st_alist st) \<Longrightarrow> wf_map (st_alist (remove_object k st))"
  by (simp add: remove_object_def wf_map_def distinct_delete)

lemma list_objects_stored:
  assumes "wf_map (st_alist st)"
  shows "x \<in> set (list_objects sel st) \<longleftrightarrow> sel x \<and> (\<exists>k. st_objs st k = Some x)"
  using assms by (simp add: list_objects_def st_objs_def wf_map_def) force

definition upd_meta :: "'a rest_strategy \<Rightarrow> (ObjectMeta \<Rightarrow> ObjectMeta) \<Rightarrow> 'a \<Rightarrow> 'a" where
  "upd_meta S f x = rs_set_meta S (f (rs_meta S x)) x"

definition NewNotFound :: "string \<Rightarrow> go_error" where
  "NewNotFound name = StatusError StatusReasonNotFound (name @ '' not found'')"

definition NewAlreadyExists :: "string \<Rightarrow> go_error" where
  "NewAlreadyExists name = StatusError StatusReasonAlreadyExists (name @ '' already exists'')"

definition NewConflict :: "string \<Rightarrow> go_error" where
  "NewConflict name = StatusError StatusReasonConflict (''Operation cannot be fulfilled on '' @ name)"

definition NewInvalid :: "string \<Rightarrow> go_error" where
  "NewInvalid name = StatusError StatusReasonInvalid (name @ '' is invalid'')"

definition NewBadRequest :: "string \<Rightarrow> go_error" where
  "NewBadRequest msg = StatusError StatusReasonBadRequest msg"

section \<open>Create\<close>

text \<open>The namespace of a namespaced object is filled in from the request and must agree with it; an
  object that is not namespaced loses its namespace.\<close>
definition settle_namespace :: "'a rest_strategy \<Rightarrow> request_ctx \<Rightarrow> 'a \<Rightarrow> go_error + 'a" where
  "settle_namespace S ctx obj =
     (if rs_NamespaceScoped S then
        (let obj1 = (if om_Namespace (rs_meta S obj) = []
                     then upd_meta S (\<lambda>m. m \<lparr> om_Namespace := ctx_Namespace ctx \<rparr>) obj else obj)
         in if om_Namespace (rs_meta S obj1) = ctx_Namespace ctx then Inr obj1
            else Inl (NewBadRequest ''the namespace of the provided object does not match the namespace sent on the request''))
      else Inr (upd_meta S (\<lambda>m. m \<lparr> om_Namespace := [] \<rparr>) obj))"

definition BeforeCreate :: "'a rest_strategy \<Rightarrow> request_ctx \<Rightarrow> string \<Rightarrow> 'a \<Rightarrow> go_error + 'a" where
  "BeforeCreate S ctx uid obj =
     bind_result (settle_namespace S ctx obj) (\<lambda>obj1.
       let obj2 = upd_meta S (\<lambda>m. m \<lparr> om_DeletionTimestamp := None, om_DeletionGracePeriodSeconds := None \<rparr>) obj1;
           obj3 = rs_PrepareForCreate S ctx obj2;
           obj4 = upd_meta S (\<lambda>m. m \<lparr> om_UID := uid \<rparr>) obj3
       in if rs_Validate S obj4 \<noteq> [] then Inl (NewInvalid (om_Name (rs_meta S obj4)))
          else if ValidateObjectMeta (rs_meta S obj4) (rs_NamespaceScoped S) ValidatePathSegmentName ''metadata'' \<noteq> []
          then Inl (NewInvalid (om_Name (rs_meta S obj4)))
          else Inr obj4)"

definition key_of :: "'a rest_strategy \<Rightarrow> 'a \<Rightarrow> store_key" where
  "key_of S obj = (om_Namespace (rs_meta S obj), om_Name (rs_meta S obj))"

definition Create :: "'a rest_strategy \<Rightarrow> request_ctx \<Rightarrow> string \<Rightarrow> 'a \<Rightarrow> 'a store \<Rightarrow> (go_error + 'a) \<times> 'a store" where
  "Create S ctx uid obj st =
     (case BeforeCreate S ctx uid obj of
        Inl e \<Rightarrow> (Inl e, st)
      | Inr obj1 \<Rightarrow>
          if om_ResourceVersion (rs_meta S obj1) \<noteq> 0
          then (Inl (PlainError ''resourceVersion should not be set on objects to be created''), st)
          else if st_objs st (key_of S obj1) \<noteq> None
          then (Inl (NewAlreadyExists (om_Name (rs_meta S obj1))), st)
          else let out = upd_meta S (\<lambda>m. m \<lparr> om_ResourceVersion := Suc (st_rev st) \<rparr>) obj1
               in (Inr out, put_object (key_of S obj1) out st))"

section \<open>Update\<close>

text \<open>\<open>GuaranteedUpdate\<close> writes the object under a new revision, unless nothing but the revision differs.\<close>
definition write_object :: "'a rest_strategy \<Rightarrow> store_key \<Rightarrow> 'a \<Rightarrow> 'a \<Rightarrow> 'a store \<Rightarrow> 'a \<times> 'a store" where
  "write_object S key existing obj st =
     (if upd_meta S (\<lambda>m. m \<lparr> om_ResourceVersion := om_ResourceVersion (rs_meta S existing) \<rparr>) obj = existing
      then (existing, st)
      else let out = upd_meta S (\<lambda>m. m \<lparr> om_ResourceVersion := Suc (st_rev st) \<rparr>) obj
           in (out, put_object key out st))"

definition BeforeUpdate :: "'a rest_strategy \<Rightarrow> request_ctx \<Rightarrow> 'a \<Rightarrow> 'a \<Rightarrow> go_error + 'a" where
  "BeforeUpdate S ctx obj old =
     bind_result (settle_namespace S ctx obj) (\<lambda>obj1.
       let obj2 = upd_meta S (\<lambda>m. m \<lparr> om_Generation := om_Generation (rs_meta S old) \<rparr>) obj1;
           obj3 = rs_PrepareForUpdate S ctx obj2 old;
           obj4 = upd_meta S (\<lambda>m. RepairObjectMeta m (rs_meta S old)) obj3;
           errs = ValidateObjectMeta (rs_meta S obj3) (rs_NamespaceScoped S) ValidatePathSegmentName ''metadata'' @
                  ValidateObjectMetaUpdate (rs_meta S obj4) (rs_meta S old) ''metadata'' @
                  rs_ValidateUpdate S obj4 old
       in if errs \<noteq> [] then Inl (NewInvalid (om_Name (rs_meta S obj4))) else Inr obj4)"

definition shouldDeleteDuringUpdate :: "'a rest_strategy \<Rightarrow> 'a \<Rightarrow> 'a \<Rightarrow> bool" where
  "shouldDeleteDuringUpdate S obj existing \<longleftrightarrow>
     rs_EnableGarbageCollection S \<and> om_Finalizers (rs_meta S obj) = [] \<and> om_DeletionGracePeriodSeconds (rs_meta S existing) = Some 0"

text \<open>A UID in the new object is a precondition on the stored one, a missing object having the empty UID.\<close>
definition uid_precondition :: "'a rest_strategy \<Rightarrow> string \<Rightarrow> 'a option \<Rightarrow> bool" where
  "uid_precondition S uid existing \<longleftrightarrow>
     uid = [] \<or> uid = (case existing of None \<Rightarrow> [] | Some x \<Rightarrow> om_UID (rs_meta S x))"

definition Update :: "'a rest_strategy \<Rightarrow> request_ctx \<Rightarrow> store_key \<Rightarrow> 'a \<Rightarrow> 'a store \<Rightarrow> (go_error + 'a) \<times> 'a store" where
  "Update S ctx key obj st =
     (if \<not> uid_precondition S (om_UID (rs_meta S obj)) (st_objs st key) then (Inl (NewConflict (snd key)), st)
      else case st_objs st key of
        None \<Rightarrow> (Inl (NewNotFound (snd key)), st)
      | Some existing \<Rightarrow>
          if om_ResourceVersion (rs_meta S obj) = 0 then (Inl (NewInvalid (snd key)), st)
          else if om_ResourceVersion (rs_meta S obj) \<noteq> om_ResourceVersion (rs_meta S existing)
          then (Inl (NewConflict (snd key)), st)
          else case BeforeUpdate S ctx obj existing of
            Inl e \<Rightarrow> (Inl e, st)
          | Inr obj1 \<Rightarrow>
              if shouldDeleteDuringUpdate S obj1 existing then (Inr obj1, remove_object key st)
              else let (out, st') = write_object S key existing obj1 st in (Inr out, st'))"

section \<open>Delete\<close>

datatype propagation = PropagationOrphan | PropagationBackground | PropagationForeground

record delete_options =
  do_GracePeriodSeconds :: "int option"
  do_PreconditionUID :: "string option"
  do_OrphanDependents :: "bool option"
  do_PropagationPolicy :: "propagation option"

definition NewDeleteOptions0 :: delete_options where
  "NewDeleteOptions0 = \<lparr> do_GracePeriodSeconds = Some 0, do_PreconditionUID = None,
     do_OrphanDependents = None, do_PropagationPolicy = None \<rparr>"

text \<open>The outcome of \<open>BeforeDelete\<close>: the object, which the strategy may have modified, with the flags
  \<open>graceful\<close> and \<open>gracefulPending\<close>, and the grace period that the update then uses.\<close>
definition BeforeDelete ::
  "'a rest_strategy \<Rightarrow> request_ctx \<Rightarrow> go_time \<Rightarrow> delete_options \<Rightarrow> 'a \<Rightarrow> go_error + ('a \<times> bool \<times> bool \<times> int)" where
  "BeforeDelete S ctx now opts obj = (let m = rs_meta S obj; grace = (case do_GracePeriodSeconds opts of None \<Rightarrow> 0 | Some g \<Rightarrow> g) in
     if do_OrphanDependents opts \<noteq> None \<and> do_PropagationPolicy opts \<noteq> None then Inl (NewInvalid [])
     else if (case do_PreconditionUID opts of None \<Rightarrow> False | Some u \<Rightarrow> u \<noteq> om_UID m) then Inl (NewConflict (om_Name m))
     else case rs_CheckGracefulDelete S of
       None \<Rightarrow> Inr (obj, False, False, 0)
     | Some check \<Rightarrow>
         (case om_DeletionTimestamp m of
            Some t \<Rightarrow>
              (case om_DeletionGracePeriodSeconds m of
                 None \<Rightarrow> Inr (obj, False, False, 0)
               | Some g \<Rightarrow>
                   if g = 0 then Inr (obj, False, False, 0)
                   else case do_GracePeriodSeconds opts of
                     None \<Rightarrow> Inr (obj, False, True, g)
                   | Some period \<Rightarrow>
                       if period \<ge> g then Inr (obj, False, True, period)
                       else Inr (upd_meta S (\<lambda>m. m \<lparr> om_DeletionTimestamp := Some (t - 1000000000 * g + 1000000000 * period),
                                   om_DeletionGracePeriodSeconds := Some period \<rparr>) obj, True, False, period))
          | None \<Rightarrow>
              (let (obj1, graceful) = check ctx obj in
               if \<not> graceful then Inr (obj1, False, False, 0)
               else Inr (upd_meta S (\<lambda>m. m \<lparr> om_DeletionTimestamp := Some (now + 1000000000 * grace),
                           om_DeletionGracePeriodSeconds := Some grace,
                           om_Generation := (if om_Generation m > 0 then om_Generation m + 1 else om_Generation m) \<rparr>) obj1,
                         True, False, grace))))"

text \<open>The loops over the finalizers: the last of the two garbage-collection finalizers decides.\<close>
fun scan_finalizers :: "string \<Rightarrow> string \<Rightarrow> bool \<Rightarrow> string list \<Rightarrow> bool" where
  "scan_finalizers yes no b [] = b"
| "scan_finalizers yes no b (f # fs) =
     scan_finalizers yes no (if f = yes then True else if f = no then False else b) fs"

definition wants_orphan :: "string list \<Rightarrow> delete_options \<Rightarrow> bool" where
  "wants_orphan fs opts =
     (let byFinalizer = scan_finalizers FinalizerOrphanDependents FinalizerDeleteDependents False fs;
          byOption = (case do_OrphanDependents opts of None \<Rightarrow> byFinalizer | Some b \<Rightarrow> b)
      in case do_PropagationPolicy opts of None \<Rightarrow> byOption | Some p \<Rightarrow> p = PropagationOrphan)"

definition wants_foreground :: "string list \<Rightarrow> delete_options \<Rightarrow> bool" where
  "wants_foreground fs opts =
     (let byFinalizer = scan_finalizers FinalizerDeleteDependents FinalizerOrphanDependents False fs;
          byOption = (case do_OrphanDependents opts of None \<Rightarrow> byFinalizer | Some b \<Rightarrow> False)
      in case do_PropagationPolicy opts of None \<Rightarrow> byOption | Some p \<Rightarrow> p = PropagationForeground)"

definition shouldUpdateFinalizers :: "string list \<Rightarrow> delete_options \<Rightarrow> bool \<times> string list" where
  "shouldUpdateFinalizers fs opts =
     (let orphan = wants_orphan fs opts; foreground = wants_foreground fs opts in
      if orphan = (FinalizerOrphanDependents \<in> set fs) \<and> foreground = (FinalizerDeleteDependents \<in> set fs)
      then (False, fs)
      else (True, filter (\<lambda>f. f \<noteq> FinalizerOrphanDependents \<and> f \<noteq> FinalizerDeleteDependents) fs @
                  (if orphan then [FinalizerOrphanDependents] else []) @
                  (if foreground then [FinalizerDeleteDependents] else [])))"

definition markAsDeleting :: "'a rest_strategy \<Rightarrow> go_time \<Rightarrow> 'a \<Rightarrow> 'a" where
  "markAsDeleting S now = upd_meta S (\<lambda>m. m \<lparr>
     om_Generation := (if om_DeletionTimestamp m = None \<and> om_Generation m > 0
                       then om_Generation m + 1 else om_Generation m),
     om_DeletionTimestamp := Some now, om_DeletionGracePeriodSeconds := Some 0 \<rparr>)"

text \<open>\<open>updateForGracefulDeletionAndFinalizers\<close>: the written store and whether to delete immediately.\<close>
definition updateForGracefulDeletionAndFinalizers ::
  "'a rest_strategy \<Rightarrow> request_ctx \<Rightarrow> go_time \<Rightarrow> store_key \<Rightarrow> delete_options \<Rightarrow> 'a \<Rightarrow> 'a store \<Rightarrow>
   (go_error + bool) \<times> 'a store" where
  "updateForGracefulDeletionAndFinalizers S ctx now key opts existing st =
     (case BeforeDelete S ctx now opts existing of
        Inl e \<Rightarrow> (Inl e, st)
      | Inr (obj, graceful, pending, grace) \<Rightarrow>
          if pending then (Inr False, st)
          else
            (let (upd, fs) = shouldUpdateFinalizers (om_Finalizers (rs_meta S obj)) opts;
                 obj1 = (if upd then upd_meta S (\<lambda>m. m \<lparr> om_Finalizers := fs \<rparr>) obj else obj);
                 pendingFinalizers = (om_Finalizers (rs_meta S obj1) \<noteq> [])
             in if \<not> graceful then
                  (if pendingFinalizers
                   then (Inr False, snd (write_object S key existing (markAsDeleting S now obj1) st))
                   else (Inr True, st))
                else (Inr (\<not> pendingFinalizers \<and> grace \<le> 0), snd (write_object S key existing obj1 st))))"

text \<open>\<open>updateForGracefulDeletion\<close>, used by a store without garbage collection.\<close>
definition updateForGracefulDeletion ::
  "'a rest_strategy \<Rightarrow> request_ctx \<Rightarrow> go_time \<Rightarrow> store_key \<Rightarrow> delete_options \<Rightarrow> 'a \<Rightarrow> 'a store \<Rightarrow>
   (go_error + bool) \<times> 'a store" where
  "updateForGracefulDeletion S ctx now key opts existing st =
     (case BeforeDelete S ctx now opts existing of
        Inl e \<Rightarrow> (Inl e, st)
      | Inr (obj, graceful, pending, grace) \<Rightarrow>
          if pending then (Inr False, st)
          else if \<not> graceful then (Inr True, st)
          else (Inr (grace \<le> 0), snd (write_object S key existing obj st)))"

definition Delete ::
  "'a rest_strategy \<Rightarrow> request_ctx \<Rightarrow> go_time \<Rightarrow> store_key \<Rightarrow> delete_options \<Rightarrow> 'a store \<Rightarrow>
   (go_error + unit) \<times> 'a store" where
  "Delete S ctx now key opts st =
     (case st_objs st key of
        None \<Rightarrow> (Inl (NewNotFound (snd key)), st)
      | Some existing \<Rightarrow>
          (case BeforeDelete S ctx now opts existing of
             Inl e \<Rightarrow> (Inl e, st)
           | Inr (obj, graceful, pending, grace) \<Rightarrow>
               if pending then (Inr (), st)
               else
                 (case (if rs_EnableGarbageCollection S then
                          (if graceful \<or> om_Finalizers (rs_meta S obj) \<noteq> [] \<or>
                              fst (shouldUpdateFinalizers (om_Finalizers (rs_meta S obj)) opts)
                           then updateForGracefulDeletionAndFinalizers S ctx now key opts existing st
                           else (Inr True, st))
                        else
                          (if graceful then updateForGracefulDeletion S ctx now key opts existing st
                           else (Inr True, st))) of
                    (Inl e, st') \<Rightarrow> (Inl e, st')
                  | (Inr deleteImmediately, st') \<Rightarrow>
                      (Inr (), if deleteImmediately then remove_object key st' else st'))))"

lemma finalizer_names_valid [simp]:
  "IsQualifiedName FinalizerOrphanDependents = []" "IsQualifiedName FinalizerDeleteDependents = []"
  by (simp_all add: IsQualifiedName_def FinalizerOrphanDependents_def FinalizerDeleteDependents_def
      name_part_errors_def qualifiedName_def bracketed_def is_lower_def is_upper_def is_digit_def
      less_eq_char_def)

lemma finalizers_distinct: "FinalizerOrphanDependents \<noteq> FinalizerDeleteDependents"
  by (simp add: FinalizerOrphanDependents_def FinalizerDeleteDependents_def)

lemma scan_exclusive:
  "x \<noteq> y \<Longrightarrow> \<not> (a \<and> b) \<Longrightarrow> \<not> (scan_finalizers x y a fs \<and> scan_finalizers y x b fs)"
  by (induction fs arbitrary: a b) auto

text \<open>A deletion never asks both to orphan the dependents and to delete them in the foreground.\<close>
lemma wants_exclusive: "\<not> (wants_orphan fs opts \<and> wants_foreground fs opts)"
  using scan_exclusive[OF finalizers_distinct, of False False fs]
  by (auto simp: wants_orphan_def wants_foreground_def Let_def split: option.splits)

lemma shouldUpdateFinalizers_valid:
  assumes "ValidateFinalizers fs p = []" and "shouldUpdateFinalizers fs opts = (upd, gs)"
  shows "ValidateFinalizers gs p = []"
  using assms wants_exclusive[of fs opts] finalizers_distinct
  by (auto simp: shouldUpdateFinalizers_def Let_def ValidateFinalizers_def ValidateFinalizerName_def
      split: if_splits)

section \<open>The contract between the registry and a strategy\<close>

text \<open>An object that is being deleted has grace period 0 and still has finalizers: the write that
  empties the finalizers removes the object.  A store without garbage collection marks no object.\<close>
definition deletion_ok :: "bool \<Rightarrow> ObjectMeta \<Rightarrow> bool" where
  "deletion_ok gc m \<longleftrightarrow>
     (om_DeletionTimestamp m \<noteq> None \<longleftrightarrow> om_DeletionGracePeriodSeconds m = Some 0) \<and>
     (om_DeletionTimestamp m = None \<longrightarrow> om_DeletionGracePeriodSeconds m = None) \<and>
     (om_DeletionTimestamp m \<noteq> None \<longrightarrow> gc \<and> om_Finalizers m \<noteq> [])"

text \<open>The changes the registry makes to the metadata of a stored object on its own.\<close>
definition meta_evolves :: "ObjectMeta \<Rightarrow> ObjectMeta \<Rightarrow> bool" where
  "meta_evolves m m' \<longleftrightarrow> om_Name m' = om_Name m \<and> om_Namespace m' = om_Namespace m \<and>
     om_UID m' = om_UID m \<and> om_OwnerReferences m' = om_OwnerReferences m \<and>
     om_Generation m \<le> om_Generation m' \<and>
     (\<forall>p. ValidateFinalizers (om_Finalizers m) p = [] \<longrightarrow> ValidateFinalizers (om_Finalizers m') p = [])"

text \<open>The invariant of a store: every object is valid, sits under its own key, has a revision
  already handed out, and is in a consistent deletion state.\<close>
definition store_ok :: "'a rest_strategy \<Rightarrow> ('a \<Rightarrow> bool) \<Rightarrow> 'a store \<Rightarrow> bool" where
  "store_ok S valid st \<longleftrightarrow> wf_map (st_alist st) \<and> (\<forall>k x. st_objs st k = Some x \<longrightarrow>
     valid x \<and> key_of S x = k \<and> deletion_ok (rs_EnableGarbageCollection S) (rs_meta S x) \<and>
     0 < om_ResourceVersion (rs_meta S x) \<and> om_ResourceVersion (rs_meta S x) \<le> st_rev st)"

lemma store_okD:
  "store_ok S valid st \<Longrightarrow> st_objs st k = Some x \<Longrightarrow>
   valid x \<and> key_of S x = k \<and> deletion_ok (rs_EnableGarbageCollection S) (rs_meta S x) \<and>
   0 < om_ResourceVersion (rs_meta S x) \<and> om_ResourceVersion (rs_meta S x) \<le> st_rev st"
  unfolding store_ok_def by blast

text \<open>
  Laws of a strategy.  The metadata accessors form a lens; preparing an update changes no metadata
  but the generation, which it never lowers; both validations imply \<open>valid\<close>, which does not depend on
  what the registry changes; deletion is never graceful and at most rewrites the object's spec.
\<close>
locale strategy_contract =
  fixes S :: "'a rest_strategy"
    and valid :: "'a \<Rightarrow> bool"
  assumes meta_set: "rs_meta S (rs_set_meta S m x) = m"
    and set_meta_meta: "rs_set_meta S (rs_meta S x) x = x"
    and set_set: "rs_set_meta S m (rs_set_meta S m' x) = rs_set_meta S m x"
    and prepare_update_meta: "om_Generation (rs_meta S new) = om_Generation (rs_meta S old) \<Longrightarrow>
       \<exists>g \<ge> om_Generation (rs_meta S new). rs_meta S (rs_PrepareForUpdate S ctx new old) =
         (rs_meta S new) \<lparr> om_Generation := g \<rparr>"
    and prepare_create_meta:
      "om_DeletionTimestamp (rs_meta S (rs_PrepareForCreate S ctx new)) = om_DeletionTimestamp (rs_meta S new)"
      "om_DeletionGracePeriodSeconds (rs_meta S (rs_PrepareForCreate S ctx new)) = om_DeletionGracePeriodSeconds (rs_meta S new)"
      "om_Name (rs_meta S (rs_PrepareForCreate S ctx new)) = om_Name (rs_meta S new)"
      "om_Namespace (rs_meta S (rs_PrepareForCreate S ctx new)) = om_Namespace (rs_meta S new)"
    and create_valid: "rs_Validate S x = [] \<Longrightarrow> valid x"
    and update_valid: "rs_ValidateUpdate S new old = [] \<Longrightarrow> valid new"
    and valid_evolves: "valid x \<Longrightarrow> meta_evolves (rs_meta S x) m \<Longrightarrow> valid (rs_set_meta S m x)"
    and delete_keeps: "rs_CheckGracefulDelete S = Some check \<Longrightarrow> check ctx x = (y, b) \<Longrightarrow>
      \<not> b \<and> rs_meta S y = rs_meta S x \<and> (valid x \<longrightarrow> valid y)"
begin

lemma rs_meta_upd [simp]: "rs_meta S (upd_meta S f x) = f (rs_meta S x)"
  by (simp add: upd_meta_def meta_set)

lemma upd_upd [simp]: "upd_meta S f (upd_meta S g x) = upd_meta S (\<lambda>m. f (g m)) x"
  by (simp add: upd_meta_def meta_set set_set)

lemma valid_upd: "valid x \<Longrightarrow> meta_evolves (rs_meta S x) (f (rs_meta S x)) \<Longrightarrow> valid (upd_meta S f x)"
  by (simp add: upd_meta_def valid_evolves)

lemma store_ok_remove: "store_ok S valid st \<Longrightarrow> store_ok S valid (remove_object k st)"
  by (auto simp: store_ok_def le_Suc_eq split: if_splits)

lemma write_object_result:
  "write_object S k existing obj st = (out, st') \<Longrightarrow> st_objs st k = Some existing \<Longrightarrow>
   st_objs st' k = Some out \<and> (\<forall>k'. k' \<noteq> k \<longrightarrow> st_objs st' k' = st_objs st k') \<and>
   out = upd_meta S (\<lambda>m. m \<lparr> om_ResourceVersion := om_ResourceVersion (rs_meta S out) \<rparr>) obj \<and>
   (st' = st \<and> out = existing \<or>
    om_ResourceVersion (rs_meta S out) = Suc (st_rev st) \<and> st_rev st' = Suc (st_rev st))"
  by (auto simp: write_object_def Let_def split: if_splits)

lemma store_ok_write:
  assumes ok: "store_ok S valid st" and ex: "st_objs st k = Some existing" and v: "valid obj"
    and key: "key_of S obj = k" and del: "deletion_ok (rs_EnableGarbageCollection S) (rs_meta S obj)"
  shows "store_ok S valid (snd (write_object S k existing obj st))"
proof -
  let ?out = "upd_meta S (\<lambda>m. m \<lparr> om_ResourceVersion := Suc (st_rev st) \<rparr>) obj"
  have "valid ?out" using v by (rule valid_upd) (simp add: meta_evolves_def)
  moreover have "key_of S ?out = k" "deletion_ok (rs_EnableGarbageCollection S) (rs_meta S ?out)"
    using key del by (simp_all add: key_of_def deletion_ok_def)
  ultimately show ?thesis
    using ok by (auto simp: write_object_def Let_def store_ok_def le_Suc_eq split: if_splits)
qed

lemma settle_namespace_meta:
  "settle_namespace S ctx obj = Inr obj1 \<Longrightarrow>
   \<exists>ns. obj1 = upd_meta S (\<lambda>m. m \<lparr> om_Namespace := ns \<rparr>) obj"
  by (auto simp: settle_namespace_def Let_def upd_meta_def set_meta_meta split: if_splits)
    (metis ObjectMeta.surjective ObjectMeta.update_convs(2) set_meta_meta)+

text \<open>What a successful \<open>BeforeUpdate\<close> guarantees, whatever the strategy.\<close>
lemma BeforeUpdate_ok:
  assumes "BeforeUpdate S ctx obj old = Inr new"
  shows "valid new"
    and "om_Name (rs_meta S new) = om_Name (rs_meta S old)"
    and "om_Namespace (rs_meta S new) = om_Namespace (rs_meta S old)"
    and "om_UID (rs_meta S new) = om_UID (rs_meta S old)"
    and "om_Generation (rs_meta S old) \<le> om_Generation (rs_meta S new)"
    and "om_Finalizers (rs_meta S new) = om_Finalizers (rs_meta S obj)"
    and "om_ResourceVersion (rs_meta S new) = om_ResourceVersion (rs_meta S obj)"
    and "om_DeletionTimestamp (rs_meta S new) = om_DeletionTimestamp (rs_meta S old)"
    and "om_DeletionGracePeriodSeconds (rs_meta S new) = om_DeletionGracePeriodSeconds (rs_meta S old)"
    and "om_DeletionTimestamp (rs_meta S old) \<noteq> None \<Longrightarrow>
         set (om_Finalizers (rs_meta S new)) \<subseteq> set (om_Finalizers (rs_meta S old))"
proof -
  obtain obj1 where obj1: "settle_namespace S ctx obj = Inr obj1"
    using assms by (auto simp: BeforeUpdate_def bind_result_eq_Inr)
  then obtain ns where ns: "obj1 = upd_meta S (\<lambda>m. m \<lparr> om_Namespace := ns \<rparr>) obj"
    using settle_namespace_meta by blast
  define obj2 where "obj2 = upd_meta S (\<lambda>m. m \<lparr> om_Generation := om_Generation (rs_meta S old) \<rparr>) obj1"
  define obj3 where "obj3 = rs_PrepareForUpdate S ctx obj2 old"
  obtain g where g: "g \<ge> om_Generation (rs_meta S obj2)"
    "rs_meta S obj3 = (rs_meta S obj2) \<lparr> om_Generation := g \<rparr>"
    using prepare_update_meta[of obj2 old ctx] unfolding obj3_def by (auto simp: obj2_def)
  have new: "new = upd_meta S (\<lambda>m. RepairObjectMeta m (rs_meta S old)) obj3"
    and upd: "ValidateObjectMetaUpdate (rs_meta S new) (rs_meta S old) ''metadata'' = []"
    and val: "rs_ValidateUpdate S new old = []"
    using assms obj1 by (auto simp: BeforeUpdate_def Let_def obj2_def obj3_def split: if_splits)
  show "valid new" using val by (rule update_valid)
  show "om_Name (rs_meta S new) = om_Name (rs_meta S old)"
    "om_Namespace (rs_meta S new) = om_Namespace (rs_meta S old)"
    "om_UID (rs_meta S new) = om_UID (rs_meta S old)"
    "om_Generation (rs_meta S old) \<le> om_Generation (rs_meta S new)"
    using upd by (simp_all add: ValidateObjectMetaUpdate_def ValidateImmutableField_def)
  show "om_Finalizers (rs_meta S new) = om_Finalizers (rs_meta S obj)"
    "om_ResourceVersion (rs_meta S new) = om_ResourceVersion (rs_meta S obj)"
    using g by (simp_all add: new RepairObjectMeta_def obj2_def ns)
  show "om_DeletionTimestamp (rs_meta S new) = om_DeletionTimestamp (rs_meta S old)"
    "om_DeletionGracePeriodSeconds (rs_meta S new) = om_DeletionGracePeriodSeconds (rs_meta S old)"
    using upd by (auto simp: ValidateObjectMetaUpdate_def new RepairObjectMeta_def split: if_splits)
  show "set (om_Finalizers (rs_meta S new)) \<subseteq> set (om_Finalizers (rs_meta S old))"
    if "om_DeletionTimestamp (rs_meta S old) \<noteq> None"
    using upd that
    by (auto simp: ValidateObjectMetaUpdate_def ValidateNoNewFinalizers_def filter_empty_conv)
qed

text \<open>An update returns the object it was given, under the same name and in the namespace of the request.\<close>
lemma BeforeUpdate_key:
  assumes "BeforeUpdate S ctx obj old = Inr new"
  shows "om_Name (rs_meta S new) = om_Name (rs_meta S obj)"
    and "rs_NamespaceScoped S \<Longrightarrow> om_Namespace (rs_meta S new) = ctx_Namespace ctx"
proof -
  obtain obj1 where obj1: "settle_namespace S ctx obj = Inr obj1"
    using assms by (auto simp: BeforeUpdate_def bind_result_eq_Inr)
  obtain ns where ns: "obj1 = upd_meta S (\<lambda>m. m \<lparr> om_Namespace := ns \<rparr>) obj"
    using settle_namespace_meta[OF obj1] by blast
  have scoped: "rs_NamespaceScoped S \<Longrightarrow> om_Namespace (rs_meta S obj1) = ctx_Namespace ctx"
    using obj1 by (auto simp: settle_namespace_def Let_def split: if_splits)
  define obj2 where "obj2 = upd_meta S (\<lambda>m. m \<lparr> om_Generation := om_Generation (rs_meta S old) \<rparr>) obj1"
  obtain g where g: "rs_meta S (rs_PrepareForUpdate S ctx obj2 old) = (rs_meta S obj2) \<lparr> om_Generation := g \<rparr>"
    using prepare_update_meta[of obj2 old ctx] by (auto simp: obj2_def)
  have "new = upd_meta S (\<lambda>m. RepairObjectMeta m (rs_meta S old)) (rs_PrepareForUpdate S ctx obj2 old)"
    using assms obj1 by (auto simp: BeforeUpdate_def Let_def obj2_def split: if_splits)
  then have "om_Name (rs_meta S new) = om_Name (rs_meta S obj1)" "om_Namespace (rs_meta S new) = om_Namespace (rs_meta S obj1)"
    using g by (simp_all add: RepairObjectMeta_def obj2_def)
  then show "om_Name (rs_meta S new) = om_Name (rs_meta S obj)"
    "rs_NamespaceScoped S \<Longrightarrow> om_Namespace (rs_meta S new) = ctx_Namespace ctx"
    using ns scoped by simp_all
qed

text \<open>A successful update was based on the stored revision and wrote a valid object, or removed the
  object when its last finalizer went away during deletion.\<close>
lemma Update_ok:
  assumes "Update S ctx k obj st = (Inr out, st')"
  obtains existing new where
    "st_objs st k = Some existing" "BeforeUpdate S ctx obj existing = Inr new"
    "om_ResourceVersion (rs_meta S obj) = om_ResourceVersion (rs_meta S existing)"
    "if shouldDeleteDuringUpdate S new existing then out = new \<and> st' = remove_object k st
     else (out, st') = write_object S k existing new st"
  using assms
  by (auto simp: Update_def split: if_splits option.splits sum.splits prod.splits)

lemma Update_error: "Update S ctx k obj st = (Inl e, st') \<Longrightarrow> st' = st"
  by (auto simp: Update_def split: if_splits option.splits sum.splits prod.splits)

lemma Update_key:
  assumes "Update S ctx k obj st = (Inr out, st')"
  shows "om_Name (rs_meta S out) = om_Name (rs_meta S obj)"
    and "rs_NamespaceScoped S \<Longrightarrow> om_Namespace (rs_meta S out) = ctx_Namespace ctx"
    and "k' \<noteq> k \<Longrightarrow> st_objs st' k' = st_objs st k'"
proof -
  obtain existing new where u: "st_objs st k = Some existing" "BeforeUpdate S ctx obj existing = Inr new"
    "if shouldDeleteDuringUpdate S new existing then out = new \<and> st' = remove_object k st
     else (out, st') = write_object S k existing new st"
    using Update_ok[OF assms] by metis
  have out: "om_Name (rs_meta S out) = om_Name (rs_meta S new) \<and> om_Namespace (rs_meta S out) = om_Namespace (rs_meta S new) \<and>
      (k' \<noteq> k \<longrightarrow> st_objs st' k' = st_objs st k')"
  proof (cases "shouldDeleteDuringUpdate S new existing")
    case True
    then show ?thesis using u(3) by simp
  next
    case False
    then have w: "write_object S k existing new st = (out, st')" using u(3) by simp
    then show ?thesis
      by (auto simp: write_object_def Let_def split: if_splits) (metis rs_meta_upd ObjectMeta.select_convs ObjectMeta.surjective ObjectMeta.update_convs(4))+
  qed
  then show "om_Name (rs_meta S out) = om_Name (rs_meta S obj)"
    "rs_NamespaceScoped S \<Longrightarrow> om_Namespace (rs_meta S out) = ctx_Namespace ctx"
    "k' \<noteq> k \<Longrightarrow> st_objs st' k' = st_objs st k'"
    using BeforeUpdate_key[OF u(2)] by simp_all
qed

text \<open>The stored object after a successful update is gone or is the one returned, and stands in every
  relation to its predecessor that \<open>BeforeUpdate\<close> establishes and the revision does not matter for.\<close>
lemma Update_stored:
  assumes u: "Update S ctx k obj st = (Inr out, st')"
    and P: "\<And>old new. BeforeUpdate S ctx obj old = Inr new \<Longrightarrow> P old new"
    and rev: "\<And>old new v. P old new \<Longrightarrow> P old (upd_meta S (\<lambda>m. m \<lparr> om_ResourceVersion := v \<rparr>) new)"
  shows "\<exists>old. st_objs st k = Some old \<and> P old out \<and> (st_objs st' k = None \<or> st_objs st' k = Some out)"
proof -
  obtain old new where o: "st_objs st k = Some old" "BeforeUpdate S ctx obj old = Inr new"
    "if shouldDeleteDuringUpdate S new old then out = new \<and> st' = remove_object k st
     else (out, st') = write_object S k old new st"
    using Update_ok[OF u] by metis
  show ?thesis
  proof (cases "shouldDeleteDuringUpdate S new old")
    case True
    then show ?thesis using o P by auto
  next
    case False
    then have w: "write_object S k old new st = (out, st')" using o(3) by simp
    have out: "out = upd_meta S (\<lambda>m. m \<lparr> om_ResourceVersion := om_ResourceVersion (rs_meta S out) \<rparr>) new"
      "st_objs st' k = Some out"
      using write_object_result[OF w o(1)] by blast+
    then show ?thesis using o(1) rev[OF P[OF o(2)]] by metis
  qed
qed

lemma Update_store_ok:
  assumes ok: "store_ok S valid st"
  shows "store_ok S valid (snd (Update S ctx k obj st))"
proof (cases "Update S ctx k obj st")
  case (Pair r st')
  show ?thesis
  proof (cases r)
    case (Inl e)
    then show ?thesis using Pair Update_error[of ctx k obj st e st'] ok by simp
  next
    case (Inr out)
    then obtain existing new where u: "st_objs st k = Some existing" "BeforeUpdate S ctx obj existing = Inr new"
      "if shouldDeleteDuringUpdate S new existing then out = new \<and> st' = remove_object k st
       else (out, st') = write_object S k existing new st"
      using Update_ok Pair by metis
    note new = BeforeUpdate_ok[OF u(2)]
    have ex: "key_of S existing = k" "deletion_ok (rs_EnableGarbageCollection S) (rs_meta S existing)"
      using store_okD[OF ok u(1)] by simp_all
    show ?thesis
    proof (cases "shouldDeleteDuringUpdate S new existing")
      case True
      then show ?thesis using u Pair store_ok_remove[OF ok] by simp
    next
      case False
      then have "deletion_ok (rs_EnableGarbageCollection S) (rs_meta S new)"
        using ex new by (auto simp: deletion_ok_def shouldDeleteDuringUpdate_def)
      moreover have "key_of S new = k" using ex new by (simp add: key_of_def)
      ultimately have "store_ok S valid (snd (write_object S k existing new st))"
        using ok u(1) new(1) by (intro store_ok_write)
      then show ?thesis using u Pair False by (metis snd_conv)
    qed
  qed
qed

lemma Create_store_ok:
  assumes ok: "store_ok S valid st"
  shows "store_ok S valid (snd (Create S ctx uid obj st))"
proof (cases "BeforeCreate S ctx uid obj")
  case (Inl e)
  then show ?thesis using ok by (simp add: Create_def)
next
  case (Inr obj1)
  then have v: "valid obj1" and del: "deletion_ok (rs_EnableGarbageCollection S) (rs_meta S obj1)"
    by (auto simp: BeforeCreate_def bind_result_eq_Inr Let_def deletion_ok_def prepare_create_meta
        intro: create_valid split: if_splits)
  let ?out = "upd_meta S (\<lambda>m. m \<lparr> om_ResourceVersion := Suc (st_rev st) \<rparr>) obj1"
  have "valid ?out" using v by (rule valid_upd) (simp add: meta_evolves_def)
  moreover have "key_of S ?out = key_of S obj1" "deletion_ok (rs_EnableGarbageCollection S) (rs_meta S ?out)"
    using del by (simp_all add: key_of_def deletion_ok_def)
  ultimately show ?thesis
    using Inr ok by (auto simp: Create_def Let_def store_ok_def le_Suc_eq)
qed

lemma BeforeDelete_ok:
  assumes "BeforeDelete S ctx now opts x = Inr (y, graceful, pending, g)" and "deletion_ok (rs_EnableGarbageCollection S) (rs_meta S x)"
  shows "\<not> graceful \<and> \<not> pending \<and> rs_meta S y = rs_meta S x \<and> (valid x \<longrightarrow> valid y)"
proof (cases "rs_CheckGracefulDelete S")
  case None
  then show ?thesis using assms by (auto simp: BeforeDelete_def Let_def split: if_splits)
next
  case (Some check)
  obtain z b where z: "check ctx x = (z, b)" by force
  note zb = delete_keeps[OF Some z]
  show ?thesis
  proof (cases "om_DeletionTimestamp (rs_meta S x)")
    case None
    then show ?thesis using assms Some z zb by (auto simp: BeforeDelete_def Let_def split: if_splits)
  next
    case del: (Some t)
    then have "om_DeletionGracePeriodSeconds (rs_meta S x) = Some 0"
      using assms(2) by (simp add: deletion_ok_def)
    then show ?thesis using assms Some del by (auto simp: BeforeDelete_def Let_def split: if_splits)
  qed
qed

lemma updateForGracefulDeletion_store_ok:
  assumes ok: "store_ok S valid st" and ex: "st_objs st k = Some existing"
    and gc: "rs_EnableGarbageCollection S"
  shows "store_ok S valid (snd (updateForGracefulDeletionAndFinalizers S ctx now k opts existing st))"
proof (cases "BeforeDelete S ctx now opts existing")
  case (Inl e)
  then show ?thesis using ok by (simp add: updateForGracefulDeletionAndFinalizers_def)
next
  case (Inr r)
  obtain y graceful pending g where r: "r = (y, graceful, pending, g)" by (cases r) auto
  have x: "valid existing" "key_of S existing = k" "deletion_ok (rs_EnableGarbageCollection S) (rs_meta S existing)"
    using store_okD[OF ok ex] by simp_all
  have y: "\<not> graceful" "\<not> pending" "rs_meta S y = rs_meta S existing" "valid y"
    using BeforeDelete_ok[OF Inr[unfolded r] x(3)] x(1) by auto
  obtain upd fs where fs: "shouldUpdateFinalizers (om_Finalizers (rs_meta S y)) opts = (upd, fs)" by force
  let ?y1 = "if upd then upd_meta S (\<lambda>m. m \<lparr> om_Finalizers := fs \<rparr>) y else y"
  let ?d = "markAsDeleting S now ?y1"
  have "meta_evolves (rs_meta S y) ((rs_meta S y) \<lparr> om_Finalizers := fs \<rparr>)"
    using shouldUpdateFinalizers_valid[OF _ fs] by (simp add: meta_evolves_def)
  then have "valid ?y1" using y(4) by (auto intro: valid_upd)
  then have vd: "valid ?d" unfolding markAsDeleting_def by (rule valid_upd) (simp add: meta_evolves_def)
  have kd: "key_of S ?d = k"
    using x(2) y(3) by (auto simp: markAsDeleting_def key_of_def)
  have "store_ok S valid (snd (write_object S k existing ?d st))" if "om_Finalizers (rs_meta S ?y1) \<noteq> []"
    using that by (intro store_ok_write[OF ok ex vd kd]) (simp add: deletion_ok_def markAsDeleting_def gc)
  then show ?thesis
    using Inr y fs ok by (simp add: r updateForGracefulDeletionAndFinalizers_def Let_def)
qed

lemma updateForGracefulDeletion_plain_store_ok:
  assumes ok: "store_ok S valid st" and ex: "st_objs st k = Some existing"
  shows "store_ok S valid (snd (updateForGracefulDeletion S ctx now k opts existing st))"
  using BeforeDelete_ok[of ctx now opts existing] store_okD[OF ok ex] ok
  by (auto simp: updateForGracefulDeletion_def split: sum.split)

lemma Delete_store_ok:
  assumes ok: "store_ok S valid st"
  shows "store_ok S valid (snd (Delete S ctx now k opts st))"
proof (cases "st_objs st k")
  case None
  then show ?thesis using ok by (simp add: Delete_def)
next
  case (Some existing)
  have rm: "store_ok S valid (remove_object k st)" by (rule store_ok_remove[OF ok])
  show ?thesis
  proof (cases "rs_EnableGarbageCollection S")
    case True
    note * = updateForGracefulDeletion_store_ok[OF ok Some True, of ctx now opts]
    show ?thesis
      using ok Some True * store_ok_remove[OF *, of k] rm
      by (auto simp: Delete_def split: sum.splits prod.splits if_splits)
  next
    case False
    note * = updateForGracefulDeletion_plain_store_ok[OF ok Some, of ctx now opts]
    show ?thesis
      using ok Some False * store_ok_remove[OF *, of k] rm
      by (auto simp: Delete_def split: sum.splits prod.splits if_splits)
  qed
qed

text \<open>A creation writes at most the key made of the request's namespace and the object's name.\<close>
lemma Create_other:
  assumes "k \<noteq> (if rs_NamespaceScoped S then ctx_Namespace ctx else [], om_Name (rs_meta S obj))"
  shows "st_objs (snd (Create S ctx uid obj st)) k = st_objs st k"
proof (cases "BeforeCreate S ctx uid obj")
  case (Inr obj1)
  then have "key_of S obj1 = (if rs_NamespaceScoped S then ctx_Namespace ctx else [], om_Name (rs_meta S obj))"
    by (auto simp: BeforeCreate_def bind_result_eq_Inr Let_def key_of_def prepare_create_meta settle_namespace_def
        split: if_splits)
  then show ?thesis using assms Inr by (simp add: Create_def Let_def)
qed (simp add: Create_def)

end

section \<open>Keys other than the request's\<close>

lemma write_object_other: "k' \<noteq> k \<Longrightarrow> st_objs (snd (write_object S k existing obj st)) k' = st_objs st k'"
  by (simp add: write_object_def Let_def)

lemma Update_other: "k' \<noteq> k \<Longrightarrow> st_objs (snd (Update S ctx k obj st)) k' = st_objs st k'"
  using write_object_other[of k' k S]
  by (auto simp: Update_def split: option.split sum.split prod.split) (metis snd_conv)

lemma graceful_other:
  "k' \<noteq> k \<Longrightarrow> st_objs (snd (updateForGracefulDeletionAndFinalizers S ctx now k opts existing st)) k' = st_objs st k'"
  "k' \<noteq> k \<Longrightarrow> st_objs (snd (updateForGracefulDeletion S ctx now k opts existing st)) k' = st_objs st k'"
  by (simp_all add: updateForGracefulDeletionAndFinalizers_def updateForGracefulDeletion_def Let_def write_object_other
      split: sum.split prod.split)

lemma Delete_other:
  assumes "k' \<noteq> k"
  shows "st_objs (snd (Delete S ctx now k opts st)) k' = st_objs st k'"
  using graceful_other[OF assms, of S ctx now opts _ st] assms
  by (auto simp: Delete_def split: option.split sum.splits prod.splits if_splits) (metis snd_conv)+

end
