(* ===== verification/SC_Strategies.thy ===== *)
theory SC_Strategies
  imports SC_Validation SC_Registry
begin

text \<open>
  The REST strategies of \<open>pkg/registry/servicecatalog\<close>, one record per Go strategy value, and the
  interpretation of \<open>strategy_contract\<close> on each of them.  The feature gate \<open>OriginatingIdentity\<close> and the
  YAML decoder are parameters of the strategies that consult them.
\<close>

section \<open>Service instances\<close>

definition setServiceInstanceUserInfo :: "request_ctx \<Rightarrow> ServiceInstance \<Rightarrow> ServiceInstance" where
  "setServiceInstanceUserInfo ctx i = si_Spec_update (\<lambda>s. s \<lparr> sis_UserInfo := ctx_User ctx \<rparr>) i"

definition instance_PrepareForCreate :: "bool \<Rightarrow> request_ctx \<Rightarrow> ServiceInstance \<Rightarrow> ServiceInstance" where
  "instance_PrepareForCreate originatingIdentity ctx i =
     (let i1 = (if originatingIdentity then setServiceInstanceUserInfo ctx i else i)
      in i1 \<lparr> si_Status := empty_InstanceStatus,
              si_Spec := (si_Spec i1) \<lparr> sis_ServiceClassRef := None, sis_ServicePlanRef := None \<rparr>,
              si_Meta := (si_Meta i1) \<lparr> om_Finalizers := [FinalizerServiceCatalog], om_Generation := 1 \<rparr> \<rparr>)"

definition instance_PrepareForUpdate ::
  "bool \<Rightarrow> request_ctx \<Rightarrow> ServiceInstance \<Rightarrow> ServiceInstance \<Rightarrow> ServiceInstance" where
  "instance_PrepareForUpdate originatingIdentity ctx new old =
     (let new1 = new \<lparr> si_Status := si_Status old \<rparr>;
          new2 = new1 \<lparr> si_Spec := (si_Spec new1) \<lparr> sis_ServiceClassRef := sis_ServiceClassRef (si_Spec old),
                                                sis_ServicePlanRef := sis_ServicePlanRef (si_Spec old) \<rparr> \<rparr>;
          new3 = new2 \<lparr> si_Spec := si_Spec old \<rparr>
      in if si_Spec old \<noteq> si_Spec new3 then
           (let new4 = (if originatingIdentity then setServiceInstanceUserInfo ctx new3 else new3)
            in new4 \<lparr> si_Meta := (si_Meta new4) \<lparr> om_Generation := om_Generation (si_Meta old) + 1 \<rparr> \<rparr>)
         else new3)"

definition instance_CheckGracefulDelete :: "bool \<Rightarrow> request_ctx \<Rightarrow> ServiceInstance \<Rightarrow> ServiceInstance \<times> bool" where
  "instance_CheckGracefulDelete originatingIdentity ctx i =
     ((if originatingIdentity then setServiceInstanceUserInfo ctx i else i), False)"

definition instanceStatus_PrepareForUpdate ::
  "request_ctx \<Rightarrow> ServiceInstance \<Rightarrow> ServiceInstance \<Rightarrow> ServiceInstance" where
  "instanceStatus_PrepareForUpdate ctx new old = new \<lparr> si_Spec := si_Spec old \<rparr>"

definition instanceReference_PrepareForUpdate ::
  "request_ctx \<Rightarrow> ServiceInstance \<Rightarrow> ServiceInstance \<Rightarrow> ServiceInstance" where
  "instanceReference_PrepareForUpdate ctx new old =
     (let newServiceClassRef = sis_ServiceClassRef (si_Spec new);
          newServicePlanRef = sis_ServicePlanRef (si_Spec new)
      in new \<lparr> si_Spec := (si_Spec old) \<lparr> sis_ServiceClassRef := newServiceClassRef,
                                       sis_ServicePlanRef := newServicePlanRef \<rparr>,
               si_Status := si_Status old \<rparr>)"

definition instanceRESTStrategies :: "yaml_decoder \<Rightarrow> bool \<Rightarrow> ServiceInstance rest_strategy" where
  "instanceRESTStrategies yaml oi = \<lparr> rs_meta = si_Meta, rs_set_meta = (\<lambda>m i. i \<lparr> si_Meta := m \<rparr>),
     rs_NamespaceScoped = True,
     rs_PrepareForCreate = instance_PrepareForCreate oi,
     rs_Validate = ValidateServiceInstance yaml,
     rs_PrepareForUpdate = instance_PrepareForUpdate oi,
     rs_ValidateUpdate = ValidateServiceInstanceUpdate yaml,
     rs_CheckGracefulDelete = Some (instance_CheckGracefulDelete oi),
     rs_EnableGarbageCollection = True \<rparr>"

definition instanceStatusUpdateStrategy :: "yaml_decoder \<Rightarrow> bool \<Rightarrow> ServiceInstance rest_strategy" where
  "instanceStatusUpdateStrategy yaml oi = (instanceRESTStrategies yaml oi) \<lparr>
     rs_PrepareForUpdate := instanceStatus_PrepareForUpdate,
     rs_ValidateUpdate := ValidateServiceInstanceStatusUpdate yaml \<rparr>"

definition instanceReferenceUpdateStrategy :: "yaml_decoder \<Rightarrow> bool \<Rightarrow> ServiceInstance rest_strategy" where
  "instanceReferenceUpdateStrategy yaml oi = (instanceRESTStrategies yaml oi) \<lparr>
     rs_PrepareForUpdate := instanceReference_PrepareForUpdate,
     rs_ValidateUpdate := ValidateServiceInstanceReferencesUpdate yaml \<rparr>"

section \<open>Credentials\<close>

definition setServiceInstanceCredentialUserInfo ::
  "request_ctx \<Rightarrow> ServiceInstanceCredential \<Rightarrow> ServiceInstanceCredential" where
  "setServiceInstanceCredentialUserInfo ctx b = cr_Spec_update (\<lambda>s. s \<lparr> crs_UserInfo := ctx_User ctx \<rparr>) b"

definition binding_PrepareForCreate ::
  "bool \<Rightarrow> request_ctx \<Rightarrow> ServiceInstanceCredential \<Rightarrow> ServiceInstanceCredential" where
  "binding_PrepareForCreate originatingIdentity ctx b =
     (let b1 = (if originatingIdentity then setServiceInstanceCredentialUserInfo ctx b else b)
      in b1 \<lparr> cr_Status := empty_CredentialStatus,
              cr_Meta := (cr_Meta b1) \<lparr> om_Finalizers := [FinalizerServiceCatalog], om_Generation := 1 \<rparr> \<rparr>)"

definition binding_PrepareForUpdate ::
  "bool \<Rightarrow> request_ctx \<Rightarrow> ServiceInstanceCredential \<Rightarrow> ServiceInstanceCredential \<Rightarrow> ServiceInstanceCredential" where
  "binding_PrepareForUpdate originatingIdentity ctx new old =
     (let new1 = new \<lparr> cr_Status := cr_Status old \<rparr>;
          new2 = new1 \<lparr> cr_Spec := cr_Spec old \<rparr>
      in if cr_Spec old \<noteq> cr_Spec new2 then
           (let new3 = (if originatingIdentity then setServiceInstanceCredentialUserInfo ctx new2 else new2)
            in new3 \<lparr> cr_Meta := (cr_Meta new3) \<lparr> om_Generation := om_Generation (cr_Meta old) + 1 \<rparr> \<rparr>)
         else new2)"

definition binding_CheckGracefulDelete ::
  "bool \<Rightarrow> request_ctx \<Rightarrow> ServiceInstanceCredential \<Rightarrow> ServiceInstanceCredential \<times> bool" where
  "binding_CheckGracefulDelete originatingIdentity ctx b =
     ((if originatingIdentity then setServiceInstanceCredentialUserInfo ctx b else b), False)"

definition bindingStatus_PrepareForUpdate ::
  "request_ctx \<Rightarrow> ServiceInstanceCredential \<Rightarrow> ServiceInstanceCredential \<Rightarrow> ServiceInstanceCredential" where
  "bindingStatus_PrepareForUpdate ctx new old = new \<lparr> cr_Spec := cr_Spec old \<rparr>"

definition bindingRESTStrategies :: "yaml_decoder \<Rightarrow> bool \<Rightarrow> ServiceInstanceCredential rest_strategy" where
  "bindingRESTStrategies yaml oi = \<lparr> rs_meta = cr_Meta, rs_set_meta = (\<lambda>m b. b \<lparr> cr_Meta := m \<rparr>),
     rs_NamespaceScoped = True,
     rs_PrepareForCreate = binding_PrepareForCreate oi,
     rs_Validate = ValidateServiceInstanceCredential yaml,
     rs_PrepareForUpdate = binding_PrepareForUpdate oi,
     rs_ValidateUpdate = ValidateServiceInstanceCredentialUpdate yaml,
     rs_CheckGracefulDelete = Some (binding_CheckGracefulDelete oi),
     rs_EnableGarbageCollection = True \<rparr>"

definition bindingStatusUpdateStrategy :: "yaml_decoder \<Rightarrow> bool \<Rightarrow> ServiceInstanceCredential rest_strategy" where
  "bindingStatusUpdateStrategy yaml oi = (bindingRESTStrategies yaml oi) \<lparr>
     rs_PrepareForUpdate := bindingStatus_PrepareForUpdate,
     rs_ValidateUpdate := ValidateServiceInstanceCredentialStatusUpdate yaml \<rparr>"

section \<open>Brokers, classes and plans\<close>

definition broker_PrepareForCreate :: "request_ctx \<Rightarrow> ClusterServiceBroker \<Rightarrow> ClusterServiceBroker" where
  "broker_PrepareForCreate ctx b = b \<lparr> bk_Status := empty_BrokerStatus,
     bk_Meta := (bk_Meta b) \<lparr> om_Finalizers := [FinalizerServiceCatalog], om_Generation := 1 \<rparr> \<rparr>"

definition broker_PrepareForUpdate ::
  "request_ctx \<Rightarrow> ClusterServiceBroker \<Rightarrow> ClusterServiceBroker \<Rightarrow> ClusterServiceBroker" where
  "broker_PrepareForUpdate ctx new old =
     (let new1 = new \<lparr> bk_Status := bk_Status old \<rparr>
      in if bk_Spec old \<noteq> bk_Spec new1
         then new1 \<lparr> bk_Meta := (bk_Meta new1) \<lparr> om_Generation := om_Generation (bk_Meta old) + 1 \<rparr> \<rparr>
         else new1)"

definition brokerStatus_PrepareForUpdate ::
  "request_ctx \<Rightarrow> ClusterServiceBroker \<Rightarrow> ClusterServiceBroker \<Rightarrow> ClusterServiceBroker" where
  "brokerStatus_PrepareForUpdate ctx new old = new \<lparr> bk_Spec := bk_Spec old \<rparr>"

definition brokerRESTStrategies :: "ClusterServiceBroker rest_strategy" where
  "brokerRESTStrategies = \<lparr> rs_meta = bk_Meta, rs_set_meta = (\<lambda>m b. b \<lparr> bk_Meta := m \<rparr>),
     rs_NamespaceScoped = False,
     rs_PrepareForCreate = broker_PrepareForCreate,
     rs_Validate = ValidateClusterServiceBroker,
     rs_PrepareForUpdate = broker_PrepareForUpdate,
     rs_ValidateUpdate = ValidateClusterServiceBrokerUpdate,
     rs_CheckGracefulDelete = None,
     rs_EnableGarbageCollection = True \<rparr>"

definition brokerStatusUpdateStrategy :: "ClusterServiceBroker rest_strategy" where
  "brokerStatusUpdateStrategy = brokerRESTStrategies \<lparr>
     rs_PrepareForUpdate := brokerStatus_PrepareForUpdate,
     rs_ValidateUpdate := ValidateClusterServiceBrokerStatusUpdate \<rparr>"

definition serviceclass_PrepareForUpdate :: "request_ctx \<Rightarrow> ServiceClass \<Rightarrow> ServiceClass \<Rightarrow> ServiceClass" where
  "serviceclass_PrepareForUpdate ctx new old =
     sc_Spec_update (\<lambda>s. s \<lparr> scs_ClusterServiceBrokerName := scs_ClusterServiceBrokerName (sc_Spec old) \<rparr>) new"

definition serviceclassRESTStrategies :: "ServiceClass rest_strategy" where
  "serviceclassRESTStrategies = \<lparr> rs_meta = sc_Meta, rs_set_meta = (\<lambda>m b. b \<lparr> sc_Meta := m \<rparr>),
     rs_NamespaceScoped = False,
     rs_PrepareForCreate = (\<lambda>ctx c. c),
     rs_Validate = ValidateServiceClass,
     rs_PrepareForUpdate = serviceclass_PrepareForUpdate,
     rs_ValidateUpdate = ValidateServiceClassUpdate,
     rs_CheckGracefulDelete = None,
     rs_EnableGarbageCollection = False \<rparr>"

definition serviceplan_PrepareForUpdate :: "request_ctx \<Rightarrow> ServicePlan \<Rightarrow> ServicePlan \<Rightarrow> ServicePlan" where
  "serviceplan_PrepareForUpdate ctx new old =
     sp_Spec_update (\<lambda>s. s \<lparr> sps_ServiceClassRef := sps_ServiceClassRef (sp_Spec old) \<rparr>) new"

definition serviceplanRESTStrategies :: "ServicePlan rest_strategy" where
  "serviceplanRESTStrategies = \<lparr> rs_meta = sp_Meta, rs_set_meta = (\<lambda>m b. b \<lparr> sp_Meta := m \<rparr>),
     rs_NamespaceScoped = False,
     rs_PrepareForCreate = (\<lambda>ctx c. c),
     rs_Validate = ValidateServicePlan,
     rs_PrepareForUpdate = serviceplan_PrepareForUpdate,
     rs_ValidateUpdate = ValidateServicePlanUpdate,
     rs_CheckGracefulDelete = None,
     rs_EnableGarbageCollection = False \<rparr>"

section \<open>Secrets\<close>

text \<open>The strategy of the core API server for opaque secrets (\<open>k8s.io/kubernetes/pkg/registry/core/secret\<close>).
  It allows unconditional updates, which the registry model leaves out: the controller updates a secret
  only with the resource version it has just read.\<close>
definition IsConfigMapKey :: "string \<Rightarrow> string list" where
  "IsConfigMapKey v =
     (if length v > 253 then [MaxLenError 253] else []) @
     (if v = [] \<or> \<not> list_all (\<lambda>c. c = CHR ''-'' \<or> c = CHR ''.'' \<or> c = CHR ''_'' \<or> is_lower c \<or> is_upper c \<or> is_digit c) v
      then [RegexError ''configMapKey''] else []) @
     (if v = ''.'' then [''must not be '' @ v]
      else if v = ''..'' then [''must not be '' @ v]
      else if take 2 v = ''..'' then [''must not start with '' @ ''..''] else [])"

definition MaxSecretSize :: int where "MaxSecretSize = 1048576"

definition ValidateSecret :: "Secret \<Rightarrow> field_error list" where
  "ValidateSecret s =
     ValidateObjectMeta (sec_Meta s) True NameIsDNSSubdomain ''metadata'' @
     concat (map (\<lambda>(k, v). invalid_each (child ''data'' k) (IsConfigMapKey k)) (sec_Data s)) @
     err_if (sum_list (map (\<lambda>(k, v). int (length v)) (sec_Data s)) > MaxSecretSize)
       (FieldInvalid ''data'' ''Too long'')"

definition ValidateSecretUpdate :: "Secret \<Rightarrow> Secret \<Rightarrow> field_error list" where
  "ValidateSecretUpdate new old =
     ValidateObjectMetaUpdate (sec_Meta new) (sec_Meta old) ''metadata'' @ ValidateSecret new"

definition secretStrategy :: "Secret rest_strategy" where
  "secretStrategy = \<lparr> rs_meta = sec_Meta, rs_set_meta = (\<lambda>m b. b \<lparr> sec_Meta := m \<rparr>),
     rs_NamespaceScoped = True,
     rs_PrepareForCreate = (\<lambda>ctx c. c),
     rs_Validate = ValidateSecret,
     rs_PrepareForUpdate = (\<lambda>ctx new old. new),
     rs_ValidateUpdate = ValidateSecretUpdate,
     rs_CheckGracefulDelete = None,
     rs_EnableGarbageCollection = True \<rparr>"

section \<open>Validity of stored objects\<close>

definition instance_valid :: "yaml_decoder \<Rightarrow> ServiceInstance \<Rightarrow> bool" where
  "instance_valid yaml i \<longleftrightarrow> internalValidateServiceInstance yaml i False = []"

definition credential_valid :: "yaml_decoder \<Rightarrow> ServiceInstanceCredential \<Rightarrow> bool" where
  "credential_valid yaml b \<longleftrightarrow> internalValidateServiceInstanceCredential yaml b False = []"

definition broker_valid :: "ClusterServiceBroker \<Rightarrow> bool" where
  "broker_valid b \<longleftrightarrow> ValidateClusterServiceBroker b = []"

definition class_valid :: "ServiceClass \<Rightarrow> bool" where
  "class_valid c \<longleftrightarrow> internalValidateServiceClass c = []"

definition plan_valid :: "ServicePlan \<Rightarrow> bool" where
  "plan_valid p \<longleftrightarrow> internalValidateServicePlan p = []"

lemma ValidateObjectMeta_evolves:
  "meta_evolves m m' \<Longrightarrow> ValidateObjectMeta m ns f p = [] \<Longrightarrow> ValidateObjectMeta m' ns f p = []"
  by (auto simp: meta_evolves_def ValidateObjectMeta_def ValidateNonnegativeField_def split: if_splits)

lemma generations_ok_mono: "generations_ok r g b \<Longrightarrow> g \<le> g' \<Longrightarrow> generations_ok r g' b"
  by (auto simp: generations_ok_def)

text \<open>An instance or credential that passes the validation for creation is valid as a stored one.\<close>
lemma instance_status_create:
  "validateServiceInstanceStatus yaml st p True = [] \<Longrightarrow>
   ist_CurrentOperation st = InstanceOperationNone \<and> instance_status_ok yaml st"
  by (cases "ist_CurrentOperation st"; cases "ist_InProgressProperties st"; cases "ist_ExternalProperties st")
     (simp_all add: validateServiceInstanceStatus_def instance_status_ok_def properties_ok_def
       validateServiceInstancePropertiesState_def validServiceInstanceOperations_def)

lemma credential_status_create:
  "validateServiceInstanceCredentialStatus yaml st p True = [] \<Longrightarrow>
   crst_CurrentOperation st = CredentialOperationNone \<and> credential_status_ok yaml st"
  by (cases "crst_CurrentOperation st"; cases "crst_InProgressProperties st"; cases "crst_ExternalProperties st")
     (simp_all add: validateServiceInstanceCredentialStatus_def credential_status_ok_def
       credential_properties_ok_def validateServiceInstanceCredentialPropertiesState_def
       validServiceInstanceCredentialOperations_def)

lemma validateServiceInstanceSpec_create:
  "validateServiceInstanceSpec yaml spec p c = validateServiceInstanceSpec yaml spec p c'"
  by (simp add: validateServiceInstanceSpec_def)

lemma ValidateServiceInstance_valid: "ValidateServiceInstance yaml i = [] \<Longrightarrow> instance_valid yaml i"
  using instance_status_create[of yaml "si_Status i" "''status''"]
    validateServiceInstanceSpec_create[of yaml "si_Spec i" "''spec''" True False]
  by (simp add: ValidateServiceInstance_def instance_valid_def internalValidateServiceInstance_def
      validateServiceInstanceCreate_def generations_ok_def)

lemma ValidateServiceInstanceCredential_valid:
  "ValidateServiceInstanceCredential yaml b = [] \<Longrightarrow> credential_valid yaml b"
  using credential_status_create[of yaml "cr_Status b" "''status''"]
  by (simp add: ValidateServiceInstanceCredential_def credential_valid_def
      internalValidateServiceInstanceCredential_def validateServiceInstanceCredentialCreate_def
      validateServiceInstanceCredentialSpec_def generations_ok_def)

lemma instance_valid_evolves:
  "instance_valid yaml i \<Longrightarrow> meta_evolves (si_Meta i) m \<Longrightarrow> instance_valid yaml (i \<lparr> si_Meta := m \<rparr>)"
  using ValidateObjectMeta_evolves[of "si_Meta i" m]
  by (auto simp: instance_valid_def internalValidateServiceInstance_def meta_evolves_def
      intro: generations_ok_mono)

lemma credential_valid_evolves:
  "credential_valid yaml b \<Longrightarrow> meta_evolves (cr_Meta b) m \<Longrightarrow> credential_valid yaml (b \<lparr> cr_Meta := m \<rparr>)"
  using ValidateObjectMeta_evolves[of "cr_Meta b" m]
  by (auto simp: credential_valid_def internalValidateServiceInstanceCredential_def meta_evolves_def
      intro: generations_ok_mono)

lemma instance_valid_user [simp]:
  "instance_valid yaml (setServiceInstanceUserInfo ctx i) = instance_valid yaml i"
  by (simp add: instance_valid_def internalValidateServiceInstance_def setServiceInstanceUserInfo_def
      validateServiceInstanceSpec_def)

lemma credential_valid_user [simp]:
  "credential_valid yaml (setServiceInstanceCredentialUserInfo ctx b) = credential_valid yaml b"
  by (simp add: credential_valid_def internalValidateServiceInstanceCredential_def
      setServiceInstanceCredentialUserInfo_def validateServiceInstanceCredentialSpec_def)

lemma meta_user [simp]:
  "si_Meta (setServiceInstanceUserInfo ctx i) = si_Meta i"
  "cr_Meta (setServiceInstanceCredentialUserInfo ctx b) = cr_Meta b"
  by (simp_all add: setServiceInstanceUserInfo_def setServiceInstanceCredentialUserInfo_def)

text \<open>A client's update of an instance or credential cannot change its spec or status.\<close>
lemma instance_PrepareForUpdate_eq:
  "instance_PrepareForUpdate oi ctx new old = new \<lparr> si_Status := si_Status old, si_Spec := si_Spec old \<rparr>"
  by (simp add: instance_PrepareForUpdate_def Let_def)

lemma binding_PrepareForUpdate_eq:
  "binding_PrepareForUpdate oi ctx new old = new \<lparr> cr_Status := cr_Status old, cr_Spec := cr_Spec old \<rparr>"
  by (simp add: binding_PrepareForUpdate_def Let_def)

section \<open>The strategies satisfy the contract\<close>

lemmas instance_strategy_defs = instanceRESTStrategies_def instanceStatusUpdateStrategy_def
  instanceReferenceUpdateStrategy_def instance_PrepareForCreate_def instance_PrepareForUpdate_eq
  instanceStatus_PrepareForUpdate_def instanceReference_PrepareForUpdate_def
  instance_CheckGracefulDelete_def Let_def

lemmas binding_strategy_defs = bindingRESTStrategies_def bindingStatusUpdateStrategy_def
  binding_PrepareForCreate_def binding_PrepareForUpdate_eq bindingStatus_PrepareForUpdate_def
  binding_CheckGracefulDelete_def Let_def

interpretation inst_store: strategy_contract "instanceRESTStrategies yaml oi" "instance_valid yaml" for yaml oi
  by unfold_locales
    (auto simp: instance_strategy_defs instance_valid_evolves ValidateServiceInstance_valid
      ValidateServiceInstanceUpdate_def instance_valid_def[symmetric] split: if_splits)

interpretation inst_status_store: strategy_contract "instanceStatusUpdateStrategy yaml oi" "instance_valid yaml" for yaml oi
  by unfold_locales
    (auto simp: instance_strategy_defs instance_valid_evolves ValidateServiceInstance_valid
      ValidateServiceInstanceStatusUpdate_def instance_valid_def[symmetric] split: if_splits)

interpretation inst_ref_store: strategy_contract "instanceReferenceUpdateStrategy yaml oi" "instance_valid yaml" for yaml oi
  by unfold_locales
    (auto simp: instance_strategy_defs instance_valid_evolves ValidateServiceInstance_valid
      ValidateServiceInstanceReferencesUpdate_def instance_valid_def[symmetric] split: if_splits)

interpretation cred_store: strategy_contract "bindingRESTStrategies yaml oi" "credential_valid yaml" for yaml oi
  by unfold_locales
    (auto simp: binding_strategy_defs credential_valid_evolves ValidateServiceInstanceCredential_valid
      ValidateServiceInstanceCredentialUpdate_def credential_valid_def[symmetric] split: if_splits)

interpretation cred_status_store: strategy_contract "bindingStatusUpdateStrategy yaml oi" "credential_valid yaml" for yaml oi
  by unfold_locales
    (auto simp: binding_strategy_defs credential_valid_evolves ValidateServiceInstanceCredential_valid
      ValidateServiceInstanceCredentialStatusUpdate_def credential_valid_def[symmetric] split: if_splits)

lemma broker_valid_evolves:
  "broker_valid b \<Longrightarrow> meta_evolves (bk_Meta b) m \<Longrightarrow> broker_valid (b \<lparr> bk_Meta := m \<rparr>)"
  using ValidateObjectMeta_evolves[of "bk_Meta b" m]
  by (simp add: broker_valid_def ValidateClusterServiceBroker_def)

lemma class_valid_evolves:
  "class_valid b \<Longrightarrow> meta_evolves (sc_Meta b) m \<Longrightarrow> class_valid (b \<lparr> sc_Meta := m \<rparr>)"
  using ValidateObjectMeta_evolves[of "sc_Meta b" m]
  by (simp add: class_valid_def internalValidateServiceClass_def)

lemma plan_valid_evolves:
  "plan_valid b \<Longrightarrow> meta_evolves (sp_Meta b) m \<Longrightarrow> plan_valid (b \<lparr> sp_Meta := m \<rparr>)"
  using ValidateObjectMeta_evolves[of "sp_Meta b" m]
  by (simp add: plan_valid_def internalValidateServicePlan_def)

text \<open>A client's update of a broker advances the generation exactly when it changes the spec.\<close>
lemma broker_PrepareForUpdate_meta:
  "bk_Meta (broker_PrepareForUpdate ctx new old) =
     (if bk_Spec new = bk_Spec old then bk_Meta new
      else (bk_Meta new) \<lparr> om_Generation := om_Generation (bk_Meta old) + 1 \<rparr>)"
  by (simp add: broker_PrepareForUpdate_def Let_def)

lemma broker_generation_step:
  assumes "om_Generation (bk_Meta new) = om_Generation (bk_Meta old)"
  shows "\<exists>g \<ge> om_Generation (bk_Meta old).
           bk_Meta (broker_PrepareForUpdate ctx new old) = (bk_Meta new) \<lparr> om_Generation := g \<rparr>"
proof (cases "bk_Spec new = bk_Spec old")
  case True
  then show ?thesis using assms by (intro exI[of _ "om_Generation (bk_Meta old)"])
      (simp add: broker_PrepareForUpdate_meta flip: assms)
next
  case False
  then show ?thesis by (intro exI[of _ "om_Generation (bk_Meta old) + 1"]) (simp add: broker_PrepareForUpdate_meta)
qed

interpretation broker_store: strategy_contract brokerRESTStrategies broker_valid
  by unfold_locales
    (auto simp: brokerRESTStrategies_def broker_PrepareForCreate_def broker_generation_step
      broker_valid_evolves ValidateClusterServiceBrokerUpdate_def broker_valid_def[symmetric])

interpretation broker_status_store: strategy_contract brokerStatusUpdateStrategy broker_valid
  by unfold_locales
    (auto simp: brokerStatusUpdateStrategy_def brokerRESTStrategies_def broker_PrepareForCreate_def
      brokerStatus_PrepareForUpdate_def broker_valid_evolves ValidateClusterServiceBrokerStatusUpdate_def
      ValidateClusterServiceBrokerUpdate_def broker_valid_def[symmetric] split: if_splits)

interpretation class_store: strategy_contract serviceclassRESTStrategies class_valid
  by unfold_locales
    (auto simp: serviceclassRESTStrategies_def serviceclass_PrepareForUpdate_def class_valid_evolves
      ValidateServiceClass_def ValidateServiceClassUpdate_def class_valid_def[symmetric])

interpretation plan_store: strategy_contract serviceplanRESTStrategies plan_valid
  by unfold_locales
    (auto simp: serviceplanRESTStrategies_def serviceplan_PrepareForUpdate_def plan_valid_evolves
      ValidateServicePlan_def ValidateServicePlanUpdate_def plan_valid_def[symmetric])

definition secret_valid :: "Secret \<Rightarrow> bool" where
  "secret_valid s \<longleftrightarrow> ValidateSecret s = []"

lemma secret_valid_evolves:
  "secret_valid b \<Longrightarrow> meta_evolves (sec_Meta b) m \<Longrightarrow> secret_valid (b \<lparr> sec_Meta := m \<rparr>)"
  using ValidateObjectMeta_evolves[of "sec_Meta b" m]
  by (simp add: secret_valid_def ValidateSecret_def)

interpretation secret_store: strategy_contract secretStrategy secret_valid
  by unfold_locales
    (auto simp: secretStrategy_def secret_valid_evolves ValidateSecretUpdate_def secret_valid_def[symmetric])

end
