(* ===== verification/SC_World.thy ===== *)
theory SC_World
  imports SC_Strategies
begin

text \<open>
  The state the controller works on and the environment it runs in.  The state has the stores of the
  API server, the core objects (secrets and namespaces), the informer caches the listers read, and
  the log of the controller's external actions: events, broker requests, writes and operations of the
  polling queue, newest first.  A cache may lag behind the store by any number of writes.

  The environment holds what is not part of the program: the clock, failures of API requests, the
  service brokers behind the Open Service Broker client, the YAML and JSON decoders, the feature gate
  and the retry duration.  Each request consumes one tick, so that an answer may depend on when it
  is asked for; a failed request may or may not have been applied by the server.
\<close>

section \<open>The Open Service Broker client\<close>

datatype AuthConfig = BasicAuthConfig string string | BearerConfig string

record ClientConfiguration =
  cc_Name :: string
  cc_URL :: string
  cc_AuthConfig :: "AuthConfig option"
  cc_EnableAlphaFeatures :: bool
  cc_Insecure :: bool
  cc_CAData :: string

record AlphaOriginatingIdentity =
  oid_Platform :: string
  oid_Value :: string

record ProvisionRequest =
  pr_InstanceID :: string
  pr_AcceptsIncomplete :: bool
  pr_ServiceID :: string
  pr_PlanID :: string
  pr_OrganizationGUID :: string
  pr_SpaceGUID :: string
  pr_Parameters :: json_map
  pr_Context :: json_map
  pr_OriginatingIdentity :: "AlphaOriginatingIdentity option"

record ProvisionResponse =
  prr_Async :: bool
  prr_DashboardURL :: "string option"
  prr_OperationKey :: "string option"

record DeprovisionRequest =
  dr_InstanceID :: string
  dr_AcceptsIncomplete :: bool
  dr_ServiceID :: string
  dr_PlanID :: string
  dr_OriginatingIdentity :: "AlphaOriginatingIdentity option"

record DeprovisionResponse =
  drr_Async :: bool
  drr_OperationKey :: "string option"

record LastOperationRequest =
  lor_InstanceID :: string
  lor_ServiceID :: "string option"
  lor_PlanID :: "string option"
  lor_OperationKey :: "string option"
  lor_OriginatingIdentity :: "AlphaOriginatingIdentity option"

datatype LastOperationState = StateInProgress | StateSucceeded | StateFailed | StateOther string

record LastOperationResponse =
  lorr_State :: LastOperationState
  lorr_Description :: "string option"

record BindResource =
  br_AppGUID :: "string option"
  br_Route :: "string option"

record BindRequest =
  bdr_BindingID :: string
  bdr_InstanceID :: string
  bdr_ServiceID :: string
  bdr_PlanID :: string
  bdr_AppGUID :: "string option"
  bdr_BindResource :: "BindResource option"
  bdr_Parameters :: json_map
  bdr_OriginatingIdentity :: "AlphaOriginatingIdentity option"

record BindResponse =
  bdrr_Credentials :: json_map

record UnbindRequest =
  ubr_InstanceID :: string
  ubr_BindingID :: string
  ubr_ServiceID :: string
  ubr_PlanID :: string
  ubr_OriginatingIdentity :: "AlphaOriginatingIdentity option"

text \<open>A schema is a pointer to a struct whose one field \<open>Parameters\<close> may itself be nil.\<close>
record AlphaServiceInstanceSchema =
  asis_Create :: "json option option"
  asis_Update :: "json option option"

record AlphaServiceBindingSchema =
  asbs_Create :: "json option option"

record AlphaParameterSchemas =
  aps_ServiceInstances :: "AlphaServiceInstanceSchema option"
  aps_ServiceBindings :: "AlphaServiceBindingSchema option"

record osb_Plan =
  opl_ID :: string
  opl_Name :: string
  opl_Description :: string
  opl_Free :: "bool option"
  opl_Bindable :: "bool option"
  opl_Metadata :: "json_map option"
  opl_AlphaParameterSchemas :: "AlphaParameterSchemas option"

record osb_Service =
  osv_ID :: string
  osv_Name :: string
  osv_Description :: string
  osv_Tags :: "string list"
  osv_Requires :: "string list"
  osv_Bindable :: bool
  osv_PlanUpdatable :: "bool option"
  osv_Plans :: "osb_Plan list"
  osv_Metadata :: "json_map option"

type_synonym CatalogResponse = "osb_Service list"

section \<open>The environment\<close>

record env =
  ev_clock :: "nat \<Rightarrow> go_time"
  ev_fault :: "nat \<Rightarrow> (bool \<times> api_reason \<times> string) option"
  ev_uid :: "nat \<Rightarrow> string"
  ev_yaml :: yaml_decoder
  ev_json :: "string \<Rightarrow> go_error + json_map"
  ev_OriginatingIdentity :: bool
  ev_reconciliationRetryDuration :: int
  ev_user :: "UserInfo option"
  ev_newClient :: "nat \<Rightarrow> ClientConfiguration \<Rightarrow> go_error option"
  ev_catalog :: "nat \<Rightarrow> ClientConfiguration \<Rightarrow> go_error + CatalogResponse"
  ev_provision :: "nat \<Rightarrow> ClientConfiguration \<Rightarrow> ProvisionRequest \<Rightarrow> go_error + ProvisionResponse"
  ev_deprovision :: "nat \<Rightarrow> ClientConfiguration \<Rightarrow> DeprovisionRequest \<Rightarrow> go_error + DeprovisionResponse"
  ev_poll :: "nat \<Rightarrow> ClientConfiguration \<Rightarrow> LastOperationRequest \<Rightarrow> go_error + LastOperationResponse"
  ev_bind :: "nat \<Rightarrow> ClientConfiguration \<Rightarrow> BindRequest \<Rightarrow> go_error + BindResponse"
  ev_unbind :: "nat \<Rightarrow> ClientConfiguration \<Rightarrow> UnbindRequest \<Rightarrow> go_error + unit"

section \<open>The state\<close>

datatype event_type = EventTypeNormal | EventTypeWarning

datatype action =
  EventRecorded string event_type string string
| BrokerCatalogCall ClientConfiguration
| BrokerProvisionCall ClientConfiguration ProvisionRequest
| BrokerDeprovisionCall ClientConfiguration DeprovisionRequest
| BrokerPollCall ClientConfiguration LastOperationRequest
| BrokerBindCall ClientConfiguration BindRequest
| BrokerUnbindCall ClientConfiguration UnbindRequest
| InstanceWritten ServiceInstance
| CredentialWritten ServiceInstanceCredential
| PollingAddRateLimited string
| PollingForget string

text \<open>The requests that reach a service broker.\<close>
fun is_broker_call :: "action \<Rightarrow> bool" where
  "is_broker_call (BrokerCatalogCall _) = True"
| "is_broker_call (BrokerProvisionCall _ _) = True"
| "is_broker_call (BrokerDeprovisionCall _ _) = True"
| "is_broker_call (BrokerPollCall _ _) = True"
| "is_broker_call (BrokerBindCall _ _) = True"
| "is_broker_call (BrokerUnbindCall _ _) = True"
| "is_broker_call _ = False"

record world =
  w_tick :: nat
  w_instances :: "ServiceInstance store"
  w_credentials :: "ServiceInstanceCredential store"
  w_brokers :: "ClusterServiceBroker store"
  w_classes :: "ServiceClass store"
  w_plans :: "ServicePlan store"
  w_secrets :: "Secret store"
  w_namespaces :: "(string \<times> string) list"
  w_instanceCache :: "ServiceInstance list"
  w_credentialCache :: "ServiceInstanceCredential list"
  w_brokerCache :: "ClusterServiceBroker list"
  w_classCache :: "ServiceClass list"
  w_planCache :: "ServicePlan list"
  w_log :: "action list"

type_synonym 'a io = "(world, 'a) state"

section \<open>Clock, events and queues\<close>

definition tick :: "nat io" where
  "tick = do { t \<leftarrow> gets w_tick; modify (\<lambda>w. w \<lparr> w_tick := Suc t \<rparr>); State_Monad.return t }"

definition time_Now :: "env \<Rightarrow> go_time io" where
  "time_Now E = do { t \<leftarrow> tick; State_Monad.return (ev_clock E t) }"

definition log_action :: "action \<Rightarrow> unit io" where
  "log_action a = modify (\<lambda>w. w \<lparr> w_log := a # w_log w \<rparr>)"

definition record_event :: "string \<Rightarrow> event_type \<Rightarrow> string \<Rightarrow> string \<Rightarrow> unit io" where
  "record_event obj ty reason msg = log_action (EventRecorded obj ty reason msg)"

text \<open>\<open>MetaNamespaceKeyFunc\<close>: the namespace and the name joined by a slash.\<close>
definition meta_key :: "ObjectMeta \<Rightarrow> string" where
  "meta_key m = (if om_Namespace m = [] then om_Name m else om_Namespace m @ ''/'' @ om_Name m)"

definition SplitMetaNamespaceKey :: "string \<Rightarrow> go_error + (string \<times> string)" where
  "SplitMetaNamespaceKey key = (case split_on CHR ''/'' key of
     [name] \<Rightarrow> Inr ([], name)
   | [ns, name] \<Rightarrow> Inr (ns, name)
   | _ \<Rightarrow> Inl (PlainError (''unexpected key format: '' @ key)))"

section \<open>Listers\<close>

definition lister_get :: "('a \<Rightarrow> ObjectMeta) \<Rightarrow> 'a list \<Rightarrow> string \<Rightarrow> string \<Rightarrow> go_error + 'a" where
  "lister_get meta cache ns name =
     (case find (\<lambda>x. om_Namespace (meta x) = ns \<and> om_Name (meta x) = name) cache of
        None \<Rightarrow> Inl (NewNotFound name)
      | Some x \<Rightarrow> Inr x)"

definition instanceLister_Get :: "string \<Rightarrow> string \<Rightarrow> (go_error + ServiceInstance) io" where
  "instanceLister_Get ns name = gets (\<lambda>w. lister_get si_Meta (w_instanceCache w) ns name)"

definition bindingLister_Get :: "string \<Rightarrow> string \<Rightarrow> (go_error + ServiceInstanceCredential) io" where
  "bindingLister_Get ns name = gets (\<lambda>w. lister_get cr_Meta (w_credentialCache w) ns name)"

text \<open>The list functions of the listers report no error with the empty selector.\<close>
definition bindingLister_List :: "string \<Rightarrow> (go_error + ServiceInstanceCredential list) io" where
  "bindingLister_List ns = gets (\<lambda>w. Inr (filter (\<lambda>b. om_Namespace (cr_Meta b) = ns) (w_credentialCache w)))"

definition brokerLister_Get :: "string \<Rightarrow> (go_error + ClusterServiceBroker) io" where
  "brokerLister_Get name = gets (\<lambda>w. lister_get bk_Meta (w_brokerCache w) [] name)"

definition serviceClassLister_Get :: "string \<Rightarrow> (go_error + ServiceClass) io" where
  "serviceClassLister_Get name = gets (\<lambda>w. lister_get sc_Meta (w_classCache w) [] name)"

definition serviceClassLister_List :: "(go_error + ServiceClass list) io" where
  "serviceClassLister_List = gets (\<lambda>w. Inr (w_classCache w))"

definition servicePlanLister_Get :: "string \<Rightarrow> (go_error + ServicePlan) io" where
  "servicePlanLister_Get name = gets (\<lambda>w. lister_get sp_Meta (w_planCache w) [] name)"

definition servicePlanLister_List :: "(go_error + ServicePlan list) io" where
  "servicePlanLister_List = gets (\<lambda>w. Inr (w_planCache w))"

end
