(* ===== verification/SC_Client.thy ===== *)
theory SC_Client
  imports SC_World
begin

text \<open>
  The API requests of the controller: the typed clients of \<open>serviceCatalogClient\<close> and \<open>kubeClient\<close>
  applied to the stores through the registry and the strategies, and the calls of the broker client.
  The weakest-precondition rules of each request, collected in \<open>wp_rules\<close>, are all that the proofs
  about handlers use of the registry.
\<close>

section \<open>Requests\<close>

text \<open>A request may fail in transport; the server may have applied it nevertheless.\<close>
definition api_request :: "env \<Rightarrow> (world \<Rightarrow> (go_error + 'a) \<times> world) \<Rightarrow> (go_error + 'a) io" where
  "api_request E f = State (\<lambda>w.
     let w1 = w \<lparr> w_tick := Suc (w_tick w) \<rparr> in
     case ev_fault E (w_tick w) of
       None \<Rightarrow> f w1
     | Some (applied, reason, msg) \<Rightarrow> (Inl (StatusError reason msg), if applied then snd (f w1) else w1))"

definition client_ctx :: "env \<Rightarrow> string \<Rightarrow> request_ctx" where
  "client_ctx E ns = \<lparr> ctx_Namespace = ns, ctx_User = ev_user E \<rparr>"

definition instance_write ::
  "env \<Rightarrow> ServiceInstance rest_strategy \<Rightarrow> ServiceInstance \<Rightarrow> world \<Rightarrow> (go_error + ServiceInstance) \<times> world" where
  "instance_write E S i w =
     (let ns = om_Namespace (si_Meta i); (r, st) = Update S (client_ctx E ns) (ns, om_Name (si_Meta i)) i (w_instances w)
      in case r of
           Inl e \<Rightarrow> (Inl e, w)
         | Inr out \<Rightarrow> (Inr out, w \<lparr> w_instances := st, w_log := InstanceWritten out # w_log w \<rparr>))"

definition instances_UpdateStatus :: "env \<Rightarrow> ServiceInstance \<Rightarrow> (go_error + ServiceInstance) io" where
  "instances_UpdateStatus E i =
     api_request E (instance_write E (instanceStatusUpdateStrategy (ev_yaml E) (ev_OriginatingIdentity E)) i)"

definition instances_UpdateReferences :: "env \<Rightarrow> ServiceInstance \<Rightarrow> (go_error + ServiceInstance) io" where
  "instances_UpdateReferences E i =
     api_request E (instance_write E (instanceReferenceUpdateStrategy (ev_yaml E) (ev_OriginatingIdentity E)) i)"

definition credential_write ::
  "env \<Rightarrow> ServiceInstanceCredential \<Rightarrow> world \<Rightarrow> (go_error + ServiceInstanceCredential) \<times> world" where
  "credential_write E b w =
     (let ns = om_Namespace (cr_Meta b);
          (r, st) = Update (bindingStatusUpdateStrategy (ev_yaml E) (ev_OriginatingIdentity E))
                      (client_ctx E ns) (ns, om_Name (cr_Meta b)) b (w_credentials w)
      in case r of
           Inl e \<Rightarrow> (Inl e, w)
         | Inr out \<Rightarrow> (Inr out, w \<lparr> w_credentials := st, w_log := CredentialWritten out # w_log w \<rparr>))"

definition credentials_UpdateStatus :: "env \<Rightarrow> ServiceInstanceCredential \<Rightarrow> (go_error + ServiceInstanceCredential) io" where
  "credentials_UpdateStatus E b = api_request E (credential_write E b)"

definition brokers_UpdateStatus :: "env \<Rightarrow> ClusterServiceBroker \<Rightarrow> (go_error + ClusterServiceBroker) io" where
  "brokers_UpdateStatus E b = api_request E (\<lambda>w.
     let (r, st) = Update brokerStatusUpdateStrategy (client_ctx E []) ([], om_Name (bk_Meta b)) b (w_brokers w)
     in (r, w \<lparr> w_brokers := st \<rparr>))"

definition brokers_Get :: "env \<Rightarrow> string \<Rightarrow> (go_error + ClusterServiceBroker) io" where
  "brokers_Get E name = api_request E (\<lambda>w.
     (case st_objs (w_brokers w) ([], name) of None \<Rightarrow> Inl (NewNotFound name) | Some b \<Rightarrow> Inr b, w))"

definition classes_List :: "env \<Rightarrow> (ServiceClass \<Rightarrow> bool) \<Rightarrow> (go_error + ServiceClass list) io" where
  "classes_List E sel = api_request E (\<lambda>w. (Inr (list_objects sel (w_classes w)), w))"

definition classes_Create :: "env \<Rightarrow> ServiceClass \<Rightarrow> (go_error + ServiceClass) io" where
  "classes_Create E c = api_request E (\<lambda>w.
     let (r, st) = Create serviceclassRESTStrategies (client_ctx E []) (ev_uid E (w_tick w)) c (w_classes w)
     in (r, w \<lparr> w_classes := st \<rparr>))"

definition classes_Update :: "env \<Rightarrow> ServiceClass \<Rightarrow> (go_error + ServiceClass) io" where
  "classes_Update E c = api_request E (\<lambda>w.
     let (r, st) = Update serviceclassRESTStrategies (client_ctx E []) ([], om_Name (sc_Meta c)) c (w_classes w)
     in (r, w \<lparr> w_classes := st \<rparr>))"

text \<open>The zero value of \<open>metav1.DeleteOptions\<close>.\<close>
definition empty_delete_options :: delete_options where
  "empty_delete_options = \<lparr> do_GracePeriodSeconds = None, do_PreconditionUID = None,
     do_OrphanDependents = None, do_PropagationPolicy = None \<rparr>"

definition classes_Delete :: "env \<Rightarrow> string \<Rightarrow> (go_error + unit) io" where
  "classes_Delete E name = api_request E (\<lambda>w.
     let (r, st) = Delete serviceclassRESTStrategies (client_ctx E []) (ev_clock E (w_tick w)) ([], name)
                     empty_delete_options (w_classes w)
     in (r, w \<lparr> w_classes := st \<rparr>))"

definition plans_List :: "env \<Rightarrow> (ServicePlan \<Rightarrow> bool) \<Rightarrow> (go_error + ServicePlan list) io" where
  "plans_List E sel = api_request E (\<lambda>w. (Inr (list_objects sel (w_plans w)), w))"

definition plans_Create :: "env \<Rightarrow> ServicePlan \<Rightarrow> (go_error + ServicePlan) io" where
  "plans_Create E c = api_request E (\<lambda>w.
     let (r, st) = Create serviceplanRESTStrategies (client_ctx E []) (ev_uid E (w_tick w)) c (w_plans w)
     in (r, w \<lparr> w_plans := st \<rparr>))"

definition plans_Update :: "env \<Rightarrow> ServicePlan \<Rightarrow> (go_error + ServicePlan) io" where
  "plans_Update E c = api_request E (\<lambda>w.
     let (r, st) = Update serviceplanRESTStrategies (client_ctx E []) ([], om_Name (sp_Meta c)) c (w_plans w)
     in (r, w \<lparr> w_plans := st \<rparr>))"

definition plans_Delete :: "env \<Rightarrow> string \<Rightarrow> (go_error + unit) io" where
  "plans_Delete E name = api_request E (\<lambda>w.
     let (r, st) = Delete serviceplanRESTStrategies (client_ctx E []) (ev_clock E (w_tick w)) ([], name)
                     empty_delete_options (w_plans w)
     in (r, w \<lparr> w_plans := st \<rparr>))"

definition secrets_Get :: "env \<Rightarrow> string \<Rightarrow> string \<Rightarrow> (go_error + Secret) io" where
  "secrets_Get E ns name = api_request E (\<lambda>w.
     (case st_objs (w_secrets w) (ns, name) of None \<Rightarrow> Inl (NewNotFound name) | Some b \<Rightarrow> Inr b, w))"

definition secrets_Create :: "env \<Rightarrow> string \<Rightarrow> Secret \<Rightarrow> (go_error + Secret) io" where
  "secrets_Create E ns s = api_request E (\<lambda>w.
     let (r, st) = Create secretStrategy (client_ctx E ns) (ev_uid E (w_tick w)) s (w_secrets w)
     in (r, w \<lparr> w_secrets := st \<rparr>))"

definition secrets_Update :: "env \<Rightarrow> string \<Rightarrow> Secret \<Rightarrow> (go_error + Secret) io" where
  "secrets_Update E ns s = api_request E (\<lambda>w.
     let (r, st) = Update secretStrategy (client_ctx E ns) (ns, om_Name (sec_Meta s)) s (w_secrets w)
     in (r, w \<lparr> w_secrets := st \<rparr>))"

definition secrets_Delete :: "env \<Rightarrow> string \<Rightarrow> string \<Rightarrow> (go_error + unit) io" where
  "secrets_Delete E ns name = api_request E (\<lambda>w.
     let (r, st) = Delete secretStrategy (client_ctx E ns) (ev_clock E (w_tick w)) (ns, name)
                     empty_delete_options (w_secrets w)
     in (r, w \<lparr> w_secrets := st \<rparr>))"

text \<open>The UID of a namespace.\<close>
definition namespaces_Get :: "env \<Rightarrow> string \<Rightarrow> (go_error + string) io" where
  "namespaces_Get E name = api_request E (\<lambda>w.
     (case map_of (w_namespaces w) name of None \<Rightarrow> Inl (NewNotFound name) | Some uid \<Rightarrow> Inr uid, w))"

section \<open>Broker calls\<close>

definition brokerClientCreateFunc :: "env \<Rightarrow> ClientConfiguration \<Rightarrow> (go_error + ClientConfiguration) io" where
  "brokerClientCreateFunc E cfg = do {
     t \<leftarrow> tick;
     State_Monad.return (case ev_newClient E t cfg of Some e \<Rightarrow> Inl e | None \<Rightarrow> Inr cfg) }"

definition GetCatalog :: "env \<Rightarrow> ClientConfiguration \<Rightarrow> (go_error + CatalogResponse) io" where
  "GetCatalog E cl = do { t \<leftarrow> tick; log_action (BrokerCatalogCall cl); State_Monad.return (ev_catalog E t cl) }"

definition ProvisionInstance :: "env \<Rightarrow> ClientConfiguration \<Rightarrow> ProvisionRequest \<Rightarrow> (go_error + ProvisionResponse) io" where
  "ProvisionInstance E cl r = do {
     t \<leftarrow> tick; log_action (BrokerProvisionCall cl r); State_Monad.return (ev_provision E t cl r) }"

definition DeprovisionInstance :: "env \<Rightarrow> ClientConfiguration \<Rightarrow> DeprovisionRequest \<Rightarrow> (go_error + DeprovisionResponse) io" where
  "DeprovisionInstance E cl r = do {
     t \<leftarrow> tick; log_action (BrokerDeprovisionCall cl r); State_Monad.return (ev_deprovision E t cl r) }"

definition PollLastOperation :: "env \<Rightarrow> ClientConfiguration \<Rightarrow> LastOperationRequest \<Rightarrow> (go_error + LastOperationResponse) io" where
  "PollLastOperation E cl r = do {
     t \<leftarrow> tick; log_action (BrokerPollCall cl r); State_Monad.return (ev_poll E t cl r) }"

definition Bind :: "env \<Rightarrow> ClientConfiguration \<Rightarrow> BindRequest \<Rightarrow> (go_error + BindResponse) io" where
  "Bind E cl r = do {
     t \<leftarrow> tick; log_action (BrokerBindCall cl r); State_Monad.return (ev_bind E t cl r) }"

definition Unbind :: "env \<Rightarrow> ClientConfiguration \<Rightarrow> UnbindRequest \<Rightarrow> (go_error + unit) io" where
  "Unbind E cl r = do {
     t \<leftarrow> tick; log_action (BrokerUnbindCall cl r); State_Monad.return (ev_unbind E t cl r) }"

section \<open>What requests keep\<close>

lemma run_api_request:
  "snd (run_state (api_request E f) w) =
     (let w1 = w \<lparr> w_tick := Suc (w_tick w) \<rparr> in
      case ev_fault E (w_tick w) of
        Some (False, _) \<Rightarrow> w1
      | _ \<Rightarrow> snd (f w1))"
  by (auto simp: api_request_def Let_def split: option.split)

text \<open>
  A relation between states that advancing the clock and logging an action of \<open>A\<close> respect: every
  handler that only reads and talks to the broker within \<open>A\<close> keeps it, and a handler that writes keeps
  it as soon as its writes do.  Events and operations of the polling queue are always in \<open>A\<close>.
\<close>
locale client_relation = handler_relation R for R :: "world \<Rightarrow> world \<Rightarrow> bool" +
  fixes E :: env and A :: "action \<Rightarrow> bool"
  assumes R_tick: "R w (w \<lparr> w_tick := t \<rparr>)"
    and R_log: "A a \<Longrightarrow> R w (w \<lparr> w_log := a # w_log w \<rparr>)"
    and quiet: "\<not> is_broker_call a \<Longrightarrow> A a"
begin

lemma keeps_tick [keeps_intros]: "keeps R tick"
  by (simp add: keeps_def tick_def R_tick)

lemma keeps_log_action: "A a \<Longrightarrow> keeps R (log_action a)"
  by (simp add: keeps_def log_action_def R_log)

lemma keeps_polling_actions [keeps_intros]:
  "keeps R (log_action (PollingAddRateLimited k))" "keeps R (log_action (PollingForget k))"
  by (simp_all add: keeps_log_action quiet)

lemma keeps_time_Now [keeps_intros]: "keeps R (time_Now E)"
  unfolding time_Now_def by (intro keeps_intros)

lemma keeps_record_event [keeps_intros]: "keeps R (record_event obj ty reason msg)"
  unfolding record_event_def by (simp add: keeps_log_action quiet)

lemma keeps_api_request: "(\<And>w. R w (snd (f w))) \<Longrightarrow> keeps R (api_request E f)"
  unfolding keeps_def run_api_request
  by (auto simp: Let_def R_tick intro: trans_R[OF R_tick] split: option.split bool.split)

lemma keeps_reads [keeps_intros]:
  "keeps R (brokers_Get E name)" "keeps R (classes_List E sel)" "keeps R (plans_List E psel)"
  "keeps R (secrets_Get E ns name)" "keeps R (namespaces_Get E name)"
  unfolding brokers_Get_def classes_List_def plans_List_def secrets_Get_def namespaces_Get_def
  by (rule keeps_api_request, simp add: refl_R)+

lemma keeps_listers [keeps_intros]:
  "keeps R (instanceLister_Get ns name)" "keeps R (bindingLister_Get ns name)" "keeps R (bindingLister_List ns)"
  "keeps R (brokerLister_Get name)" "keeps R (serviceClassLister_Get name)" "keeps R serviceClassLister_List"
  "keeps R (servicePlanLister_Get name)" "keeps R servicePlanLister_List"
  unfolding instanceLister_Get_def bindingLister_Get_def bindingLister_List_def brokerLister_Get_def
    serviceClassLister_Get_def serviceClassLister_List_def servicePlanLister_Get_def servicePlanLister_List_def
  by (rule keeps_gets)+

lemma keeps_brokerClientCreateFunc [keeps_intros]: "keeps R (brokerClientCreateFunc E cfg)"
  unfolding brokerClientCreateFunc_def by (intro keeps_intros)

lemma keeps_broker_calls [keeps_intros]:
  "A (BrokerCatalogCall cl) \<Longrightarrow> keeps R (GetCatalog E cl)"
  "A (BrokerProvisionCall cl pr) \<Longrightarrow> keeps R (ProvisionInstance E cl pr)"
  "A (BrokerDeprovisionCall cl dr) \<Longrightarrow> keeps R (DeprovisionInstance E cl dr)"
  "A (BrokerPollCall cl lor) \<Longrightarrow> keeps R (PollLastOperation E cl lor)"
  "A (BrokerBindCall cl bdr) \<Longrightarrow> keeps R (Bind E cl bdr)"
  "A (BrokerUnbindCall cl ubr) \<Longrightarrow> keeps R (Unbind E cl ubr)"
  unfolding GetCatalog_def ProvisionInstance_def DeprovisionInstance_def PollLastOperation_def Bind_def Unbind_def
  by (intro keeps_intros keeps_log_action; assumption)+

end

section \<open>The key of what a write returns\<close>

definition inst_key :: "ServiceInstance \<Rightarrow> store_key" where
  "inst_key i = (om_Namespace (si_Meta i), om_Name (si_Meta i))"

definition cred_key :: "ServiceInstanceCredential \<Rightarrow> store_key" where
  "cred_key b = (om_Namespace (cr_Meta b), om_Name (cr_Meta b))"

lemma inst_key_update [simp]:
  "inst_key (si_Status_update f i) = inst_key i" "inst_key (si_Spec_update g i) = inst_key i"
  by (simp_all add: inst_key_def)

lemma cred_key_update [simp]:
  "cred_key (cr_Status_update f b) = cred_key b" "cred_key (cr_Spec_update g b) = cred_key b"
  by (simp_all add: cred_key_def)

lemma results_api_request: "Inr a \<in> results (api_request E f) \<Longrightarrow> \<exists>w. fst (f w) = Inr a"
  by (auto simp: results_def api_request_def Let_def split: option.splits) (metis fst_conv)

lemma instance_write_key:
  assumes "fst (instance_write E S i w) = Inr j"
    and "strategy_contract S valid" "rs_meta S = si_Meta" "rs_NamespaceScoped S"
  shows "inst_key j = inst_key i"
  using assms(1) strategy_contract.Update_key[OF assms(2)] assms(3,4)
  by (auto simp: instance_write_def inst_key_def client_ctx_def Let_def split: sum.splits prod.splits)

lemma results_instances_UpdateStatus: "Inr j \<in> results (instances_UpdateStatus E i) \<Longrightarrow> inst_key j = inst_key i"
  unfolding instances_UpdateStatus_def
  by (drule results_api_request, elim exE, rule instance_write_key[OF _ inst_status_store.strategy_contract_axioms])
    (auto simp: instanceStatusUpdateStrategy_def instanceRESTStrategies_def)

lemma results_instances_UpdateReferences: "Inr j \<in> results (instances_UpdateReferences E i) \<Longrightarrow> inst_key j = inst_key i"
  unfolding instances_UpdateReferences_def
  by (drule results_api_request, elim exE, rule instance_write_key[OF _ inst_ref_store.strategy_contract_axioms])
    (auto simp: instanceReferenceUpdateStrategy_def instanceRESTStrategies_def)

lemma credential_write_key: "fst (credential_write E b w) = Inr c \<Longrightarrow> cred_key c = cred_key b"
proof -
  let ?S = "bindingStatusUpdateStrategy (ev_yaml E) (ev_OriginatingIdentity E)"
  let ?u = "Update ?S (client_ctx E (om_Namespace (cr_Meta b))) (cred_key b) b (w_credentials w)"
  have S: "rs_meta ?S = cr_Meta" "rs_NamespaceScoped ?S"
    by (simp_all add: bindingStatusUpdateStrategy_def bindingRESTStrategies_def)
  assume "fst (credential_write E b w) = Inr c"
  then have "?u = (Inr c, snd ?u)"
    by (cases ?u) (auto simp: credential_write_def cred_key_def split: sum.splits)
  then show ?thesis
    using cred_status_store.Update_key(1,2) S by (fastforce simp: cred_key_def client_ctx_def)
qed

lemma results_credentials_UpdateStatus: "Inr c \<in> results (credentials_UpdateStatus E b) \<Longrightarrow> cred_key c = cred_key b"
  unfolding credentials_UpdateStatus_def by (drule results_api_request) (auto dest: credential_write_key)

text \<open>The entry of a store before and after: unchanged in kind, gone, or evolved; never created.\<close>
definition stored_evolves :: "('a \<Rightarrow> 'a \<Rightarrow> bool) \<Rightarrow> 'a option \<Rightarrow> 'a option \<Rightarrow> bool" where
  "stored_evolves ev x y = (case y of None \<Rightarrow> True | Some b \<Rightarrow> (case x of None \<Rightarrow> False | Some a \<Rightarrow> ev a b))"

lemma stored_evolves_refl: "(\<And>a. ev a a) \<Longrightarrow> stored_evolves ev x x"
  by (simp add: stored_evolves_def split: option.split)

lemma stored_evolves_trans:
  "(\<And>a b c. ev a b \<Longrightarrow> ev b c \<Longrightarrow> ev a c) \<Longrightarrow> stored_evolves ev x y \<Longrightarrow> stored_evolves ev y z \<Longrightarrow> stored_evolves ev x z"
  by (auto simp: stored_evolves_def split: option.splits)

section \<open>The invariant of the stores\<close>

definition world_ok :: "env \<Rightarrow> world \<Rightarrow> bool" where
  "world_ok E w \<longleftrightarrow>
     store_ok (instanceRESTStrategies (ev_yaml E) (ev_OriginatingIdentity E)) (instance_valid (ev_yaml E)) (w_instances w) \<and>
     store_ok (bindingRESTStrategies (ev_yaml E) (ev_OriginatingIdentity E)) (credential_valid (ev_yaml E)) (w_credentials w) \<and>
     store_ok brokerRESTStrategies broker_valid (w_brokers w) \<and>
     store_ok serviceclassRESTStrategies class_valid (w_classes w) \<and>
     store_ok serviceplanRESTStrategies plan_valid (w_plans w) \<and>
     store_ok secretStrategy secret_valid (w_secrets w)"

text \<open>The invariant of a store depends on the accessors of the strategy only, so that the strategies
  of the subresources keep the invariant of the resource.\<close>
lemma store_ok_cong:
  "rs_meta S = rs_meta S' \<Longrightarrow> rs_EnableGarbageCollection S = rs_EnableGarbageCollection S' \<Longrightarrow>
   store_ok S valid st = store_ok S' valid st"
  by (simp add: store_ok_def key_of_def)

lemma store_ok_subresource:
  "store_ok (instanceStatusUpdateStrategy yaml oi) v st = store_ok (instanceRESTStrategies yaml oi) v st"
  "store_ok (instanceReferenceUpdateStrategy yaml oi) v st = store_ok (instanceRESTStrategies yaml oi) v st"
  "store_ok (bindingStatusUpdateStrategy yaml oi) vc stc = store_ok (bindingRESTStrategies yaml oi) vc stc"
  "store_ok brokerStatusUpdateStrategy vb stb = store_ok brokerRESTStrategies vb stb"
  by (rule store_ok_cong;
      simp add: instanceStatusUpdateStrategy_def instanceReferenceUpdateStrategy_def bindingStatusUpdateStrategy_def
        brokerStatusUpdateStrategy_def)+

lemma world_ok_tick [simp]: "world_ok E (w \<lparr> w_tick := t \<rparr>) = world_ok E w"
  and world_ok_log [simp]: "world_ok E (w \<lparr> w_log := l \<rparr>) = world_ok E w"
  by (simp_all add: world_ok_def)

interpretation ok_rel: client_relation "inv_rel (world_ok E)" E "\<lambda>_. True" for E
  by unfold_locales (auto simp: inv_rel_def)

lemma store_update_pair: "store_ok S v (snd p) \<Longrightarrow> p = (r, st) \<Longrightarrow> store_ok S v st"
  by simp

lemma world_ok_instance_write:
  assumes "strategy_contract S (instance_valid (ev_yaml E))"
    and "store_ok S (instance_valid (ev_yaml E)) = store_ok (instanceRESTStrategies (ev_yaml E) (ev_OriginatingIdentity E)) (instance_valid (ev_yaml E))"
    and "world_ok E w"
  shows "world_ok E (snd (instance_write E S i w))"
proof -
  have "store_ok S (instance_valid (ev_yaml E)) (snd (Update S (client_ctx E (om_Namespace (si_Meta i)))
      (om_Namespace (si_Meta i), om_Name (si_Meta i)) i (w_instances w)))"
    using assms by (intro strategy_contract.Update_store_ok[OF assms(1)]) (simp add: world_ok_def)
  then show ?thesis
    using assms(2,3) by (auto simp: instance_write_def Let_def world_ok_def split: prod.splits sum.splits)
qed

lemma keeps_world_ok_instance [keeps_intros]:
  "keeps (inv_rel (world_ok E)) (instances_UpdateStatus E i)"
  "keeps (inv_rel (world_ok E)) (instances_UpdateReferences E i)"
  unfolding instances_UpdateStatus_def instances_UpdateReferences_def
  by (rule ok_rel.keeps_api_request, simp add: inv_rel_def world_ok_instance_write store_ok_subresource fun_eq_iff
      inst_status_store.strategy_contract_axioms inst_ref_store.strategy_contract_axioms)+

lemma keeps_world_ok_credential [keeps_intros]: "keeps (inv_rel (world_ok E)) (credentials_UpdateStatus E b)"
  unfolding credentials_UpdateStatus_def
  by (rule ok_rel.keeps_api_request)
    (auto simp: inv_rel_def credential_write_def Let_def world_ok_def split: prod.splits sum.splits
      intro: store_update_pair[OF cred_status_store.Update_store_ok[unfolded store_ok_subresource]])

lemma keeps_world_ok_other [keeps_intros]:
  "keeps (inv_rel (world_ok E)) (brokers_UpdateStatus E b)"
  "keeps (inv_rel (world_ok E)) (classes_Create E c)" "keeps (inv_rel (world_ok E)) (classes_Update E c)"
  "keeps (inv_rel (world_ok E)) (classes_Delete E name)"
  "keeps (inv_rel (world_ok E)) (plans_Create E p)" "keeps (inv_rel (world_ok E)) (plans_Update E p)"
  "keeps (inv_rel (world_ok E)) (plans_Delete E name)"
  "keeps (inv_rel (world_ok E)) (secrets_Create E ns s)" "keeps (inv_rel (world_ok E)) (secrets_Update E ns s)"
  "keeps (inv_rel (world_ok E)) (secrets_Delete E ns name)"
  unfolding brokers_UpdateStatus_def classes_Create_def classes_Update_def classes_Delete_def plans_Create_def
    plans_Update_def plans_Delete_def secrets_Create_def secrets_Update_def secrets_Delete_def
  by (rule ok_rel.keeps_api_request,
      auto simp: inv_rel_def Let_def world_ok_def split: prod.splits
        intro: store_update_pair[OF broker_status_store.Update_store_ok[unfolded store_ok_subresource]]
          store_update_pair[OF class_store.Create_store_ok] store_update_pair[OF class_store.Update_store_ok]
          store_update_pair[OF class_store.Delete_store_ok]
          store_update_pair[OF plan_store.Create_store_ok] store_update_pair[OF plan_store.Update_store_ok]
          store_update_pair[OF plan_store.Delete_store_ok]
          store_update_pair[OF secret_store.Create_store_ok] store_update_pair[OF secret_store.Update_store_ok]
          store_update_pair[OF secret_store.Delete_store_ok])+

end
