(* ===== verification/SC_Encoding.thy ===== *)
theory SC_Encoding
  imports SC_FieldValidation "HOL-Library.Word"
begin

text \<open>
  The parts of the Go standard library behind parameter checksums and secret data: \<open>json.Marshal\<close> on
  values of type \<open>interface{}\<close> (sorted object keys, HTML-safe escaping, replacement of invalid UTF-8),
  \<open>sha256.Sum256\<close> and the printing verb \<open>%x\<close>.  Numbers are carried by their printed text.
\<close>

unbundle bit_operations_syntax

section \<open>json.Marshal\<close>

definition hex_digit :: "nat \<Rightarrow> char" where
  "hex_digit n = (if n < 10 then char_of (48 + n) else char_of (87 + n))"

definition byte_of :: "char \<Rightarrow> nat" where
  "byte_of c = of_char c"

definition backslash :: char where "backslash = CHR 0x5C"
definition quote_char :: char where "quote_char = CHR 0x22"

text \<open>One byte below 128.\<close>
definition escape_ascii :: "char \<Rightarrow> string" where
  "escape_ascii c =
     (if c = backslash \<or> c = quote_char then [backslash, c]
      else if c = CHR 0x0A then [backslash, CHR ''n'']
      else if c = CHR 0x0D then [backslash, CHR ''r'']
      else if c = CHR 0x09 then [backslash, CHR ''t'']
      else if byte_of c < 32 \<or> c = CHR ''<'' \<or> c = CHR ''>'' \<or> c = CHR 0x26
      then [backslash, CHR ''u'', CHR ''0'', CHR ''0'', hex_digit (byte_of c div 16), hex_digit (byte_of c mod 16)]
      else [c])"

definition in_range :: "nat \<Rightarrow> nat \<Rightarrow> nat \<Rightarrow> bool" where
  "in_range lo hi b \<longleftrightarrow> lo \<le> b \<and> b \<le> hi"

text \<open>The size of the multi-byte rune a string begins with, 0 when it is not valid UTF-8.\<close>
definition rune_size :: "string \<Rightarrow> nat" where
  "rune_size s = (case map byte_of s of
     b0 # b1 # rest \<Rightarrow>
       if in_range 0xC2 0xDF b0 then (if in_range 0x80 0xBF b1 then 2 else 0)
       else if in_range 0xE0 0xEF b0 then
         (case rest of
            b2 # _ \<Rightarrow>
              if in_range (if b0 = 0xE0 then 0xA0 else 0x80) (if b0 = 0xED then 0x9F else 0xBF) b1
                 \<and> in_range 0x80 0xBF b2 then 3 else 0
          | [] \<Rightarrow> 0)
       else if in_range 0xF0 0xF4 b0 then
         (case rest of
            b2 # b3 # _ \<Rightarrow>
              if in_range (if b0 = 0xF0 then 0x90 else 0x80) (if b0 = 0xF4 then 0x8F else 0xBF) b1
                 \<and> in_range 0x80 0xBF b2 \<and> in_range 0x80 0xBF b3 then 4 else 0
          | _ \<Rightarrow> 0)
       else 0
   | _ \<Rightarrow> 0)"

text \<open>U+2028 and U+2029 are escaped.\<close>
definition is_line_separator :: "string \<Rightarrow> bool" where
  "is_line_separator s \<longleftrightarrow> (case map byte_of s of
     b0 # b1 # b2 # _ \<Rightarrow> b0 = 0xE2 \<and> b1 = 0x80 \<and> (b2 = 0xA8 \<or> b2 = 0xA9)
   | _ \<Rightarrow> False)"

function escape :: "string \<Rightarrow> string" where
  "escape [] = []"
| "escape (c # s) =
     (if byte_of c < 128 then escape_ascii c @ escape s
      else if rune_size (c # s) = 0
      then [backslash, CHR ''u'', CHR ''f'', CHR ''f'', CHR ''f'', CHR ''d''] @ escape s
      else if is_line_separator (c # s)
      then [backslash, CHR ''u'', CHR ''2'', CHR ''0'', CHR ''2'', hex_digit (byte_of (s ! 1) mod 16)] @ escape (drop 2 s)
      else take (rune_size (c # s)) (c # s) @ escape (drop (rune_size (c # s) - 1) s))"
  by pat_completeness auto
termination by (relation "measure length") auto

definition quote_string :: "string \<Rightarrow> string" where
  "quote_string s = quote_char # escape s @ [quote_char]"

fun join_with :: "string \<Rightarrow> string list \<Rightarrow> string" where
  "join_with sep [] = []"
| "join_with sep [x] = x"
| "join_with sep (x # y # ys) = x @ sep @ join_with sep (y # ys)"

fun json_text :: "json \<Rightarrow> string" where
  "json_text JNull = ''null''"
| "json_text (JBool b) = (if b then ''true'' else ''false'')"
| "json_text (JNum n) = n"
| "json_text (JStr s) = quote_string s"
| "json_text (JArr vs) = ''['' @ join_with '','' (map json_text vs) @ '']''"
| "json_text (JObj kvs) =
     ''{'' @ join_with '',''
       (map (\<lambda>(k, t). quote_string k @ '':'' @ t) (sort_key fst (map (\<lambda>(k, v). (k, json_text v)) kvs))) @ ''}''"

text \<open>\<open>json.Marshal\<close>: a value decoded from JSON always marshals.\<close>
definition json_Marshal :: "json \<Rightarrow> go_error + string" where
  "json_Marshal v = Inr (json_text v)"

section \<open>sha256.Sum256\<close>

type_synonym w32 = "32 word"

text \<open>The round constants and the initial state are the first 32 bits of the fractional parts of the cube
  and square roots of the first primes; they are computed rather than listed.\<close>
definition small_primes :: "nat list" where
  "small_primes = filter (\<lambda>n. list_all (\<lambda>d. n mod d \<noteq> 0) [2..<n]) [2..<312]"

text \<open>The integer root, bit by bit from the top: the greatest \<open>r\<close> below \<open>2 ^ 40\<close> with \<open>r ^ k \<le> n\<close>.\<close>
definition integer_root :: "nat \<Rightarrow> nat \<Rightarrow> nat" where
  "integer_root k n = fold (\<lambda>b r. if (r + 2 ^ b) ^ k \<le> n then r + 2 ^ b else r) (rev [0..<40]) 0"

text \<open>The first 32 bits of the fractional part of the \<open>k\<close>-th root of \<open>p\<close>.\<close>
definition root_fraction :: "nat \<Rightarrow> nat \<Rightarrow> w32" where
  "root_fraction k p = of_nat (integer_root k (p * 2 ^ (32 * k)))"

definition sha_K :: "w32 list" where
  "sha_K = map (root_fraction 3) small_primes"

definition sha_init :: "w32 list" where
  "sha_init = map (root_fraction 2) (take 8 small_primes)"

definition rotr :: "nat \<Rightarrow> w32 \<Rightarrow> w32" where
  "rotr n x = (drop_bit n x) OR (push_bit (32 - n) x)"

definition word_of_bytes :: "nat \<Rightarrow> nat \<Rightarrow> nat \<Rightarrow> nat \<Rightarrow> w32" where
  "word_of_bytes a b c d = of_nat (((a * 256 + b) * 256 + c) * 256 + d)"

fun words_of_bytes :: "nat list \<Rightarrow> w32 list" where
  "words_of_bytes (a # b # c # d # rest) = word_of_bytes a b c d # words_of_bytes rest"
| "words_of_bytes _ = []"

text \<open>Padding: a one bit, zeros, and the length in bits as 8 bytes, to a multiple of 64 bytes.\<close>
definition sha_pad :: "nat list \<Rightarrow> nat list" where
  "sha_pad bs = bs @ [0x80] @ replicate ((119 - length bs mod 64) mod 64) 0 @
     map (\<lambda>i. (8 * length bs) div 256 ^ (7 - i) mod 256) [0..<8]"

text \<open>The message schedule, built backwards: the list holds the words from the newest on.\<close>
fun sha_extend :: "nat \<Rightarrow> w32 list \<Rightarrow> w32 list" where
  "sha_extend 0 ws = ws"
| "sha_extend (Suc n) ws =
     (let w15 = ws ! 14; w2 = ws ! 1;
          s0 = rotr 7 w15 XOR rotr 18 w15 XOR drop_bit 3 w15;
          s1 = rotr 17 w2 XOR rotr 19 w2 XOR drop_bit 10 w2
      in sha_extend n ((ws ! 15 + s0 + ws ! 6 + s1) # ws))"

fun sha_round :: "w32 \<times> w32 \<Rightarrow> w32 list \<Rightarrow> w32 list" where
  "sha_round (k, w) [a, b, c, d, e, f, g, h] =
     (let s1 = rotr 6 e XOR rotr 11 e XOR rotr 25 e;
          ch = (e AND f) XOR (NOT e AND g);
          t1 = h + s1 + ch + k + w;
          s0 = rotr 2 a XOR rotr 13 a XOR rotr 22 a;
          maj = (a AND b) XOR (a AND c) XOR (b AND c);
          t2 = s0 + maj
      in [t1 + t2, a, b, c, d + t1, e, f, g])"
| "sha_round _ st = st"

definition sha_block :: "w32 list \<Rightarrow> w32 list \<Rightarrow> w32 list" where
  "sha_block h block =
     map2 (+) h (fold sha_round (zip sha_K (rev (sha_extend 48 (rev block)))) h)"

fun sha_blocks :: "nat \<Rightarrow> w32 list \<Rightarrow> w32 list \<Rightarrow> w32 list" where
  "sha_blocks 0 h ws = h"
| "sha_blocks (Suc n) h ws = sha_blocks n (sha_block h (take 16 ws)) (drop 16 ws)"

definition sha256_Sum256 :: "string \<Rightarrow> w32 list" where
  "sha256_Sum256 s = (let ws = words_of_bytes (sha_pad (map byte_of s)) in sha_blocks (length ws div 16) sha_init ws)"

text \<open>The verb \<open>%x\<close> of a byte array: two lower-case digits per byte.\<close>
definition hex_word :: "w32 \<Rightarrow> string" where
  "hex_word w = map (\<lambda>i. hex_digit (unat w div 16 ^ (7 - i) mod 16)) [0..<8]"

definition hex_sum :: "w32 list \<Rightarrow> string" where
  "hex_sum ws = concat (map hex_word ws)"

section \<open>The checksum is always 64 hexadecimal digits\<close>

lemma length_sha_round: "length (sha_round kw st) = length st"
  by (induction kw st rule: sha_round.induct) (simp_all add: Let_def)

lemma length_fold_sha_round: "length (fold sha_round kws st) = length st"
  by (induction kws arbitrary: st) (simp_all add: length_sha_round)

lemma length_sha_blocks: "length h = 8 \<Longrightarrow> length (sha_blocks n h ws) = 8"
  by (induction n arbitrary: h ws) (simp_all add: sha_block_def length_fold_sha_round)

lemma eight_primes:
  fixes k :: nat
  shows "8 \<le> length (filter (\<lambda>n :: nat. list_all (\<lambda>d. n mod d \<noteq> 0) [2..<n]) [2..<20 + k])"
proof -
  let ?P = "\<lambda>n :: nat. list_all (\<lambda>d. n mod d \<noteq> 0) [2..<n]"
  have "[2..<20 + k] = [2..<20] @ [20..<20 + k]" by (rule upt_add_eq_append) simp
  moreover have "length (filter ?P [2..<20]) = 8" by code_simp
  ultimately show ?thesis by (simp del: upt_rec_numeral)
qed

lemma length_sha_init: "length sha_init = 8"
  using eight_primes[of 292] unfolding sha_init_def small_primes_def by (simp del: upt_rec_numeral)

lemma length_sha256 [simp]: "length (sha256_Sum256 s) = 8"
  by (simp add: sha256_Sum256_def Let_def length_sha_blocks length_sha_init)

lemma hex_digit_xdigit: "n < 16 \<Longrightarrow> is_xdigit (hex_digit n)"
  by (auto simp: hex_digit_def is_xdigit_def is_digit_def less_eq_char_def)

lemma length_hex_sum: "length (hex_sum ws) = 8 * length ws"
  by (induction ws) (simp_all add: hex_sum_def hex_word_def)

lemma hex_sum_xdigits: "list_all is_xdigit (hex_sum ws)"
  by (auto simp: hex_sum_def hex_word_def list_all_iff intro: hex_digit_xdigit)

end
