(* ===== verification/SC_Constants.thy ===== *)
theory SC_Constants
  imports SC_Types
begin

text \<open>
  The reasons and messages the controllers put into conditions and events (the constant block of
  \<open>pkg/controller/controller_broker.go\<close>), and the small text builders that stand for the formats of
  \<open>fmt.Sprintf\<close> in the handlers.  Proofs about handlers never unfold them.
\<close>

section \<open>Reasons and messages\<close>

definition errorFetchingCatalogReason :: string where "errorFetchingCatalogReason = ''ErrorFetchingCatalog''"
definition errorFetchingCatalogMessage :: string where "errorFetchingCatalogMessage = ''Error fetching catalog. ''"
definition errorSyncingCatalogReason :: string where "errorSyncingCatalogReason = ''ErrorSyncingCatalog''"
definition errorSyncingCatalogMessage :: string where "errorSyncingCatalogMessage = ''Error syncing catalog from ServiceBroker. ''"
definition errorWithParameters :: string where "errorWithParameters = ''ErrorWithParameters''"
definition errorListingServiceClassesReason :: string where "errorListingServiceClassesReason = ''ErrorListingServiceClasses''"
definition errorListingServiceClassesMessage :: string where "errorListingServiceClassesMessage = ''Error listing service classes.''"
definition errorListingServicePlansReason :: string where "errorListingServicePlansReason = ''ErrorListingServicePlans''"
definition errorListingServicePlansMessage :: string where "errorListingServicePlansMessage = ''Error listing service plans.''"
definition errorDeletingServiceClassReason :: string where "errorDeletingServiceClassReason = ''ErrorDeletingServiceClass''"
definition errorDeletingServiceClassMessage :: string where "errorDeletingServiceClassMessage = ''Error deleting service class.''"
definition errorDeletingServicePlanReason :: string where "errorDeletingServicePlanReason = ''ErrorDeletingServicePlan''"
definition errorDeletingServicePlanMessage :: string where "errorDeletingServicePlanMessage = ''Error deleting service plan.''"
definition errorNonexistentServiceClassReason :: string where "errorNonexistentServiceClassReason = ''ReferencesNonexistentServiceClass''"
definition errorNonexistentServiceClassMessage :: string where "errorNonexistentServiceClassMessage = ''ReferencesNonexistentServiceClass''"
definition errorNonexistentServicePlanReason :: string where "errorNonexistentServicePlanReason = ''ReferencesNonexistentServicePlan''"
definition errorNonexistentClusterServiceBrokerReason :: string where "errorNonexistentClusterServiceBrokerReason = ''ReferencesNonexistentBroker''"
definition errorNonexistentServiceInstanceReason :: string where "errorNonexistentServiceInstanceReason = ''ReferencesNonexistentInstance''"
definition errorAuthCredentialsReason :: string where "errorAuthCredentialsReason = ''ErrorGettingAuthCredentials''"
definition errorFindingNamespaceServiceInstanceReason :: string where "errorFindingNamespaceServiceInstanceReason = ''ErrorFindingNamespaceForInstance''"
definition errorProvisionCallFailedReason :: string where "errorProvisionCallFailedReason = ''ProvisionCallFailed''"
definition errorErrorCallingProvisionReason :: string where "errorErrorCallingProvisionReason = ''ErrorCallingProvision''"
definition errorDeprovisionCalledReason :: string where "errorDeprovisionCalledReason = ''DeprovisionCallFailed''"
definition errorDeprovisionBlockedByCredentialsReason :: string where "errorDeprovisionBlockedByCredentialsReason = ''DeprovisionBlockedByExistingCredentials''"
definition errorBindCallReason :: string where "errorBindCallReason = ''BindCallFailed''"
definition errorInjectingBindResultReason :: string where "errorInjectingBindResultReason = ''ErrorInjectingBindResult''"
definition errorEjectingBindReason :: string where "errorEjectingBindReason = ''ErrorEjectingServiceInstanceCredential''"
definition errorEjectingBindMessage :: string where "errorEjectingBindMessage = ''Error ejecting binding.''"
definition errorUnbindCallReason :: string where "errorUnbindCallReason = ''UnbindCallFailed''"
definition errorWithOngoingAsyncOperation :: string where "errorWithOngoingAsyncOperation = ''ErrorAsyncOperationInProgress''"
definition errorWithOngoingAsyncOperationMessage :: string where "errorWithOngoingAsyncOperationMessage = ''Another operation for this service instance is in progress. ''"
definition errorNonbindableServiceClassReason :: string where "errorNonbindableServiceClassReason = ''ErrorNonbindableServiceClass''"
definition errorServiceInstanceNotReadyReason :: string where "errorServiceInstanceNotReadyReason = ''ErrorInstanceNotReady''"
definition errorPollingLastOperationReason :: string where "errorPollingLastOperationReason = ''ErrorPollingLastOperation''"
definition errorWithOriginatingIdentity :: string where "errorWithOriginatingIdentity = ''Error with Originating Identity''"
definition errorReconciliationRetryTimeoutReason :: string where "errorReconciliationRetryTimeoutReason = ''ErrorReconciliationRetryTimeout''"
definition errorServiceInstanceCredentialOrphanMitigation :: string where "errorServiceInstanceCredentialOrphanMitigation = ''ServiceInstanceCredentialNeedsOrphanMitigation''"
definition errorOrphanMigitationReason :: string where "errorOrphanMigitationReason = ''OrphanMitigationFailed''"
definition successInjectedBindResultReason :: string where "successInjectedBindResultReason = ''InjectedBindResult''"
definition successInjectedBindResultMessage :: string where "successInjectedBindResultMessage = ''Injected bind result''"
definition successDeprovisionReason :: string where "successDeprovisionReason = ''DeprovisionedSuccessfully''"
definition successDeprovisionMessage :: string where "successDeprovisionMessage = ''The instance was deprovisioned successfully''"
definition successProvisionReason :: string where "successProvisionReason = ''ProvisionedSuccessfully''"
definition successProvisionMessage :: string where "successProvisionMessage = ''The instance was provisioned successfully''"
definition successFetchedCatalogReason :: string where "successFetchedCatalogReason = ''FetchedCatalog''"
definition successFetchedCatalogMessage :: string where "successFetchedCatalogMessage = ''Successfully fetched catalog entries from broker.''"
definition successClusterServiceBrokerDeletedReason :: string where "successClusterServiceBrokerDeletedReason = ''DeletedSuccessfully''"
definition successClusterServiceBrokerDeletedMessage :: string where "successClusterServiceBrokerDeletedMessage = ''The broker %v was deleted successfully.''"
definition successUnboundReason :: string where "successUnboundReason = ''UnboundSuccessfully''"
definition successOrphanMitigationReason :: string where "successOrphanMitigationReason = ''OrphanMitigationSuccessful''"
definition asyncProvisioningReason :: string where "asyncProvisioningReason = ''Provisioning''"
definition asyncProvisioningMessage :: string where "asyncProvisioningMessage = ''The instance is being provisioned asynchronously''"
definition asyncDeprovisioningReason :: string where "asyncDeprovisioningReason = ''Deprovisioning''"
definition asyncDeprovisioningMessage :: string where "asyncDeprovisioningMessage = ''The instance is being deprovisioned asynchronously''"
definition bindingInFlightReason :: string where "bindingInFlightReason = ''BindingRequestInFlight''"
definition bindingInFlightMessage :: string where "bindingInFlightMessage = ''Binding request for ServiceInstanceCredential in-flight to Broker''"
definition unbindingInFlightReason :: string where "unbindingInFlightReason = ''UnbindingRequestInFlight''"
definition unbindingInFlightMessage :: string where "unbindingInFlightMessage = ''Unbind request for ServiceInstanceCredential in-flight to Broker''"
definition provisioningInFlightReason :: string where "provisioningInFlightReason = ''ProvisionRequestInFlight''"
definition provisioningInFlightMessage :: string where "provisioningInFlightMessage = ''Provision request for ServiceInstance in-flight to Broker''"
definition deprovisioningInFlightReason :: string where "deprovisioningInFlightReason = ''DeprovisionRequestInFlight''"
definition deprovisioningInFlightMessage :: string where "deprovisioningInFlightMessage = ''Deprovision request for ServiceInstance in-flight to Broker''"

section \<open>Formats\<close>

text \<open>\<open>"namespace/name"\<close> of an object.\<close>
definition ns_name :: "ObjectMeta \<Rightarrow> string" where
  "ns_name m = om_Namespace m @ ''/'' @ om_Name m"

definition quoted :: "string \<Rightarrow> string" where
  "quoted s = [CHR 0x22] @ s @ [CHR 0x22]"

definition redacted :: string where "redacted = ''<redacted>''"

text \<open>The prefix of an object in an event: its kind with its key.\<close>
definition event_object :: "string \<Rightarrow> ObjectMeta \<Rightarrow> string" where
  "event_object kind m = kind @ '' '' @ ns_name m"

definition maxRetries :: nat where "maxRetries = 15"

end
