(* ===== verification/SC_Parameters.thy ===== *)
theory SC_Parameters
  imports SC_Client SC_Encoding SC_Constants
begin

text \<open>
  Request parameters, originating identity and credential serialisation: \<open>parameters.go\<close>,
  \<open>originating_identity.go\<close> and \<open>serializer.go\<close> of \<open>pkg/controller\<close>.  A Go map iterates in an arbitrary
  order; the model takes the order of the association list, which can only change the key named in a
  duplicate-key error.
\<close>

section \<open>Parameters\<close>

definition MarshalRawParameters :: "json_map \<Rightarrow> go_error + string" where
  "MarshalRawParameters m = json_Marshal (JObj m)"

definition unmarshalJSON :: "env \<Rightarrow> string \<Rightarrow> go_error + json_map" where
  "unmarshalJSON E raw = (case ev_json E raw of
     Inl e \<Rightarrow> Inl (PlainError (''failed to unmarshal parameters as JSON object: '' @ error_string e))
   | Inr m \<Rightarrow> Inr m)"

text \<open>A key that the secret does not have reads as nil, i.e. no bytes.\<close>
definition fetchSecretKeyValue :: "env \<Rightarrow> string \<Rightarrow> SecretKeyReference \<Rightarrow> (go_error + string) io" where
  "fetchSecretKeyValue E ns ref = do {
     r \<leftarrow> secrets_Get E ns (skr_Name ref);
     on_ok r (\<lambda>secret. State_Monad.return (Inr (case map_of (sec_Data secret) (skr_Key ref) of None \<Rightarrow> [] | Some v \<Rightarrow> v))) }"

definition fetchParametersFromSource :: "env \<Rightarrow> string \<Rightarrow> ParametersFromSource \<Rightarrow> (go_error + json_map) io" where
  "fetchParametersFromSource E ns src = (case pfs_SecretKeyRef src of
     None \<Rightarrow> State_Monad.return (Inr [])
   | Some ref \<Rightarrow> do {
       r \<leftarrow> fetchSecretKeyValue E ns ref;
       on_ok r (\<lambda>data. State_Monad.return (unmarshalJSON E data)) })"

text \<open>The loop \<open>for k, v := range fps\<close>: \<open>show\<close> is what goes into the redacted map.\<close>
fun add_parameters ::
  "(json \<Rightarrow> json) \<Rightarrow> json_map \<Rightarrow> json_map \<times> json_map \<Rightarrow> go_error + (json_map \<times> json_map)" where
  "add_parameters shown [] acc = Inr acc"
| "add_parameters shown ((k, v) # kvs) (params, reds) =
     (if map_of params k \<noteq> None
      then Inl (PlainError (''conflict: duplicate entry for parameter '' @ quoted k))
      else add_parameters shown kvs (AList.update k v params, AList.update k (shown v) reds))"

fun build_from_sources ::
  "env \<Rightarrow> string \<Rightarrow> ParametersFromSource list \<Rightarrow> json_map \<times> json_map \<Rightarrow> (go_error + (json_map \<times> json_map)) io" where
  "build_from_sources E ns [] acc = State_Monad.return (Inr acc)"
| "build_from_sources E ns (p # ps) acc = do {
     r \<leftarrow> fetchParametersFromSource E ns p;
     on_ok r (\<lambda>fps. on_ok (add_parameters (\<lambda>_. JStr redacted) fps acc) (\<lambda>acc'. build_from_sources E ns ps acc')) }"

definition buildParameters ::
  "env \<Rightarrow> string \<Rightarrow> ParametersFromSource list \<Rightarrow> RawExtension option \<Rightarrow> (go_error + (json_map \<times> json_map)) io" where
  "buildParameters E ns parametersFrom parameters = do {
     r \<leftarrow> build_from_sources E ns parametersFrom ([], []);
     on_ok r (\<lambda>acc. case parameters of
       None \<Rightarrow> State_Monad.return (Inr acc)
     | Some raw \<Rightarrow> on_ok (UnmarshalRawParameters (ev_yaml E) raw) (\<lambda>pp.
         State_Monad.return (add_parameters (\<lambda>v. v) pp acc))) }"

definition generateChecksumOfParameters :: "json_map \<Rightarrow> go_error + string" where
  "generateChecksumOfParameters params =
     bind_result (json_Marshal (JObj params)) (\<lambda>paramsAsJSON. Inr (hex_sum (sha256_Sum256 paramsAsJSON)))"

section \<open>Originating identity and serialisation\<close>

definition originatingIdentityPlatform :: string where "originatingIdentityPlatform = ''kubernetes''"
definition originatingIdentityUsername :: string where "originatingIdentityUsername = ''username''"
definition originatingIdentityUID :: string where "originatingIdentityUID = ''uid''"
definition originatingIdentityGroups :: string where "originatingIdentityGroups = ''groups''"

text \<open>A slice prints as an array, the nil slice as null; an absent group list decodes to nil.\<close>
definition json_strings :: "string list \<Rightarrow> json" where
  "json_strings xs = (if xs = [] then JNull else JArr (map JStr xs))"

definition buildOriginatingIdentity :: "UserInfo option \<Rightarrow> go_error + AlphaOriginatingIdentity option" where
  "buildOriginatingIdentity userInfo = (case userInfo of
     None \<Rightarrow> Inr None
   | Some ui \<Rightarrow>
       (let fields1 = AList.update originatingIdentityGroups (json_strings (ui_Groups ui))
                        (AList.update originatingIdentityUID (JStr (ui_UID ui))
                          (AList.update originatingIdentityUsername (JStr (ui_Username ui)) []));
            fields2 = fold (\<lambda>(k, v). AList.update k (JArr (map JStr v))) (ui_Extra ui) fields1
        in bind_result (json_Marshal (JObj fields2)) (\<lambda>oiValue.
             Inr (Some \<lparr> oid_Platform = originatingIdentityPlatform, oid_Value = oiValue \<rparr>))))"

definition serialize :: "json \<Rightarrow> go_error + string" where
  "serialize v = (case v of JStr s \<Rightarrow> Inr s | _ \<Rightarrow> json_Marshal v)"

section \<open>What building parameters guarantees\<close>

text \<open>Adding parameters keeps the maps well-formed over the same keys, never overwrites, and records
  exactly the new entries.\<close>
lemma add_parameters_ok:
  assumes "add_parameters shown kvs (p, r) = Inr (p', r')" and "wf_map p" "wf_map r" "dom (map_of p) = dom (map_of r)"
  shows "wf_map p' \<and> wf_map r' \<and> dom (map_of p') = dom (map_of r') \<and>
         map_of p' = map_of p ++ map_of kvs \<and> map_of r' = map_of r ++ (\<lambda>k. map_option shown (map_of kvs k)) \<and>
         dom (map_of p) \<inter> dom (map_of kvs) = {} \<and> wf_map kvs"
  using assms
proof (induction kvs arbitrary: p r)
  case Nil
  then show ?case by (auto simp: map_add_def)
next
  case (Cons kv kvs)
  obtain k v where kv: "kv = (k, v)" by force
  from Cons.prems kv have new: "map_of p k = None"
    and rest: "add_parameters shown kvs (AList.update k v p, AList.update k (shown v) r) = Inr (p', r')"
    by (auto split: if_splits)
  note IH = Cons.IH[OF rest]
  have IH': "wf_map p' \<and> wf_map r' \<and> dom (map_of p') = dom (map_of r') \<and>
      map_of p' = (map_of p)(k \<mapsto> v) ++ map_of kvs \<and>
      map_of r' = (map_of r)(k \<mapsto> shown v) ++ (\<lambda>k. map_option shown (map_of kvs k)) \<and>
      dom ((map_of p)(k \<mapsto> v)) \<inter> dom (map_of kvs) = {} \<and> wf_map kvs"
    using IH[unfolded update_conv'] Cons.prems by (simp del: fun_upd_apply add: dom_map_option)
  then have k: "k \<notin> fst ` set kvs" by (auto simp: dom_map_of_conv_image_fst)
  then have none: "map_of kvs k = None" by (simp add: map_of_eq_None_iff)
  have "map_of p' = map_of p ++ map_of (kv # kvs)"
    using IH' kv none by (auto simp: fun_eq_iff map_add_def split: option.split)
  moreover have "map_of r' = map_of r ++ (\<lambda>k. map_option shown (map_of (kv # kvs) k))"
    using IH' kv none by (auto simp: fun_eq_iff map_add_def split: option.split)
  moreover have "dom (map_of p) \<inter> dom (map_of (kv # kvs)) = {}"
    using IH' kv new by auto
  moreover have "wf_map (kv # kvs)" using IH' kv k by (simp add: wf_map_def)
  ultimately show ?case using IH' by blast
qed

lemma add_parameters_pair: "\<exists>p r. acc = (p, r)" for acc :: "json_map \<times> json_map"
  by (cases acc) simp

text \<open>What the loop over the secret sources keeps: the two maps have the same keys, and every value
  shown is the redaction mark.\<close>
definition redacted_pair :: "json_map \<times> json_map \<Rightarrow> bool" where
  "redacted_pair acc \<longleftrightarrow> (case acc of (p, r) \<Rightarrow>
     wf_map p \<and> wf_map r \<and> dom (map_of p) = dom (map_of r) \<and>
     (\<forall>k v. map_of r k = Some v \<longrightarrow> v = JStr redacted))"

lemma add_secret_parameters_redacted:
  assumes "add_parameters (\<lambda>_. JStr redacted) fps acc = Inr acc'" and "redacted_pair acc"
  shows "redacted_pair acc'"
proof -
  obtain p r p' r' where acc: "acc = (p, r)" "acc' = (p', r')" by (metis surj_pair)
  have "wf_map p' \<and> wf_map r' \<and> dom (map_of p') = dom (map_of r') \<and>
        map_of r' = map_of r ++ (\<lambda>k. map_option (\<lambda>_. JStr redacted) (map_of fps k))"
    using add_parameters_ok[of "\<lambda>_. JStr redacted" fps p r p' r'] assms
    by (simp add: acc redacted_pair_def dom_map_option)
  then show ?thesis
    using assms(2) by (auto simp: acc redacted_pair_def map_add_def split: option.splits)
qed

lemma build_from_sources_redacted:
  assumes "run_state (build_from_sources E ns ps acc) w = (Inr acc', w')" and "redacted_pair acc"
  shows "redacted_pair acc'"
  using assms
proof (induction ps arbitrary: acc w)
  case (Cons p ps)
  obtain r w1 where r: "run_state (fetchParametersFromSource E ns p) w = (r, w1)" by force
  with Cons.prems obtain fps acc1 where "r = Inr fps"
    and acc1: "add_parameters (\<lambda>_. JStr redacted) fps acc = Inr acc1"
    and rest: "run_state (build_from_sources E ns ps acc1) w1 = (Inr acc', w')"
    by (cases r) (auto simp: on_ok_def split: sum.splits)
  from add_secret_parameters_redacted[OF acc1 Cons.prems(2)] show ?case
    using Cons.IH[OF rest] by blast
qed simp

lemma buildParameters_redaction:
  assumes "run_state (buildParameters E ns from raw) w = (Inr (params, shown), w')"
  shows "wf_map params \<and> wf_map shown \<and> dom (map_of params) = dom (map_of shown) \<and>
         (\<forall>k v. map_of shown k = Some v \<longrightarrow>
            v = JStr redacted \<or>
            (\<exists>bytes pp. raw = Some bytes \<and> UnmarshalRawParameters (ev_yaml E) bytes = Inr pp \<and>
               map_of pp k = Some v \<and> map_of params k = Some v))"
proof -
  obtain r w1 where r: "run_state (build_from_sources E ns from ([], [])) w = (r, w1)" by force
  with assms obtain p s where ps: "r = Inr (p, s)"
    by (cases r) (auto simp: buildParameters_def)
  have red: "redacted_pair (p, s)"
    using build_from_sources_redacted[OF r[unfolded ps]] by (simp add: redacted_pair_def)
  show ?thesis
  proof (cases raw)
    case None
    then show ?thesis using assms r ps red by (auto simp: buildParameters_def redacted_pair_def)
  next
    case (Some bytes)
    with assms r ps obtain pp where pp: "UnmarshalRawParameters (ev_yaml E) bytes = Inr pp"
      and add: "add_parameters (\<lambda>v. v) pp (p, s) = Inr (params, shown)"
      by (auto simp: buildParameters_def on_ok_def split: sum.splits)
    note ok = add_parameters_ok[OF add]
    have "map_of shown k = Some v \<Longrightarrow> v = JStr redacted \<or> map_of pp k = Some v \<and> map_of params k = Some v" for k v
      using ok red by (auto simp: redacted_pair_def map_add_def option.map_ident split: option.splits)
    then show ?thesis using ok red pp Some by (auto simp: redacted_pair_def)
  qed
qed

text \<open>The checksum stored in a status is accepted by the validation.\<close>
lemma generateChecksum_valid:
  "\<exists>sum. generateChecksumOfParameters params = Inr sum \<and> length sum = 64 \<and> stringIsHexadecimal sum"
  by (simp add: generateChecksumOfParameters_def json_Marshal_def length_hex_sum stringIsHexadecimal_def
      hex_sum_xdigits)

end
