(* ===== verification/SC_Catalog.thy ===== *)
theory SC_Catalog
  imports SC_Parameters
begin

text \<open>
  The helpers of \<open>pkg/controller/controller.go\<close> that are not handlers: conversion of a broker's catalog
  into classes and plans, the authentication configuration of a broker, controller references and
  the client configuration.
\<close>

section \<open>Catalog conversion\<close>

definition named_meta :: "string \<Rightarrow> ObjectMeta" where
  "named_meta name = \<lparr> om_Name = name, om_Namespace = [], om_UID = [], om_ResourceVersion = 0,
     om_Generation = 0, om_DeletionTimestamp = None, om_DeletionGracePeriodSeconds = None,
     om_Finalizers = [], om_OwnerReferences = [] \<rparr>"

text \<open>Marshal an optional value into an optional raw extension.\<close>
definition marshal_opt :: "string \<Rightarrow> json option \<Rightarrow> go_error + RawExtension option" where
  "marshal_opt what v = (case v of
     None \<Rightarrow> Inr None
   | Some j \<Rightarrow> (case json_Marshal j of
        Inl e \<Rightarrow> Inl (PlainError (''Failed to marshal '' @ what @ error_string e))
      | Inr raw \<Rightarrow> Inr (Some raw)))"

text \<open>\<open>x != nil && x.Parameters != nil\<close>\<close>
definition schema_parameters :: "json option option \<Rightarrow> json option" where
  "schema_parameters s = (case s of None \<Rightarrow> None | Some p \<Rightarrow> p)"

definition instance_schema ::
  "(AlphaServiceInstanceSchema \<Rightarrow> json option option) \<Rightarrow> AlphaParameterSchemas option \<Rightarrow> json option" where
  "instance_schema sel schemas = (case schemas of
     None \<Rightarrow> None
   | Some s \<Rightarrow> (case aps_ServiceInstances s of None \<Rightarrow> None | Some i \<Rightarrow> schema_parameters (sel i)))"

definition binding_schema :: "AlphaParameterSchemas option \<Rightarrow> json option" where
  "binding_schema schemas = (case schemas of
     None \<Rightarrow> None
   | Some s \<Rightarrow> (case aps_ServiceBindings s of None \<Rightarrow> None | Some b \<Rightarrow> schema_parameters (asbs_Create b)))"

definition convertServicePlan :: "string \<Rightarrow> osb_Plan \<Rightarrow> go_error + ServicePlan" where
  "convertServicePlan serviceClassID plan =
     bind_result (marshal_opt ''metadata'' (map_option JObj (opl_Metadata plan))) (\<lambda>metadata.
     bind_result (marshal_opt ''instance create schema '' (instance_schema asis_Create (opl_AlphaParameterSchemas plan))) (\<lambda>createSchema.
     bind_result (marshal_opt ''instance update schema '' (instance_schema asis_Update (opl_AlphaParameterSchemas plan))) (\<lambda>updateSchema.
     bind_result (marshal_opt ''binding create schema '' (binding_schema (opl_AlphaParameterSchemas plan))) (\<lambda>bindingSchema.
       Inr \<lparr> sp_Meta = named_meta (opl_ID plan),
             sp_Spec = \<lparr> sps_ClusterServiceBrokerName = [],
               sps_ExternalName = opl_Name plan, sps_ExternalID = opl_ID plan,
               sps_Description = opl_Description plan, sps_Bindable = opl_Bindable plan,
               sps_Free = (opl_Free plan = Some True),
               sps_ExternalMetadata = metadata,
               sps_ServiceInstanceCreateParameterSchema = createSchema,
               sps_ServiceInstanceUpdateParameterSchema = updateSchema,
               sps_ServiceInstanceCredentialCreateParameterSchema = bindingSchema,
               sps_ServiceClassRef = serviceClassID \<rparr> \<rparr>))))"

text \<open>Convert the elements in order, stopping at the first error.\<close>
fun map_results :: "('a \<Rightarrow> 'e + 'b) \<Rightarrow> 'a list \<Rightarrow> 'e + 'b list" where
  "map_results f [] = Inr []"
| "map_results f (x # xs) = bind_result (f x) (\<lambda>y. bind_result (map_results f xs) (\<lambda>ys. Inr (y # ys)))"

definition convertServicePlans :: "osb_Plan list \<Rightarrow> string \<Rightarrow> go_error + ServicePlan list" where
  "convertServicePlans plans serviceClassID =
     (if length plans = 0
      then Inl (PlainError (''ServiceClass '' @ quoted serviceClassID @ '' must have at least one plan''))
      else map_results (convertServicePlan serviceClassID) plans)"

definition convertServiceClass :: "osb_Service \<Rightarrow> go_error + ServiceClass" where
  "convertServiceClass svc =
     bind_result (marshal_opt ''metadata'' (map_option JObj (osv_Metadata svc))) (\<lambda>metadata.
       Inr \<lparr> sc_Meta = named_meta (osv_ID svc),
             sc_Spec = \<lparr> scs_ClusterServiceBrokerName = [],
               scs_ExternalName = osv_Name svc, scs_ExternalID = osv_ID svc,
               scs_Description = osv_Description svc, scs_Bindable = osv_Bindable svc,
               scs_PlanUpdatable = (osv_PlanUpdatable svc = Some True),
               scs_ExternalMetadata = metadata, scs_Tags = osv_Tags svc, scs_Requires = osv_Requires svc \<rparr> \<rparr>)"

fun convertCatalog :: "CatalogResponse \<Rightarrow> go_error + (ServiceClass list \<times> ServicePlan list)" where
  "convertCatalog [] = Inr ([], [])"
| "convertCatalog (svc # svcs) =
     bind_result (convertServiceClass svc) (\<lambda>c.
     bind_result (convertServicePlans (osv_Plans svc) (om_Name (sc_Meta c))) (\<lambda>plans.
     bind_result (convertCatalog svcs) (\<lambda>(cs, ps). Inr (c # cs, plans @ ps))))"

section \<open>Broker authentication and client configuration\<close>

definition getBasicAuthConfig :: "Secret \<Rightarrow> go_error + AuthConfig" where
  "getBasicAuthConfig secret = (case map_of (sec_Data secret) ''username'' of
     None \<Rightarrow> Inl (PlainError ''auth secret didn't contain username'')
   | Some u \<Rightarrow> (case map_of (sec_Data secret) ''password'' of
        None \<Rightarrow> Inl (PlainError ''auth secret didn't contain password'')
      | Some p \<Rightarrow> Inr (BasicAuthConfig u p)))"

definition getBearerConfig :: "Secret \<Rightarrow> go_error + AuthConfig" where
  "getBearerConfig secret = (case map_of (sec_Data secret) ''token'' of
     None \<Rightarrow> Inl (PlainError ''auth secret didn't contain token'')
   | Some t \<Rightarrow> Inr (BearerConfig t))"

text \<open>Read the secret and build the configuration from it.\<close>
definition auth_from_secret ::
  "env \<Rightarrow> (Secret \<Rightarrow> go_error + AuthConfig) \<Rightarrow> ObjectReference option \<Rightarrow> (go_error + AuthConfig option) io" where
  "auth_from_secret E get secretRef = (case secretRef of
     None \<Rightarrow> State_Monad.return (Inl NilDereference)
   | Some ref \<Rightarrow> do {
       r \<leftarrow> secrets_Get E (oref_Namespace ref) (oref_Name ref);
       on_ok r (\<lambda>secret. State_Monad.return (bind_result (get secret) (\<lambda>cfg. Inr (Some cfg)))) })"

definition getAuthCredentialsFromClusterServiceBroker ::
  "env \<Rightarrow> ClusterServiceBroker \<Rightarrow> (go_error + AuthConfig option) io" where
  "getAuthCredentialsFromClusterServiceBroker E broker = (case bks_AuthInfo (bk_Spec broker) of
     None \<Rightarrow> State_Monad.return (Inr None)
   | Some ai \<Rightarrow>
       (case ai_Basic ai of
          Some secretRef \<Rightarrow> auth_from_secret E getBasicAuthConfig secretRef
        | None \<Rightarrow>
            (case ai_Bearer ai of
               Some secretRef \<Rightarrow> auth_from_secret E getBearerConfig secretRef
             | None \<Rightarrow>
                 (case ai_BasicAuthSecret ai of
                    Some ref \<Rightarrow> auth_from_secret E getBasicAuthConfig (Some ref)
                  | None \<Rightarrow> State_Monad.return (Inl (PlainError ''empty auth info or unsupported auth mode''))))))"

definition NewClientConfigurationForBroker :: "ClusterServiceBroker \<Rightarrow> AuthConfig option \<Rightarrow> ClientConfiguration" where
  "NewClientConfigurationForBroker broker authConfig = \<lparr>
     cc_Name = om_Name (bk_Meta broker), cc_URL = bks_URL (bk_Spec broker), cc_AuthConfig = authConfig,
     cc_EnableAlphaFeatures = True, cc_Insecure = bks_InsecureSkipTLSVerify (bk_Spec broker),
     cc_CAData = bks_CABundle (bk_Spec broker) \<rparr>"

section \<open>Controller references\<close>

definition GetControllerOf :: "ObjectMeta \<Rightarrow> OwnerReference option" where
  "GetControllerOf m = find (\<lambda>r. or_Controller r = Some True) (om_OwnerReferences m)"

definition IsControlledBy :: "ObjectMeta \<Rightarrow> ObjectMeta \<Rightarrow> bool" where
  "IsControlledBy obj owner = (case GetControllerOf obj of None \<Rightarrow> False | Some ref \<Rightarrow> or_UID ref = om_UID owner)"

definition NewControllerRef :: "ObjectMeta \<Rightarrow> string \<Rightarrow> string \<Rightarrow> OwnerReference" where
  "NewControllerRef owner apiVersion kind = \<lparr> or_APIVersion = apiVersion, or_Kind = kind,
     or_Name = om_Name owner, or_UID = om_UID owner, or_Controller = Some True, or_BlockOwnerDeletion = Some True \<rparr>"

section \<open>Facts\<close>

lemma map_results_Inr:
  "map_results f xs = Inr ys \<longleftrightarrow> length ys = length xs \<and> (\<forall>i < length xs. f (xs ! i) = Inr (ys ! i))"
proof (induction xs arbitrary: ys)
  case (Cons x xs)
  show ?case
  proof (cases ys)
    case Nil
    then show ?thesis by (auto simp: bind_result_eq_Inr)
  next
    case (Cons y zs)
    then show ?thesis
      using Cons.IH[of zs] by (auto simp: bind_result_eq_Inr nth_Cons less_Suc_eq_0_disj split: nat.splits)
  qed
qed auto

text \<open>The decoded values always marshal, so only an empty plan list makes a conversion fail.\<close>
lemma marshal_opt_total: "\<exists>raw. marshal_opt what v = Inr raw \<and> (raw = None \<longleftrightarrow> v = None)"
  by (auto simp: marshal_opt_def json_Marshal_def split: option.splits)

lemma controlled_by_owner:
  "IsControlledBy (m \<lparr> om_OwnerReferences := [NewControllerRef owner v k] \<rparr>) owner"
  by (simp add: IsControlledBy_def GetControllerOf_def NewControllerRef_def)

end
