(* ===== verification/SC_Conditions.thy ===== *)
theory SC_Conditions
  imports SC_Types
begin

text \<open>
  Status conditions.  \<open>setServiceInstanceConditionInternal\<close> and its twin for credentials have the same
  body, \<open>set_condition\<close>; brokers use a loop without the final append.  The locale \<open>condition_holder\<close>
  states what the handlers rely on: setting a condition changes that condition alone, and moves its
  transition time exactly when its status changes.
\<close>

section \<open>Setting a condition\<close>

text \<open>The loop over the conditions: replace the first one of the type, keeping its transition time when
  the status is the same; append when there is none.\<close>
fun set_condition_loop ::
  "ConditionType \<Rightarrow> ConditionStatus \<Rightarrow> string \<Rightarrow> string \<Rightarrow> go_time \<Rightarrow> Condition list \<Rightarrow> Condition list" where
  "set_condition_loop ty st reason msg t [] =
     [\<lparr> c_Type = ty, c_Status = st, c_LastTransitionTime = t, c_Reason = reason, c_Message = msg \<rparr>]"
| "set_condition_loop ty st reason msg t (c # cs) =
     (if c_Type c = ty then
        \<lparr> c_Type = ty, c_Status = st,
          c_LastTransitionTime = (if c_Status c \<noteq> st then t else c_LastTransitionTime c),
          c_Reason = reason, c_Message = msg \<rparr> # cs
      else c # set_condition_loop ty st reason msg t cs)"

definition set_condition ::
  "ConditionType \<Rightarrow> ConditionStatus \<Rightarrow> string \<Rightarrow> string \<Rightarrow> go_time \<Rightarrow> Condition list \<Rightarrow> Condition list" where
  "set_condition ty st reason msg t cs =
     (if length cs = 0
      then [\<lparr> c_Type = ty, c_Status = st, c_LastTransitionTime = t, c_Reason = reason, c_Message = msg \<rparr>]
      else set_condition_loop ty st reason msg t cs)"

definition setServiceInstanceConditionInternal ::
  "ServiceInstance \<Rightarrow> ConditionType \<Rightarrow> ConditionStatus \<Rightarrow> string \<Rightarrow> string \<Rightarrow> go_time \<Rightarrow> ServiceInstance" where
  "setServiceInstanceConditionInternal i ty st reason msg t =
     si_Status_update (\<lambda>s. s \<lparr> ist_Conditions := set_condition ty st reason msg t (ist_Conditions s) \<rparr>) i"

definition setServiceInstanceCredentialConditionInternal ::
  "ServiceInstanceCredential \<Rightarrow> ConditionType \<Rightarrow> ConditionStatus \<Rightarrow> string \<Rightarrow> string \<Rightarrow> go_time \<Rightarrow> ServiceInstanceCredential" where
  "setServiceInstanceCredentialConditionInternal b ty st reason msg t =
     cr_Status_update (\<lambda>s. s \<lparr> crst_Conditions := set_condition ty st reason msg t (crst_Conditions s) \<rparr>) b"

text \<open>The loop of \<open>updateClusterServiceBrokerCondition\<close>, which has no append.\<close>
fun replace_condition ::
  "ConditionType \<Rightarrow> ConditionStatus \<Rightarrow> string \<Rightarrow> string \<Rightarrow> go_time \<Rightarrow> Condition list \<Rightarrow> Condition list" where
  "replace_condition ty st reason msg t [] = []"
| "replace_condition ty st reason msg t (c # cs) =
     (if c_Type c = ty then
        \<lparr> c_Type = ty, c_Status = st,
          c_LastTransitionTime = (if c_Status c \<noteq> st then t else c_LastTransitionTime c),
          c_Reason = reason, c_Message = msg \<rparr> # cs
      else c # replace_condition ty st reason msg t cs)"

definition broker_set_condition ::
  "ConditionType \<Rightarrow> ConditionStatus \<Rightarrow> string \<Rightarrow> string \<Rightarrow> go_time \<Rightarrow> Condition list \<Rightarrow> Condition list" where
  "broker_set_condition ty st reason msg t cs =
     (if length cs = 0
      then [\<lparr> c_Type = ty, c_Status = st, c_LastTransitionTime = t, c_Reason = reason, c_Message = msg \<rparr>]
      else replace_condition ty st reason msg t cs)"

definition setClusterServiceBrokerCondition ::
  "ClusterServiceBroker \<Rightarrow> ConditionType \<Rightarrow> ConditionStatus \<Rightarrow> string \<Rightarrow> string \<Rightarrow> go_time \<Rightarrow> ClusterServiceBroker" where
  "setClusterServiceBrokerCondition b ty st reason msg t =
     bk_Status_update (\<lambda>s. s \<lparr> bkst_Conditions := broker_set_condition ty st reason msg t (bkst_Conditions s) \<rparr>) b"

section \<open>Reading conditions\<close>

fun isServiceInstanceFailed_loop :: "Condition list \<Rightarrow> bool" where
  "isServiceInstanceFailed_loop [] = False"
| "isServiceInstanceFailed_loop (c # cs) =
     (if c_Type c = ConditionFailed \<and> c_Status c = ConditionTrue then True else isServiceInstanceFailed_loop cs)"

definition isServiceInstanceFailed :: "ServiceInstance \<Rightarrow> bool" where
  "isServiceInstanceFailed i = isServiceInstanceFailed_loop (ist_Conditions (si_Status i))"

definition isServiceInstanceCredentialFailed :: "ServiceInstanceCredential \<Rightarrow> bool" where
  "isServiceInstanceCredentialFailed b = isServiceInstanceFailed_loop (crst_Conditions (cr_Status b))"

text \<open>The first \<open>Ready\<close> condition decides.\<close>
fun isReady_loop :: "Condition list \<Rightarrow> bool" where
  "isReady_loop [] = False"
| "isReady_loop (c # cs) = (if c_Type c = ConditionReady then c_Status c = ConditionTrue else isReady_loop cs)"

definition isServiceInstanceReady :: "ServiceInstance \<Rightarrow> bool" where
  "isServiceInstanceReady i = isReady_loop (ist_Conditions (si_Status i))"

text \<open>The first condition of a type.\<close>
definition first_condition :: "ConditionType \<Rightarrow> Condition list \<Rightarrow> Condition option" where
  "first_condition ty cs = find (\<lambda>c. c_Type c = ty) cs"

section \<open>Facts about condition lists\<close>

lemma set_condition_eq_loop: "set_condition ty st reason msg t cs = set_condition_loop ty st reason msg t cs"
  by (cases cs) (simp_all add: set_condition_def)

lemma first_condition_set_same:
  "first_condition ty (set_condition ty st reason msg t cs) =
     Some \<lparr> c_Type = ty, c_Status = st,
            c_LastTransitionTime =
              (case first_condition ty cs of
                 Some c \<Rightarrow> if c_Status c \<noteq> st then t else c_LastTransitionTime c
               | None \<Rightarrow> t),
            c_Reason = reason, c_Message = msg \<rparr>"
  unfolding set_condition_eq_loop
  by (induction cs) (auto simp: first_condition_def)

lemma others_set_condition:
  "filter (\<lambda>c. c_Type c \<noteq> ty) (set_condition ty st reason msg t cs) = filter (\<lambda>c. c_Type c \<noteq> ty) cs"
  unfolding set_condition_eq_loop by (induction cs) auto

lemma distinct_types_set_condition:
  "distinct (map c_Type cs) \<Longrightarrow> distinct (map c_Type (set_condition ty st reason msg t cs))"
proof -
  have sub: "c_Type ` set (set_condition_loop ty st reason msg t cs) \<subseteq> insert ty (c_Type ` set cs)" for cs
    by (induction cs) auto
  show "distinct (map c_Type cs) \<Longrightarrow> ?thesis"
    unfolding set_condition_eq_loop
  proof (induction cs)
    case (Cons c cs)
    then show ?case using sub[of cs] by (auto simp: image_iff)
  qed simp
qed

lemma first_condition_set_other:
  "ty' \<noteq> ty \<Longrightarrow> first_condition ty' (set_condition ty st reason msg t cs) = first_condition ty' cs"
  unfolding set_condition_eq_loop
  by (induction cs) (auto simp: first_condition_def)

lemma set_set_condition_subset:
  "c \<in> set (set_condition ty st reason msg t cs) \<Longrightarrow> c_Type c \<noteq> ty \<Longrightarrow> c \<in> set cs"
  unfolding set_condition_eq_loop by (induction cs) (auto split: if_splits)

lemma replace_condition_absent:
  "first_condition ty cs = None \<Longrightarrow> replace_condition ty st reason msg t cs = cs"
  by (induction cs) (auto simp: first_condition_def split: if_splits)

lemma replace_condition_present:
  "first_condition ty cs \<noteq> None \<Longrightarrow>
   replace_condition ty st reason msg t cs = set_condition ty st reason msg t cs"
  unfolding set_condition_eq_loop
  by (induction cs) (auto simp: first_condition_def split: if_splits)

lemma failed_loop_iff:
  "isServiceInstanceFailed_loop cs \<longleftrightarrow> (\<exists>c \<in> set cs. c_Type c = ConditionFailed \<and> c_Status c = ConditionTrue)"
  by (induction cs) auto

lemma ready_loop_iff:
  "isReady_loop cs \<longleftrightarrow> (\<exists>c. first_condition ConditionReady cs = Some c \<and> c_Status c = ConditionTrue)"
  by (induction cs) (auto simp: first_condition_def)

section \<open>The contract of objects with conditions\<close>

locale condition_holder =
  fixes conds :: "'o \<Rightarrow> Condition list"
    and set_cond :: "'o \<Rightarrow> ConditionType \<Rightarrow> ConditionStatus \<Rightarrow> string \<Rightarrow> string \<Rightarrow> go_time \<Rightarrow> 'o"
    and strip :: "'o \<Rightarrow> 'r"
  assumes conds_set: "conds (set_cond x ty st reason msg t) = set_condition ty st reason msg t (conds x)"
    and strip_set: "strip (set_cond x ty st reason msg t) = strip x"
begin

lemma sets_status: "first_condition ty (conds (set_cond x ty st reason msg t)) = Some c \<Longrightarrow>
   c_Status c = st \<and> c_Reason c = reason \<and> c_Message c = msg"
  by (auto simp: conds_set first_condition_set_same)

lemma keeps_others: "ty' \<noteq> ty \<Longrightarrow>
   first_condition ty' (conds (set_cond x ty st reason msg t)) = first_condition ty' (conds x)"
  by (simp add: conds_set first_condition_set_other)

lemma transition_time:
  assumes "first_condition ty (conds x) = Some c"
    and "first_condition ty (conds (set_cond x ty st reason msg t)) = Some c'"
  shows "c_LastTransitionTime c' = (if c_Status c = st then c_LastTransitionTime c else t)"
  using assms by (simp add: conds_set first_condition_set_same) auto

lemma set_twice: "set_cond x ty st reason msg t = y \<Longrightarrow> conds (set_cond y ty st reason msg t') = conds y"
proof -
  have "set_condition_loop ty st reason msg t' (set_condition_loop ty st reason msg t cs) =
        set_condition_loop ty st reason msg t cs" for cs
    by (induction cs) auto
  then show "set_cond x ty st reason msg t = y \<Longrightarrow> ?thesis"
    by (auto simp: conds_set set_condition_eq_loop)
qed

end

interpretation inst_cond: condition_holder
  "\<lambda>i. ist_Conditions (si_Status i)" setServiceInstanceConditionInternal
  "\<lambda>i. i \<lparr> si_Status := (si_Status i) \<lparr> ist_Conditions := [] \<rparr> \<rparr>"
  by unfold_locales (simp_all add: setServiceInstanceConditionInternal_def)

interpretation cred_cond: condition_holder
  "\<lambda>b. crst_Conditions (cr_Status b)" setServiceInstanceCredentialConditionInternal
  "\<lambda>b. b \<lparr> cr_Status := (cr_Status b) \<lparr> crst_Conditions := [] \<rparr> \<rparr>"
  by unfold_locales (simp_all add: setServiceInstanceCredentialConditionInternal_def)

end
