(* ===== verification/SC_Instance.thy ===== *)
theory SC_Instance
  imports SC_Catalog SC_Conditions
begin

text \<open>
  The control loop of service instances: \<open>pkg/controller/controller_instance.go\<close> and the lookup of
  class, plan and broker from \<open>controller.go\<close>.  Each Go function is a definition of the same name; the
  long handlers are cut into the blocks of the code (one definition per request, per kind of broker
  answer and per error path), called in the order of the code.  \<open>toUpdate\<close> is the deep copy the handler
  modifies and \<open>inst\<close> the object read from the cache, as in the source.  A nil pointer that the code
  would dereference ends the handler with \<open>NilDereference\<close>.
\<close>

section \<open>Conditions and status updates\<close>

definition setServiceInstanceCondition ::
  "env \<Rightarrow> ServiceInstance \<Rightarrow> ConditionType \<Rightarrow> ConditionStatus \<Rightarrow> string \<Rightarrow> string \<Rightarrow> ServiceInstance io" where
  "setServiceInstanceCondition E toUpdate ty st reason msg = do {
     t \<leftarrow> time_Now E;
     State_Monad.return (setServiceInstanceConditionInternal toUpdate ty st reason msg t) }"

definition updateServiceInstanceReferences :: "env \<Rightarrow> ServiceInstance \<Rightarrow> (go_error + ServiceInstance) io" where
  "updateServiceInstanceReferences E toUpdate = instances_UpdateReferences E toUpdate"

definition updateServiceInstanceStatus :: "env \<Rightarrow> ServiceInstance \<Rightarrow> (go_error + ServiceInstance) io" where
  "updateServiceInstanceStatus E toUpdate = instances_UpdateStatus E toUpdate"

definition updateServiceInstanceCondition ::
  "env \<Rightarrow> ServiceInstance \<Rightarrow> ConditionType \<Rightarrow> ConditionStatus \<Rightarrow> string \<Rightarrow> string \<Rightarrow> (go_error + unit) io" where
  "updateServiceInstanceCondition E inst ty st reason msg = do {
     toUpdate \<leftarrow> setServiceInstanceCondition E inst ty st reason msg;
     r \<leftarrow> instances_UpdateStatus E toUpdate;
     on_ok r (\<lambda>_. State_Monad.return (Inr ())) }"

text \<open>\<open>if _, err := c.updateServiceInstanceStatus(toUpdate); err != nil { return err }\<close> and then \<open>return res\<close>.\<close>
definition update_status_then :: "env \<Rightarrow> ServiceInstance \<Rightarrow> (go_error + unit) io \<Rightarrow> (go_error + unit) io" where
  "update_status_then E toUpdate k = do {
     r \<leftarrow> updateServiceInstanceStatus E toUpdate;
     on_ok r (\<lambda>_. k) }"

definition instance_event :: "ServiceInstance \<Rightarrow> event_type \<Rightarrow> string \<Rightarrow> string \<Rightarrow> unit io" where
  "instance_event inst ty reason msg = record_event (event_object ''ServiceInstance'' (si_Meta inst)) ty reason msg"

definition start_message :: "ServiceInstanceOperation \<Rightarrow> string \<times> string" where
  "start_message operation = (case operation of
     InstanceOperationProvision \<Rightarrow> (provisioningInFlightReason, provisioningInFlightMessage)
   | InstanceOperationDeprovision \<Rightarrow> (deprovisioningInFlightReason, deprovisioningInFlightMessage)
   | _ \<Rightarrow> ([], []))"

definition recordStartOfServiceInstanceOperation ::
  "env \<Rightarrow> ServiceInstance \<Rightarrow> ServiceInstanceOperation \<Rightarrow> (go_error + ServiceInstance) io" where
  "recordStartOfServiceInstanceOperation E toUpdate operation = do {
     now \<leftarrow> time_Now E;
     let toUpdate1 = si_Status_update (\<lambda>s. s \<lparr> ist_CurrentOperation := operation, ist_OperationStartTime := Some now \<rparr>) toUpdate;
     toUpdate2 \<leftarrow> setServiceInstanceCondition E toUpdate1 ConditionReady ConditionFalse
                     (fst (start_message operation)) (snd (start_message operation));
     updateServiceInstanceStatus E toUpdate2 }"

definition clearServiceInstanceCurrentOperation :: "ServiceInstance \<Rightarrow> ServiceInstance" where
  "clearServiceInstanceCurrentOperation toUpdate =
     si_Status_update (\<lambda>s. s \<lparr> ist_CurrentOperation := InstanceOperationNone,
       ist_OperationStartTime := None, ist_AsyncOpInProgress := False,
       ist_OrphanMitigationInProgress := False, ist_LastOperation := None,
       ist_InProgressProperties := None,
       ist_ReconciledGeneration := om_Generation (si_Meta toUpdate) \<rparr>) toUpdate"

definition setServiceInstanceStartOrphanMitigation :: "ServiceInstance \<Rightarrow> ServiceInstance" where
  "setServiceInstanceStartOrphanMitigation toUpdate =
     si_Status_update (\<lambda>s. s \<lparr> ist_OperationStartTime := None, ist_AsyncOpInProgress := False,
       ist_OrphanMitigationInProgress := True, ist_InProgressProperties := None \<rparr>) toUpdate"

definition shouldStartOrphanMitigation :: "int \<Rightarrow> bool" where
  "shouldStartOrphanMitigation statusCode =
     (let is2XX = (statusCode \<ge> 200 \<and> statusCode < 300);
          is5XX = (statusCode \<ge> 500 \<and> statusCode < 600)
      in (is2XX \<and> statusCode \<noteq> 200) \<or> statusCode = 408 \<or> is5XX)"

text \<open>\<open>!time.Now().Before(start.Add(c.reconciliationRetryDuration))\<close>\<close>
definition retry_expired :: "env \<Rightarrow> go_time \<Rightarrow> bool io" where
  "retry_expired E start = do {
     now \<leftarrow> time_Now E;
     State_Monad.return (\<not> now < start + ev_reconciliationRetryDuration E) }"

definition timeout_message :: "ServiceInstance \<Rightarrow> string" where
  "timeout_message inst = ''Stopping reconciliation retries on ServiceInstance '' @ quoted (ns_name (si_Meta inst)) @
     '' because too much time has elapsed''"

text \<open>\<open>sets.NewString(finalizers...)\<close>, \<open>Delete\<close>, \<open>List\<close>: the other finalizers, sorted, without duplicates.\<close>
definition delete_finalizer :: "string \<Rightarrow> string list \<Rightarrow> string list" where
  "delete_finalizer f fs = sort (remdups (filter (\<lambda>x. x \<noteq> f) fs))"

definition clear_catalog_finalizer :: "ServiceInstance \<Rightarrow> ServiceInstance" where
  "clear_catalog_finalizer i =
     si_Meta_update (\<lambda>m. m \<lparr> om_Finalizers := delete_finalizer FinalizerServiceCatalog (om_Finalizers m) \<rparr>) i"

section \<open>The polling queue\<close>

definition beginPollingServiceInstance :: "ServiceInstance \<Rightarrow> (go_error + unit) io" where
  "beginPollingServiceInstance inst = do {
     log_action (PollingAddRateLimited (meta_key (si_Meta inst)));
     State_Monad.return (Inr ()) }"

definition continuePollingServiceInstance :: "ServiceInstance \<Rightarrow> (go_error + unit) io" where
  "continuePollingServiceInstance inst = beginPollingServiceInstance inst"

definition finishPollingServiceInstance :: "ServiceInstance \<Rightarrow> (go_error + unit) io" where
  "finishPollingServiceInstance inst = do {
     log_action (PollingForget (meta_key (si_Meta inst)));
     State_Monad.return (Inr ()) }"

section \<open>Class, plan and broker of an instance\<close>

text \<open>The common error path of the lookup: set \<open>Ready\<close> to false (ignoring a failure to do so), record
  an event, return the error.\<close>
definition lookup_failed :: "env \<Rightarrow> ServiceInstance \<Rightarrow> string \<Rightarrow> string \<Rightarrow> string \<Rightarrow> go_error \<Rightarrow> (go_error + 'a) io" where
  "lookup_failed E inst reason prefix s err = do {
     _ \<leftarrow> updateServiceInstanceCondition E inst ConditionReady ConditionFalse reason (prefix @ s);
     instance_event inst EventTypeWarning reason s;
     State_Monad.return (Inl err) }"

definition getServicePlan_step :: "env \<Rightarrow> ServiceInstance \<Rightarrow> ServiceClass \<Rightarrow> (go_error + ServicePlan) io" where
  "getServicePlan_step E inst sc = (case sis_ServicePlanRef (si_Spec inst) of
     None \<Rightarrow> State_Monad.return (Inl NilDereference)
   | Some ref \<Rightarrow> do {
       r \<leftarrow> servicePlanLister_Get (oref_Name ref);
       case r of
         Inr sp \<Rightarrow> State_Monad.return (Inr sp)
       | Inl e \<Rightarrow>
           (let s = ''ServiceInstance '' @ quoted (ns_name (si_Meta inst)) @ '' references a non-existent ServicePlan '' @
                    quoted (sis_ExternalServicePlanName (si_Spec inst)) @ '' on ServiceClass '' @ quoted (scs_ExternalName (sc_Spec sc))
            in lookup_failed E inst errorNonexistentServicePlanReason
                 ''The instance references a ServicePlan that does not exist. '' s (PlainError s)) })"

definition getBroker_step :: "env \<Rightarrow> ServiceInstance \<Rightarrow> ServiceClass \<Rightarrow> (go_error + (string \<times> ClientConfiguration)) io" where
  "getBroker_step E inst sc = do {
     rb \<leftarrow> brokerLister_Get (scs_ClusterServiceBrokerName (sc_Spec sc));
     case rb of
       Inl e \<Rightarrow>
         (let s = ''ServiceInstance '' @ quoted (ns_name (si_Meta inst)) @ '' references a non-existent broker '' @
                  quoted (scs_ClusterServiceBrokerName (sc_Spec sc))
          in lookup_failed E inst errorNonexistentClusterServiceBrokerReason
               ''The instance references a ClusterServiceBroker that does not exist. '' s e)
     | Inr broker \<Rightarrow> do {
         ra \<leftarrow> getAuthCredentialsFromClusterServiceBroker E broker;
         case ra of
           Inl e \<Rightarrow>
             (let s = ''Error getting broker auth credentials for broker '' @ quoted (om_Name (bk_Meta broker)) @ '': '' @ error_string e
              in if e = NilDereference then State_Monad.return (Inl e)
                 else lookup_failed E inst errorAuthCredentialsReason ''Error getting auth credentials. '' s e)
         | Inr authConfig \<Rightarrow> do {
             rc \<leftarrow> brokerClientCreateFunc E (NewClientConfigurationForBroker broker authConfig);
             on_ok rc (\<lambda>client. State_Monad.return (Inr (om_Name (bk_Meta broker), client))) } } }"

definition getServiceClassPlanAndClusterServiceBroker ::
  "env \<Rightarrow> ServiceInstance \<Rightarrow> (go_error + (ServiceClass \<times> ServicePlan \<times> string \<times> ClientConfiguration)) io" where
  "getServiceClassPlanAndClusterServiceBroker E inst = (case sis_ServiceClassRef (si_Spec inst) of
     None \<Rightarrow> State_Monad.return (Inl NilDereference)
   | Some ref \<Rightarrow> do {
       rc \<leftarrow> serviceClassLister_Get (oref_Name ref);
       case rc of
         Inl e \<Rightarrow>
           (let s = ''ServiceInstance '' @ quoted (ns_name (si_Meta inst)) @ '' references a non-existent ServiceClass '' @
                    quoted (sis_ExternalServiceClassName (si_Spec inst))
            in lookup_failed E inst errorNonexistentServiceClassReason
                 ''The instance references a ServiceClass that does not exist. '' s e)
       | Inr sc \<Rightarrow> do {
           rp \<leftarrow> getServicePlan_step E inst sc;
           on_ok rp (\<lambda>sp. do {
             rb \<leftarrow> getBroker_step E inst sc;
             on_ok rb (\<lambda>(brokerName, client). State_Monad.return (Inr (sc, sp, brokerName, client))) }) } })"

section \<open>References\<close>

text \<open>\<open>List\<close> followed by the test \<open>err == nil && len(Items) == 1\<close>: the only match, or the number of
  matches (an error leaves the list empty).\<close>
definition single_match :: "go_error + 'a list \<Rightarrow> nat + 'a" where
  "single_match r = (case r of
     Inl _ \<Rightarrow> Inl 0
   | Inr items \<Rightarrow> (case items of [x] \<Rightarrow> Inr x | _ \<Rightarrow> Inl (length items)))"

definition resolveServiceClassRef ::
  "env \<Rightarrow> ServiceInstance \<Rightarrow> (go_error + (ServiceInstance \<times> ServiceClass option)) io" where
  "resolveServiceClassRef E inst = (case sis_ServiceClassRef (si_Spec inst) of
     Some _ \<Rightarrow> State_Monad.return (Inr (inst, None))
   | None \<Rightarrow> do {
       r \<leftarrow> classes_List E (\<lambda>c. scs_ExternalName (sc_Spec c) = sis_ExternalServiceClassName (si_Spec inst));
       case single_match r of
         Inr sc \<Rightarrow> State_Monad.return (Inr
           (si_Spec_update (\<lambda>s. s \<lparr> sis_ServiceClassRef := Some \<lparr> oref_Namespace = [], oref_Name = om_Name (sc_Meta sc) \<rparr> \<rparr>) inst,
            Some sc))
       | Inl n \<Rightarrow>
           (let s = ''ServiceInstance '' @ quoted (ns_name (si_Meta inst)) @ '' references a non-existent ServiceClass '' @
                    quoted (sis_ExternalServiceClassName (si_Spec inst)) @ '' or there is more than one (found: '' @ show_nat n @ '').''
            in lookup_failed E inst errorNonexistentServiceClassReason
                 ''The instance references a ServiceClass that does not exist. '' s (PlainError s)) })"

text \<open>The class already at hand, or the one the reference names.\<close>
definition class_of_reference ::
  "ServiceInstance \<Rightarrow> ServiceClass option \<Rightarrow> (go_error + ServiceClass) io" where
  "class_of_reference inst found = (case found of
     Some sc \<Rightarrow> State_Monad.return (Inr sc)
   | None \<Rightarrow> (case sis_ServiceClassRef (si_Spec inst) of
       None \<Rightarrow> State_Monad.return (Inl NilDereference)
     | Some ref \<Rightarrow> do {
         r \<leftarrow> serviceClassLister_Get (oref_Name ref);
         State_Monad.return (case r of
           Inr sc \<Rightarrow> Inr sc
         | Inl e \<Rightarrow> Inl (PlainError (''Couldn't find ServiceClass (K8S: '' @ oref_Name ref @ '') associated with Instance '' @
             quoted (ns_name (si_Meta inst)) @ '': '' @ error_string e))) }))"

definition plan_matches :: "ServiceInstance \<Rightarrow> string \<Rightarrow> ServiceClass \<Rightarrow> ServicePlan \<Rightarrow> bool" where
  "plan_matches inst className sc p \<longleftrightarrow>
     sps_ExternalName (sp_Spec p) = sis_ExternalServicePlanName (si_Spec inst) \<and>
     sps_ServiceClassRef (sp_Spec p) = className \<and>
     sps_ClusterServiceBrokerName (sp_Spec p) = scs_ClusterServiceBrokerName (sc_Spec sc)"

definition resolveServicePlanRef ::
  "env \<Rightarrow> ServiceInstance \<Rightarrow> ServiceClass option \<Rightarrow> (go_error + ServiceInstance) io" where
  "resolveServicePlanRef E inst found = (case sis_ServicePlanRef (si_Spec inst) of
     Some _ \<Rightarrow> State_Monad.return (Inr inst)
   | None \<Rightarrow> do {
       rc \<leftarrow> class_of_reference inst found;
       on_ok rc (\<lambda>sc. case sis_ServiceClassRef (si_Spec inst) of
         None \<Rightarrow> State_Monad.return (Inl NilDereference)
       | Some ref \<Rightarrow> do {
           r \<leftarrow> plans_List E (plan_matches inst (oref_Name ref) sc);
           case single_match r of
             Inr sp \<Rightarrow> State_Monad.return (Inr
               (si_Spec_update (\<lambda>s. s \<lparr> sis_ServicePlanRef := Some \<lparr> oref_Namespace = [], oref_Name = om_Name (sp_Meta sp) \<rparr> \<rparr>) inst))
           | Inl n \<Rightarrow>
               (let s = ''ServiceInstance '' @ quoted (ns_name (si_Meta inst)) @ '' references a non-existent ServicePlan '' @
                        quoted (sis_ExternalServicePlanName (si_Spec inst)) @ '' on ServiceClass '' @
                        quoted (sis_ExternalServiceClassName (si_Spec inst)) @ '' or there is more than one (found: '' @ show_nat n @ '').''
                in lookup_failed E inst errorNonexistentServicePlanReason
                     ''The instance references a ServicePlan that does not exist. '' s (PlainError s)) }) })"

definition resolveReferences :: "env \<Rightarrow> ServiceInstance \<Rightarrow> (go_error + ServiceInstance) io" where
  "resolveReferences E inst =
     (if sis_ServiceClassRef (si_Spec inst) \<noteq> None \<and> sis_ServicePlanRef (si_Spec inst) \<noteq> None
      then State_Monad.return (Inr inst)
      else do {
        rc \<leftarrow> resolveServiceClassRef E inst;
        on_ok rc (\<lambda>(inst1, found). do {
          rp \<leftarrow> resolveServicePlanRef E inst1 found;
          on_ok rp (\<lambda>inst2. updateServiceInstanceReferences E inst2) }) })"

section \<open>Polling\<close>

text \<open>The block that ends the polling of an operation that took too long.\<close>
definition stop_polling :: "env \<Rightarrow> ServiceInstance \<Rightarrow> ServiceInstance \<Rightarrow> bool \<Rightarrow> bool \<Rightarrow> string \<Rightarrow> (go_error + unit) io" where
  "stop_polling E inst toUpdate mitigatingOrphan deleting s = do {
     instance_event inst EventTypeWarning errorReconciliationRetryTimeoutReason s;
     toUpdate1 \<leftarrow> (if mitigatingOrphan then State_Monad.return toUpdate
       else setServiceInstanceCondition E toUpdate ConditionFailed ConditionTrue errorReconciliationRetryTimeoutReason s);
     let toUpdate2 = (if deleting then clearServiceInstanceCurrentOperation toUpdate1
                      else setServiceInstanceStartOrphanMitigation toUpdate1);
     update_status_then E toUpdate2 (finishPollingServiceInstance inst) }"

text \<open>The steps shared by an asynchronous deprovision that is reported gone and one that succeeded.\<close>
definition poll_deprovisioned :: "env \<Rightarrow> ServiceInstance \<Rightarrow> ServiceInstance \<Rightarrow> bool \<Rightarrow> (go_error + unit) io" where
  "poll_deprovisioned E inst toUpdate mitigatingOrphan = do {
     toUpdate1 \<leftarrow> setServiceInstanceCondition E toUpdate ConditionReady ConditionFalse
                     successDeprovisionReason successDeprovisionMessage;
     let toUpdate2 = (if \<not> mitigatingOrphan \<and> FinalizerServiceCatalog \<in> set (om_Finalizers (si_Meta toUpdate1))
                      then clear_catalog_finalizer toUpdate1 else toUpdate1);
     update_status_then E toUpdate2 (do {
       instance_event inst EventTypeNormal successDeprovisionReason successDeprovisionMessage;
       finishPollingServiceInstance inst }) }"

definition poll_gone :: "env \<Rightarrow> ServiceInstance \<Rightarrow> bool \<Rightarrow> (go_error + unit) io" where
  "poll_gone E inst mitigatingOrphan =
     poll_deprovisioned E inst
       (si_Status_update (\<lambda>s. s \<lparr> ist_ExternalProperties := None \<rparr>) (clearServiceInstanceCurrentOperation inst))
       mitigatingOrphan"

definition poll_error :: "env \<Rightarrow> ServiceInstance \<Rightarrow> bool \<Rightarrow> bool \<Rightarrow> go_time \<Rightarrow> go_error \<Rightarrow> (go_error + unit) io" where
  "poll_error E inst mitigatingOrphan deleting start err =
     (if IsGoneError err \<and> deleting then poll_gone E inst mitigatingOrphan
      else do {
        let errText = (case IsHTTPError err of
              Some (code, msg, descr) \<Rightarrow> ''Status code: '' @ show_int code @ ''; ErrorMessage: '' @ quoted (nil_or msg) @
                 ''; description: '' @ quoted (nil_or descr)
            | None \<Rightarrow> error_string err);
        instance_event inst EventTypeWarning errorPollingLastOperationReason
          (''Error polling last operation for instance '' @ ns_name (si_Meta inst) @ '': '' @ errText);
        expired \<leftarrow> retry_expired E start;
        if expired then stop_polling E inst inst mitigatingOrphan deleting (timeout_message inst)
        else continuePollingServiceInstance inst })"

definition poll_in_progress :: "env \<Rightarrow> ServiceInstance \<Rightarrow> bool \<Rightarrow> bool \<Rightarrow> go_time \<Rightarrow> string option \<Rightarrow> (go_error + unit) io" where
  "poll_in_progress E inst mitigatingOrphan deleting start descr = do {
     let reason = (if deleting then asyncDeprovisioningReason else asyncProvisioningReason);
     let message = (if deleting then asyncDeprovisioningMessage else asyncProvisioningMessage);
     toUpdate \<leftarrow> (case descr of
         None \<Rightarrow> State_Monad.return None
       | Some d \<Rightarrow> do {
           i \<leftarrow> setServiceInstanceCondition E (si_Status_update (\<lambda>s. s \<lparr> ist_AsyncOpInProgress := True \<rparr>) inst)
                  ConditionReady ConditionFalse reason (message @ '' ('' @ d @ '')'');
           State_Monad.return (Some i) });
     expired \<leftarrow> retry_expired E start;
     if expired then
       stop_polling E inst (case toUpdate of None \<Rightarrow> inst | Some i \<Rightarrow> i) mitigatingOrphan deleting (timeout_message inst)
     else (case toUpdate of
         None \<Rightarrow> continuePollingServiceInstance inst
       | Some i \<Rightarrow> update_status_then E i (continuePollingServiceInstance inst)) }"

definition poll_succeeded :: "env \<Rightarrow> ServiceInstance \<Rightarrow> bool \<Rightarrow> bool \<Rightarrow> (go_error + unit) io" where
  "poll_succeeded E inst mitigatingOrphan deleting = do {
     let toUpdate = clearServiceInstanceCurrentOperation
           (si_Status_update (\<lambda>s. s \<lparr> ist_ExternalProperties := ist_InProgressProperties s \<rparr>) inst);
     if deleting then poll_deprovisioned E inst toUpdate mitigatingOrphan
     else do {
       toUpdate1 \<leftarrow> setServiceInstanceCondition E toUpdate ConditionReady ConditionTrue
                       successProvisionReason successProvisionMessage;
       update_status_then E toUpdate1 (finishPollingServiceInstance inst) } }"

definition poll_failed ::
  "env \<Rightarrow> ServiceClass \<Rightarrow> string \<Rightarrow> ServiceInstance \<Rightarrow> bool \<Rightarrow> bool \<Rightarrow> string option \<Rightarrow> (go_error + unit) io" where
  "poll_failed E sc brokerName inst mitigatingOrphan deleting descr = do {
     let description = (case descr of None \<Rightarrow> [] | Some d \<Rightarrow> d);
     let s = ''Error deprovisioning ServiceInstance '' @ quoted (ns_name (si_Meta inst)) @ '' of ServiceClass '' @
             quoted (scs_ExternalName (sc_Spec sc)) @ '' at ClusterServiceBroker '' @ quoted brokerName @ '': '' @ quoted description;
     instance_event inst EventTypeWarning errorDeprovisionCalledReason s;
     let toUpdate = clearServiceInstanceCurrentOperation inst;
     let readyCond = (if deleting then ConditionUnknown else ConditionFalse);
     let reason = (if deleting then errorDeprovisionCalledReason else errorProvisionCallFailedReason);
     let msg = (if deleting then ''Deprovision call failed:'' @ s else ''Provision call failed: '' @ s);
     toUpdate1 \<leftarrow> setServiceInstanceCondition E toUpdate ConditionReady readyCond reason msg;
     toUpdate2 \<leftarrow> (if mitigatingOrphan then State_Monad.return toUpdate1
       else setServiceInstanceCondition E toUpdate1 ConditionFailed ConditionTrue reason msg);
     update_status_then E toUpdate2 (finishPollingServiceInstance inst) }"

definition poll_invalid_state ::
  "env \<Rightarrow> ServiceInstance \<Rightarrow> bool \<Rightarrow> bool \<Rightarrow> go_time \<Rightarrow> string \<Rightarrow> (go_error + unit) io" where
  "poll_invalid_state E inst mitigatingOrphan deleting start st = do {
     expired \<leftarrow> retry_expired E start;
     if expired then stop_polling E inst inst mitigatingOrphan deleting (timeout_message inst)
     else State_Monad.return (Inl (PlainError (''Got invalid state in LastOperationResponse: '' @ quoted st))) }"

text \<open>Warn about an error before the request: an event, \<open>Ready\<close> false, the status written, and the error returned.\<close>
definition reject_request ::
  "env \<Rightarrow> ServiceInstance \<Rightarrow> ServiceInstance \<Rightarrow> string \<Rightarrow> string \<Rightarrow> string \<Rightarrow> go_error \<Rightarrow> (go_error + 'a) io" where
  "reject_request E inst toUpdate reason s msg err = do {
     instance_event inst EventTypeWarning reason s;
     toUpdate1 \<leftarrow> setServiceInstanceCondition E toUpdate ConditionReady ConditionFalse reason msg;
     r \<leftarrow> updateServiceInstanceStatus E toUpdate1;
     on_ok r (\<lambda>_. State_Monad.return (Inl err)) }"

text \<open>The identity header, when the feature gate is on.  \<open>toUpdate\<close> is written with the error condition.\<close>
definition originating_identity ::
  "env \<Rightarrow> ServiceInstance \<Rightarrow> ServiceInstance \<Rightarrow> string \<Rightarrow> (go_error + AlphaOriginatingIdentity option) io" where
  "originating_identity E inst toUpdate verb =
     (if ev_OriginatingIdentity E then
        (case buildOriginatingIdentity (sis_UserInfo (si_Spec inst)) of
           Inr oi \<Rightarrow> State_Monad.return (Inr oi)
         | Inl e \<Rightarrow>
             (let s = ''Error building originating identity headers for '' @ verb @ '' ServiceInstance '' @
                      quoted (ns_name (si_Meta inst)) @ '': '' @ error_string e
              in reject_request E inst toUpdate errorWithOriginatingIdentity s s e))
      else State_Monad.return (Inr None))"

definition last_operation_request ::
  "ServiceClass \<Rightarrow> ServicePlan \<Rightarrow> ServiceInstance \<Rightarrow> AlphaOriginatingIdentity option \<Rightarrow> LastOperationRequest" where
  "last_operation_request sc sp inst oi = \<lparr>
     lor_InstanceID = sis_ExternalID (si_Spec inst), lor_ServiceID = Some (scs_ExternalID (sc_Spec sc)),
     lor_PlanID = Some (sps_ExternalID (sp_Spec sp)),
     lor_OperationKey = (case ist_LastOperation (si_Status inst) of
        None \<Rightarrow> None | Some key \<Rightarrow> if key = [] then None else Some key),
     lor_OriginatingIdentity = oi \<rparr>"

definition pollServiceInstance ::
  "env \<Rightarrow> ServiceClass \<Rightarrow> ServicePlan \<Rightarrow> string \<Rightarrow> ClientConfiguration \<Rightarrow> ServiceInstance \<Rightarrow> (go_error + unit) io" where
  "pollServiceInstance E sc sp brokerName client inst =
     (let mitigatingOrphan = ist_OrphanMitigationInProgress (si_Status inst);
          deleting = (ist_CurrentOperation (si_Status inst) = InstanceOperationDeprovision \<or> mitigatingOrphan)
      in case ist_OperationStartTime (si_Status inst) of
           None \<Rightarrow> stop_polling E inst inst mitigatingOrphan deleting
             (''Stopping reconciliation retries on ServiceInstance '' @ quoted (ns_name (si_Meta inst)) @
              '' because the operation start time is not set'')
         | Some start \<Rightarrow> do {
             ro \<leftarrow> originating_identity E inst inst ''polling last operation of'';
             on_ok ro (\<lambda>oi. do {
               r \<leftarrow> PollLastOperation E client (last_operation_request sc sp inst oi);
               case r of
                 Inl err \<Rightarrow> poll_error E inst mitigatingOrphan deleting start err
               | Inr response \<Rightarrow> (case lorr_State response of
                   StateInProgress \<Rightarrow> poll_in_progress E inst mitigatingOrphan deleting start (lorr_Description response)
                 | StateSucceeded \<Rightarrow> poll_succeeded E inst mitigatingOrphan deleting
                 | StateFailed \<Rightarrow> poll_failed E sc brokerName inst mitigatingOrphan deleting (lorr_Description response)
                 | StateOther st \<Rightarrow> poll_invalid_state E inst mitigatingOrphan deleting start st) }) })"

definition pollServiceInstanceInternal :: "env \<Rightarrow> ServiceInstance \<Rightarrow> (go_error + unit) io" where
  "pollServiceInstanceInternal E inst = do {
     r \<leftarrow> getServiceClassPlanAndClusterServiceBroker E inst;
     on_ok r (\<lambda>(sc, sp, brokerName, client). pollServiceInstance E sc sp brokerName client inst) }"

section \<open>Deprovisioning\<close>

definition deprovision_blocked :: "env \<Rightarrow> ServiceInstance \<Rightarrow> (go_error + unit) io" where
  "deprovision_blocked E inst = do {
     let s = ''Delete instance '' @ ns_name (si_Meta inst) @ '' blocked by existing ServiceInstanceCredentials associated with this instance.  All credentials must be removed first.'';
     instance_event inst EventTypeWarning errorDeprovisionBlockedByCredentialsReason s;
     toUpdate \<leftarrow> setServiceInstanceCondition E inst ConditionReady ConditionFalse
                    errorDeprovisionBlockedByCredentialsReason (''Delete instance failed. '' @ s);
     update_status_then E toUpdate (State_Monad.return (Inr ())) }"

definition deprovision_request ::
  "ServiceClass \<Rightarrow> ServicePlan \<Rightarrow> ServiceInstance \<Rightarrow> AlphaOriginatingIdentity option \<Rightarrow> DeprovisionRequest" where
  "deprovision_request sc sp inst oi = \<lparr>
     dr_InstanceID = sis_ExternalID (si_Spec inst), dr_AcceptsIncomplete = True,
     dr_ServiceID = scs_ExternalID (sc_Spec sc), dr_PlanID = sps_ExternalID (sp_Spec sp),
     dr_OriginatingIdentity = oi \<rparr>"

text \<open>\<open>Failed\<close> is set unless the deprovision mitigates an orphan, whose original failure must stay visible.\<close>
definition fail_unless_mitigating ::
  "env \<Rightarrow> ServiceInstance \<Rightarrow> ServiceInstance \<Rightarrow> string \<Rightarrow> string \<Rightarrow> ServiceInstance io" where
  "fail_unless_mitigating E inst toUpdate reason s =
     (if ist_OrphanMitigationInProgress (si_Status inst) then State_Monad.return toUpdate
      else setServiceInstanceCondition E toUpdate ConditionFailed ConditionTrue reason s)"

definition deprovision_http_error ::
  "env \<Rightarrow> ServiceClass \<Rightarrow> string \<Rightarrow> ServiceInstance \<Rightarrow> ServiceInstance \<Rightarrow> int \<Rightarrow> string option \<Rightarrow> string option \<Rightarrow>
   (go_error + unit) io" where
  "deprovision_http_error E sc brokerName inst toUpdate code errMsg descr = do {
     let s = ''Error deprovisioning ServiceInstance '' @ quoted (ns_name (si_Meta inst)) @ '' of ServiceClass '' @
             quoted (scs_ExternalName (sc_Spec sc)) @ '' at ClusterServiceBroker '' @ quoted brokerName @ '' with status code '' @
             show_int code @ '': ErrorMessage: '' @ nil_or errMsg @ '', Description: '' @ nil_or descr;
     instance_event inst EventTypeWarning errorDeprovisionCalledReason s;
     toUpdate1 \<leftarrow> setServiceInstanceCondition E toUpdate ConditionReady ConditionUnknown
                     errorDeprovisionCalledReason (''Deprovision call failed. '' @ s);
     toUpdate2 \<leftarrow> fail_unless_mitigating E inst toUpdate1 errorDeprovisionCalledReason s;
     update_status_then E (clearServiceInstanceCurrentOperation toUpdate2) (State_Monad.return (Inr ())) }"

definition deprovision_other_error ::
  "env \<Rightarrow> ServiceClass \<Rightarrow> string \<Rightarrow> ServiceInstance \<Rightarrow> ServiceInstance \<Rightarrow> go_error \<Rightarrow> (go_error + unit) io" where
  "deprovision_other_error E sc brokerName inst toUpdate err = do {
     let s = ''Error deprovisioning ServiceInstance '' @ quoted (ns_name (si_Meta inst)) @ '' of ServiceClass '' @
             quoted (om_Name (sc_Meta sc)) @ '' at ClusterServiceBroker '' @ quoted brokerName @ '': '' @ error_string err;
     instance_event inst EventTypeWarning errorDeprovisionCalledReason s;
     toUpdate1 \<leftarrow> setServiceInstanceCondition E toUpdate ConditionReady ConditionUnknown
                     errorDeprovisionCalledReason (''Deprovision call failed. '' @ s);
     case ist_OperationStartTime (si_Status toUpdate1) of
       None \<Rightarrow> State_Monad.return (Inl NilDereference)
     | Some start \<Rightarrow> do {
         expired \<leftarrow> retry_expired E start;
         if expired then do {
           instance_event inst EventTypeWarning errorReconciliationRetryTimeoutReason (timeout_message inst);
           toUpdate2 \<leftarrow> fail_unless_mitigating E inst toUpdate1 errorReconciliationRetryTimeoutReason (timeout_message inst);
           update_status_then E (clearServiceInstanceCurrentOperation toUpdate2) (State_Monad.return (Inr ())) }
         else update_status_then E toUpdate1 (State_Monad.return (Inl err)) } }"

text \<open>A non-empty operation key is remembered for the polls that follow.\<close>
definition remember_operation :: "string option \<Rightarrow> InstanceStatus \<Rightarrow> InstanceStatus" where
  "remember_operation key s = (case key of
     None \<Rightarrow> s
   | Some k \<Rightarrow> if k = [] then s else s \<lparr> ist_LastOperation := Some k \<rparr>)"

definition start_async ::
  "env \<Rightarrow> ServiceInstance \<Rightarrow> ServiceInstance \<Rightarrow> string option \<Rightarrow> string \<Rightarrow> string \<Rightarrow> (go_error + unit) io" where
  "start_async E inst toUpdate key reason message = do {
     let toUpdate1 = si_Status_update (\<lambda>s. remember_operation key s \<lparr> ist_AsyncOpInProgress := True \<rparr>) toUpdate;
     toUpdate2 \<leftarrow> setServiceInstanceCondition E toUpdate1 ConditionReady ConditionFalse reason message;
     update_status_then E toUpdate2 (do {
       r \<leftarrow> beginPollingServiceInstance inst;
       on_ok r (\<lambda>_. do {
         instance_event inst EventTypeNormal reason message;
         State_Monad.return (Inr ()) }) }) }"

definition deprovision_done :: "env \<Rightarrow> ServiceInstance \<Rightarrow> ServiceInstance \<Rightarrow> (go_error + unit) io" where
  "deprovision_done E inst toUpdate = do {
     let toUpdate1 = si_Status_update (\<lambda>s. s \<lparr> ist_ExternalProperties := None \<rparr>)
                       (clearServiceInstanceCurrentOperation toUpdate);
     toUpdate2 \<leftarrow> setServiceInstanceCondition E toUpdate1 ConditionReady ConditionFalse
                     successDeprovisionReason successDeprovisionMessage;
     let toUpdate3 = (if om_DeletionTimestamp (si_Meta inst) \<noteq> None
           then si_Meta_update (\<lambda>m. m \<lparr> om_Finalizers := delete_finalizer FinalizerServiceCatalog
                  (om_Finalizers (si_Meta inst)) \<rparr>) toUpdate2
           else toUpdate2);
     update_status_then E toUpdate3 (do {
       instance_event inst EventTypeNormal successDeprovisionReason successDeprovisionMessage;
       State_Monad.return (Inr ()) }) }"

text \<open>The request to the broker and what follows from its answer.\<close>
definition deprovision_call ::
  "env \<Rightarrow> ServiceClass \<Rightarrow> string \<Rightarrow> ClientConfiguration \<Rightarrow> DeprovisionRequest \<Rightarrow> ServiceInstance \<Rightarrow> ServiceInstance \<Rightarrow>
   (go_error + unit) io" where
  "deprovision_call E sc brokerName client request inst toUpdate = do {
     r \<leftarrow> DeprovisionInstance E client request;
     case r of
       Inl err \<Rightarrow> (case IsHTTPError err of
           Some (code, errMsg, descr) \<Rightarrow> deprovision_http_error E sc brokerName inst toUpdate code errMsg descr
         | None \<Rightarrow> deprovision_other_error E sc brokerName inst toUpdate err)
     | Inr response \<Rightarrow>
         if drr_Async response
         then start_async E inst toUpdate (drr_OperationKey response) asyncDeprovisioningReason asyncDeprovisioningMessage
         else deprovision_done E inst toUpdate }"

text \<open>The start of an operation is recorded before the request, unless one is in progress already.\<close>
definition ensure_started ::
  "env \<Rightarrow> ServiceInstance \<Rightarrow> ServiceInstanceOperation \<Rightarrow> (go_error + ServiceInstance) io" where
  "ensure_started E toUpdate operation =
     (if ist_CurrentOperation (si_Status toUpdate) = InstanceOperationNone
      then recordStartOfServiceInstanceOperation E toUpdate operation
      else State_Monad.return (Inr toUpdate))"

definition start_mitigation_clock :: "env \<Rightarrow> ServiceInstance \<Rightarrow> ServiceInstance io" where
  "start_mitigation_clock E inst =
     (if ist_OrphanMitigationInProgress (si_Status inst) \<and> ist_OperationStartTime (si_Status inst) = None
      then do { now \<leftarrow> time_Now E;
                State_Monad.return (si_Status_update (\<lambda>s. s \<lparr> ist_OperationStartTime := Some now \<rparr>) inst) }
      else State_Monad.return inst)"

definition deprovision_at_broker :: "env \<Rightarrow> ServiceInstance \<Rightarrow> (go_error + unit) io" where
  "deprovision_at_broker E inst = do {
     r \<leftarrow> getServiceClassPlanAndClusterServiceBroker E inst;
     on_ok r (\<lambda>(sc, sp, brokerName, client). do {
       ro \<leftarrow> originating_identity E inst inst ''deprovisioning'';
       on_ok ro (\<lambda>oi. do {
         toUpdate \<leftarrow> start_mitigation_clock E inst;
         rs \<leftarrow> ensure_started E toUpdate InstanceOperationDeprovision;
         on_ok rs (\<lambda>toUpdate1.
           deprovision_call E sc brokerName client (deprovision_request sc sp inst oi) inst toUpdate1) }) }) }"

definition reconcileServiceInstanceDelete :: "env \<Rightarrow> ServiceInstance \<Rightarrow> (go_error + unit) io" where
  "reconcileServiceInstanceDelete E inst =
     (if om_DeletionTimestamp (si_Meta inst) = None \<and> \<not> ist_OrphanMitigationInProgress (si_Status inst)
      then State_Monad.return (Inr ())
      else do {
        rl \<leftarrow> bindingLister_List (om_Namespace (si_Meta inst));
        on_ok rl (\<lambda>credentialsList.
          if list_ex (\<lambda>b. om_Name (si_Meta inst) = crs_ServiceInstanceRef (cr_Spec b)) credentialsList
          then deprovision_blocked E inst
          else if FinalizerServiceCatalog \<notin> set (om_Finalizers (si_Meta inst))
          then State_Monad.return (Inr ())
          else if \<not> ist_AsyncOpInProgress (si_Status inst) \<and> \<not> ist_OrphanMitigationInProgress (si_Status inst) \<and>
                  (isServiceInstanceFailed inst \<or> ist_ReconciledGeneration (si_Status inst) = 0)
          then update_status_then E (clear_catalog_finalizer inst) (State_Monad.return (Inr ()))
          else deprovision_at_broker E inst) })"

section \<open>Provisioning\<close>

text \<open>The parameters of a request, their checksum and the redacted copy for the status.\<close>
record prepared_parameters =
  pp_parameters :: json_map
  pp_checksum :: string
  pp_redacted :: "RawExtension option"

text \<open>\<open>ParametersFrom != nil\<close> is a list that is not empty: the field is omitted when empty, so that an instance read from
  the API server has no empty slice there.\<close>
definition prepare_parameters ::
  "env \<Rightarrow> ServiceInstance \<Rightarrow> ServiceInstance \<Rightarrow> (go_error + prepared_parameters) io" where
  "prepare_parameters E inst toUpdate =
     (if sis_Parameters (si_Spec inst) \<noteq> None \<or> sis_ParametersFrom (si_Spec inst) \<noteq> [] then do {
        rp \<leftarrow> buildParameters E (om_Namespace (si_Meta inst)) (sis_ParametersFrom (si_Spec inst)) (sis_Parameters (si_Spec inst));
        case rp of
          Inl e \<Rightarrow>
            (let s = ''Failed to prepare ServiceInstance parameters'' @ [CHR 0x0A] @ nil_or (sis_Parameters (si_Spec inst)) @
                     [CHR 0x0A] @ '' '' @ error_string e
             in if e = NilDereference then State_Monad.return (Inl e)
                else reject_request E inst toUpdate errorWithParameters s s e)
        | Inr (parameters, parametersWithSecretsRedacted) \<Rightarrow>
            (case generateChecksumOfParameters parameters of
               Inl e \<Rightarrow>
                 (let s = ''Failed to generate the parameters checksum to store in the Status of ServiceInstance '' @
                          quoted (ns_name (si_Meta inst)) @ '': '' @ error_string e
                  in reject_request E inst toUpdate errorWithParameters s s e)
             | Inr checksum \<Rightarrow>
                 (case MarshalRawParameters parametersWithSecretsRedacted of
                    Inl e \<Rightarrow>
                      (let s = ''Failed to marshal the parameters to store in the Status of ServiceInstance '' @
                               quoted (ns_name (si_Meta inst)) @ '': '' @ error_string e
                       in reject_request E inst toUpdate errorWithParameters s s e)
                  | Inr raw \<Rightarrow> State_Monad.return (Inr
                      \<lparr> pp_parameters = parameters, pp_checksum = checksum, pp_redacted = Some raw \<rparr>))) }
      else State_Monad.return (Inr \<lparr> pp_parameters = [], pp_checksum = [], pp_redacted = None \<rparr>))"

definition in_progress_properties :: "ServicePlan \<Rightarrow> ServiceInstance \<Rightarrow> prepared_parameters \<Rightarrow> PropertiesState" where
  "in_progress_properties sp inst pp = \<lparr>
     ps_ExternalServicePlanName = sps_ExternalName (sp_Spec sp), ps_Parameters = pp_redacted pp,
     ps_ParametersChecksum = pp_checksum pp, ps_UserInfo = sis_UserInfo (si_Spec inst) \<rparr>"

definition provision_request ::
  "ServiceClass \<Rightarrow> ServicePlan \<Rightarrow> ServiceInstance \<Rightarrow> string \<Rightarrow> json_map \<Rightarrow> AlphaOriginatingIdentity option \<Rightarrow> ProvisionRequest" where
  "provision_request sc sp inst nsUID parameters oi = \<lparr>
     pr_InstanceID = sis_ExternalID (si_Spec inst), pr_AcceptsIncomplete = True,
     pr_ServiceID = scs_ExternalID (sc_Spec sc), pr_PlanID = sps_ExternalID (sp_Spec sp),
     pr_OrganizationGUID = nsUID, pr_SpaceGUID = nsUID, pr_Parameters = parameters,
     pr_Context = [(''platform'', JStr ''kubernetes''), (''namespace'', JStr (om_Namespace (si_Meta inst)))],
     pr_OriginatingIdentity = oi \<rparr>"

definition provision_error_text :: "ServiceClass \<Rightarrow> string \<Rightarrow> ServiceInstance \<Rightarrow> go_error \<Rightarrow> string" where
  "provision_error_text sc brokerName inst err =
     ''Error provisioning ServiceInstance '' @ quoted (ns_name (si_Meta inst)) @ '' of ServiceClass '' @
     quoted (scs_ExternalName (sc_Spec sc)) @ '' at ClusterServiceBroker '' @ quoted brokerName @ '': '' @ error_string err"

text \<open>A failure answered by the broker is permanent.\<close>
definition provision_http_error ::
  "env \<Rightarrow> ServiceClass \<Rightarrow> string \<Rightarrow> ServiceInstance \<Rightarrow> ServiceInstance \<Rightarrow> go_error \<Rightarrow> int \<Rightarrow> (go_error + unit) io" where
  "provision_http_error E sc brokerName inst toUpdate httpErr code = do {
     let s = provision_error_text sc brokerName inst httpErr;
     instance_event inst EventTypeWarning errorProvisionCallFailedReason s;
     toUpdate1 \<leftarrow> setServiceInstanceCondition E toUpdate ConditionFailed ConditionTrue
                     ''ClusterServiceBrokerReturnedFailure'' s;
     toUpdate2 \<leftarrow> setServiceInstanceCondition E toUpdate1 ConditionReady ConditionFalse errorProvisionCallFailedReason
                     (''ClusterServiceBroker returned a failure for provision call; operation will not be retried: '' @ s);
     if shouldStartOrphanMitigation code
     then update_status_then E (setServiceInstanceStartOrphanMitigation toUpdate2) (State_Monad.return (Inl httpErr))
     else update_status_then E (clearServiceInstanceCurrentOperation toUpdate2) (State_Monad.return (Inr ())) }"

definition is_timeout :: "go_error \<Rightarrow> bool" where
  "is_timeout e = (case e of UrlError timeout _ \<Rightarrow> timeout | _ \<Rightarrow> False)"

definition provision_timeout ::
  "env \<Rightarrow> ServiceInstance \<Rightarrow> string \<Rightarrow> go_error \<Rightarrow> (go_error + unit) io" where
  "provision_timeout E toUpdate s err = do {
     let msg = ''Communication with the ClusterServiceBroker timed out; operation will not be retried: '' @ s;
     toUpdate1 \<leftarrow> setServiceInstanceCondition E toUpdate ConditionReady ConditionFalse errorErrorCallingProvisionReason msg;
     toUpdate2 \<leftarrow> setServiceInstanceCondition E toUpdate1 ConditionFailed ConditionTrue errorErrorCallingProvisionReason msg;
     update_status_then E (setServiceInstanceStartOrphanMitigation toUpdate2) (State_Monad.return (Inl err)) }"

text \<open>Any other error is retried until the retry duration is over.\<close>
definition provision_retry ::
  "env \<Rightarrow> ServiceInstance \<Rightarrow> ServiceInstance \<Rightarrow> string \<Rightarrow> go_error \<Rightarrow> (go_error + unit) io" where
  "provision_retry E inst toUpdate s err = do {
     toUpdate1 \<leftarrow> setServiceInstanceCondition E toUpdate ConditionReady ConditionFalse errorErrorCallingProvisionReason
                     (''Provision call failed and will be retried: '' @ s);
     case ist_OperationStartTime (si_Status toUpdate1) of
       None \<Rightarrow> State_Monad.return (Inl NilDereference)
     | Some start \<Rightarrow> do {
         expired \<leftarrow> retry_expired E start;
         if expired then do {
           instance_event inst EventTypeWarning errorReconciliationRetryTimeoutReason (timeout_message inst);
           toUpdate2 \<leftarrow> setServiceInstanceCondition E toUpdate1 ConditionFailed ConditionTrue
                           errorReconciliationRetryTimeoutReason (timeout_message inst);
           update_status_then E (clearServiceInstanceCurrentOperation toUpdate2) (State_Monad.return (Inr ())) }
         else update_status_then E toUpdate1 (State_Monad.return (Inl err)) } }"

definition provision_other_error ::
  "env \<Rightarrow> ServiceClass \<Rightarrow> string \<Rightarrow> ServiceInstance \<Rightarrow> ServiceInstance \<Rightarrow> go_error \<Rightarrow> (go_error + unit) io" where
  "provision_other_error E sc brokerName inst toUpdate err = do {
     let s = provision_error_text sc brokerName inst err;
     instance_event inst EventTypeWarning errorErrorCallingProvisionReason s;
     if is_timeout err then provision_timeout E toUpdate s err else provision_retry E inst toUpdate s err }"

definition remember_dashboard :: "string option \<Rightarrow> InstanceStatus \<Rightarrow> InstanceStatus" where
  "remember_dashboard url s = (case url of
     None \<Rightarrow> s
   | Some u \<Rightarrow> if u = [] then s else s \<lparr> ist_DashboardURL := Some u \<rparr>)"

definition provision_done :: "env \<Rightarrow> ServiceInstance \<Rightarrow> ServiceInstance \<Rightarrow> (go_error + unit) io" where
  "provision_done E inst toUpdate = do {
     let toUpdate1 = clearServiceInstanceCurrentOperation
           (si_Status_update (\<lambda>s. s \<lparr> ist_ExternalProperties := ist_InProgressProperties s \<rparr>) toUpdate);
     toUpdate2 \<leftarrow> setServiceInstanceCondition E toUpdate1 ConditionReady ConditionTrue
                     successProvisionReason successProvisionMessage;
     update_status_then E toUpdate2 (do {
       instance_event inst EventTypeNormal successProvisionReason successProvisionMessage;
       State_Monad.return (Inr ()) }) }"

definition provision_call ::
  "env \<Rightarrow> ServiceClass \<Rightarrow> string \<Rightarrow> ClientConfiguration \<Rightarrow> ProvisionRequest \<Rightarrow> ServiceInstance \<Rightarrow> ServiceInstance \<Rightarrow>
   (go_error + unit) io" where
  "provision_call E sc brokerName client request inst toUpdate = do {
     r \<leftarrow> ProvisionInstance E client request;
     case r of
       Inl err \<Rightarrow> (case IsHTTPError err of
           Some (code, errMsg, descr) \<Rightarrow> provision_http_error E sc brokerName inst toUpdate err code
         | None \<Rightarrow> provision_other_error E sc brokerName inst toUpdate err)
     | Inr response \<Rightarrow>
         (let toUpdate1 = si_Status_update (remember_dashboard (prr_DashboardURL response)) toUpdate
          in if prr_Async response
             then start_async E inst toUpdate1 (prr_OperationKey response) asyncProvisioningReason asyncProvisioningMessage
             else provision_done E inst toUpdate1) }"

text \<open>From the resolved references to the request: namespace, parameters, properties, identity, start.\<close>
definition provision_at_broker ::
  "env \<Rightarrow> ServiceClass \<Rightarrow> ServicePlan \<Rightarrow> string \<Rightarrow> ClientConfiguration \<Rightarrow> ServiceInstance \<Rightarrow> ServiceInstance \<Rightarrow>
   (go_error + unit) io" where
  "provision_at_broker E sc sp brokerName client inst toUpdate = do {
     rn \<leftarrow> namespaces_Get E (om_Namespace (si_Meta inst));
     case rn of
       Inl e \<Rightarrow>
         (let s = ''Failed to get namespace '' @ quoted (om_Namespace (si_Meta inst)) @ '' during instance create: '' @ error_string e
          in reject_request E inst toUpdate errorFindingNamespaceServiceInstanceReason s
               (''Error finding namespace for instance. '' @ s) e)
     | Inr nsUID \<Rightarrow> do {
         rp \<leftarrow> prepare_parameters E inst toUpdate;
         on_ok rp (\<lambda>pp. do {
           let toUpdate1 = si_Status_update
                 (\<lambda>s. s \<lparr> ist_InProgressProperties := Some (in_progress_properties sp inst pp) \<rparr>) toUpdate;
           ro \<leftarrow> originating_identity E inst toUpdate1 ''provisioning'';
           on_ok ro (\<lambda>oi. do {
             rs \<leftarrow> ensure_started E toUpdate1 InstanceOperationProvision;
             on_ok rs (\<lambda>toUpdate2.
               provision_call E sc brokerName client (provision_request sc sp inst nsUID (pp_parameters pp) oi) inst toUpdate2) }) }) } }"

definition reconcileServiceInstance :: "env \<Rightarrow> ServiceInstance \<Rightarrow> (go_error + unit) io" where
  "reconcileServiceInstance E inst =
     (if ist_AsyncOpInProgress (si_Status inst) then pollServiceInstanceInternal E inst
      else if om_DeletionTimestamp (si_Meta inst) \<noteq> None \<or> ist_OrphanMitigationInProgress (si_Status inst)
      then reconcileServiceInstanceDelete E inst
      else if isServiceInstanceFailed inst then State_Monad.return (Inr ())
      else if ist_ReconciledGeneration (si_Status inst) = om_Generation (si_Meta inst) then State_Monad.return (Inr ())
      else do {
        rr \<leftarrow> resolveReferences E inst;
        on_ok rr (\<lambda>toUpdate. do {
          rg \<leftarrow> getServiceClassPlanAndClusterServiceBroker E toUpdate;
          on_ok rg (\<lambda>(sc, sp, brokerName, client). provision_at_broker E sc sp brokerName client inst toUpdate) }) })"

definition reconcileServiceInstanceKey :: "env \<Rightarrow> string \<Rightarrow> (go_error + unit) io" where
  "reconcileServiceInstanceKey E key = (case SplitMetaNamespaceKey key of
     Inl e \<Rightarrow> State_Monad.return (Inl e)
   | Inr (namespace, name) \<Rightarrow> do {
       r \<leftarrow> instanceLister_Get namespace name;
       case r of
         Inl e \<Rightarrow> if IsNotFound e then State_Monad.return (Inr ()) else State_Monad.return (Inl e)
       | Inr inst \<Rightarrow> reconcileServiceInstance E inst })"

end
