(* ===== verification/SC_Binding.thy ===== *)
theory SC_Binding
  imports SC_Instance
begin

text \<open>
  The control loop of service instance credentials (bindings): \<open>pkg/controller/controller_binding.go\<close>
  and the lookup for credentials from \<open>controller.go\<close>.  As for instances, \<open>toUpdate\<close> is the modified deep
  copy and \<open>binding\<close> the cached object; the handler is cut at the blocks of the code.
\<close>

section \<open>Conditions and status updates\<close>

definition setServiceInstanceCredentialCondition ::
  "env \<Rightarrow> ServiceInstanceCredential \<Rightarrow> ConditionType \<Rightarrow> ConditionStatus \<Rightarrow> string \<Rightarrow> string \<Rightarrow> ServiceInstanceCredential io" where
  "setServiceInstanceCredentialCondition E toUpdate ty st reason msg = do {
     t \<leftarrow> time_Now E;
     State_Monad.return (setServiceInstanceCredentialConditionInternal toUpdate ty st reason msg t) }"

definition updateServiceInstanceCredentialStatus ::
  "env \<Rightarrow> ServiceInstanceCredential \<Rightarrow> (go_error + ServiceInstanceCredential) io" where
  "updateServiceInstanceCredentialStatus E toUpdate = credentials_UpdateStatus E toUpdate"

definition updateServiceInstanceCredentialCondition ::
  "env \<Rightarrow> ServiceInstanceCredential \<Rightarrow> ConditionType \<Rightarrow> ConditionStatus \<Rightarrow> string \<Rightarrow> string \<Rightarrow> (go_error + unit) io" where
  "updateServiceInstanceCredentialCondition E binding ty st reason msg = do {
     toUpdate \<leftarrow> setServiceInstanceCredentialCondition E binding ty st reason msg;
     r \<leftarrow> credentials_UpdateStatus E toUpdate;
     on_ok r (\<lambda>_. State_Monad.return (Inr ())) }"

definition credential_status_then :: "env \<Rightarrow> ServiceInstanceCredential \<Rightarrow> (go_error + 'a) io \<Rightarrow> (go_error + 'a) io" where
  "credential_status_then E toUpdate k = do {
     r \<leftarrow> updateServiceInstanceCredentialStatus E toUpdate;
     on_ok r (\<lambda>_. k) }"

definition binding_event :: "ServiceInstanceCredential \<Rightarrow> event_type \<Rightarrow> string \<Rightarrow> string \<Rightarrow> unit io" where
  "binding_event b ty reason msg = record_event (event_object ''ServiceInstanceCredential'' (cr_Meta b)) ty reason msg"

definition credential_start_message :: "ServiceInstanceCredentialOperation \<Rightarrow> string \<times> string" where
  "credential_start_message operation = (case operation of
     CredentialOperationBind \<Rightarrow> (bindingInFlightReason, bindingInFlightMessage)
   | CredentialOperationUnbind \<Rightarrow> (unbindingInFlightReason, unbindingInFlightMessage)
   | _ \<Rightarrow> ([], []))"

definition recordStartOfServiceInstanceCredentialOperation ::
  "env \<Rightarrow> ServiceInstanceCredential \<Rightarrow> ServiceInstanceCredentialOperation \<Rightarrow> (go_error + ServiceInstanceCredential) io" where
  "recordStartOfServiceInstanceCredentialOperation E toUpdate operation = do {
     now \<leftarrow> time_Now E;
     let toUpdate1 = cr_Status_update (\<lambda>s. s \<lparr> crst_CurrentOperation := operation, crst_OperationStartTime := Some now \<rparr>) toUpdate;
     toUpdate2 \<leftarrow> setServiceInstanceCredentialCondition E toUpdate1 ConditionReady ConditionFalse
                     (fst (credential_start_message operation)) (snd (credential_start_message operation));
     updateServiceInstanceCredentialStatus E toUpdate2 }"

definition clearServiceInstanceCredentialCurrentOperation :: "ServiceInstanceCredential \<Rightarrow> ServiceInstanceCredential" where
  "clearServiceInstanceCredentialCurrentOperation toUpdate =
     cr_Status_update (\<lambda>s. s \<lparr> crst_CurrentOperation := CredentialOperationNone, crst_OperationStartTime := None,
       crst_ReconciledGeneration := om_Generation (cr_Meta toUpdate), crst_InProgressProperties := None,
       crst_OrphanMitigationInProgress := False \<rparr>) toUpdate"

definition binding_in_instance :: "ServiceInstanceCredential \<Rightarrow> ServiceInstance \<Rightarrow> string \<Rightarrow> string \<Rightarrow> string \<Rightarrow> string" where
  "binding_in_instance b inst class kind brokerName =
     quoted (om_Name (cr_Meta b) @ ''/'' @ om_Namespace (cr_Meta b)) @ '' for ServiceInstance '' @
     quoted (ns_name (si_Meta inst)) @ '' of ServiceClass '' @ quoted class @ '' at '' @ kind @ '' '' @ quoted brokerName"

definition start_orphan_mitigation :: "ServiceInstanceCredential \<Rightarrow> ServiceInstanceCredential" where
  "start_orphan_mitigation toUpdate = cr_Status_update (\<lambda>s. s \<lparr> crst_OrphanMitigationInProgress := True,
     crst_OperationStartTime := None, crst_InProgressProperties := None \<rparr>) toUpdate"

definition setAndUpdateOrphanMitigation ::
  "env \<Rightarrow> ServiceInstanceCredential \<Rightarrow> ServiceInstanceCredential \<Rightarrow> ServiceInstance \<Rightarrow> ServiceClass \<Rightarrow> string \<Rightarrow> string \<Rightarrow>
   (go_error + unit) io" where
  "setAndUpdateOrphanMitigation E b toUpdate inst sc brokerName errorStr = do {
     let s = ''Starting orphan mitgation for ServiceInstanceCredential '' @
             binding_in_instance b inst (om_Name (sc_Meta sc)) ''ServiceBroker'' brokerName @ '', '' @ errorStr;
     toUpdate1 \<leftarrow> setServiceInstanceCredentialCondition E (start_orphan_mitigation toUpdate) ConditionReady ConditionFalse
                     errorServiceInstanceCredentialOrphanMitigation s;
     binding_event b EventTypeWarning errorServiceInstanceCredentialOrphanMitigation s;
     credential_status_then E toUpdate1 (State_Monad.return (Inr ())) }"

text \<open>Warn, set \<open>Ready\<close> to the given status, write the status, and return what the caller wants.\<close>
definition refuse_binding ::
  "env \<Rightarrow> ServiceInstanceCredential \<Rightarrow> ServiceInstanceCredential \<Rightarrow> ConditionStatus \<Rightarrow> string \<Rightarrow> string \<Rightarrow> string \<Rightarrow>
   (go_error + 'a) \<Rightarrow> (go_error + 'a) io" where
  "refuse_binding E b toUpdate st reason s msg result = do {
     binding_event b EventTypeWarning reason s;
     toUpdate1 \<leftarrow> setServiceInstanceCredentialCondition E toUpdate ConditionReady st reason msg;
     credential_status_then E toUpdate1 (State_Monad.return result) }"

section \<open>Class, plan and broker of a credential\<close>

definition binding_lookup_failed ::
  "env \<Rightarrow> ServiceInstanceCredential \<Rightarrow> string \<Rightarrow> string \<Rightarrow> string \<Rightarrow> go_error \<Rightarrow> (go_error + 'a) io" where
  "binding_lookup_failed E b reason prefix s err = do {
     _ \<leftarrow> updateServiceInstanceCredentialCondition E b ConditionReady ConditionFalse reason (prefix @ s);
     binding_event b EventTypeWarning reason s;
     State_Monad.return (Inl err) }"

definition binding_broker_step ::
  "env \<Rightarrow> ServiceInstanceCredential \<Rightarrow> ServiceClass \<Rightarrow> (go_error + (string \<times> ClientConfiguration)) io" where
  "binding_broker_step E b sc = do {
     rb \<leftarrow> brokerLister_Get (scs_ClusterServiceBrokerName (sc_Spec sc));
     case rb of
       Inl e \<Rightarrow>
         (let s = ''ServiceInstanceCredential '' @ quoted (ns_name (cr_Meta b)) @ '' references a non-existent ClusterServiceBroker '' @
                  quoted (scs_ClusterServiceBrokerName (sc_Spec sc))
          in binding_lookup_failed E b errorNonexistentClusterServiceBrokerReason
               ''The binding references a ClusterServiceBroker that does not exist. '' s e)
     | Inr broker \<Rightarrow> do {
         ra \<leftarrow> getAuthCredentialsFromClusterServiceBroker E broker;
         case ra of
           Inl e \<Rightarrow>
             (let s = ''Error getting broker auth credentials for broker '' @ quoted (om_Name (bk_Meta broker)) @ '': '' @ error_string e
              in if e = NilDereference then State_Monad.return (Inl e)
                 else binding_lookup_failed E b errorAuthCredentialsReason ''Error getting auth credentials. '' s e)
         | Inr authConfig \<Rightarrow> do {
             rc \<leftarrow> brokerClientCreateFunc E (NewClientConfigurationForBroker broker authConfig);
             on_ok rc (\<lambda>client. State_Monad.return (Inr (om_Name (bk_Meta broker), client))) } } }"

definition binding_plan_step ::
  "env \<Rightarrow> ServiceInstance \<Rightarrow> ServiceInstanceCredential \<Rightarrow> ServiceClass \<Rightarrow> (go_error + ServicePlan) io" where
  "binding_plan_step E inst b sc = (case sis_ServicePlanRef (si_Spec inst) of
     None \<Rightarrow> State_Monad.return (Inl NilDereference)
   | Some ref \<Rightarrow> do {
       r \<leftarrow> servicePlanLister_Get (oref_Name ref);
       case r of
         Inr sp \<Rightarrow> State_Monad.return (Inr sp)
       | Inl e \<Rightarrow>
           (let s = ''ServiceInstance '' @ quoted (ns_name (si_Meta inst)) @ '' references a non-existent ServicePlan '' @
                    quoted (sis_ExternalServicePlanName (si_Spec inst)) @ '' on ServiceClass '' @ quoted (scs_ExternalName (sc_Spec sc))
            in binding_lookup_failed E b errorNonexistentServicePlanReason
                 ''The ServiceInstanceCredential references an ServiceInstance which references ServicePlan that does not exist. '' s (PlainError s)) })"

definition getServiceClassPlanAndClusterServiceBrokerForServiceInstanceCredential ::
  "env \<Rightarrow> ServiceInstance \<Rightarrow> ServiceInstanceCredential \<Rightarrow>
   (go_error + (ServiceClass \<times> ServicePlan \<times> string \<times> ClientConfiguration)) io" where
  "getServiceClassPlanAndClusterServiceBrokerForServiceInstanceCredential E inst b =
     (case sis_ServiceClassRef (si_Spec inst) of
        None \<Rightarrow> State_Monad.return (Inl NilDereference)
      | Some ref \<Rightarrow> do {
          rc \<leftarrow> serviceClassLister_Get (oref_Name ref);
          case rc of
            Inl e \<Rightarrow>
              (let s = ''ServiceInstanceCredential '' @ quoted (ns_name (cr_Meta b)) @ '' references a non-existent ServiceClass '' @
                       quoted (sis_ExternalServiceClassName (si_Spec inst))
               in binding_lookup_failed E b errorNonexistentServiceClassReason
                    ''The binding references a ServiceClass that does not exist. '' s e)
          | Inr sc \<Rightarrow> do {
              rp \<leftarrow> binding_plan_step E inst b sc;
              on_ok rp (\<lambda>sp. do {
                rb \<leftarrow> binding_broker_step E b sc;
                on_ok rb (\<lambda>(brokerName, client). State_Monad.return (Inr (sc, sp, brokerName, client))) }) } })"

definition isPlanBindable :: "ServiceClass \<Rightarrow> ServicePlan \<Rightarrow> bool" where
  "isPlanBindable sc plan = (case sps_Bindable (sp_Spec plan) of Some b \<Rightarrow> b | None \<Rightarrow> scs_Bindable (sc_Spec sc))"

section \<open>The secret of a credential\<close>

definition bindingControllerAPIVersion :: string where "bindingControllerAPIVersion = ''servicecatalog.k8s.io/v1alpha1''"
definition bindingControllerKind :: string where "bindingControllerKind = ''ServiceInstanceCredential''"

text \<open>The loop that serialises the credentials of the broker's answer.\<close>
fun serialize_credentials :: "json_map \<Rightarrow> (string \<times> string) list \<Rightarrow> go_error + (string \<times> string) list" where
  "serialize_credentials [] acc = Inr acc"
| "serialize_credentials ((k, v) # kvs) acc = (case serialize v of
     Inl e \<Rightarrow> Inl (PlainError (''Unable to serialize credential value '' @ quoted k @ ''; '' @ error_string e))
   | Inr bytes \<Rightarrow> serialize_credentials kvs (AList.update k bytes acc))"

definition new_secret :: "ServiceInstanceCredential \<Rightarrow> (string \<times> string) list \<Rightarrow> Secret" where
  "new_secret b data = \<lparr>
     sec_Meta = \<lparr> om_Name = crs_SecretName (cr_Spec b), om_Namespace = om_Namespace (cr_Meta b), om_UID = [],
       om_ResourceVersion = 0, om_Generation = 0, om_DeletionTimestamp = None, om_DeletionGracePeriodSeconds = None,
       om_Finalizers = [],
       om_OwnerReferences = [NewControllerRef (cr_Meta b) bindingControllerAPIVersion bindingControllerKind] \<rparr>,
     sec_Data = data \<rparr>"

definition update_secret :: "env \<Rightarrow> ServiceInstanceCredential \<Rightarrow> Secret \<Rightarrow> (string \<times> string) list \<Rightarrow> (go_error + unit) io" where
  "update_secret E b existingSecret secretData =
     (if \<not> IsControlledBy (sec_Meta existingSecret) (cr_Meta b)
      then State_Monad.return (Inl (PlainError (''Secret '' @ om_Name (sec_Meta existingSecret) @ '' is not owned by ServiceInstanceCredential'')))
      else do {
        r \<leftarrow> secrets_Update E (om_Namespace (cr_Meta b)) (existingSecret \<lparr> sec_Data := secretData \<rparr>);
        State_Monad.return (case r of
          Inr _ \<Rightarrow> Inr ()
        | Inl e \<Rightarrow> if IsConflict e
            then Inl (PlainError (''Conflicting Secret '' @ om_Name (sec_Meta existingSecret) @ '' update detected''))
            else Inl (PlainError (''Unexpected error in response: '' @ error_string e))) })"

definition create_secret :: "env \<Rightarrow> ServiceInstanceCredential \<Rightarrow> (string \<times> string) list \<Rightarrow> (go_error + unit) io" where
  "create_secret E b secretData = do {
     r \<leftarrow> secrets_Create E (om_Namespace (cr_Meta b)) (new_secret b secretData);
     State_Monad.return (case r of
       Inr _ \<Rightarrow> Inr ()
     | Inl e \<Rightarrow> if IsAlreadyExists e
         then Inl (PlainError (''Conflicting Secret '' @ crs_SecretName (cr_Spec b) @ '' creation detected''))
         else Inl (PlainError (''Unexpected error in response: '' @ error_string e))) }"

definition injectServiceInstanceCredential :: "env \<Rightarrow> ServiceInstanceCredential \<Rightarrow> json_map \<Rightarrow> (go_error + unit) io" where
  "injectServiceInstanceCredential E b credentials =
     on_ok (serialize_credentials credentials []) (\<lambda>secretData. do {
       r \<leftarrow> secrets_Get E (om_Namespace (cr_Meta b)) (crs_SecretName (cr_Spec b));
       case r of
         Inr existingSecret \<Rightarrow> update_secret E b existingSecret secretData
       | Inl e \<Rightarrow>
           if \<not> IsNotFound e then State_Monad.return (Inl (PlainError (''Unexpected error in response: '' @ error_string e)))
           else create_secret E b secretData })"

definition ejectServiceInstanceCredential :: "env \<Rightarrow> ServiceInstanceCredential \<Rightarrow> (go_error + unit) io" where
  "ejectServiceInstanceCredential E b = do {
     r \<leftarrow> secrets_Delete E (om_Namespace (cr_Meta b)) (crs_SecretName (cr_Spec b));
     State_Monad.return (case r of
       Inl e \<Rightarrow> if IsNotFound e then Inr () else Inl e
     | Inr _ \<Rightarrow> Inr ()) }"

section \<open>Binding\<close>

text \<open>As for instances, an empty \<open>ParametersFrom\<close> is read as nil.\<close>
definition binding_parameters ::
  "env \<Rightarrow> ServiceInstanceCredential \<Rightarrow> ServiceInstanceCredential \<Rightarrow> (go_error + prepared_parameters) io" where
  "binding_parameters E b toUpdate =
     (if crs_Parameters (cr_Spec b) \<noteq> None \<or> crs_ParametersFrom (cr_Spec b) \<noteq> [] then do {
        rp \<leftarrow> buildParameters E (om_Namespace (cr_Meta b)) (crs_ParametersFrom (cr_Spec b)) (crs_Parameters (cr_Spec b));
        case rp of
          Inl e \<Rightarrow>
            (let s = ''Failed to prepare ServiceInstanceCredential parameters'' @ [CHR 0x0A] @ nil_or (crs_Parameters (cr_Spec b)) @
                     [CHR 0x0A] @ '' '' @ error_string e
             in if e = NilDereference then State_Monad.return (Inl e)
                else refuse_binding E b toUpdate ConditionFalse errorWithParameters s s (Inl e))
        | Inr (parameters, parametersWithSecretsRedacted) \<Rightarrow>
            (case generateChecksumOfParameters parameters of
               Inl e \<Rightarrow>
                 (let s = ''Failed to generate the parameters checksum to store in the Status of ServiceInstanceCredential '' @
                          quoted (ns_name (cr_Meta b)) @ '': '' @ error_string e
                  in refuse_binding E b toUpdate ConditionFalse errorWithParameters s s (Inl e))
             | Inr checksum \<Rightarrow>
                 (case MarshalRawParameters parametersWithSecretsRedacted of
                    Inl e \<Rightarrow>
                      (let s = ''Failed to marshal the parameters to store in the Status of ServiceInstanceCredential '' @
                               quoted (ns_name (cr_Meta b)) @ '': '' @ error_string e
                       in refuse_binding E b toUpdate ConditionFalse errorWithParameters s s (Inl e))
                  | Inr raw \<Rightarrow> State_Monad.return (Inr
                      \<lparr> pp_parameters = parameters, pp_checksum = checksum, pp_redacted = Some raw \<rparr>))) }
      else State_Monad.return (Inr \<lparr> pp_parameters = [], pp_checksum = [], pp_redacted = None \<rparr>))"

definition credential_in_progress_properties ::
  "ServiceInstanceCredential \<Rightarrow> prepared_parameters \<Rightarrow> CredentialPropertiesState" where
  "credential_in_progress_properties toUpdate pp = \<lparr>
     cps_Parameters = pp_redacted pp, cps_ParametersChecksum = pp_checksum pp,
     cps_UserInfo = crs_UserInfo (cr_Spec toUpdate) \<rparr>"

definition bind_request ::
  "ServiceClass \<Rightarrow> ServicePlan \<Rightarrow> ServiceInstance \<Rightarrow> ServiceInstanceCredential \<Rightarrow> string \<Rightarrow> json_map \<Rightarrow>
   AlphaOriginatingIdentity option \<Rightarrow> BindRequest" where
  "bind_request sc sp inst b appGUID parameters oi = \<lparr>
     bdr_BindingID = crs_ExternalID (cr_Spec b), bdr_InstanceID = sis_ExternalID (si_Spec inst),
     bdr_ServiceID = scs_ExternalID (sc_Spec sc), bdr_PlanID = sps_ExternalID (sp_Spec sp),
     bdr_AppGUID = Some appGUID, bdr_BindResource = Some \<lparr> br_AppGUID = Some appGUID, br_Route = None \<rparr>,
     bdr_Parameters = parameters, bdr_OriginatingIdentity = oi \<rparr>"

definition binding_identity ::
  "env \<Rightarrow> ServiceInstanceCredential \<Rightarrow> ServiceInstanceCredential \<Rightarrow> string \<Rightarrow> (go_error + AlphaOriginatingIdentity option) io" where
  "binding_identity E b toUpdate verb =
     (if ev_OriginatingIdentity E then
        (case buildOriginatingIdentity (crs_UserInfo (cr_Spec b)) of
           Inr oi \<Rightarrow> State_Monad.return (Inr oi)
         | Inl e \<Rightarrow>
             (let s = ''Error building originating identity headers for '' @ verb @ '' ServiceInstanceCredential '' @
                      quoted (ns_name (cr_Meta b)) @ '': '' @ error_string e
              in refuse_binding E b toUpdate ConditionFalse errorWithOriginatingIdentity s s (Inl e)))
      else State_Monad.return (Inr None))"

definition credential_timeout_message :: "ServiceInstanceCredential \<Rightarrow> string" where
  "credential_timeout_message b = ''Stopping reconciliation retries on ServiceInstanceCredential '' @
     quoted (ns_name (cr_Meta b)) @ '' because too much time has elapsed''"

text \<open>2xx other than 200, 408 and 5xx leave the state of the binding at the broker unknown.\<close>
definition bind_needs_mitigation :: "int \<Rightarrow> bool" where
  "bind_needs_mitigation code \<longleftrightarrow> code > 200 \<and> code < 300 \<or> code = 408 \<or> code \<ge> 500 \<and> code < 600"

definition bind_http_error ::
  "env \<Rightarrow> ServiceClass \<Rightarrow> string \<Rightarrow> ServiceInstance \<Rightarrow> ServiceInstanceCredential \<Rightarrow> ServiceInstanceCredential \<Rightarrow> go_error \<Rightarrow> int \<Rightarrow>
   (go_error + unit) io" where
  "bind_http_error E sc brokerName inst b toUpdate err code =
     (if bind_needs_mitigation code then do {
        toUpdate1 \<leftarrow> setServiceInstanceCredentialCondition E toUpdate ConditionFailed ConditionTrue errorBindCallReason
                        (''ServiceBroker returned a failure; Bind operation will not be retried: '' @ error_string err);
        setAndUpdateOrphanMitigation E b toUpdate1 inst sc brokerName (error_string err) }
      else do {
        let s = ''Error creating ServiceInstanceCredential '' @
                binding_in_instance b inst (scs_ExternalName (sc_Spec sc)) ''ClusterServiceBroker'' brokerName @ '', '' @ error_string err;
        binding_event b EventTypeWarning errorBindCallReason s;
        toUpdate1 \<leftarrow> setServiceInstanceCredentialCondition E toUpdate ConditionFailed ConditionTrue
                        ''ServiceInstanceCredentialReturnedFailure'' s;
        toUpdate2 \<leftarrow> setServiceInstanceCredentialCondition E toUpdate1 ConditionReady ConditionFalse errorBindCallReason
                        (''Bind call failed. '' @ s);
        credential_status_then E (clearServiceInstanceCredentialCurrentOperation toUpdate2) (State_Monad.return (Inr ())) })"

definition bind_other_error ::
  "env \<Rightarrow> ServiceClass \<Rightarrow> string \<Rightarrow> ServiceInstance \<Rightarrow> ServiceInstanceCredential \<Rightarrow> ServiceInstanceCredential \<Rightarrow> go_error \<Rightarrow>
   (go_error + unit) io" where
  "bind_other_error E sc brokerName inst b toUpdate err = do {
     let s = ''Error creating ServiceInstanceCredential '' @
             binding_in_instance b inst (scs_ExternalName (sc_Spec sc)) ''ClusterServiceBroker'' brokerName @ '': '' @ error_string err;
     binding_event b EventTypeWarning errorBindCallReason s;
     toUpdate1 \<leftarrow> setServiceInstanceCredentialCondition E toUpdate ConditionReady ConditionFalse errorBindCallReason
                     (''Bind call failed. '' @ s);
     case crst_OperationStartTime (cr_Status toUpdate1) of
       None \<Rightarrow> State_Monad.return (Inl NilDereference)
     | Some start \<Rightarrow> do {
         expired \<leftarrow> retry_expired E start;
         if expired then do {
           binding_event b EventTypeWarning errorReconciliationRetryTimeoutReason (credential_timeout_message b);
           toUpdate2 \<leftarrow> setServiceInstanceCredentialCondition E toUpdate1 ConditionFailed ConditionTrue
                           errorReconciliationRetryTimeoutReason (credential_timeout_message b);
           credential_status_then E (clearServiceInstanceCredentialCurrentOperation toUpdate2) (State_Monad.return (Inr ())) }
         else credential_status_then E toUpdate1 (State_Monad.return (Inl err)) } }"

definition bind_timeout ::
  "env \<Rightarrow> ServiceClass \<Rightarrow> string \<Rightarrow> ServiceInstance \<Rightarrow> ServiceInstanceCredential \<Rightarrow> ServiceInstanceCredential \<Rightarrow> go_error \<Rightarrow>
   (go_error + unit) io" where
  "bind_timeout E sc brokerName inst b toUpdate err = do {
     toUpdate1 \<leftarrow> setServiceInstanceCredentialCondition E toUpdate ConditionFailed ConditionTrue errorBindCallReason
                     (''Communication with the ServiceBroker timed out; Bind operation will not be retried: '' @ error_string err);
     setAndUpdateOrphanMitigation E b toUpdate1 inst sc brokerName (error_string err) }"

definition inject_failed ::
  "env \<Rightarrow> ServiceClass \<Rightarrow> string \<Rightarrow> ServiceInstance \<Rightarrow> ServiceInstanceCredential \<Rightarrow> ServiceInstanceCredential \<Rightarrow> go_error \<Rightarrow>
   (go_error + unit) io" where
  "inject_failed E sc brokerName inst b toUpdate err = do {
     let s = ''Error injecting binding results for ServiceInstanceCredential '' @ quoted (ns_name (cr_Meta b)) @ '': '' @ error_string err;
     binding_event b EventTypeWarning errorInjectingBindResultReason s;
     toUpdate1 \<leftarrow> setServiceInstanceCredentialCondition E toUpdate ConditionReady ConditionFalse
                     errorInjectingBindResultReason (''Error injecting bind result '' @ s);
     case crst_OperationStartTime (cr_Status toUpdate1) of
       None \<Rightarrow> State_Monad.return (Inl NilDereference)
     | Some start \<Rightarrow> do {
         expired \<leftarrow> retry_expired E start;
         if expired then do {
           binding_event b EventTypeWarning errorReconciliationRetryTimeoutReason (credential_timeout_message b);
           toUpdate2 \<leftarrow> setServiceInstanceCredentialCondition E toUpdate1 ConditionFailed ConditionTrue
                           errorReconciliationRetryTimeoutReason (credential_timeout_message b);
           setAndUpdateOrphanMitigation E b toUpdate2 inst sc brokerName ''too much time has elapsed'' }
         else credential_status_then E toUpdate1 (State_Monad.return (Inl err)) } }"

text \<open>The broker accepted the binding: keep its properties, inject the credentials, report.\<close>
definition bind_succeeded ::
  "env \<Rightarrow> ServiceClass \<Rightarrow> string \<Rightarrow> ServiceInstance \<Rightarrow> ServiceInstanceCredential \<Rightarrow> ServiceInstanceCredential \<Rightarrow> json_map \<Rightarrow>
   (go_error + unit) io" where
  "bind_succeeded E sc brokerName inst b toUpdate credentials = do {
     let toUpdate1 = cr_Status_update (\<lambda>s. s \<lparr> crst_ExternalProperties := crst_InProgressProperties s \<rparr>) toUpdate;
     r \<leftarrow> injectServiceInstanceCredential E b credentials;
     case r of
       Inl err \<Rightarrow> inject_failed E sc brokerName inst b toUpdate1 err
     | Inr _ \<Rightarrow> do {
         toUpdate2 \<leftarrow> setServiceInstanceCredentialCondition E (clearServiceInstanceCredentialCurrentOperation toUpdate1)
                         ConditionReady ConditionTrue successInjectedBindResultReason successInjectedBindResultMessage;
         credential_status_then E toUpdate2 (do {
           binding_event b EventTypeNormal successInjectedBindResultReason successInjectedBindResultMessage;
           State_Monad.return (Inr ()) }) } }"

definition bind_call ::
  "env \<Rightarrow> ServiceClass \<Rightarrow> string \<Rightarrow> ClientConfiguration \<Rightarrow> BindRequest \<Rightarrow> ServiceInstance \<Rightarrow> ServiceInstanceCredential \<Rightarrow>
   ServiceInstanceCredential \<Rightarrow> (go_error + unit) io" where
  "bind_call E sc brokerName client request inst b toUpdate = do {
     r \<leftarrow> Bind E client request;
     case r of
       Inl err \<Rightarrow>
         if is_timeout err then bind_timeout E sc brokerName inst b toUpdate err
         else (case IsHTTPError err of
             Some (code, errMsg, descr) \<Rightarrow> bind_http_error E sc brokerName inst b toUpdate err code
           | None \<Rightarrow> bind_other_error E sc brokerName inst b toUpdate err)
     | Inr response \<Rightarrow> bind_succeeded E sc brokerName inst b toUpdate (bdrr_Credentials response) }"

definition ensure_credential_started ::
  "env \<Rightarrow> ServiceInstanceCredential \<Rightarrow> ServiceInstanceCredentialOperation \<Rightarrow> (go_error + ServiceInstanceCredential) io" where
  "ensure_credential_started E toUpdate operation =
     (if crst_CurrentOperation (cr_Status toUpdate) = CredentialOperationNone
      then recordStartOfServiceInstanceCredentialOperation E toUpdate operation
      else State_Monad.return (Inr toUpdate))"

text \<open>From the checks on the instance to the request.\<close>
definition bind_at_broker ::
  "env \<Rightarrow> ServiceClass \<Rightarrow> ServicePlan \<Rightarrow> string \<Rightarrow> ClientConfiguration \<Rightarrow> ServiceInstance \<Rightarrow> ServiceInstanceCredential \<Rightarrow>
   (go_error + unit) io" where
  "bind_at_broker E sc sp brokerName client inst b = do {
     rn \<leftarrow> namespaces_Get E (om_Namespace (si_Meta inst));
     case rn of
       Inl e \<Rightarrow>
         (let s = ''Failed to get namespace '' @ quoted (om_Namespace (si_Meta inst)) @ '' during binding: '' @ error_string e
          in refuse_binding E b b ConditionFalse errorFindingNamespaceServiceInstanceReason s
               (''Error finding namespace for instance. '' @ s) (Inl e))
     | Inr nsUID \<Rightarrow>
         if \<not> isServiceInstanceReady inst then
           (let s = ''ServiceInstanceCredential cannot begin because referenced instance '' @ quoted (ns_name (si_Meta inst)) @ '' is not ready''
            in refuse_binding E b b ConditionFalse errorServiceInstanceNotReadyReason s s (Inr ()))
         else do {
           rp \<leftarrow> binding_parameters E b b;
           on_ok rp (\<lambda>pp. do {
             let toUpdate = cr_Status_update
                   (\<lambda>s. s \<lparr> crst_InProgressProperties := Some (credential_in_progress_properties b pp) \<rparr>) b;
             ro \<leftarrow> binding_identity E b toUpdate ''binding'';
             on_ok ro (\<lambda>oi. do {
               rs \<leftarrow> ensure_credential_started E toUpdate CredentialOperationBind;
               on_ok rs (bind_call E sc brokerName client (bind_request sc sp inst b nsUID (pp_parameters pp) oi) inst b) }) }) } }"

section \<open>Unbinding\<close>

definition unbind_request ::
  "ServiceClass \<Rightarrow> ServicePlan \<Rightarrow> ServiceInstance \<Rightarrow> ServiceInstanceCredential \<Rightarrow> AlphaOriginatingIdentity option \<Rightarrow> UnbindRequest" where
  "unbind_request sc sp inst b oi = \<lparr>
     ubr_InstanceID = sis_ExternalID (si_Spec inst), ubr_BindingID = crs_ExternalID (cr_Spec b),
     ubr_ServiceID = scs_ExternalID (sc_Spec sc), ubr_PlanID = sps_ExternalID (sp_Spec sp),
     ubr_OriginatingIdentity = oi \<rparr>"

definition unbind_http_error ::
  "env \<Rightarrow> ServiceClass \<Rightarrow> string \<Rightarrow> ServiceInstance \<Rightarrow> ServiceInstanceCredential \<Rightarrow> ServiceInstanceCredential \<Rightarrow> go_error \<Rightarrow>
   (go_error + unit) io" where
  "unbind_http_error E sc brokerName inst b toUpdate err = do {
     let s = ''Error unbinding ServiceInstanceCredential '' @
             binding_in_instance b inst (scs_ExternalName (sc_Spec sc)) ''ClusterServiceBroker'' brokerName @ '': '' @ error_string err;
     binding_event b EventTypeWarning errorUnbindCallReason s;
     toUpdate1 \<leftarrow> setServiceInstanceCredentialCondition E toUpdate ConditionReady ConditionUnknown errorUnbindCallReason
                     (''Unbind call failed. '' @ s);
     toUpdate2 \<leftarrow> (if crst_OrphanMitigationInProgress (cr_Status toUpdate1) then State_Monad.return toUpdate1
       else setServiceInstanceCredentialCondition E toUpdate1 ConditionFailed ConditionTrue errorUnbindCallReason
              (''Unbind call failed. '' @ s));
     credential_status_then E (clearServiceInstanceCredentialCurrentOperation toUpdate2) (State_Monad.return (Inr ())) }"

text \<open>The retries are over: \<open>Failed\<close> is set, and set again unless an orphan is being mitigated.\<close>
definition unbind_give_up ::
  "env \<Rightarrow> ServiceInstanceCredential \<Rightarrow> ServiceInstanceCredential \<Rightarrow> (go_error + unit) io" where
  "unbind_give_up E b toUpdate = do {
     let s = credential_timeout_message b;
     binding_event b EventTypeWarning errorReconciliationRetryTimeoutReason s;
     toUpdate1 \<leftarrow> setServiceInstanceCredentialCondition E toUpdate ConditionFailed ConditionTrue
                     errorReconciliationRetryTimeoutReason s;
     toUpdate2 \<leftarrow> (if crst_OrphanMitigationInProgress (cr_Status toUpdate1) then do {
         binding_event b EventTypeWarning errorReconciliationRetryTimeoutReason (s @ '' during orphan mitigation'');
         State_Monad.return toUpdate1 }
       else do {
         binding_event b EventTypeWarning errorReconciliationRetryTimeoutReason s;
         setServiceInstanceCredentialCondition E toUpdate1 ConditionFailed ConditionTrue
           errorReconciliationRetryTimeoutReason s });
     credential_status_then E (clearServiceInstanceCredentialCurrentOperation toUpdate2) (State_Monad.return (Inr ())) }"

definition unbind_other_error ::
  "env \<Rightarrow> ServiceClass \<Rightarrow> string \<Rightarrow> ServiceInstance \<Rightarrow> ServiceInstanceCredential \<Rightarrow> ServiceInstanceCredential \<Rightarrow> go_error \<Rightarrow>
   (go_error + unit) io" where
  "unbind_other_error E sc brokerName inst b toUpdate err = do {
     let s = ''Error unbinding ServiceInstanceCredential '' @ quoted (ns_name (cr_Meta b)) @ '' for ServiceInstance '' @
             quoted (ns_name (si_Meta inst)) @ '' of ServiceClass '' @ quoted (scs_ExternalName (sc_Spec sc)) @
             '' at ClusterServiceBroker '' @ quoted brokerName @ '': '' @ error_string err;
     binding_event b EventTypeWarning errorUnbindCallReason s;
     toUpdate1 \<leftarrow> setServiceInstanceCredentialCondition E toUpdate ConditionReady ConditionUnknown errorUnbindCallReason
                     (''Unbind call failed. '' @ s);
     case crst_OperationStartTime (cr_Status toUpdate1) of
       None \<Rightarrow> State_Monad.return (Inl NilDereference)
     | Some start \<Rightarrow> do {
         expired \<leftarrow> retry_expired E start;
         if expired then unbind_give_up E b toUpdate1
         else credential_status_then E toUpdate1 (State_Monad.return (Inl err)) } }"

definition unbind_done :: "env \<Rightarrow> ServiceInstanceCredential \<Rightarrow> ServiceInstanceCredential \<Rightarrow> (go_error + unit) io" where
  "unbind_done E b toUpdate = do {
     toUpdate1 \<leftarrow> (if crst_OrphanMitigationInProgress (cr_Status toUpdate)
       then setServiceInstanceCredentialCondition E toUpdate ConditionReady ConditionFalse successOrphanMitigationReason
              (''Orphan mitigation successful for ServiceInstanceCredential '' @ quoted (ns_name (cr_Meta b)))
       else do {
         i \<leftarrow> setServiceInstanceCredentialCondition E toUpdate ConditionReady ConditionFalse successUnboundReason
                ''The binding was deleted successfully'';
         State_Monad.return (cr_Meta_update (\<lambda>m. m \<lparr> om_Finalizers := delete_finalizer FinalizerServiceCatalog
           (om_Finalizers (cr_Meta b)) \<rparr>) i) });
     let toUpdate2 = clearServiceInstanceCredentialCurrentOperation
           (cr_Status_update (\<lambda>s. s \<lparr> crst_ExternalProperties := None \<rparr>) toUpdate1);
     credential_status_then E toUpdate2 (do {
       binding_event b EventTypeNormal successUnboundReason ''This binding was deleted successfully'';
       State_Monad.return (Inr ()) }) }"

definition unbind_call ::
  "env \<Rightarrow> ServiceClass \<Rightarrow> string \<Rightarrow> ClientConfiguration \<Rightarrow> UnbindRequest \<Rightarrow> ServiceInstance \<Rightarrow> ServiceInstanceCredential \<Rightarrow>
   ServiceInstanceCredential \<Rightarrow> (go_error + unit) io" where
  "unbind_call E sc brokerName client request inst b toUpdate = do {
     r \<leftarrow> Unbind E client request;
     case r of
       Inl err \<Rightarrow> (case IsHTTPError err of
           Some _ \<Rightarrow> unbind_http_error E sc brokerName inst b toUpdate err
         | None \<Rightarrow> unbind_other_error E sc brokerName inst b toUpdate err)
     | Inr _ \<Rightarrow> unbind_done E b toUpdate }"

definition start_unbind :: "env \<Rightarrow> ServiceInstanceCredential \<Rightarrow> (go_error + ServiceInstanceCredential) io" where
  "start_unbind E b =
     (if crst_CurrentOperation (cr_Status b) = CredentialOperationNone
      then recordStartOfServiceInstanceCredentialOperation E b CredentialOperationUnbind
      else if crst_OrphanMitigationInProgress (cr_Status b) \<and> crst_OperationStartTime (cr_Status b) = None
      then do { now \<leftarrow> time_Now E;
                State_Monad.return (Inr (cr_Status_update (\<lambda>s. s \<lparr> crst_OperationStartTime := Some now \<rparr>) b)) }
      else State_Monad.return (Inr b))"

definition unbind_at_broker ::
  "env \<Rightarrow> ServiceClass \<Rightarrow> ServicePlan \<Rightarrow> string \<Rightarrow> ClientConfiguration \<Rightarrow> ServiceInstance \<Rightarrow> ServiceInstanceCredential \<Rightarrow>
   (go_error + unit) io" where
  "unbind_at_broker E sc sp brokerName client inst b =
     (if FinalizerServiceCatalog \<notin> set (om_Finalizers (cr_Meta b)) \<and> \<not> crst_OrphanMitigationInProgress (cr_Status b)
      then State_Monad.return (Inr ())
      else do {
        re \<leftarrow> ejectServiceInstanceCredential E b;
        case re of
          Inl e \<Rightarrow>
            (let s = ''Error deleting secret: '' @ error_string e
             in refuse_binding E b b ConditionUnknown errorEjectingBindReason (errorEjectingBindMessage @ '' '' @ s)
                  (errorEjectingBindMessage @ s) (Inl e))
        | Inr _ \<Rightarrow> do {
            ro \<leftarrow> binding_identity E b b ''unbinding'';
            on_ok ro (\<lambda>oi. do {
              rs \<leftarrow> start_unbind E b;
              on_ok rs (unbind_call E sc brokerName client (unbind_request sc sp inst b oi) inst b) }) } })"

section \<open>The control loop\<close>

text \<open>Everything after the checks that stop early: the instance, its references and the plan.\<close>
definition reconcile_with_instance ::
  "env \<Rightarrow> ServiceInstanceCredential \<Rightarrow> ServiceInstance \<Rightarrow> (go_error + unit) io" where
  "reconcile_with_instance E b inst =
     (if ist_AsyncOpInProgress (si_Status inst) then
        (let s = ''ServiceInstanceCredential '' @ quoted (ns_name (cr_Meta b)) @ '' trying to bind to ServiceInstance '' @
                 quoted (om_Namespace (cr_Meta b) @ ''/'' @ crs_ServiceInstanceRef (cr_Spec b)) @ '' that has ongoing asynchronous operation''
         in refuse_binding E b b ConditionFalse errorWithOngoingAsyncOperation s errorWithOngoingAsyncOperationMessage
              (Inl (PlainError ''Ongoing Asynchronous operation'')))
      else if sis_ServiceClassRef (si_Spec inst) = None \<or> sis_ServicePlanRef (si_Spec inst) = None
      then State_Monad.return (Inl (PlainError ''ServiceClass or ServicePlan references for Instance have not been resolved yet''))
      else do {
        rg \<leftarrow> getServiceClassPlanAndClusterServiceBrokerForServiceInstanceCredential E inst b;
        on_ok rg (\<lambda>(sc, sp, brokerName, client).
          if \<not> isPlanBindable sc sp then
            (let s = ''ServiceInstanceCredential '' @ quoted (ns_name (cr_Meta b)) @ '' references a non-bindable ServiceClass ('' @
                     quoted (sis_ExternalServiceClassName (si_Spec inst)) @ '') and Plan ('' @
                     quoted (sis_ExternalServicePlanName (si_Spec inst)) @ '') combination''
             in refuse_binding E b b ConditionFalse errorNonbindableServiceClassReason s s (Inr ()))
          else if om_DeletionTimestamp (cr_Meta b) = None \<and> \<not> crst_OrphanMitigationInProgress (cr_Status b)
          then bind_at_broker E sc sp brokerName client inst b
          else unbind_at_broker E sc sp brokerName client inst b) })"

definition reconcileServiceInstanceCredential :: "env \<Rightarrow> ServiceInstanceCredential \<Rightarrow> (go_error + unit) io" where
  "reconcileServiceInstanceCredential E b =
     (if isServiceInstanceCredentialFailed b \<and> om_DeletionTimestamp (cr_Meta b) = None \<and>
         \<not> crst_OrphanMitigationInProgress (cr_Status b)
      then State_Monad.return (Inr ())
      else if om_DeletionTimestamp (cr_Meta b) = None \<and> crst_ReconciledGeneration (cr_Status b) = om_Generation (cr_Meta b)
      then State_Monad.return (Inr ())
      else do {
        ri \<leftarrow> instanceLister_Get (om_Namespace (cr_Meta b)) (crs_ServiceInstanceRef (cr_Spec b));
        case ri of
          Inl e \<Rightarrow>
            (let s = ''ServiceInstanceCredential '' @ quoted (ns_name (cr_Meta b)) @ '' references a non-existent ServiceInstance '' @
                     quoted (om_Namespace (cr_Meta b) @ ''/'' @ crs_ServiceInstanceRef (cr_Spec b))
             in refuse_binding E b b ConditionFalse errorNonexistentServiceInstanceReason s
                  (''The binding references an ServiceInstance that does not exist. '' @ s) (Inl e))
        | Inr inst \<Rightarrow> reconcile_with_instance E b inst })"

definition reconcileServiceInstanceCredentialKey :: "env \<Rightarrow> string \<Rightarrow> (go_error + unit) io" where
  "reconcileServiceInstanceCredentialKey E key = (case SplitMetaNamespaceKey key of
     Inl e \<Rightarrow> State_Monad.return (Inl e)
   | Inr (namespace, name) \<Rightarrow> do {
       r \<leftarrow> bindingLister_Get namespace name;
       case r of
         Inl e \<Rightarrow> if IsNotFound e then State_Monad.return (Inr ()) else State_Monad.return (Inl e)
       | Inr b \<Rightarrow> reconcileServiceInstanceCredential E b })"

end
