(* ===== verification/SC_DataProps.thy ===== *)
theory SC_DataProps
  imports SC_Binding
begin

text \<open>
  Properties of the data transformations the control loops share: queue keys, parameters and their
  redaction, credentials in secrets, the conversion of a catalog and the conditions of a status.
\<close>

section \<open>Keys\<close>

lemma split_on_absent: "d \<notin> set s \<Longrightarrow> split_on d s = [s]"
  by (induction s) auto

lemma split_on_append: "d \<notin> set s \<Longrightarrow> split_on d (s @ d # t) = s # split_on d t"
  by (induction s) auto

lemma Split_meta_key:
  "CHR ''/'' \<notin> set (om_Namespace m) \<Longrightarrow> CHR ''/'' \<notin> set (om_Name m) \<Longrightarrow>
   SplitMetaNamespaceKey (meta_key m) = Inr (om_Namespace m, om_Name m)"
  by (simp add: SplitMetaNamespaceKey_def meta_key_def split_on_absent split_on_append)

lemma bracketed_chars:
  assumes "bracketed e m s" "c \<in> set s"
  shows "e c \<or> m c"
proof (cases "tl s = []")
  case True
  then show ?thesis using assms by (cases s) (auto simp: bracketed_def)
next
  case False
  then have "set s = {hd s, last s} \<union> set (butlast (tl s))"
    using assms(1) by (cases s) (auto simp: bracketed_def, (metis append_butlast_last_id in_set_butlastD last_in_set rotate1.simps(2) set_ConsD set_rotate1)+)
  then show ?thesis using assms by (auto simp: bracketed_def list_all_iff)
qed

lemma no_slash_label: "dns1123Label s \<Longrightarrow> CHR ''/'' \<notin> set s"
  unfolding dns1123Label_def
  by (auto dest!: bracketed_chars[of _ _ s "CHR ''/''"] simp: is_lower_def is_digit_def less_eq_char_def)

lemma set_split_on: "c \<in> set s \<Longrightarrow> c \<noteq> d \<Longrightarrow> \<exists>w \<in> set (split_on d s). c \<in> set w"
  by (induction s) (auto split: list.split)

lemma no_slash_subdomain: "dns1123Subdomain s \<Longrightarrow> CHR ''/'' \<notin> set s"
  using set_split_on[of "CHR ''/''" s "CHR ''.''"] no_slash_label by (auto simp: dns1123Subdomain_def list_all_iff)

lemma valid_meta_key:
  assumes "ValidateObjectMeta m True NameIsDNSSubdomain p = []"
  shows "SplitMetaNamespaceKey (meta_key m) = Inr (om_Namespace m, om_Name m)"
  by (rule Split_meta_key; rule no_slash_label no_slash_subdomain)
    (use assms in \<open>auto simp: ValidateObjectMeta_def NameIsDNSSubdomain_def IsDNS1123Subdomain_def
      ValidateNamespaceName_def IsDNS1123Label_def split: if_splits\<close>)

section \<open>Credentials\<close>

definition credential_text :: "json \<Rightarrow> string" where
  "credential_text v = (case v of JStr s \<Rightarrow> s | _ \<Rightarrow> json_text v)"

lemma serialize_text: "serialize v = Inr (credential_text v)"
  by (simp add: serialize_def credential_text_def json_Marshal_def split: json.split)

lemma serialize_credentials_loop:
  "\<exists>d. serialize_credentials kvs acc = Inr d \<and>
     (wf_map kvs \<longrightarrow> (\<forall>k. map_of d k = (case map_of kvs k of Some v \<Rightarrow> Some (credential_text v) | None \<Rightarrow> map_of acc k)))"
proof (induction kvs arbitrary: acc)
  case (Cons kv kvs)
  obtain k v where kv: "kv = (k, v)" by force
  obtain d where d: "serialize_credentials kvs (AList.update k (credential_text v) acc) = Inr d"
    "wf_map kvs \<longrightarrow> (\<forall>k'. map_of d k' = (case map_of kvs k' of Some v \<Rightarrow> Some (credential_text v)
       | None \<Rightarrow> map_of (AList.update k (credential_text v) acc) k'))"
    using Cons.IH by blast
  have "wf_map (kv # kvs) \<Longrightarrow> wf_map kvs \<and> map_of kvs k = None" using kv by (auto simp: wf_map_def map_of_eq_None_iff)
  then show ?case using d kv by (auto simp: serialize_text update_conv' split: option.splits)
qed simp

section \<open>The catalog\<close>

text \<open>The class and the plans that a service of the catalog stands for, field by field.  A schema of a plan is
  found under a part of its schemas (for instances or for bindings) and an action of that part.\<close>
definition expected_class :: "osb_Service \<Rightarrow> ServiceClass" where
  "expected_class svc = \<lparr> sc_Meta = named_meta (osv_ID svc),
     sc_Spec = \<lparr> scs_ClusterServiceBrokerName = [], scs_ExternalName = osv_Name svc, scs_ExternalID = osv_ID svc,
       scs_Description = osv_Description svc, scs_Bindable = osv_Bindable svc,
       scs_PlanUpdatable = (case osv_PlanUpdatable svc of Some b \<Rightarrow> b | None \<Rightarrow> False),
       scs_ExternalMetadata = map_option (\<lambda>m. json_text (JObj m)) (osv_Metadata svc),
       scs_Tags = osv_Tags svc, scs_Requires = osv_Requires svc \<rparr> \<rparr>"

definition schema_at :: "(AlphaParameterSchemas \<Rightarrow> 'b option) \<Rightarrow> ('b \<Rightarrow> json option option) \<Rightarrow> osb_Plan \<Rightarrow> RawExtension option" where
  "schema_at part act p =
     map_option json_text (Option.bind (Option.bind (Option.bind (opl_AlphaParameterSchemas p) part) act) id)"

definition expected_plan :: "osb_Service \<Rightarrow> osb_Plan \<Rightarrow> ServicePlan" where
  "expected_plan svc p = \<lparr> sp_Meta = named_meta (opl_ID p),
     sp_Spec = \<lparr> sps_ClusterServiceBrokerName = [], sps_ExternalName = opl_Name p, sps_ExternalID = opl_ID p,
       sps_Description = opl_Description p, sps_Bindable = opl_Bindable p,
       sps_Free = (case opl_Free p of Some b \<Rightarrow> b | None \<Rightarrow> False),
       sps_ExternalMetadata = map_option (\<lambda>m. json_text (JObj m)) (opl_Metadata p),
       sps_ServiceInstanceCreateParameterSchema = schema_at aps_ServiceInstances asis_Create p,
       sps_ServiceInstanceUpdateParameterSchema = schema_at aps_ServiceInstances asis_Update p,
       sps_ServiceInstanceCredentialCreateParameterSchema = schema_at aps_ServiceBindings asbs_Create p,
       sps_ServiceClassRef = osv_ID svc \<rparr> \<rparr>"

lemma marshal_opt_eq: "marshal_opt what v = Inr (map_option json_text v)"
  by (cases v) (simp_all add: marshal_opt_def json_Marshal_def)

lemma schemas_at:
  "map_option json_text (instance_schema act (opl_AlphaParameterSchemas p)) = schema_at aps_ServiceInstances act p"
  "map_option json_text (binding_schema (opl_AlphaParameterSchemas p)) = schema_at aps_ServiceBindings asbs_Create p"
  by (auto simp: instance_schema_def binding_schema_def schema_at_def schema_parameters_def split: option.split)

lemma convert_plan: "convertServicePlan (osv_ID svc) p = Inr (expected_plan svc p)"
  by (auto simp: convertServicePlan_def marshal_opt_eq bind_result_def expected_plan_def schemas_at option.map_comp comp_def
      split: option.split)

lemma convert_plans: "map_results (convertServicePlan (osv_ID svc)) plans = Inr (map (expected_plan svc) plans)"
  by (induction plans) (simp_all add: convert_plan bind_result_def)

lemma convert_class: "convertServiceClass svc = Inr (expected_class svc)"
  by (auto simp: convertServiceClass_def marshal_opt_eq bind_result_def expected_class_def option.map_comp comp_def split: option.split)

section \<open>Properties\<close>

text \<open>A key finds its object again.  For a valid instance and a valid credential, splitting the key under
  which it is queued gives its namespace and name.\<close>
theorem queue_key_round_trip:
  assumes "instance_valid yaml i" "credential_valid yaml b"
  shows "SplitMetaNamespaceKey (meta_key (si_Meta i)) = Inr (om_Namespace (si_Meta i), om_Name (si_Meta i)) \<and>
    SplitMetaNamespaceKey (meta_key (cr_Meta b)) = Inr (om_Namespace (cr_Meta b), om_Name (cr_Meta b))"
  using assms valid_meta_key
  by (auto simp: instance_valid_def internalValidateServiceInstance_def validateServiceInstanceName_def
      credential_valid_def internalValidateServiceInstanceCredential_def validateServiceInstanceCredentialName_def)


text \<open>C27: the credentials of a binding are kept key by key.  Serialising the credentials of the broker never
  fails; the data of the secret have exactly the keys of the credentials, with a string as it is and any
  other value as its JSON text.\<close>
theorem credentials_are_kept_by_key:
  assumes "wf_map credentials"
  shows "\<exists>d. serialize_credentials credentials [] = Inr d \<and>
    (\<forall>k. map_of d k = map_option (\<lambda>v. case v of JStr s \<Rightarrow> s | _ \<Rightarrow> json_text v) (map_of credentials k))"
proof -
  obtain d where d: "serialize_credentials credentials [] = Inr d"
    "\<forall>k. map_of d k = (case map_of credentials k of Some v \<Rightarrow> Some (credential_text v) | None \<Rightarrow> map_of [] k)"
    using serialize_credentials_loop[of credentials "[]"] assms by blast
  then have "map_of d k = map_option credential_text (map_of credentials k)" for k by (simp split: option.split)
  moreover have "credential_text = (\<lambda>v. case v of JStr s \<Rightarrow> s | _ \<Rightarrow> json_text v)" by (simp add: fun_eq_iff credential_text_def)
  ultimately show ?thesis using d(1) by simp
qed

text \<open>C28: the conversion of a catalog fails exactly if some service has no plan, with an error that names the
  first such service.  Otherwise it gives, in the order of the catalog, one class per service and one plan per
  plan of the catalog, with every field as the catalog has it: metadata and the three schemas as JSON text,
  missing flags as false, and every plan refers to the class of its service.\<close>
theorem catalog_conversion:
  "convertCatalog svcs = (case find (\<lambda>svc. osv_Plans svc = []) svcs of
     Some svc \<Rightarrow> Inl (PlainError (''ServiceClass '' @ quoted (osv_ID svc) @ '' must have at least one plan''))
   | None \<Rightarrow> Inr (map expected_class svcs, concat (map (\<lambda>svc. map (expected_plan svc) (osv_Plans svc)) svcs)))"
proof (induction svcs)
  case (Cons svc svcs)
  have "om_Name (sc_Meta (expected_class svc)) = osv_ID svc" by (simp add: expected_class_def named_meta_def)
  then show ?case using Cons by (auto simp: convert_class convertServicePlans_def convert_plans bind_result_def split: option.split)
qed simp

text \<open>Setting a condition of an instance changes that condition alone.  The first condition of the type has
  the new status, reason and message; its transition time is the given time exactly if the condition
  is new or its status changes; the conditions of other types, and the rest of the instance, are as
  before.\<close>
theorem setting_a_condition:
  "first_condition ty (ist_Conditions (si_Status (setServiceInstanceConditionInternal i ty st reason msg t))) =
     Some \<lparr> c_Type = ty, c_Status = st,
       c_LastTransitionTime = (case first_condition ty (ist_Conditions (si_Status i)) of
           None \<Rightarrow> t | Some c \<Rightarrow> if c_Status c = st then c_LastTransitionTime c else t),
       c_Reason = reason, c_Message = msg \<rparr> \<and>
   filter (\<lambda>c. c_Type c \<noteq> ty) (ist_Conditions (si_Status (setServiceInstanceConditionInternal i ty st reason msg t))) =
     filter (\<lambda>c. c_Type c \<noteq> ty) (ist_Conditions (si_Status i)) \<and>
   setServiceInstanceConditionInternal i ty st reason msg t = si_Status_update (\<lambda>s. s \<lparr> ist_Conditions :=
     ist_Conditions (si_Status (setServiceInstanceConditionInternal i ty st reason msg t)) \<rparr>) i"
  by (simp add: inst_cond.conds_set first_condition_set_same others_set_condition setServiceInstanceConditionInternal_def split: option.split)

end
