(* ===== verification/SC_Selection.thy ===== *)
theory SC_Selection
  imports SC_DataProps "HOL-Library.Sublist"
begin

text \<open>
  Field selectors (\<open>k8s.io/apimachinery/pkg/fields\<close>): what a selector matches, how it is printed by a client
  and parsed by the API server.  A Go map is an association list in the order in which the iteration
  happens to visit it; the results hold for every order.  Strings are split at ASCII characters only, so that
  the loops over runes are loops over bytes.  The errors of the parser keep their texts.
\<close>

section \<open>Selectors\<close>

datatype field_selector =
  hasTerm string string
| notHasTerm string string
| andTerm "field_selector list"

type_synonym field_set = "(string \<times> string) list"

text \<open>A missing field reads as the empty string.\<close>
definition field_Get :: "field_set \<Rightarrow> string \<Rightarrow> string" where
  "field_Get ls field = (case map_of ls field of None \<Rightarrow> [] | Some v \<Rightarrow> v)"

fun selector_Matches :: "field_selector \<Rightarrow> field_set \<Rightarrow> bool" where
  "selector_Matches (hasTerm f v) ls \<longleftrightarrow> field_Get ls f = v"
| "selector_Matches (notHasTerm f v) ls \<longleftrightarrow> field_Get ls f \<noteq> v"
| "selector_Matches (andTerm ts) ls \<longleftrightarrow> (\<forall>t \<in> set ts. selector_Matches t ls)"

fun selector_Empty :: "field_selector \<Rightarrow> bool" where
  "selector_Empty (hasTerm f v) = False"
| "selector_Empty (notHasTerm f v) = False"
| "selector_Empty (andTerm ts) \<longleftrightarrow> (\<forall>t \<in> set ts. selector_Empty t)"

fun first_found :: "'a option list \<Rightarrow> 'a option" where
  "first_found [] = None"
| "first_found (Some x # xs) = Some x"
| "first_found (None # xs) = first_found xs"

fun RequiresExactMatch :: "field_selector \<Rightarrow> string \<Rightarrow> string option" where
  "RequiresExactMatch (hasTerm f v) field = (if f = field then Some v else None)"
| "RequiresExactMatch (notHasTerm f v) field = None"
| "RequiresExactMatch (andTerm ts) field = first_found (map (\<lambda>t. RequiresExactMatch t field) ts)"

type_synonym transform_func = "string \<Rightarrow> string \<Rightarrow> go_error + (string \<times> string)"

text \<open>A requirement whose field and value both become empty is skipped.\<close>
definition Transform_term ::
  "(string \<Rightarrow> string \<Rightarrow> field_selector) \<Rightarrow> transform_func \<Rightarrow> string \<Rightarrow> string \<Rightarrow> go_error + field_selector" where
  "Transform_term mk fn f v = bind_result (fn f v) (\<lambda>(f', v'). Inr (if f' = [] \<and> v' = [] then andTerm [] else mk f' v'))"

lemma map_results_cong [fundef_cong]:
  "xs = ys \<Longrightarrow> (\<And>x. x \<in> set ys \<Longrightarrow> f x = g x) \<Longrightarrow> map_results f xs = map_results g ys"
  by (induction xs arbitrary: ys) auto

fun selector_Transform :: "transform_func \<Rightarrow> field_selector \<Rightarrow> go_error + field_selector" where
  "selector_Transform fn (hasTerm f v) = Transform_term hasTerm fn f v"
| "selector_Transform fn (notHasTerm f v) = Transform_term notHasTerm fn f v"
| "selector_Transform fn (andTerm ts) =
     bind_result (map_results (\<lambda>t. selector_Transform fn t) ts) (\<lambda>ns. Inr (andTerm (filter (\<lambda>n. \<not> selector_Empty n) ns)))"

section \<open>Printing\<close>

text \<open>A backslash before each backslash, comma and equals sign.\<close>
definition is_special :: "char \<Rightarrow> bool" where
  "is_special c \<longleftrightarrow> c = CHR 0x5C \<or> c = CHR '','' \<or> c = CHR ''=''"

definition EscapeValue :: "string \<Rightarrow> string" where
  "EscapeValue s = concat (map (\<lambda>c. if is_special c then [CHR 0x5C, c] else [c]) s)"

fun selector_String :: "field_selector \<Rightarrow> string" where
  "selector_String (hasTerm f v) = f @ ''='' @ EscapeValue v"
| "selector_String (notHasTerm f v) = f @ ''!='' @ EscapeValue v"
| "selector_String (andTerm ts) = join_with '','' (map (\<lambda>t. selector_String t) ts)"

text \<open>\<open>if len(items) == 1 { return items[0] }; return andTerm(items)\<close>\<close>
definition all_of :: "field_selector list \<Rightarrow> field_selector" where
  "all_of items = (case items of [t] \<Rightarrow> t | _ \<Rightarrow> andTerm items)"

definition SelectorFromSet :: "field_set \<Rightarrow> field_selector" where
  "SelectorFromSet ls = all_of (map (\<lambda>(f, v). hasTerm f v) ls)"

section \<open>Parsing\<close>

definition InvalidEscapeSequence :: "string \<Rightarrow> go_error" where
  "InvalidEscapeSequence s = PlainError (''invalid field selector: invalid escape sequence: '' @ s)"

definition UnescapedRune :: "char \<Rightarrow> go_error" where
  "UnescapedRune c = PlainError (''invalid field selector: unescaped character in value: '' @ show_nat (of_char c))"

fun unescape_loop :: "bool \<Rightarrow> string \<Rightarrow> go_error + string" where
  "unescape_loop inSlash [] = (if inSlash then Inl (InvalidEscapeSequence [CHR 0x5C]) else Inr [])"
| "unescape_loop inSlash (c # s) =
     (if inSlash then
        if is_special c then map_sum id (\<lambda>v. c # v) (unescape_loop False s)
        else Inl (InvalidEscapeSequence [CHR 0x5C, c])
      else if c = CHR 0x5C then unescape_loop True s
      else if is_special c then Inl (UnescapedRune c)
      else map_sum id (\<lambda>v. c # v) (unescape_loop False s))"

definition UnescapeValue :: "string \<Rightarrow> go_error + string" where
  "UnescapeValue s = (if \<not> list_ex is_special s then Inr s else unescape_loop False s)"

text \<open>The terms between commas that are not escaped; \<open>cur\<close> is the term read so far.\<close>
fun split_loop :: "bool \<Rightarrow> string \<Rightarrow> string \<Rightarrow> string list" where
  "split_loop inSlash cur [] = [cur]"
| "split_loop inSlash cur (c # s) =
     (if inSlash then split_loop False (cur @ [c]) s
      else if c = CHR 0x5C then split_loop True (cur @ [c]) s
      else if c = CHR '','' then cur # split_loop False [] s
      else split_loop False (cur @ [c]) s)"

definition splitTerms :: "string \<Rightarrow> string list" where
  "splitTerms s = (if s = [] then [] else split_loop False [] s)"

definition termOperators :: "string list" where
  "termOperators = [''!='', ''=='', ''='']"

fun split_term_loop :: "string \<Rightarrow> string \<Rightarrow> (string \<times> string \<times> string) option" where
  "split_term_loop lhs [] = None"
| "split_term_loop lhs (c # s) =
     (case find (\<lambda>op. prefix op (c # s)) termOperators of
        Some op \<Rightarrow> Some (lhs, op, drop (length op) (c # s))
      | None \<Rightarrow> split_term_loop (lhs @ [c]) s)"

definition splitTerm :: "string \<Rightarrow> (string \<times> string \<times> string) option" where
  "splitTerm term = split_term_loop [] term"

definition parse_term :: "string \<Rightarrow> string \<Rightarrow> go_error + field_selector" where
  "parse_term selector part = (case splitTerm part of
     None \<Rightarrow> Inl (PlainError (''invalid selector: '' @ selector @ ''; can't understand '' @ part))
   | Some (lhs, op, rhs) \<Rightarrow>
       bind_result (UnescapeValue rhs) (\<lambda>v. Inr (if op = ''!='' then notHasTerm lhs v else hasTerm lhs v)))"

text \<open>The terms are sorted, empty ones skipped.\<close>
definition parseSelector :: "transform_func \<Rightarrow> string \<Rightarrow> go_error + field_selector" where
  "parseSelector fn selector =
     bind_result (map_results (parse_term selector) (filter (\<lambda>p. p \<noteq> []) (sort (splitTerms selector))))
       (\<lambda>items. selector_Transform fn (all_of items))"

text \<open>The conversions of field labels that classes and plans register convert nothing.\<close>
definition ServiceClassFieldLabelConversionFunc :: transform_func where
  "ServiceClassFieldLabelConversionFunc label v = Inr (label, v)"

definition ServicePlanFieldLabelConversionFunc :: transform_func where
  "ServicePlanFieldLabelConversionFunc label v = Inr (label, v)"

section \<open>Parsing what was printed\<close>

lemma unescape_escape: "unescape_loop False (EscapeValue v) = Inr v"
  by (induction v) (auto simp: EscapeValue_def is_special_def)

lemma escape_plain: "\<not> list_ex is_special (EscapeValue v) \<Longrightarrow> EscapeValue v = v"
  by (induction v) (auto simp: EscapeValue_def)

lemma UnescapeValue_escape: "UnescapeValue (EscapeValue v) = Inr v"
  by (simp add: UnescapeValue_def unescape_escape escape_plain)

lemma UnescapeValue_plain: "\<not> list_ex is_special v \<Longrightarrow> UnescapeValue v = Inr v"
  by (simp add: UnescapeValue_def)

text \<open>A string that the splitter reads as part of one term.\<close>
definition unsplit :: "string \<Rightarrow> bool" where
  "unsplit t \<longleftrightarrow> (\<forall>cur s. split_loop False cur (t @ s) = split_loop False (cur @ t) s)"

lemma unsplit_append: "unsplit t \<Longrightarrow> unsplit u \<Longrightarrow> unsplit (t @ u)"
  by (simp add: unsplit_def)

lemma unsplit_char: "c \<noteq> CHR 0x5C \<Longrightarrow> c \<noteq> CHR '','' \<Longrightarrow> unsplit [c]"
  by (simp add: unsplit_def)

lemma unsplit_plain: "\<forall>c \<in> set t. c \<noteq> CHR 0x5C \<and> c \<noteq> CHR '','' \<Longrightarrow> unsplit t"
proof (induction t)
  case (Cons c t)
  then show ?case using unsplit_append[OF unsplit_char[of c], of t] by simp
qed (simp add: unsplit_def)

lemma unsplit_escape: "unsplit (EscapeValue v)"
proof (induction v)
  case (Cons c v)
  have "unsplit (if is_special c then [CHR 0x5C, c] else [c])" by (auto simp: unsplit_def is_special_def)
  from unsplit_append[OF this Cons.IH] show ?case by (simp add: EscapeValue_def)
qed (simp add: unsplit_def EscapeValue_def)

lemma split_join: "ts \<noteq> [] \<Longrightarrow> \<forall>t \<in> set ts. unsplit t \<Longrightarrow> split_loop False [] (join_with '','' ts) = ts"
proof (induction ts rule: induct_list012)
  case (2 t)
  then show ?case using spec[of "\<lambda>s. split_loop False [] (t @ s) = split_loop False ([] @ t) s" "[]"] by (simp add: unsplit_def)
next
  case (3 t u ts)
  then have "split_loop False [] (t @ '','' @ join_with '','' (u # ts)) = split_loop False t ('','' @ join_with '','' (u # ts))"
    by (simp add: unsplit_def)
  then show ?case using 3 by simp
qed simp

text \<open>A field name that is read back: no operator and no separator in it.\<close>
definition plain_field :: "string \<Rightarrow> bool" where
  "plain_field f \<longleftrightarrow> f \<noteq> [] \<and> (\<forall>c \<in> set f. \<not> is_special c \<and> c \<noteq> CHR ''!'')"

lemma no_operator: "\<not> is_special c \<Longrightarrow> c \<noteq> CHR ''!'' \<Longrightarrow> find (\<lambda>op. prefix op (c # s)) termOperators = None"
  by (auto simp: termOperators_def is_special_def)

lemma split_term_loop_field:
  "\<forall>c \<in> set f. \<not> is_special c \<and> c \<noteq> CHR ''!'' \<Longrightarrow> split_term_loop lhs (f @ s) = split_term_loop (lhs @ f) s"
  by (induction f arbitrary: lhs) (simp_all add: no_operator)

lemma escape_hd: "\<not> prefix ''=='' (CHR ''='' # EscapeValue v)"
  by (cases v) (auto simp: EscapeValue_def is_special_def)

lemma splitTerm_printed: "plain_field f \<Longrightarrow> splitTerm (f @ ''='' @ EscapeValue v) = Some (f, ''='', EscapeValue v)"
  using escape_hd[of v] by (simp add: splitTerm_def plain_field_def split_term_loop_field) (simp add: termOperators_def)

lemma splitTerm_double: "plain_field f \<Longrightarrow> splitTerm (f @ ''=='' @ v) = Some (f, ''=='', v)"
  by (simp add: splitTerm_def plain_field_def split_term_loop_field) (simp add: termOperators_def)

lemma parse_printed: "plain_field f \<Longrightarrow> parse_term sel (f @ ''='' @ EscapeValue v) = Inr (hasTerm f v)"
  by (simp only: parse_term_def splitTerm_printed) (simp add: UnescapeValue_escape)

lemma map_results_all: "\<forall>x \<in> set xs. f x = Inr (g x) \<Longrightarrow> map_results f xs = Inr (map g xs)"
  by (induction xs) auto

text \<open>A conversion that changes nothing keeps a selector of proper terms.\<close>
lemma transform_terms:
  assumes "\<And>f v. fn f v = Inr (f, v)" "\<forall>t \<in> set ts. \<exists>f v. t = hasTerm f v \<and> f \<noteq> []"
  shows "selector_Transform fn (all_of ts) = Inr (all_of ts)"
proof -
  have one: "selector_Transform fn t = Inr t \<and> \<not> selector_Empty t" if "t \<in> set ts" for t
    using that assms by (auto simp: Transform_term_def)
  then have "map_results (selector_Transform fn) ts = Inr (map id ts)" by (intro map_results_all) simp
  moreover have "filter (\<lambda>n. \<not> selector_Empty n) ts = ts" using one by (auto simp: filter_id_conv)
  ultimately have "selector_Transform fn (andTerm ts) = Inr (andTerm ts)" by simp
  then show ?thesis using one by (auto simp: all_of_def split: list.split)
qed

lemma matches_list: "selector_Matches (all_of ts) ls \<longleftrightarrow> (\<forall>t \<in> set ts. selector_Matches t ls)"
  by (auto simp: all_of_def split: list.split)

lemma String_SelectorFromSet:
  "selector_String (SelectorFromSet fs) = join_with '','' (map (\<lambda>(f, v). f @ ''='' @ EscapeValue v) fs)"
proof -
  have "selector_String (all_of ts) = join_with '','' (map (\<lambda>t. selector_String t) ts)" for ts
    by (auto simp: all_of_def split: list.split)
  then show ?thesis by (simp add: SelectorFromSet_def comp_def split_def)
qed

lemma splitTerms_printed:
  assumes "\<forall>(f, v) \<in> set fs. plain_field f"
  shows "splitTerms (selector_String (SelectorFromSet fs)) = map (\<lambda>(f, v). f @ ''='' @ EscapeValue v) fs"
proof (cases "fs = []")
  case False
  define ts where "ts = map (\<lambda>(f, v). f @ ''='' @ EscapeValue v) fs"
  have "unsplit (f @ ''='' @ EscapeValue v)" if "(f, v) \<in> set fs" for f v
    using that assms unsplit_append[OF unsplit_plain unsplit_append[OF unsplit_char[of "CHR ''=''"] unsplit_escape[of v]], of f]
    by (auto simp: plain_field_def is_special_def)
  then have "\<forall>t \<in> set ts. unsplit t" by (auto simp: ts_def)
  then have split: "split_loop False [] (join_with '','' ts) = ts" using False by (intro split_join) (simp_all add: ts_def)
  have "[] \<notin> set ts" by (auto simp: ts_def)
  then have "join_with '','' ts \<noteq> []" using split by (metis list.set_intros(1) split_loop.simps(1))
  then show ?thesis using split by (simp add: String_SelectorFromSet splitTerms_def ts_def)
qed (simp add: String_SelectorFromSet splitTerms_def)

text \<open>The selector of a request: parsed, then converted by the function registered for the kind.\<close>
definition request_selector :: "transform_func \<Rightarrow> string \<Rightarrow> go_error + field_selector" where
  "request_selector fn selector = bind_result (parseSelector (\<lambda>f v. Inr (f, v)) selector) (selector_Transform fn)"

lemma parse_set:
  assumes "\<forall>(f, v) \<in> set fs. plain_field f" "\<And>f v. fn f v = Inr (f, v)"
  shows "\<exists>ts. parseSelector fn (selector_String (SelectorFromSet fs)) = Inr (all_of ts) \<and> set ts = (\<lambda>(f, v). hasTerm f v) ` set fs"
proof -
  let ?s = "selector_String (SelectorFromSet fs)" and ?pr = "\<lambda>(f, v). f @ ''='' @ EscapeValue v"
  let ?ps = "filter (\<lambda>p. p \<noteq> []) (sort (splitTerms ?s))"
  let ?g = "\<lambda>p. projr (parse_term ?s p)"
  have parsed: "parse_term ?s (?pr x) = Inr (case x of (f, v) \<Rightarrow> hasTerm f v)" if "x \<in> set fs" for x
    using that assms(1) parse_printed[of "fst x" ?s "snd x"] by (auto simp: case_prod_beta)
  have set_ps: "set ?ps = ?pr ` set fs" using splitTerms_printed[OF assms(1)] by auto
  then have "\<forall>p \<in> set ?ps. parse_term ?s p = Inr (?g p)" using parsed by auto
  then have items: "map_results (parse_term ?s) ?ps = Inr (map ?g ?ps)" by (rule map_results_all)
  have set_items: "set (map ?g ?ps) = (\<lambda>(f, v). hasTerm f v) ` set fs"
    unfolding set_map set_ps image_image using parsed by (intro image_cong) simp_all
  have "\<forall>t \<in> set (map ?g ?ps). \<exists>f v. t = hasTerm f v \<and> f \<noteq> []"
    unfolding set_items using assms(1) by (fastforce simp: plain_field_def)
  from transform_terms[OF assms(2) this] items
  have "parseSelector fn ?s = Inr (all_of (map ?g ?ps))" by (simp add: parseSelector_def)
  then show ?thesis using set_items by blast
qed

text \<open>Printing a selector for a set of fields and parsing it gives a selector for the same fields.\<close>
lemma request_set:
  assumes "\<forall>(f, v) \<in> set fs. plain_field f" "\<And>f v. fn f v = Inr (f, v)"
  shows "\<exists>sel. request_selector fn (selector_String (SelectorFromSet fs)) = Inr sel \<and>
    (\<forall>ls. selector_Matches sel ls \<longleftrightarrow> (\<forall>(f, v) \<in> set fs. field_Get ls f = v))"
proof -
  obtain ts where ts: "parseSelector (\<lambda>f v. Inr (f, v)) (selector_String (SelectorFromSet fs)) = Inr (all_of ts)"
    "set ts = (\<lambda>(f, v). hasTerm f v) ` set fs"
    using parse_set[OF assms(1), of "\<lambda>f v. Inr (f, v)"] by blast
  have "\<forall>t \<in> set ts. \<exists>f v. t = hasTerm f v \<and> f \<noteq> []"
    unfolding ts(2) using assms(1) by (fastforce simp: plain_field_def)
  from transform_terms[OF assms(2) this] ts(1)
  have "request_selector fn (selector_String (SelectorFromSet fs)) = Inr (all_of ts)" by (simp add: request_selector_def)
  moreover have "selector_Matches (all_of ts) ls \<longleftrightarrow> (\<forall>(f, v) \<in> set fs. field_Get ls f = v)" for ls
    unfolding matches_list ts(2) by auto
  ultimately show ?thesis by blast
qed

text \<open>The selector that is written by hand, with a value that needs no escape.\<close>
lemma parse_double:
  assumes "plain_field f" "\<not> list_ex is_special v" "\<And>f v. fn f v = Inr (f, v)"
  shows "parseSelector fn (f @ ''=='' @ v) = Inr (hasTerm f v)"
proof -
  let ?s = "f @ ''=='' @ v"
  have "unsplit ?s"
    using assms(1,2) by (intro unsplit_plain) (auto simp: plain_field_def is_special_def list_ex_iff)
  then have "split_loop False [] (?s @ []) = [?s]" by (simp only: unsplit_def append_Nil split_loop.simps)
  then have "splitTerms ?s = [?s]" using assms(1) by (simp add: splitTerms_def plain_field_def)
  moreover have "parse_term ?s ?s = Inr (hasTerm f v)"
    unfolding parse_term_def splitTerm_double[OF assms(1)] using UnescapeValue_plain[OF assms(2)] by simp
  ultimately show ?thesis using assms(1) transform_terms[OF assms(3), of "[hasTerm f v]"] by (simp add: parseSelector_def plain_field_def all_of_def)
qed

lemma request_double:
  assumes "plain_field f" "\<not> list_ex is_special v" "\<And>f v. fn f v = Inr (f, v)"
  shows "request_selector fn (f @ ''=='' @ v) = Inr (hasTerm f v)"
  using assms parse_double[OF assms(1,2), of "\<lambda>f v. Inr (f, v)"]
  by (simp add: request_selector_def Transform_term_def plain_field_def)

text \<open>A name that a selector requires is the name of what it matches.\<close>
lemma first_found_SomeD: "first_found xs = Some v \<Longrightarrow> Some v \<in> set xs"
  by (induction xs rule: first_found.induct) auto

lemma RequiresExactMatch_matches: "RequiresExactMatch sel f = Some v \<Longrightarrow> selector_Matches sel ls \<Longrightarrow> field_Get ls f = v"
proof (induction sel)
  case (andTerm ts)
  then obtain t where "t \<in> set ts" "RequiresExactMatch t f = Some v"
    using first_found_SomeD[of "map (\<lambda>t. RequiresExactMatch t f) ts" v] by auto
  then show ?case using andTerm by auto
qed (auto split: if_splits)

section \<open>Properties\<close>

text \<open>A selector survives the way to the API server.  Print the selector for any set of fields, in any order
  and with any values, and let the server parse and convert it: it matches exactly the objects that have
  these values in these fields.\<close>
theorem selector_round_trip:
  assumes "\<forall>(f, v) \<in> set fs. plain_field f"
  shows "\<exists>sel. request_selector ServicePlanFieldLabelConversionFunc (selector_String (SelectorFromSet fs)) = Inr sel \<and>
    (\<forall>ls. selector_Matches sel ls \<longleftrightarrow> (\<forall>(f, v) \<in> set fs. field_Get ls f = v))"
  by (rule request_set[OF assms]) (simp add: ServicePlanFieldLabelConversionFunc_def)

theorem selector_round_trip_witness:
  "\<exists>sel. request_selector ServicePlanFieldLabelConversionFunc
      (selector_String (SelectorFromSet [(''spec.externalName'', ''a,b=c''), (''metadata.name'', ''p'')])) = Inr sel \<and>
    selector_Matches sel [(''metadata.name'', ''p''), (''spec.externalName'', ''a,b=c'')] \<and>
    \<not> selector_Matches sel [(''metadata.name'', ''p''), (''spec.externalName'', ''a'')]"
proof -
  let ?fs = "[(''spec.externalName'', ''a,b=c''), (''metadata.name'', ''p'')]"
  have "\<forall>(f, v) \<in> set ?fs. plain_field f" by (simp add: plain_field_def is_special_def)
  from selector_round_trip[OF this] show ?thesis by (auto simp: field_Get_def)
qed

end
