(* ===== verification/SC_Storage.thy ===== *)
theory SC_Storage
  imports SC_Selection
begin

text \<open>
  How the five resources are stored and listed (\<open>pkg/registry/servicecatalog/*/storage.go\<close> and
  \<open>server/options.go\<close>, over \<open>ListPredicate\<close> of the generic registry): the keys under which objects are stored,
  the fields by which they can be selected, and the lookups of the controller through field selectors.
  The backend is a list of keys and objects; it finds an object by its key, or all objects under a root.  Its
  order is left open.  Objects have no labels and no initializers here, so a label selector and
  \<open>IncludeUninitialized\<close> select nothing further.
\<close>

section \<open>Options and keys\<close>

record Options =
  opt_ResourcePrefix :: string
  opt_storageType :: string

definition StorageTypeEtcd :: string where "StorageTypeEtcd = ''etcd''"

definition errUnsupportedStorageType :: "string \<Rightarrow> go_error" where
  "errUnsupportedStorageType t = PlainError (''unsupported storage type '' @ t)"

definition StorageTypeFromString :: "string \<Rightarrow> go_error + string" where
  "StorageTypeFromString s = (if s = StorageTypeEtcd then Inr StorageTypeEtcd else Inl (errUnsupportedStorageType s))"

definition options_StorageType :: "Options \<Rightarrow> go_error + string" where
  "options_StorageType opts = (if opt_storageType opts = StorageTypeEtcd then Inr (opt_storageType opts)
     else Inl (errUnsupportedStorageType (opt_storageType opts)))"

text \<open>An empty namespace stands for a context without namespace.\<close>
definition NamespaceKeyRootFunc :: "request_ctx \<Rightarrow> string \<Rightarrow> string" where
  "NamespaceKeyRootFunc ctx prfx = (if ctx_Namespace ctx \<noteq> [] then prfx @ ''/'' @ ctx_Namespace ctx else prfx)"

definition named_key :: "string \<Rightarrow> string \<Rightarrow> go_error + string" where
  "named_key root name =
     (if name = [] then Inl (NewBadRequest ''Name parameter required.'')
      else if ValidatePathSegmentName name \<noteq> [] then Inl (NewBadRequest (''Name parameter invalid: '' @ quoted name))
      else Inr (root @ ''/'' @ name))"

definition NamespaceKeyFunc :: "request_ctx \<Rightarrow> string \<Rightarrow> string \<Rightarrow> go_error + string" where
  "NamespaceKeyFunc ctx prfx name =
     (if ctx_Namespace ctx = [] then Inl (NewBadRequest ''Namespace parameter required.'')
      else named_key (NamespaceKeyRootFunc ctx prfx) name)"

definition NoNamespaceKeyFunc :: "request_ctx \<Rightarrow> string \<Rightarrow> string \<Rightarrow> go_error + string" where
  "NoNamespaceKeyFunc ctx prfx name = named_key prfx name"

text \<open>\<open>None\<close> is the nil function.\<close>
definition options_KeyRootFunc :: "Options \<Rightarrow> (request_ctx \<Rightarrow> string) option" where
  "options_KeyRootFunc opts = (if isOK (options_StorageType opts)
     then Some (\<lambda>ctx. NamespaceKeyRootFunc ctx (opt_ResourcePrefix opts)) else None)"

definition options_KeyFunc :: "Options \<Rightarrow> bool \<Rightarrow> (request_ctx \<Rightarrow> string \<Rightarrow> go_error + string) option" where
  "options_KeyFunc opts namespaced = (if isOK (options_StorageType opts)
     then Some (\<lambda>ctx name. if namespaced then NamespaceKeyFunc ctx (opt_ResourcePrefix opts) name
                           else NoNamespaceKeyFunc ctx (opt_ResourcePrefix opts) name) else None)"

section \<open>Selectable fields\<close>

definition ObjectMetaFieldsSet :: "ObjectMeta \<Rightarrow> field_set" where
  "ObjectMetaFieldsSet m = [(''metadata.name'', om_Name m), (''metadata.namespace'', om_Namespace m)]"

definition instance_toSelectableFields :: "ServiceInstance \<Rightarrow> field_set" where
  "instance_toSelectableFields i = ObjectMetaFieldsSet (si_Meta i)"

definition binding_toSelectableFields :: "ServiceInstanceCredential \<Rightarrow> field_set" where
  "binding_toSelectableFields b = ObjectMetaFieldsSet (cr_Meta b)"

definition broker_toSelectableFields :: "ClusterServiceBroker \<Rightarrow> field_set" where
  "broker_toSelectableFields b = ObjectMetaFieldsSet (bk_Meta b)"

text \<open>The first field is spelled as in the source.\<close>
definition serviceclass_toSelectableFields :: "ServiceClass \<Rightarrow> field_set" where
  "serviceclass_toSelectableFields c = ObjectMetaFieldsSet (sc_Meta c) @
     [(''spec.lusterServiceBrokerName'', scs_ClusterServiceBrokerName (sc_Spec c)),
      (''spec.externalName'', scs_ExternalName (sc_Spec c)), (''spec.externalID'', scs_ExternalID (sc_Spec c))]"

definition serviceplan_toSelectableFields :: "ServicePlan \<Rightarrow> field_set" where
  "serviceplan_toSelectableFields p = ObjectMetaFieldsSet (sp_Meta p) @
     [(''spec.clusterServiceBrokerName'', sps_ClusterServiceBrokerName (sp_Spec p)),
      (''spec.serviceClassRef.name'', sps_ServiceClassRef (sp_Spec p)),
      (''spec.externalName'', sps_ExternalName (sp_Spec p)), (''spec.externalID'', sps_ExternalID (sp_Spec p))]"

section \<open>Stores\<close>

record 'a registry_Store =
  rg_KeyRootFunc :: "request_ctx \<Rightarrow> string"
  rg_KeyFunc :: "request_ctx \<Rightarrow> string \<Rightarrow> go_error + string"
  rg_GetAttrs :: "'a \<Rightarrow> field_set"
  rg_Strategy :: "'a rest_strategy"
  rg_UpdateStrategy :: "'a rest_strategy"

text \<open>\<open>None\<close> is the panic of \<open>GetStorage\<close> on an unsupported storage type.\<close>
definition NewStore :: "Options \<Rightarrow> bool \<Rightarrow> ('a \<Rightarrow> field_set) \<Rightarrow> 'a rest_strategy \<Rightarrow> 'a registry_Store option" where
  "NewStore opts namespaced attrs S = (case (options_KeyRootFunc opts, options_KeyFunc opts namespaced) of
     (Some root, Some key) \<Rightarrow> Some \<lparr> rg_KeyRootFunc = root, rg_KeyFunc = key, rg_GetAttrs = attrs,
        rg_Strategy = S, rg_UpdateStrategy = S \<rparr>
   | _ \<Rightarrow> None)"

definition instance_NewStorage ::
  "Options \<Rightarrow> yaml_decoder \<Rightarrow> bool \<Rightarrow>
   (ServiceInstance registry_Store \<times> ServiceInstance registry_Store \<times> ServiceInstance registry_Store) option" where
  "instance_NewStorage opts yaml oi =
     map_option (\<lambda>store. (store, store \<lparr> rg_UpdateStrategy := instanceStatusUpdateStrategy yaml oi \<rparr>,
         store \<lparr> rg_UpdateStrategy := instanceReferenceUpdateStrategy yaml oi \<rparr>))
       (NewStore opts True instance_toSelectableFields (instanceRESTStrategies yaml oi))"

definition binding_NewStorage ::
  "Options \<Rightarrow> yaml_decoder \<Rightarrow> bool \<Rightarrow> (ServiceInstanceCredential registry_Store \<times> ServiceInstanceCredential registry_Store) option" where
  "binding_NewStorage opts yaml oi =
     map_option (\<lambda>store. (store, store \<lparr> rg_UpdateStrategy := bindingStatusUpdateStrategy yaml oi \<rparr>))
       (NewStore opts True binding_toSelectableFields (bindingRESTStrategies yaml oi))"

definition broker_NewStorage :: "Options \<Rightarrow> (ClusterServiceBroker registry_Store \<times> ClusterServiceBroker registry_Store) option" where
  "broker_NewStorage opts =
     map_option (\<lambda>store. (store, store \<lparr> rg_UpdateStrategy := brokerStatusUpdateStrategy \<rparr>))
       (NewStore opts False broker_toSelectableFields brokerRESTStrategies)"

definition serviceclass_NewStorage :: "Options \<Rightarrow> ServiceClass registry_Store option" where
  "serviceclass_NewStorage opts = NewStore opts False serviceclass_toSelectableFields serviceclassRESTStrategies"

definition serviceplan_NewStorage :: "Options \<Rightarrow> ServicePlan registry_Store option" where
  "serviceplan_NewStorage opts = NewStore opts False serviceplan_toSelectableFields serviceplanRESTStrategies"

section \<open>Listing\<close>

type_synonym 'a backend = "(string \<times> 'a) list"

definition predicate_Matches :: "'a registry_Store \<Rightarrow> field_selector \<Rightarrow> 'a \<Rightarrow> bool" where
  "predicate_Matches R sel x \<longleftrightarrow> selector_Matches sel (rg_GetAttrs R x)"

definition GetToList :: "('a \<Rightarrow> bool) \<Rightarrow> string \<Rightarrow> 'a backend \<Rightarrow> 'a list" where
  "GetToList p key kvs = (case map_of kvs key of Some x \<Rightarrow> (if p x then [x] else []) | None \<Rightarrow> [])"

definition backend_List :: "('a \<Rightarrow> bool) \<Rightarrow> string \<Rightarrow> 'a backend \<Rightarrow> 'a list" where
  "backend_List p root kvs = filter p (map snd (filter (\<lambda>(key, _). prefix (root @ ''/'') key) kvs))"

definition MatchesSingle :: "field_selector \<Rightarrow> string option" where
  "MatchesSingle sel = RequiresExactMatch sel ''metadata.name''"

text \<open>A selector that names one object reads that object only, if the context gives its key.\<close>
definition ListPredicate :: "'a registry_Store \<Rightarrow> request_ctx \<Rightarrow> field_selector \<Rightarrow> 'a backend \<Rightarrow> 'a list" where
  "ListPredicate R ctx sel kvs =
     (let all = backend_List (predicate_Matches R sel) (rg_KeyRootFunc R ctx) kvs in
      case MatchesSingle sel of
        Some name \<Rightarrow> (case rg_KeyFunc R ctx name of
            Inr key \<Rightarrow> GetToList (predicate_Matches R sel) key kvs
          | Inl _ \<Rightarrow> all)
      | None \<Rightarrow> all)"

text \<open>A list request with a field selector, as the API server handles it.\<close>
definition list_request :: "'a registry_Store \<Rightarrow> transform_func \<Rightarrow> request_ctx \<Rightarrow> string \<Rightarrow> 'a backend \<Rightarrow> go_error + 'a list" where
  "list_request R fn ctx fieldSelector kvs =
     (case request_selector fn fieldSelector of
        Inl e \<Rightarrow> Inl (NewBadRequest (error_string e))
      | Inr sel \<Rightarrow> Inr (ListPredicate R ctx sel kvs))"

text \<open>The backend that holds the objects of a store.\<close>
definition backend_of :: "'a registry_Store \<Rightarrow> 'a store \<Rightarrow> 'a backend" where
  "backend_of R st = map (\<lambda>((ns, name), x). (projr (rg_KeyFunc R \<lparr> ctx_Namespace = ns, ctx_User = None \<rparr> name), x)) (st_alist st)"

text \<open>The selectors of \<open>resolveReferences\<close>; the order of the map is an argument.\<close>
definition class_selector :: "ServiceInstance \<Rightarrow> string" where
  "class_selector inst = ''spec.externalName=='' @ sis_ExternalServiceClassName (si_Spec inst)"

definition plan_fields_wanted :: "ServiceInstance \<Rightarrow> string \<Rightarrow> ServiceClass \<Rightarrow> field_set" where
  "plan_fields_wanted inst className sc =
     [(''spec.externalName'', sis_ExternalServicePlanName (si_Spec inst)), (''spec.serviceClassRef.name'', className),
      (''spec.clusterServiceBrokerName'', scs_ClusterServiceBrokerName (sc_Spec sc))]"

section \<open>Key schemes\<close>

lemma filter_key:
  "wf_map al \<Longrightarrow> filter (\<lambda>(k, x). k = k0 \<and> P x) al =
     (case map_of al k0 of Some x \<Rightarrow> (if P x then [(k0, x)] else []) | None \<Rightarrow> [])"
proof (induction al)
  case (Cons e al)
  have "k0 \<notin> fst ` set al" if "fst e = k0" using Cons.prems that by (auto simp: wf_map_def)
  then have "filter (\<lambda>(k, x). k = k0 \<and> P x) al = []" if "fst e = k0"
    using that by (auto simp: filter_empty_conv rev_image_eqI)
  then show ?case using Cons by (cases e) (auto simp: wf_map_def split: option.split)
qed simp

text \<open>What listing relies on: keys are distinct, and the root of a namespace covers just the keys in it.\<close>
locale key_scheme =
  fixes key :: "store_key \<Rightarrow> string" and root :: "string \<Rightarrow> string" and ok :: "store_key \<Rightarrow> bool" and ok_ns :: "string \<Rightarrow> bool"
  assumes key_inj: "ok k \<Longrightarrow> ok k' \<Longrightarrow> key k = key k' \<longleftrightarrow> k = k'"
    and under_root: "ok k \<Longrightarrow> ok_ns ns \<Longrightarrow> prefix (root ns @ ''/'') (key k) \<longleftrightarrow> ns = [] \<or> fst k = ns"
begin

definition keyed :: "(store_key \<times> 'a) list \<Rightarrow> 'a backend" where
  "keyed al = map (\<lambda>(k, x). (key k, x)) al"

lemma keyed_get: "\<forall>k \<in> fst ` set al. ok k \<Longrightarrow> ok k0 \<Longrightarrow> map_of (keyed al) (key k0) = map_of al k0"
  by (induction al) (auto simp: keyed_def key_inj)

lemma keyed_list:
  "\<forall>k \<in> fst ` set al. ok k \<Longrightarrow> ok_ns ns \<Longrightarrow>
   backend_List p (root ns) (keyed al) = map snd (filter (\<lambda>(k, x). (ns = [] \<or> fst k = ns) \<and> p x) al)"
  by (induction al) (auto simp: keyed_def backend_List_def under_root)

text \<open>Reading the one object that a selector names gives the same as listing all of them, provided that the key
  belongs to the namespace in which the objects are listed.\<close>
lemma keyed_ListPredicate:
  assumes al: "\<forall>k \<in> fst ` set al. ok k" "wf_map al" "ok_ns (ctx_Namespace ctx)"
    and root: "rg_KeyRootFunc R ctx = root (ctx_Namespace ctx)"
    and key: "\<And>name ks. rg_KeyFunc R ctx name = Inr ks \<Longrightarrow> \<exists>ns. ok (ns, name) \<and> ks = key (ns, name) \<and>
      (\<forall>k \<in> fst ` set al. (ctx_Namespace ctx = [] \<or> fst k = ctx_Namespace ctx) \<longleftrightarrow> fst k = ns)"
    and names: "\<forall>((ns, name), x) \<in> set al. field_Get (rg_GetAttrs R x) ''metadata.name'' = name"
  shows "ListPredicate R ctx sel (keyed al) =
    map snd (filter (\<lambda>(k, x). (ctx_Namespace ctx = [] \<or> fst k = ctx_Namespace ctx) \<and> predicate_Matches R sel x) al)"
proof (cases "\<exists>name ks. MatchesSingle sel = Some name \<and> rg_KeyFunc R ctx name = Inr ks")
  case False
  then have "ListPredicate R ctx sel (keyed al) = backend_List (predicate_Matches R sel) (rg_KeyRootFunc R ctx) (keyed al)"
    by (auto simp: ListPredicate_def Let_def split: option.split sum.split)
  then show ?thesis using keyed_list[OF al(1,3)] root by simp
next
  case True
  then obtain name ks where n: "MatchesSingle sel = Some name" "rg_KeyFunc R ctx name = Inr ks" by blast
  from key[OF n(2)] obtain ns where ns: "ok (ns, name)" "ks = key (ns, name)"
    and scope: "\<And>k. k \<in> fst ` set al \<Longrightarrow> (ctx_Namespace ctx = [] \<or> fst k = ctx_Namespace ctx) \<longleftrightarrow> fst k = ns" by blast
  have "snd k = name" if "(k, x) \<in> set al" "predicate_Matches R sel x" for k x
    using that RequiresExactMatch_matches[of sel _ name] n(1) names by (fastforce simp: MatchesSingle_def predicate_Matches_def)
  then have "filter (\<lambda>(k, x). (ctx_Namespace ctx = [] \<or> fst k = ctx_Namespace ctx) \<and> predicate_Matches R sel x) al =
      filter (\<lambda>(k, x). k = (ns, name) \<and> predicate_Matches R sel x) al"
    using scope by (intro filter_cong) (force simp: prod_eq_iff)+
  then show ?thesis
    using n ns keyed_get[OF al(1) ns(1)] filter_key[OF al(2)] by (simp add: ListPredicate_def GetToList_def split: option.split)
qed

end

definition segment :: "string \<Rightarrow> bool" where
  "segment s \<longleftrightarrow> s \<noteq> [] \<and> CHR ''/'' \<notin> set s"

lemma segment_append_eq:
  "CHR ''/'' \<notin> set a \<Longrightarrow> CHR ''/'' \<notin> set b \<Longrightarrow> a @ CHR ''/'' # s = b @ CHR ''/'' # t \<longleftrightarrow> a = b \<and> s = t"
  by (auto simp: append_eq_append_conv2 Cons_eq_append_conv append_eq_Cons_conv)

lemma prefix_segment:
  "CHR ''/'' \<notin> set a \<Longrightarrow> CHR ''/'' \<notin> set b \<Longrightarrow> prefix (a @ ''/'') (b @ CHR ''/'' # t) \<longleftrightarrow> a = b"
  using segment_append_eq[of b a] by (auto simp: prefix_def)

lemma no_prefix_segment: "CHR ''/'' \<notin> set b \<Longrightarrow> \<not> prefix (a @ ''/'') b"
  by (auto simp: prefix_def)

definition path_name :: "string \<Rightarrow> bool" where
  "path_name s \<longleftrightarrow> s \<noteq> [] \<and> ValidatePathSegmentName s = []"

lemma path_name_segment: "path_name s \<Longrightarrow> s \<noteq> [] \<and> CHR ''/'' \<notin> set s"
  by (auto simp: path_name_def ValidatePathSegmentName_def split: if_splits)

abbreviation namespaced_key :: "string \<Rightarrow> store_key \<Rightarrow> string" where
  "namespaced_key p \<equiv> \<lambda>(ns, name). p @ ''/'' @ ns @ ''/'' @ name"

abbreviation cluster_key :: "string \<Rightarrow> store_key \<Rightarrow> string" where
  "cluster_key p \<equiv> \<lambda>(ns, name). p @ ''/'' @ name"

abbreviation namespaced_ok :: "store_key \<Rightarrow> bool" where
  "namespaced_ok \<equiv> \<lambda>(ns, name). segment ns \<and> path_name name"

abbreviation cluster_ok :: "store_key \<Rightarrow> bool" where
  "cluster_ok \<equiv> \<lambda>(ns, name). ns = [] \<and> path_name name"

abbreviation key_root :: "string \<Rightarrow> string \<Rightarrow> string" where
  "key_root p \<equiv> \<lambda>ns. if ns \<noteq> [] then p @ ''/'' @ ns else p"

interpretation namespaced_keys: key_scheme "namespaced_key p" "key_root p" namespaced_ok "\<lambda>ns. ns = [] \<or> segment ns" for p
  by unfold_locales (auto simp: segment_def segment_append_eq prefix_segment dest!: path_name_segment)

interpretation cluster_keys: key_scheme "cluster_key p" "key_root p" cluster_ok "\<lambda>ns. ns = [] \<or> segment ns" for p
  by unfold_locales (auto simp: segment_def no_prefix_segment dest!: path_name_segment)

section \<open>Valid objects have path names\<close>

lemma path_nameI: "s \<noteq> [] \<Longrightarrow> CHR ''/'' \<notin> set s \<Longrightarrow> CHR ''%'' \<notin> set s \<Longrightarrow> \<exists>c \<in> set s. c \<noteq> CHR ''.'' \<Longrightarrow> path_name s"
  by (auto simp: path_name_def ValidatePathSegmentName_def)

text \<open>The characters of a DNS subdomain: letters, digits, dashes and dots, and not only dots.\<close>
lemma label_chars: "dns1123Label s \<Longrightarrow> c \<in> set s \<Longrightarrow> c = CHR ''-'' \<or> is_lower c \<or> is_digit c"
  unfolding dns1123Label_def using bracketed_chars by fastforce

lemma subdomain_chars: "dns1123Subdomain s \<Longrightarrow> c \<in> set s \<Longrightarrow> c = CHR ''.'' \<or> c = CHR ''-'' \<or> is_lower c \<or> is_digit c"
  using set_split_on[of c s "CHR ''.''"] label_chars by (fastforce simp: dns1123Subdomain_def list_all_iff)

lemma split_on_chars: "\<forall>w \<in> set (split_on d s). set w \<subseteq> set s"
proof (induction s)
  case (Cons a s)
  then show ?case by (cases "split_on d s") auto
qed simp

lemma split_on_nonempty: "split_on d s \<noteq> []"
  by (induction s) (auto split: list.split)

lemma subdomain_path_name:
  assumes "dns1123Subdomain s"
  shows "path_name s"
proof -
  define w where "w = hd (split_on CHR ''.'' s)"
  then have w: "w \<in> set (split_on CHR ''.'' s)" "dns1123Label w"
    using assms split_on_nonempty[of "CHR ''.''" s] by (auto simp: dns1123Subdomain_def list_all_iff)
  define c where "c = hd w"
  have "c \<in> set w" using w(2) by (simp add: c_def dns1123Label_def bracketed_def)
  then have c: "c \<in> set s" "c \<noteq> CHR ''.''"
    using w split_on_chars[of "CHR ''.''" s] label_chars[of w c] by (auto simp: is_lower_def is_digit_def less_eq_char_def)
  then show ?thesis
    using subdomain_chars[OF assms, of "CHR ''/''"] subdomain_chars[OF assms, of "CHR ''%''"]
    by (intro path_nameI) (auto simp: is_lower_def is_digit_def less_eq_char_def)
qed

lemma plan_name_path_name:
  assumes "servicePlanNameRegexp s"
  shows "path_name s"
proof (rule path_nameI)
  have chars: "c = CHR ''-'' \<or> is_lower c \<or> is_digit c" if "c \<in> set s" for c
    using that assms by (auto simp: servicePlanNameRegexp_def list_all_iff)
  then show "CHR ''/'' \<notin> set s" "CHR ''%'' \<notin> set s"
    using chars[of "CHR ''/''"] chars[of "CHR ''%''"] by (auto simp: is_lower_def is_digit_def less_eq_char_def)
  show "s \<noteq> []" using assms by (simp add: servicePlanNameRegexp_def)
  then show "\<exists>c \<in> set s. c \<noteq> CHR ''.''"
    using chars[of "hd s"] by (intro bexI[of _ "hd s"]) (auto simp: is_lower_def is_digit_def less_eq_char_def)
qed

section \<open>The five stores\<close>

lemma NewStoreD:
  assumes "NewStore opts namespaced attrs S = Some R"
  shows "rg_KeyRootFunc R ctx = key_root (opt_ResourcePrefix opts) (ctx_Namespace ctx)"
    and "rg_KeyFunc R ctx name = (if namespaced then NamespaceKeyFunc ctx (opt_ResourcePrefix opts) name
       else NoNamespaceKeyFunc ctx (opt_ResourcePrefix opts) name)"
    and "rg_GetAttrs R = attrs"
  using assms by (auto simp: NewStore_def options_KeyRootFunc_def options_KeyFunc_def NamespaceKeyRootFunc_def split: if_splits)

lemma named_key_ok: "path_name name \<Longrightarrow> named_key root name = Inr (root @ ''/'' @ name)"
  by (simp add: named_key_def path_name_def)

lemma named_key_Inr: "named_key root name = Inr ks \<longleftrightarrow> path_name name \<and> ks = root @ ''/'' @ name"
  by (auto simp: named_key_def path_name_def)

text \<open>Listing a namespaced resource: the objects of the namespace, or of all namespaces, that match.\<close>
lemma namespaced_list:
  assumes "NewStore opts True attrs S = Some R" "wf_map (st_alist st)" "\<forall>k \<in> fst ` set (st_alist st). namespaced_ok k"
    and "\<forall>((ns, name), x) \<in> set (st_alist st). field_Get (attrs x) ''metadata.name'' = name"
    and "ctx_Namespace ctx = [] \<or> segment (ctx_Namespace ctx)"
  shows "ListPredicate R ctx sel (backend_of R st) =
    map snd (filter (\<lambda>(k, x). (ctx_Namespace ctx = [] \<or> fst k = ctx_Namespace ctx) \<and> selector_Matches sel (attrs x)) (st_alist st))"
proof -
  note R = NewStoreD[OF assms(1)]
  have ok: "segment ns \<and> path_name name" if "((ns, name), x) \<in> set (st_alist st)" for ns name x
    using that assms(3) by force
  have "backend_of R st = namespaced_keys.keyed (opt_ResourcePrefix opts) (st_alist st)"
    unfolding backend_of_def namespaced_keys.keyed_def
    by (rule map_cong[OF refl]) (use ok in \<open>auto simp: R NamespaceKeyFunc_def NamespaceKeyRootFunc_def named_key_ok segment_def\<close>)
  moreover have "\<exists>ns. namespaced_ok (ns, name) \<and> ks = namespaced_key (opt_ResourcePrefix opts) (ns, name) \<and>
      (\<forall>k \<in> fst ` set (st_alist st). (ctx_Namespace ctx = [] \<or> fst k = ctx_Namespace ctx) \<longleftrightarrow> fst k = ns)"
    if "rg_KeyFunc R ctx name = Inr ks" for name ks
    using that assms(5) by (intro exI[of _ "ctx_Namespace ctx"]) (auto simp: R NamespaceKeyFunc_def NamespaceKeyRootFunc_def named_key_Inr split: if_splits)
  ultimately show ?thesis
    using namespaced_keys.keyed_ListPredicate[of "st_alist st" ctx R "opt_ResourcePrefix opts" sel] assms R
    by (simp add: predicate_Matches_def)
qed

text \<open>Listing a resource of the cluster.\<close>
lemma cluster_list:
  assumes "NewStore opts False attrs S = Some R" "wf_map (st_alist st)" "\<forall>k \<in> fst ` set (st_alist st). cluster_ok k"
    and "\<forall>((ns, name), x) \<in> set (st_alist st). field_Get (attrs x) ''metadata.name'' = name" "ctx_Namespace ctx = []"
  shows "ListPredicate R ctx sel (backend_of R st) = list_objects (\<lambda>x. selector_Matches sel (attrs x)) st"
proof -
  note R = NewStoreD[OF assms(1)]
  have ok: "path_name name" if "((ns, name), x) \<in> set (st_alist st)" for ns name x
    using that assms(3) by force
  have "backend_of R st = cluster_keys.keyed (opt_ResourcePrefix opts) (st_alist st)"
    unfolding backend_of_def cluster_keys.keyed_def
    by (rule map_cong[OF refl]) (use ok in \<open>auto simp: R NoNamespaceKeyFunc_def named_key_ok\<close>)
  moreover have "\<exists>ns. cluster_ok (ns, name) \<and> ks = cluster_key (opt_ResourcePrefix opts) (ns, name) \<and>
      (\<forall>k \<in> fst ` set (st_alist st). (ctx_Namespace ctx = [] \<or> fst k = ctx_Namespace ctx) \<longleftrightarrow> fst k = ns)"
    if "rg_KeyFunc R ctx name = Inr ks" for name ks
    using that assms(3,5) by (intro exI[of _ "[]"]) (auto simp: R NoNamespaceKeyFunc_def named_key_Inr)
  ultimately have "ListPredicate R ctx sel (backend_of R st) = map snd (filter (\<lambda>(k, x). selector_Matches sel (attrs x)) (st_alist st))"
    using cluster_keys.keyed_ListPredicate[of "st_alist st" ctx R "opt_ResourcePrefix opts" sel] assms R
    by (simp add: predicate_Matches_def)
  then show ?thesis by (simp add: list_objects_def filter_map comp_def split_def)
qed

lemma storage_supported_iff: "NewStore opts namespaced attrs S \<noteq> None \<longleftrightarrow> isOK (StorageTypeFromString (opt_storageType opts))"
  by (simp add: NewStore_def options_KeyRootFunc_def options_KeyFunc_def options_StorageType_def StorageTypeFromString_def isOK_iff)

lemma valid_meta_cluster:
  "ValidateObjectMeta m False f p = [] \<Longrightarrow> om_Namespace m = [] \<and> om_Name m \<noteq> [] \<and> f (om_Name m) = []"
  by (auto simp: ValidateObjectMeta_def split: if_splits)

lemma valid_meta_namespaced:
  "ValidateObjectMeta m True f p = [] \<Longrightarrow> dns1123Label (om_Namespace m) \<and> om_Name m \<noteq> [] \<and> f (om_Name m) = []"
  by (auto simp: ValidateObjectMeta_def ValidateNamespaceName_def IsDNS1123Label_def split: if_splits)

lemma IsDNSSubdomain_path_name: "NameIsDNSSubdomain s = [] \<Longrightarrow> path_name s"
  by (auto simp: NameIsDNSSubdomain_def IsDNS1123Subdomain_def intro: subdomain_path_name split: if_splits)

lemma stored_alist: "store_ok S valid st \<Longrightarrow> (k, x) \<in> set (st_alist st) \<Longrightarrow> valid x \<and> k = key_of S x"
  using store_okD[of S valid st k x] by (auto simp: st_objs_def store_ok_def wf_map_def)

lemma meta_name_selectable [simp]:
  "field_Get (instance_toSelectableFields i) ''metadata.name'' = om_Name (si_Meta i)"
  "field_Get (serviceclass_toSelectableFields c) ''metadata.name'' = om_Name (sc_Meta c)"
  "field_Get (serviceplan_toSelectableFields p) ''metadata.name'' = om_Name (sp_Meta p)"
  by (simp_all add: field_Get_def instance_toSelectableFields_def serviceclass_toSelectableFields_def serviceplan_toSelectableFields_def
      ObjectMetaFieldsSet_def)

text \<open>The keys of valid stores are path names, under which the objects are listed.\<close>
lemma class_list:
  assumes "serviceclass_NewStorage opts = Some R" "store_ok serviceclassRESTStrategies class_valid st" "ctx_Namespace ctx = []"
  shows "ListPredicate R ctx sel (backend_of R st) = list_objects (\<lambda>c. selector_Matches sel (serviceclass_toSelectableFields c)) st"
proof (rule cluster_list[OF assms(1)[unfolded serviceclass_NewStorage_def] _ _ _ assms(3)])
  have key: "k = ([], om_Name (sc_Meta c)) \<and> path_name (om_Name (sc_Meta c))" if "(k, c) \<in> set (st_alist st)" for k c
    using stored_alist[OF assms(2) that] valid_meta_cluster[of "sc_Meta c" validateServiceClassName "''metadata''"]
    by (auto simp: class_valid_def ValidateServiceClass_def internalValidateServiceClass_def validateServiceClassName_def key_of_def
        serviceclassRESTStrategies_def intro: IsDNSSubdomain_path_name)
  show "wf_map (st_alist st)" using assms(2) by (simp add: store_ok_def)
  show "\<forall>k \<in> fst ` set (st_alist st). cluster_ok k" by (auto dest!: key)
  show "\<forall>((ns, name), x) \<in> set (st_alist st). field_Get (serviceclass_toSelectableFields x) ''metadata.name'' = name" using key by auto
qed

lemma plan_list:
  assumes "serviceplan_NewStorage opts = Some R" "store_ok serviceplanRESTStrategies plan_valid st" "ctx_Namespace ctx = []"
  shows "ListPredicate R ctx sel (backend_of R st) = list_objects (\<lambda>p. selector_Matches sel (serviceplan_toSelectableFields p)) st"
proof (rule cluster_list[OF assms(1)[unfolded serviceplan_NewStorage_def] _ _ _ assms(3)])
  have key: "k = ([], om_Name (sp_Meta c)) \<and> path_name (om_Name (sp_Meta c))" if "(k, c) \<in> set (st_alist st)" for k c
    using stored_alist[OF assms(2) that] valid_meta_cluster[of "sp_Meta c" validateServicePlanName "''metadata''"]
    by (auto simp: plan_valid_def ValidateServicePlan_def internalValidateServicePlan_def validateServicePlanName_def key_of_def
        serviceplanRESTStrategies_def intro: plan_name_path_name split: if_splits)
  show "wf_map (st_alist st)" using assms(2) by (simp add: store_ok_def)
  show "\<forall>k \<in> fst ` set (st_alist st). cluster_ok k" by (auto dest!: key)
  show "\<forall>((ns, name), x) \<in> set (st_alist st). field_Get (serviceplan_toSelectableFields x) ''metadata.name'' = name" using key by auto
qed

lemma instance_list:
  assumes "instance_NewStorage opts yaml oi = Some (R, Rs, Rr)" "store_ok (instanceRESTStrategies yaml oi) (instance_valid yaml) st"
    and "ctx_Namespace ctx = [] \<or> segment (ctx_Namespace ctx)"
  shows "ListPredicate R ctx sel (backend_of R st) = list_objects (\<lambda>i. (ctx_Namespace ctx = [] \<or> om_Namespace (si_Meta i) = ctx_Namespace ctx) \<and>
      selector_Matches sel (instance_toSelectableFields i)) st"
proof -
  have key: "k = (om_Namespace (si_Meta i), om_Name (si_Meta i)) \<and> segment (om_Namespace (si_Meta i)) \<and> path_name (om_Name (si_Meta i))"
    if "(k, i) \<in> set (st_alist st)" for k i
    using stored_alist[OF assms(2) that] valid_meta_namespaced[of "si_Meta i" validateServiceInstanceName "''metadata''"]
      no_slash_label[of "om_Namespace (si_Meta i)"]
    by (auto simp: instance_valid_def ValidateServiceInstance_def internalValidateServiceInstance_def validateServiceInstanceName_def key_of_def
        instanceRESTStrategies_def segment_def dns1123Label_def bracketed_def intro: IsDNSSubdomain_path_name)
  have "NewStore opts True instance_toSelectableFields (instanceRESTStrategies yaml oi) = Some R"
    using assms(1) by (auto simp: instance_NewStorage_def)
  then have "ListPredicate R ctx sel (backend_of R st) = map snd (filter (\<lambda>(k, x). (ctx_Namespace ctx = [] \<or> fst k = ctx_Namespace ctx) \<and>
      selector_Matches sel (instance_toSelectableFields x)) (st_alist st))"
    using namespaced_list[of opts instance_toSelectableFields "instanceRESTStrategies yaml oi" R st ctx sel] assms(2,3) key
    by (force simp: store_ok_def)
  also have "\<dots> = map snd (filter (\<lambda>(k, x). (ctx_Namespace ctx = [] \<or> om_Namespace (si_Meta x) = ctx_Namespace ctx) \<and>
      selector_Matches sel (instance_toSelectableFields x)) (st_alist st))"
    using key by (intro arg_cong[of _ _ "map snd"] filter_cong) auto
  finally show ?thesis by (simp add: list_objects_def filter_map comp_def split_def)
qed

section \<open>References\<close>

lemma conversion_identity: "ServiceClassFieldLabelConversionFunc f v = Inr (f, v)" "ServicePlanFieldLabelConversionFunc f v = Inr (f, v)"
  by (simp_all add: ServiceClassFieldLabelConversionFunc_def ServicePlanFieldLabelConversionFunc_def)

lemma valid_class_name_plain:
  assumes "instance_valid yaml i"
  shows "\<not> list_ex is_special (sis_ExternalServiceClassName (si_Spec i))"
proof -
  let ?n = "sis_ExternalServiceClassName (si_Spec i)"
  have "dns1123Subdomain ?n"
    using assms by (auto simp: instance_valid_def internalValidateServiceInstance_def validateServiceInstanceSpec_def
        validateServiceClassName_def NameIsDNSSubdomain_def IsDNS1123Subdomain_def split: if_splits)
  then have "c = CHR ''.'' \<or> c = CHR ''-'' \<or> is_lower c \<or> is_digit c" if "c \<in> set ?n" for c using subdomain_chars that by blast
  moreover have "\<not> is_special c" if "is_lower c \<or> is_digit c" for c
    using that by (auto simp: is_special_def is_lower_def is_digit_def)
  ultimately show ?thesis by (auto simp: list_ex_iff is_special_def)
qed

lemma class_list_request:
  assumes "serviceclass_NewStorage opts = Some R" "store_ok serviceclassRESTStrategies class_valid st" "ctx_Namespace ctx = []"
    and "\<forall>(f, v) \<in> set fs. plain_field f"
  shows "list_request R ServiceClassFieldLabelConversionFunc ctx (selector_String (SelectorFromSet fs)) (backend_of R st) =
    Inr (list_objects (\<lambda>c. \<forall>(f, v) \<in> set fs. field_Get (serviceclass_toSelectableFields c) f = v) st)"
  using request_set[OF assms(4), of ServiceClassFieldLabelConversionFunc] class_list[OF assms(1-3)]
  by (auto simp: list_request_def conversion_identity)

lemma plan_list_request:
  assumes "serviceplan_NewStorage opts = Some R" "store_ok serviceplanRESTStrategies plan_valid st" "ctx_Namespace ctx = []"
    and "\<forall>(f, v) \<in> set fs. plain_field f"
  shows "list_request R ServicePlanFieldLabelConversionFunc ctx (selector_String (SelectorFromSet fs)) (backend_of R st) =
    Inr (list_objects (\<lambda>p. \<forall>(f, v) \<in> set fs. field_Get (serviceplan_toSelectableFields p) f = v) st)"
  using request_set[OF assms(4), of ServicePlanFieldLabelConversionFunc] plan_list[OF assms(1-3)]
  by (auto simp: list_request_def conversion_identity)

lemma plain_spec_fields [simp]:
  "plain_field ''spec.externalName''" "plain_field ''spec.serviceClassRef.name''" "plain_field ''spec.clusterServiceBrokerName''"
  by (simp_all add: plain_field_def is_special_def)

section \<open>Properties\<close>

text \<open>C12: listing instances through the registry gives the instances of the namespace of the request, or of all
  namespaces, that the selector matches.  The path under which a namespace is read, the keys under which
  instances are kept and the shortcut for a selector that names one instance never change the answer.\<close>
theorem listing_is_scoped_and_selected:
  assumes "instance_NewStorage opts yaml oi = Some (R, Rs, Rr)" "store_ok (instanceRESTStrategies yaml oi) (instance_valid yaml) st"
    and "ctx_Namespace ctx = [] \<or> segment (ctx_Namespace ctx)"
  shows "ListPredicate R ctx sel (backend_of R st) = list_objects (\<lambda>i. (ctx_Namespace ctx = [] \<or> om_Namespace (si_Meta i) = ctx_Namespace ctx) \<and>
      selector_Matches sel (instance_toSelectableFields i)) st"
  by (rule instance_list[OF assms])

text \<open>C11: the two queries by which the controller resolves the references of an instance, sent as text and
  answered by the API server from the keys of its backend, give exactly the classes with the external name
  the instance asks for, and exactly the plans with the wanted name, class and broker, in whatever order the
  fields of the query are printed.\<close>
theorem references_are_looked_up_exactly:
  assumes "world_ok E w" "instance_valid (ev_yaml E) inst" "ctx_Namespace ctx = []"
    and "serviceclass_NewStorage opts = Some RC" "serviceplan_NewStorage opts' = Some RP"
    and "set fs = set (plan_fields_wanted inst className sc)"
  shows "list_request RC ServiceClassFieldLabelConversionFunc ctx (class_selector inst) (backend_of RC (w_classes w)) =
      Inr (list_objects (\<lambda>c. scs_ExternalName (sc_Spec c) = sis_ExternalServiceClassName (si_Spec inst)) (w_classes w)) \<and>
    list_request RP ServicePlanFieldLabelConversionFunc ctx (selector_String (SelectorFromSet fs)) (backend_of RP (w_plans w)) =
      Inr (list_objects (plan_matches inst className sc) (w_plans w))"
proof
  have "field_Get (serviceclass_toSelectableFields c) ''spec.externalName'' = scs_ExternalName (sc_Spec c)" for c
    by (simp add: field_Get_def serviceclass_toSelectableFields_def ObjectMetaFieldsSet_def)
  then show "list_request RC ServiceClassFieldLabelConversionFunc ctx (class_selector inst) (backend_of RC (w_classes w)) =
      Inr (list_objects (\<lambda>c. scs_ExternalName (sc_Spec c) = sis_ExternalServiceClassName (si_Spec inst)) (w_classes w))"
    using class_list[OF assms(4) _ assms(3)] assms(1)
    by (simp add: list_request_def class_selector_def request_double[OF _ valid_class_name_plain[OF assms(2)] conversion_identity(1),
          of "''spec.externalName''", simplified] world_ok_def)
  have "(\<forall>(f, v) \<in> set fs. field_Get (serviceplan_toSelectableFields p) f = v) = plan_matches inst className sc p" for p
    unfolding assms(6) by (auto simp: plan_fields_wanted_def plan_matches_def field_Get_def serviceplan_toSelectableFields_def ObjectMetaFieldsSet_def)
  moreover have "\<forall>(f, v) \<in> set fs. plain_field f" unfolding assms(6) by (simp add: plan_fields_wanted_def)
  ultimately show "list_request RP ServicePlanFieldLabelConversionFunc ctx (selector_String (SelectorFromSet fs)) (backend_of RP (w_plans w)) =
      Inr (list_objects (plan_matches inst className sc) (w_plans w))"
    using plan_list_request[OF assms(5) _ assms(3)] assms(1) by (simp add: world_ok_def)
qed

text \<open>C32: no class can be found by its broker.  The field of a class that holds the name of its broker is spelled
  wrong, so that a query for the classes of a broker is accepted and answered with the empty list, whatever
  is stored.\<close>
theorem classes_cannot_be_selected_by_broker:
  assumes "serviceclass_NewStorage opts = Some R" "store_ok serviceclassRESTStrategies class_valid st"
    and "ctx_Namespace ctx = []" "broker \<noteq> []"
  shows "list_request R ServiceClassFieldLabelConversionFunc ctx
    (selector_String (SelectorFromSet [(''spec.clusterServiceBrokerName'', broker)])) (backend_of R st) = Inr []"
  using class_list_request[OF assms(1-3), of "[(''spec.clusterServiceBrokerName'', broker)]"] assms(4)
  by (simp add: field_Get_def serviceclass_toSelectableFields_def ObjectMetaFieldsSet_def list_objects_def)

end
