(* ===== verification/SC_OSBClient.thy ===== *)
theory SC_OSBClient
  imports SC_Catalog SC_Strategies
begin

text \<open>
  The client of the Open Service Broker API that the controller uses
  (\<open>github.com/pmorie/go-open-service-broker-client/v2\<close>): the requests it builds, the answers it accepts, and
  the environment of \<open>SC_World\<close> that results from a network.  Bodies are carried as the JSON values they
  encode.  Decoding into a Go struct is modelled with its rules: unknown keys are ignored, keys match
  exactly or up to case, null leaves a string or a bool alone and clears a pointer, map or slice, and a value of
  another type is an error, of which the text is abbreviated.  The network and the check that a string is
  JSON are arguments.  The API version is the default of the library, 2.12.
\<close>

section \<open>Decoding into Go structs\<close>

definition type_error :: go_error where
  "type_error = PlainError ''json: cannot unmarshal value into Go value''"

text \<open>The case folding of keys: ASCII letters, and the two other code points that fold to ASCII letters,
  the Kelvin sign and the long s.\<close>
definition lower_ascii :: "char \<Rightarrow> char" where
  "lower_ascii c = (if is_upper c then char_of (byte_of c + 32) else c)"

fun fold_key :: "string \<Rightarrow> string" where
  "fold_key (a # b # c # s) =
     (if map byte_of [a, b, c] = [0xE2, 0x84, 0xAA] then CHR ''k'' # fold_key s
      else if map byte_of [a, b] = [0xC5, 0xBF] then CHR ''s'' # fold_key (c # s)
      else lower_ascii a # fold_key (b # c # s))"
| "fold_key [a, b] = (if map byte_of [a, b] = [0xC5, 0xBF] then ''s'' else [lower_ascii a, lower_ascii b])"
| "fold_key [a] = [lower_ascii a]"
| "fold_key [] = []"

text \<open>The field of a key: the one of that very name, or else the first one of that name up to case.\<close>
definition match_field :: "string \<Rightarrow> (string \<times> 'f) list \<Rightarrow> 'f option" where
  "match_field key fs = (case map_of fs key of
     Some f \<Rightarrow> Some f
   | None \<Rightarrow> map_option snd (find (\<lambda>(n, _). fold_key n = fold_key key) fs))"

text \<open>A field is given by how a value changes the struct.\<close>
type_synonym 'r fields = "(string \<times> (json \<Rightarrow> 'r \<Rightarrow> go_error + 'r)) list"

fun decode_entries :: "'r fields \<Rightarrow> json_map \<Rightarrow> 'r \<Rightarrow> go_error + 'r" where
  "decode_entries fs [] r = Inr r"
| "decode_entries fs ((k, v) # kvs) r =
     (case match_field k fs of
        None \<Rightarrow> decode_entries fs kvs r
      | Some assign \<Rightarrow> bind_result (assign v r) (decode_entries fs kvs))"

definition decode_struct :: "'r fields \<Rightarrow> json \<Rightarrow> 'r \<Rightarrow> go_error + 'r" where
  "decode_struct fs j r = (case j of JObj kvs \<Rightarrow> decode_entries fs kvs r | JNull \<Rightarrow> Inr r | _ \<Rightarrow> Inl type_error)"

fun decode_string :: "json \<Rightarrow> string \<Rightarrow> go_error + string" where
  "decode_string (JStr s) old = Inr s"
| "decode_string JNull old = Inr old"
| "decode_string _ old = Inl type_error"

fun decode_bool :: "json \<Rightarrow> bool \<Rightarrow> go_error + bool" where
  "decode_bool (JBool b) old = Inr b"
| "decode_bool JNull old = Inr old"
| "decode_bool _ old = Inl type_error"

text \<open>A map, which may be nil; entries are added to an existing map.\<close>
fun decode_map :: "json \<Rightarrow> json_map option \<Rightarrow> go_error + json_map option" where
  "decode_map (JObj kvs) old = Inr (Some (case old of
      None \<Rightarrow> kvs | Some m \<Rightarrow> filter (\<lambda>(k, _). k \<notin> fst ` set kvs) m @ kvs))"
| "decode_map JNull old = Inr None"
| "decode_map _ old = Inl type_error"

text \<open>An interface, a slice whose elements start from a zero value, and a pointer, whose target is allocated if it
  is nil.\<close>
fun decode_interface :: "json \<Rightarrow> json option \<Rightarrow> go_error + json option" where
  "decode_interface JNull old = Inr None"
| "decode_interface v old = Inr (Some v)"

fun decode_slice :: "(json \<Rightarrow> 'a \<Rightarrow> go_error + 'a) \<Rightarrow> 'a \<Rightarrow> json \<Rightarrow> 'a list \<Rightarrow> go_error + 'a list" where
  "decode_slice dec zero (JArr vs) old = map_results (\<lambda>v. dec v zero) vs"
| "decode_slice dec zero JNull old = Inr []"
| "decode_slice dec zero _ old = Inl type_error"

definition decode_ptr :: "(json \<Rightarrow> 'a \<Rightarrow> go_error + 'a) \<Rightarrow> 'a \<Rightarrow> json \<Rightarrow> 'a option \<Rightarrow> go_error + 'a option" where
  "decode_ptr dec zero v old =
     (if v = JNull then Inr None else map_sum id Some (dec v (case old of None \<Rightarrow> zero | Some x \<Rightarrow> x)))"

text \<open>A field of a struct, and one whose value the caller does not use.\<close>
definition field :: "('r \<Rightarrow> 'a) \<Rightarrow> (('a \<Rightarrow> 'a) \<Rightarrow> 'r \<Rightarrow> 'r) \<Rightarrow> (json \<Rightarrow> 'a \<Rightarrow> go_error + 'a) \<Rightarrow> json \<Rightarrow> 'r \<Rightarrow> go_error + 'r" where
  "field get upd dec v r = map_sum id (\<lambda>x. upd (\<lambda>_. x) r) (dec v (get r))"

definition unused_field :: "(json \<Rightarrow> 'a \<Rightarrow> go_error + 'a) \<Rightarrow> 'a \<Rightarrow> json \<Rightarrow> 'r \<Rightarrow> go_error + 'r" where
  "unused_field dec zero v r = map_sum id (\<lambda>_. r) (dec v zero)"

text \<open>\<open>omitempty\<close> on a map.\<close>
definition omit_empty :: "string \<Rightarrow> json_map \<Rightarrow> json_map" where
  "omit_empty k m = (if m = [] then [] else [(k, JObj m)])"

section \<open>HTTP\<close>

datatype http_method = MethodGet | MethodPut | MethodDelete

record http_request =
  hq_Method :: http_method
  hq_URL :: string
  hq_Query :: "(string \<times> string) list"
  hq_Body :: "json option"
  hq_Auth :: "AuthConfig option"
  hq_OriginatingIdentity :: "string option"

text \<open>A body that is not JSON is \<open>None\<close>.\<close>
record http_response =
  hs_StatusCode :: int
  hs_Body :: "json option"

section \<open>The client\<close>

text \<open>The configurations of the controller have no TLS configuration of their own, and an authentication
  that is one of the two kinds.\<close>
definition NewClient :: "ClientConfiguration \<Rightarrow> go_error option" where
  "NewClient cfg =
     (if cc_Insecure cfg \<and> cc_CAData cfg \<noteq> []
      then Some (PlainError ''Cannot specify root CAs and to skip TLS verification'') else None)"

definition client_URL :: "ClientConfiguration \<Rightarrow> string" where
  "client_URL cfg = rev (dropWhile (\<lambda>c. c = CHR ''/'') (rev (cc_URL cfg)))"

text \<open>\<open>base64.StdEncoding\<close>\<close>
definition base64_char :: "nat \<Rightarrow> char" where
  "base64_char n = (if n < 26 then char_of (65 + n) else if n < 52 then char_of (71 + n) else if n < 62 then char_of (n - 4)
     else if n = 62 then CHR ''+'' else CHR ''/'')"

fun base64 :: "string \<Rightarrow> string" where
  "base64 (a # b # c # s) =
     (let n = byte_of a * 65536 + byte_of b * 256 + byte_of c
      in map base64_char [n div 262144, n div 4096 mod 64, n div 64 mod 64, n mod 64] @ base64 s)"
| "base64 [a, b] =
     (let n = byte_of a * 1024 + byte_of b * 4 in map base64_char [n div 4096, n div 64 mod 64, n mod 64] @ ''='')"
| "base64 [a] = (let n = byte_of a * 16 in map base64_char [n div 64, n mod 64] @ ''=='')"
| "base64 [] = []"

definition buildOriginatingIdentityHeaderValue ::
  "(string \<Rightarrow> go_error option) \<Rightarrow> AlphaOriginatingIdentity \<Rightarrow> go_error + string" where
  "buildOriginatingIdentityHeaderValue isValidJSON i =
     (if oid_Platform i = [] then Inl (PlainError ''originating identity platform must not be empty'')
      else if oid_Value i = [] then Inl (PlainError ''originating identity value must not be empty'')
      else (case isValidJSON (oid_Value i) of
          Some err \<Rightarrow> Inl (PlainError (''originating identity value must be valid JSON: '' @ error_string err))
        | None \<Rightarrow> Inr (oid_Platform i @ '' '' @ base64 (oid_Value i))))"

text \<open>A network takes a request in its state and answers it, or fails.\<close>
type_synonym 's network = "http_request \<Rightarrow> ('s, go_error + http_response) state"

definition identity_header ::
  "(string \<Rightarrow> go_error option) \<Rightarrow> ClientConfiguration \<Rightarrow> AlphaOriginatingIdentity option \<Rightarrow> go_error + string option" where
  "identity_header isValidJSON cfg oi = (case oi of
     Some i \<Rightarrow> if cc_EnableAlphaFeatures cfg then map_sum id Some (buildOriginatingIdentityHeaderValue isValidJSON i) else Inr None
   | None \<Rightarrow> Inr None)"

text \<open>The URL is one that \<open>http.NewRequest\<close> accepts.\<close>
definition prepareAndDo ::
  "(string \<Rightarrow> go_error option) \<Rightarrow> 's network \<Rightarrow> ClientConfiguration \<Rightarrow> http_method \<Rightarrow> string \<Rightarrow> (string \<times> string) list \<Rightarrow> json option \<Rightarrow>
   AlphaOriginatingIdentity option \<Rightarrow> ('s, go_error + http_response) state" where
  "prepareAndDo isValidJSON net cfg mth url params body oi =
     on_ok (identity_header isValidJSON cfg oi)
       (\<lambda>hdr. net \<lparr> hq_Method = mth, hq_URL = url, hq_Query = params, hq_Body = body,
          hq_Auth = cc_AuthConfig cfg, hq_OriginatingIdentity = hdr \<rparr>)"

definition unmarshalResponse :: "'r fields \<Rightarrow> http_response \<Rightarrow> 'r \<Rightarrow> go_error + 'r" where
  "unmarshalResponse fs resp r =
     (case hs_Body resp of None \<Rightarrow> Inl (PlainError ''invalid character'') | Some j \<Rightarrow> decode_struct fs j r)"

text \<open>The fields \<open>error\<close> and \<open>description\<close> of a failure.\<close>
definition failureResponseBody :: "(string option \<times> string option) fields" where
  "failureResponseBody = [(''error'', field fst apfst (decode_ptr decode_string [])),
     (''description'', field snd apsnd (decode_ptr decode_string []))]"

definition handleFailureResponse :: "http_response \<Rightarrow> go_error" where
  "handleFailureResponse resp = (case unmarshalResponse failureResponseBody resp (None, None) of
     Inl _ \<Rightarrow> HTTPStatusCodeError (hs_StatusCode resp) None None
   | Inr (e, d) \<Rightarrow> HTTPStatusCodeError (hs_StatusCode resp) e d)"

definition required :: "string \<Rightarrow> go_error" where
  "required name = PlainError (name @ '' is required'')"

text \<open>The checks of a request, in order: a name and the value that must not be empty.\<close>
fun first_missing :: "(string \<times> string) list \<Rightarrow> go_error option" where
  "first_missing [] = None"
| "first_missing ((name, v) # rest) = (if v = [] then Some (required name) else first_missing rest)"

definition instance_URL :: "ClientConfiguration \<Rightarrow> string \<Rightarrow> string" where
  "instance_URL cfg instanceID = client_URL cfg @ ''/v2/service_instances/'' @ instanceID"

definition binding_URL :: "ClientConfiguration \<Rightarrow> string \<Rightarrow> string \<Rightarrow> string" where
  "binding_URL cfg instanceID bindingID = instance_URL cfg instanceID @ ''/service_bindings/'' @ bindingID"

text \<open>\<open>if err != nil { return nil, err }\<close> before the request.\<close>
definition unless_error :: "go_error option \<Rightarrow> ('s, go_error + 'a) state \<Rightarrow> ('s, go_error + 'a) state" where
  "unless_error e m = (case e of Some err \<Rightarrow> State_Monad.return (Inl err) | None \<Rightarrow> m)"

subsection \<open>The catalog\<close>

definition inputParameters_fields :: "json option fields" where
  "inputParameters_fields = [(''parameters'', decode_interface)]"

definition instanceSchema_fields :: "AlphaServiceInstanceSchema fields" where
  "instanceSchema_fields =
     [(''create'', field asis_Create asis_Create_update (decode_ptr (decode_struct inputParameters_fields) None)),
      (''update'', field asis_Update asis_Update_update (decode_ptr (decode_struct inputParameters_fields) None))]"

definition bindingSchema_fields :: "AlphaServiceBindingSchema fields" where
  "bindingSchema_fields =
     [(''create'', field asbs_Create asbs_Create_update (decode_ptr (decode_struct inputParameters_fields) None))]"

definition parameterSchemas_fields :: "AlphaParameterSchemas fields" where
  "parameterSchemas_fields =
     [(''service_instance'', field aps_ServiceInstances aps_ServiceInstances_update
         (decode_ptr (decode_struct instanceSchema_fields) \<lparr> asis_Create = None, asis_Update = None \<rparr>)),
      (''service_binding'', field aps_ServiceBindings aps_ServiceBindings_update
         (decode_ptr (decode_struct bindingSchema_fields) \<lparr> asbs_Create = None \<rparr>))]"

definition plan_fields :: "osb_Plan fields" where
  "plan_fields =
     [(''id'', field opl_ID opl_ID_update decode_string), (''name'', field opl_Name opl_Name_update decode_string),
      (''description'', field opl_Description opl_Description_update decode_string),
      (''free'', field opl_Free opl_Free_update (decode_ptr decode_bool False)),
      (''bindable'', field opl_Bindable opl_Bindable_update (decode_ptr decode_bool False)),
      (''metadata'', field opl_Metadata opl_Metadata_update decode_map),
      (''schemas'', field opl_AlphaParameterSchemas opl_AlphaParameterSchemas_update
         (decode_ptr (decode_struct parameterSchemas_fields) \<lparr> aps_ServiceInstances = None, aps_ServiceBindings = None \<rparr>))]"

definition empty_Plan :: osb_Plan where
  "empty_Plan = \<lparr> opl_ID = [], opl_Name = [], opl_Description = [], opl_Free = None, opl_Bindable = None, opl_Metadata = None,
     opl_AlphaParameterSchemas = None \<rparr>"

text \<open>The three strings of the dashboard client, which the controller does not use.\<close>
definition dashboardClient_fields :: "unit fields" where
  "dashboardClient_fields = [(''id'', unused_field decode_string []), (''secret'', unused_field decode_string []),
     (''redirect_uri'', unused_field decode_string [])]"

definition service_fields :: "osb_Service fields" where
  "service_fields =
     [(''id'', field osv_ID osv_ID_update decode_string), (''name'', field osv_Name osv_Name_update decode_string),
      (''description'', field osv_Description osv_Description_update decode_string),
      (''tags'', field osv_Tags osv_Tags_update (decode_slice decode_string [])),
      (''requires'', field osv_Requires osv_Requires_update (decode_slice decode_string [])),
      (''bindable'', field osv_Bindable osv_Bindable_update decode_bool),
      (''plan_updateable'', field osv_PlanUpdatable osv_PlanUpdatable_update (decode_ptr decode_bool False)),
      (''plans'', field osv_Plans osv_Plans_update (decode_slice (decode_struct plan_fields) empty_Plan)),
      (''dashboard_client'', unused_field (decode_ptr (decode_struct dashboardClient_fields) ()) None),
      (''metadata'', field osv_Metadata osv_Metadata_update decode_map)]"

definition empty_Service :: osb_Service where
  "empty_Service = \<lparr> osv_ID = [], osv_Name = [], osv_Description = [], osv_Tags = [], osv_Requires = [], osv_Bindable = False,
     osv_PlanUpdatable = None, osv_Plans = [], osv_Metadata = None \<rparr>"

definition catalogResponse_fields :: "CatalogResponse fields" where
  "catalogResponse_fields = [(''services'', decode_slice (decode_struct service_fields) empty_Service)]"

text \<open>Schemas are dropped unless alpha features are enabled.\<close>
definition without_schemas :: "osb_Service \<Rightarrow> osb_Service" where
  "without_schemas svc = svc \<lparr> osv_Plans := map (\<lambda>p. p \<lparr> opl_AlphaParameterSchemas := None \<rparr>) (osv_Plans svc) \<rparr>"

definition catalog_result :: "bool \<Rightarrow> http_response \<Rightarrow> go_error + CatalogResponse" where
  "catalog_result alpha resp =
     (if hs_StatusCode resp = 200 then
        (case unmarshalResponse catalogResponse_fields resp [] of
           Inl _ \<Rightarrow> Inl (HTTPStatusCodeError (hs_StatusCode resp) None None)
         | Inr services \<Rightarrow> Inr (if alpha then services else map without_schemas services))
      else Inl (handleFailureResponse resp))"

definition catalog_URL :: "ClientConfiguration \<Rightarrow> string" where
  "catalog_URL cfg = client_URL cfg @ ''/v2/catalog''"

definition client_GetCatalog ::
  "(string \<Rightarrow> go_error option) \<Rightarrow> 's network \<Rightarrow> ClientConfiguration \<Rightarrow> ('s, go_error + CatalogResponse) state" where
  "client_GetCatalog isValidJSON net cfg = do {
     rr \<leftarrow> prepareAndDo isValidJSON net cfg MethodGet (catalog_URL cfg) [] None None;
     State_Monad.return (bind_result rr (catalog_result (cc_EnableAlphaFeatures cfg))) }"

subsection \<open>Provision\<close>

definition validateProvisionRequest :: "ProvisionRequest \<Rightarrow> go_error option" where
  "validateProvisionRequest r = first_missing [(''instanceID'', pr_InstanceID r), (''serviceID'', pr_ServiceID r),
     (''planID'', pr_PlanID r), (''organizationGUID'', pr_OrganizationGUID r), (''spaceGUID'', pr_SpaceGUID r)]"

definition provisionRequestBody :: "ProvisionRequest \<Rightarrow> json" where
  "provisionRequestBody r = JObj ([(''service_id'', JStr (pr_ServiceID r)), (''plan_id'', JStr (pr_PlanID r)),
     (''organization_guid'', JStr (pr_OrganizationGUID r)), (''space_guid'', JStr (pr_SpaceGUID r))] @
     omit_empty ''parameters'' (pr_Parameters r) @ omit_empty ''context'' (pr_Context r))"

definition provisionSuccessResponseBody :: "(string option \<times> string option) fields" where
  "provisionSuccessResponseBody = [(''dashboard_url'', field fst apfst (decode_ptr decode_string [])),
     (''operation'', field snd apsnd (decode_ptr decode_string []))]"

definition provision_result :: "http_response \<Rightarrow> go_error + ProvisionResponse" where
  "provision_result resp =
     (if hs_StatusCode resp \<in> {201, 200, 202} then
        (case unmarshalResponse provisionSuccessResponseBody resp (None, None) of
           Inl _ \<Rightarrow> Inl (HTTPStatusCodeError (hs_StatusCode resp) None None)
         | Inr (dashboard, operation) \<Rightarrow> Inr \<lparr> prr_Async = (hs_StatusCode resp = 202), prr_DashboardURL = dashboard,
             prr_OperationKey = operation \<rparr>)
      else Inl (handleFailureResponse resp))"

definition async_params :: "bool \<Rightarrow> (string \<times> string) list" where
  "async_params acceptsIncomplete = (if acceptsIncomplete then [(''accepts_incomplete'', ''true'')] else [])"

definition client_ProvisionInstance ::
  "(string \<Rightarrow> go_error option) \<Rightarrow> 's network \<Rightarrow> ClientConfiguration \<Rightarrow> ProvisionRequest \<Rightarrow> ('s, go_error + ProvisionResponse) state" where
  "client_ProvisionInstance isValidJSON net cfg r = unless_error (validateProvisionRequest r) (do {
     rr \<leftarrow> prepareAndDo isValidJSON net cfg MethodPut (instance_URL cfg (pr_InstanceID r)) (async_params (pr_AcceptsIncomplete r))
             (Some (provisionRequestBody r)) (pr_OriginatingIdentity r);
     State_Monad.return (bind_result rr provision_result) })"

subsection \<open>Deprovision\<close>

definition validateDeprovisionRequest :: "DeprovisionRequest \<Rightarrow> go_error option" where
  "validateDeprovisionRequest r = first_missing [(''instanceID'', dr_InstanceID r), (''serviceID'', dr_ServiceID r),
     (''planID'', dr_PlanID r)]"

definition asyncSuccessResponseBody :: "string option fields" where
  "asyncSuccessResponseBody = [(''operation'', decode_ptr decode_string [])]"

text \<open>The body of an accepted request that cannot be decoded is returned as the decoding error itself.\<close>
definition deprovision_result :: "http_response \<Rightarrow> go_error + DeprovisionResponse" where
  "deprovision_result resp =
     (if hs_StatusCode resp \<in> {200, 410} then Inr \<lparr> drr_Async = False, drr_OperationKey = None \<rparr>
      else if hs_StatusCode resp = 202 then
        bind_result (unmarshalResponse asyncSuccessResponseBody resp None)
          (\<lambda>operation. Inr \<lparr> drr_Async = True, drr_OperationKey = operation \<rparr>)
      else Inl (handleFailureResponse resp))"

definition client_DeprovisionInstance ::
  "(string \<Rightarrow> go_error option) \<Rightarrow> 's network \<Rightarrow> ClientConfiguration \<Rightarrow> DeprovisionRequest \<Rightarrow> ('s, go_error + DeprovisionResponse) state" where
  "client_DeprovisionInstance isValidJSON net cfg r = unless_error (validateDeprovisionRequest r) (do {
     rr \<leftarrow> prepareAndDo isValidJSON net cfg MethodDelete (instance_URL cfg (dr_InstanceID r))
             ([(''service_id'', dr_ServiceID r), (''plan_id'', dr_PlanID r)] @ async_params (dr_AcceptsIncomplete r))
             None (dr_OriginatingIdentity r);
     State_Monad.return (bind_result rr deprovision_result) })"

subsection \<open>Polling\<close>

definition validateLastOperationRequest :: "LastOperationRequest \<Rightarrow> go_error option" where
  "validateLastOperationRequest r = first_missing [(''instanceID'', lor_InstanceID r)]"

definition operation_state :: "string \<Rightarrow> LastOperationState" where
  "operation_state s = (if s = ''in progress'' then StateInProgress else if s = ''succeeded'' then StateSucceeded
     else if s = ''failed'' then StateFailed else StateOther s)"

definition lastOperationResponseBody :: "(string \<times> string option) fields" where
  "lastOperationResponseBody = [(''state'', field fst apfst decode_string), (''description'', field snd apsnd (decode_ptr decode_string []))]"

definition poll_result :: "http_response \<Rightarrow> go_error + LastOperationResponse" where
  "poll_result resp =
     (if hs_StatusCode resp = 200 then
        (case unmarshalResponse lastOperationResponseBody resp ([], None) of
           Inl _ \<Rightarrow> Inl (HTTPStatusCodeError (hs_StatusCode resp) None None)
         | Inr (s, d) \<Rightarrow> Inr \<lparr> lorr_State = operation_state s, lorr_Description = d \<rparr>)
      else Inl (handleFailureResponse resp))"

definition opt_param :: "string \<Rightarrow> string option \<Rightarrow> (string \<times> string) list" where
  "opt_param k v = (case v of None \<Rightarrow> [] | Some x \<Rightarrow> [(k, x)])"

definition client_PollLastOperation ::
  "(string \<Rightarrow> go_error option) \<Rightarrow> 's network \<Rightarrow> ClientConfiguration \<Rightarrow> LastOperationRequest \<Rightarrow> ('s, go_error + LastOperationResponse) state" where
  "client_PollLastOperation isValidJSON net cfg r = unless_error (validateLastOperationRequest r) (do {
     rr \<leftarrow> prepareAndDo isValidJSON net cfg MethodGet (instance_URL cfg (lor_InstanceID r) @ ''/last_operation'')
             (opt_param ''service_id'' (lor_ServiceID r) @ opt_param ''plan_id'' (lor_PlanID r) @
              opt_param ''operation'' (lor_OperationKey r)) None (lor_OriginatingIdentity r);
     State_Monad.return (bind_result rr poll_result) })"

subsection \<open>Bind\<close>

definition validateBindRequest :: "BindRequest \<Rightarrow> go_error option" where
  "validateBindRequest r = first_missing [(''bindingID'', bdr_BindingID r), (''instanceID'', bdr_InstanceID r),
     (''serviceID'', bdr_ServiceID r), (''planID'', bdr_PlanID r)]"

text \<open>The value sent for the route is the application's identifier, whose pointer may be nil.\<close>
definition bind_resource_body :: "BindResource \<Rightarrow> go_error + json_map" where
  "bind_resource_body br =
     (case (br_AppGUID br, br_Route br) of
        (None, None) \<Rightarrow> Inr []
      | (Some a, None) \<Rightarrow> Inr [(''app_guid'', JStr a)]
      | (Some a, Some _) \<Rightarrow> Inr [(''app_guid'', JStr a), (''route'', JStr a)]
      | (None, Some _) \<Rightarrow> Inl NilDereference)"

definition bindRequestBody :: "BindRequest \<Rightarrow> go_error + json" where
  "bindRequestBody r =
     bind_result (case bdr_BindResource r of None \<Rightarrow> Inr [] | Some br \<Rightarrow> bind_resource_body br) (\<lambda>resource.
       Inr (JObj ([(''service_id'', JStr (bdr_ServiceID r)), (''plan_id'', JStr (bdr_PlanID r))] @
         omit_empty ''parameters'' (bdr_Parameters r) @ omit_empty ''bind_resource'' resource)))"

text \<open>Of the answer, the credentials are kept; a nil map of credentials is empty.\<close>
definition bindResponseBody :: "json_map option fields" where
  "bindResponseBody = [(''credentials'', decode_map),
     (''syslog_drain_url'', unused_field (decode_ptr decode_string []) None),
     (''route_service_url'', unused_field (decode_ptr decode_string []) None),
     (''volume_mounts'', unused_field (decode_slice decode_interface None) [])]"

definition bind_response_result :: "http_response \<Rightarrow> go_error + BindResponse" where
  "bind_response_result resp =
     (if hs_StatusCode resp \<in> {200, 201} then
        (case unmarshalResponse bindResponseBody resp None of
           Inl _ \<Rightarrow> Inl (HTTPStatusCodeError (hs_StatusCode resp) None None)
         | Inr creds \<Rightarrow> Inr \<lparr> bdrr_Credentials = (case creds of None \<Rightarrow> [] | Some m \<Rightarrow> m) \<rparr>)
      else Inl (handleFailureResponse resp))"

definition client_Bind ::
  "(string \<Rightarrow> go_error option) \<Rightarrow> 's network \<Rightarrow> ClientConfiguration \<Rightarrow> BindRequest \<Rightarrow> ('s, go_error + BindResponse) state" where
  "client_Bind isValidJSON net cfg r = unless_error (validateBindRequest r)
     (on_ok (bindRequestBody r) (\<lambda>body. do {
       rr \<leftarrow> prepareAndDo isValidJSON net cfg MethodPut (binding_URL cfg (bdr_InstanceID r) (bdr_BindingID r)) [] (Some body)
               (bdr_OriginatingIdentity r);
       State_Monad.return (bind_result rr bind_response_result) }))"

subsection \<open>Unbind\<close>

definition validateUnbindRequest :: "UnbindRequest \<Rightarrow> go_error option" where
  "validateUnbindRequest r = first_missing [(''bindingID'', ubr_BindingID r), (''instanceID'', ubr_InstanceID r),
     (''serviceID'', ubr_ServiceID r), (''planID'', ubr_PlanID r)]"

text \<open>The body must decode into a struct without fields.\<close>
definition unbind_result :: "http_response \<Rightarrow> go_error + unit" where
  "unbind_result resp =
     (if hs_StatusCode resp \<in> {200, 410} then
        (case unmarshalResponse [] resp () of
           Inl _ \<Rightarrow> Inl (HTTPStatusCodeError (hs_StatusCode resp) None None)
         | Inr _ \<Rightarrow> Inr ())
      else Inl (handleFailureResponse resp))"

definition client_Unbind ::
  "(string \<Rightarrow> go_error option) \<Rightarrow> 's network \<Rightarrow> ClientConfiguration \<Rightarrow> UnbindRequest \<Rightarrow> ('s, go_error + unit) state" where
  "client_Unbind isValidJSON net cfg r = unless_error (validateUnbindRequest r) (do {
     rr \<leftarrow> prepareAndDo isValidJSON net cfg MethodDelete (binding_URL cfg (ubr_InstanceID r) (ubr_BindingID r))
             [(''service_id'', ubr_ServiceID r), (''plan_id'', ubr_PlanID r)] None (ubr_OriginatingIdentity r);
     State_Monad.return (bind_result rr unbind_result) })"

section \<open>The environment behind a network\<close>

text \<open>A network that answers each request by itself, at the time it is sent.\<close>
definition at_time :: "(nat \<Rightarrow> http_request \<Rightarrow> go_error + http_response) \<Rightarrow> nat \<Rightarrow> unit network" where
  "at_time http t req = State_Monad.return (http t req)"

text \<open>The brokers that the controller sees through this client.\<close>
definition osb_env :: "(string \<Rightarrow> go_error option) \<Rightarrow> (nat \<Rightarrow> http_request \<Rightarrow> go_error + http_response) \<Rightarrow> env \<Rightarrow> env" where
  "osb_env isValidJSON http E = E \<lparr>
     ev_newClient := \<lambda>_. NewClient,
     ev_catalog := \<lambda>t cfg. fst (run_state (client_GetCatalog isValidJSON (at_time http t) cfg) ()),
     ev_provision := \<lambda>t cfg r. fst (run_state (client_ProvisionInstance isValidJSON (at_time http t) cfg r) ()),
     ev_deprovision := \<lambda>t cfg r. fst (run_state (client_DeprovisionInstance isValidJSON (at_time http t) cfg r) ()),
     ev_poll := \<lambda>t cfg r. fst (run_state (client_PollLastOperation isValidJSON (at_time http t) cfg r) ()),
     ev_bind := \<lambda>t cfg r. fst (run_state (client_Bind isValidJSON (at_time http t) cfg r) ()),
     ev_unbind := \<lambda>t cfg r. fst (run_state (client_Unbind isValidJSON (at_time http t) cfg r) ()) \<rparr>"

section \<open>Properties\<close>

text \<open>The three ways in which a request to a URL gets no answer: the client refuses it, the identity does not
  print, or the network fails.\<close>
definition unanswered ::
  "(string \<Rightarrow> go_error option) \<Rightarrow> (nat \<Rightarrow> http_request \<Rightarrow> go_error + http_response) \<Rightarrow> nat \<Rightarrow> ClientConfiguration \<Rightarrow> http_method \<Rightarrow> string \<Rightarrow>
   go_error option \<Rightarrow> AlphaOriginatingIdentity option \<Rightarrow> go_error \<Rightarrow> bool" where
  "unanswered isValidJSON http t cfg mth url check oi e \<longleftrightarrow>
     check = Some e \<or> identity_header isValidJSON cfg oi = Inl e \<or>
     (\<exists>req. hq_Method req = mth \<and> hq_URL req = url \<and> http t req = Inl e)"

lemma IsHTTPError_simps [simp]:
  "IsHTTPError (HTTPStatusCodeError c m d) = Some (c, m, d)" "(IsHTTPError (handleFailureResponse resp) = None) = False"
  by (auto simp: IsHTTPError_def handleFailureResponse_def split: sum.split)

text \<open>What is returned for an answer is a value or an error with a status code.\<close>
lemma result_codes:
  assumes "IsHTTPError e = None"
  shows "catalog_result alpha resp \<noteq> Inl e" "provision_result resp \<noteq> Inl e" "poll_result resp \<noteq> Inl e" "bind_response_result resp \<noteq> Inl e"
    "unbind_result resp \<noteq> Inl e" "deprovision_result resp = Inl e \<Longrightarrow> hs_StatusCode resp = 202 \<and> unmarshalResponse asyncSuccessResponseBody resp None = Inl e"
  using assms
  by (auto simp: catalog_result_def provision_result_def poll_result_def bind_response_result_def unbind_result_def deprovision_result_def
      bind_result_def split: sum.splits if_splits)

lemma prepareAndDo_cases:
  assumes "bind_result (fst (run_state (prepareAndDo isValidJSON (at_time http t) cfg mth url params body oi) ())) f = Inl e"
  obtains "unanswered isValidJSON http t cfg mth url check oi e"
  | req resp where "hq_Method req = mth" "hq_URL req = url" "http t req = Inr resp" "f resp = Inl e"
proof (cases "identity_header isValidJSON cfg oi")
  case (Inl x)
  then show ?thesis using assms that(1) by (simp add: prepareAndDo_def unanswered_def)
next
  case (Inr hdr)
  let ?req = "\<lparr> hq_Method = mth, hq_URL = url, hq_Query = params, hq_Body = body, hq_Auth = cc_AuthConfig cfg, hq_OriginatingIdentity = hdr \<rparr>"
  show ?thesis
    using assms Inr that(1) that(2)[of ?req] exI[of "\<lambda>r. hq_Method r = mth \<and> hq_URL r = url \<and> http t r = Inl e" ?req]
    by (cases "http t ?req") (auto simp: prepareAndDo_def at_time_def unanswered_def)
qed

lemma unless_error_None: "unless_error None m = m"
  by (simp add: unless_error_def)

lemma unless_error_result:
  "fst (run_state (unless_error check m) s) = Inl e \<Longrightarrow> check \<noteq> Some e \<Longrightarrow> fst (run_state m s) = Inl e"
  by (cases check) (auto simp: unless_error_def)

lemma run_then_result: "fst (run_state (do { r \<leftarrow> m; State_Monad.return (f r) }) s) = f (fst (run_state m s))"
  by (simp add: case_prod_beta)

lemma request_error:
  assumes "fst (run_state (unless_error check (do { rr \<leftarrow> prepareAndDo isValidJSON (at_time http t) cfg mth url params body oi;
      State_Monad.return (bind_result rr f) })) ()) = Inl e"
  shows "unanswered isValidJSON http t cfg mth url check oi e \<or>
    (\<exists>req resp. hq_Method req = mth \<and> hq_URL req = url \<and> http t req = Inr resp \<and> f resp = Inl e)"
proof (cases "check = Some e")
  case False
  from unless_error_result[OF assms this, unfolded run_then_result] show ?thesis by (rule prepareAndDo_cases) auto
qed (simp add: unanswered_def)

lemma bind_error:
  assumes "fst (run_state (client_Bind isValidJSON (at_time http t) cfg b) ()) = Inl e" "IsHTTPError e = None"
  shows "unanswered isValidJSON http t cfg MethodPut (binding_URL cfg (bdr_InstanceID b) (bdr_BindingID b))
          (validateBindRequest b) (bdr_OriginatingIdentity b) e \<or> e = NilDereference"
proof (cases "bindRequestBody b")
  case (Inl x)
  then have "x = NilDereference"
    by (auto simp: bindRequestBody_def bind_resource_body_def bind_result_def split: option.splits sum.splits prod.splits)
  then show ?thesis
    using assms(1) Inl by (cases "validateBindRequest b") (auto simp: client_Bind_def unless_error_def unanswered_def)
next
  case (Inr body)
  have "fst (run_state (unless_error (validateBindRequest b) (do {
      rr \<leftarrow> prepareAndDo isValidJSON (at_time http t) cfg MethodPut (binding_URL cfg (bdr_InstanceID b) (bdr_BindingID b)) [] (Some body)
              (bdr_OriginatingIdentity b);
      State_Monad.return (bind_result rr bind_response_result) })) ()) = Inl e"
    using assms(1) Inr by (simp only: client_Bind_def on_ok_simps)
  from request_error[OF this] show ?thesis using result_codes(4)[OF assms(2)] by blast
qed

lemma catalog_error:
  assumes "fst (run_state (client_GetCatalog isValidJSON (at_time http t) cfg) ()) = Inl e" "IsHTTPError e = None"
  shows "unanswered isValidJSON http t cfg MethodGet (catalog_URL cfg) None None e"
proof -
  have "fst (run_state (unless_error None (client_GetCatalog isValidJSON (at_time http t) cfg)) ()) = Inl e"
    using assms(1) by (simp add: unless_error_None)
  from request_error[OF this[unfolded client_GetCatalog_def]] show ?thesis using result_codes(1)[OF assms(2)] by blast
qed

lemma client_errors:
  assumes "IsHTTPError e = None"
  shows "fst (run_state (client_ProvisionInstance isValidJSON (at_time http t) cfg p) ()) = Inl e \<Longrightarrow>
      unanswered isValidJSON http t cfg MethodPut (instance_URL cfg (pr_InstanceID p))
          (validateProvisionRequest p) (pr_OriginatingIdentity p) e"
    and "fst (run_state (client_PollLastOperation isValidJSON (at_time http t) cfg l) ()) = Inl e \<Longrightarrow>
      unanswered isValidJSON http t cfg MethodGet (instance_URL cfg (lor_InstanceID l) @ ''/last_operation'')
          (validateLastOperationRequest l) (lor_OriginatingIdentity l) e"
    and "fst (run_state (client_Unbind isValidJSON (at_time http t) cfg u) ()) = Inl e \<Longrightarrow>
      unanswered isValidJSON http t cfg MethodDelete (binding_URL cfg (ubr_InstanceID u) (ubr_BindingID u))
          (validateUnbindRequest u) (ubr_OriginatingIdentity u) e"
    and "fst (run_state (client_DeprovisionInstance isValidJSON (at_time http t) cfg d) ()) = Inl e \<Longrightarrow>
      unanswered isValidJSON http t cfg MethodDelete (instance_URL cfg (dr_InstanceID d))
          (validateDeprovisionRequest d) (dr_OriginatingIdentity d) e \<or>
      (\<exists>req resp. hq_Method req = MethodDelete \<and> hq_URL req = instance_URL cfg (dr_InstanceID d) \<and> http t req = Inr resp \<and>
           hs_StatusCode resp = 202 \<and> unmarshalResponse asyncSuccessResponseBody resp None = Inl e)"
  unfolding client_ProvisionInstance_def client_PollLastOperation_def client_Unbind_def client_DeprovisionInstance_def
  by (drule request_error, use result_codes[OF assms] in blast)+

text \<open>C25: an error without a status code means that the broker did not answer.  The controller treats an error with
  a status code as final, and retries after any other.  Listing the catalog, provision, poll and unbind return an error
  without a status code only if the client refused the request, its identity could not be printed, or the network
  failed.  A bind may also panic on a route without an application, and a deprovision that was accepted
  with an unreadable body is taken for one that was not answered.\<close>
theorem plain_errors_are_unanswered:
  assumes "IsHTTPError e = None"
  shows
    "(ev_catalog (osb_env isValidJSON http E) t cfg = Inl e \<longrightarrow>
        unanswered isValidJSON http t cfg MethodGet (catalog_URL cfg) None None e) \<and>
     (ev_provision (osb_env isValidJSON http E) t cfg p = Inl e \<longrightarrow>
        unanswered isValidJSON http t cfg MethodPut (instance_URL cfg (pr_InstanceID p))
          (validateProvisionRequest p) (pr_OriginatingIdentity p) e) \<and>
     (ev_poll (osb_env isValidJSON http E) t cfg l = Inl e \<longrightarrow>
        unanswered isValidJSON http t cfg MethodGet (instance_URL cfg (lor_InstanceID l) @ ''/last_operation'')
          (validateLastOperationRequest l) (lor_OriginatingIdentity l) e) \<and>
     (ev_unbind (osb_env isValidJSON http E) t cfg u = Inl e \<longrightarrow>
        unanswered isValidJSON http t cfg MethodDelete (binding_URL cfg (ubr_InstanceID u) (ubr_BindingID u))
          (validateUnbindRequest u) (ubr_OriginatingIdentity u) e) \<and>
     (ev_bind (osb_env isValidJSON http E) t cfg b = Inl e \<longrightarrow>
        unanswered isValidJSON http t cfg MethodPut (binding_URL cfg (bdr_InstanceID b) (bdr_BindingID b))
          (validateBindRequest b) (bdr_OriginatingIdentity b) e \<or> e = NilDereference) \<and>
     (ev_deprovision (osb_env isValidJSON http E) t cfg d = Inl e \<longrightarrow>
        unanswered isValidJSON http t cfg MethodDelete (instance_URL cfg (dr_InstanceID d))
          (validateDeprovisionRequest d) (dr_OriginatingIdentity d) e \<or>
        (\<exists>req resp. hq_Method req = MethodDelete \<and> hq_URL req = instance_URL cfg (dr_InstanceID d) \<and> http t req = Inr resp \<and>
           hs_StatusCode resp = 202 \<and> unmarshalResponse asyncSuccessResponseBody resp None = Inl e))"
  using catalog_error[OF _ assms] bind_error[OF _ assms] client_errors[OF assms] by (simp add: osb_env_def)

text \<open>A client can be created for every stored broker.  The configuration of a valid broker never asks both to
  skip the verification of certificates and to verify them with given authorities.\<close>
theorem valid_broker_has_a_client:
  assumes "broker_valid b"
  shows "ev_newClient (osb_env isValidJSON http E) t (NewClientConfigurationForBroker b auth) = None"
  using assms
  by (auto simp: osb_env_def NewClient_def NewClientConfigurationForBroker_def broker_valid_def ValidateClusterServiceBroker_def
      validateClusterServiceBrokerSpec_def)

end
