(* ===== verification/SC_SampleBroker.thy ===== *)
theory SC_SampleBroker
  imports SC_OSBClient SC_Binding
begin

text \<open>
  The sample broker: the HTTP handlers of \<open>contrib/pkg/broker/server\<close> over the interface
  \<open>controller.Controller\<close>, and its implementation for user provided services.  The interface is the locale
  \<open>broker_controller\<close>, in which the handlers are shown to keep an instance until it is removed; the user
  provided controller is an interpretation.  The router, which finds the handler and the variables of a
  path, is left out: a handler is given the variables, the query and the body.
\<close>

section \<open>Messages\<close>

record ContextProfile =
  cp_Platform :: string
  cp_Namespace :: string

record CreateServiceInstanceRequest =
  csi_OrgID :: string
  csi_PlanID :: string
  csi_ServiceID :: string
  csi_SpaceID :: string
  csi_Parameters :: "json_map option"
  csi_AcceptsIncomplete :: bool
  csi_ContextProfile :: ContextProfile

record BindingRequest =
  brq_AppGUID :: string
  brq_PlanID :: string
  brq_ServiceID :: string
  brq_BindResource :: "json_map option"
  brq_Parameters :: "json_map option"

text \<open>The two responses that have no information of their own print with their empty fields omitted.\<close>
record CreateServiceInstanceResponse =
  csr_DashboardURL :: string
  csr_Operation :: string

record DeleteServiceInstanceResponse =
  dsr_Operation :: string

record brokerapi_LastOperationResponse =
  blo_State :: string
  blo_Description :: string

text \<open>The catalog.  The schemas of a plan are given as the value they print as, and a nil list of plans is \<open>None\<close>.\<close>
record brokerapi_ServicePlan =
  bsp_Name :: string
  bsp_ID :: string
  bsp_Description :: string
  bsp_Metadata :: "json option"
  bsp_Free :: bool
  bsp_Bindable :: "bool option"
  bsp_Schemas :: "json option"

record brokerapi_Service =
  bsv_Name :: string
  bsv_ID :: string
  bsv_Description :: string
  bsv_Tags :: "string list"
  bsv_Requires :: "string list"
  bsv_Bindable :: bool
  bsv_Metadata :: "json option"
  bsv_DashboardClient :: "json option"
  bsv_PlanUpdateable :: bool
  bsv_Plans :: "brokerapi_ServicePlan list option"

type_synonym Catalog = "brokerapi_Service list"

text \<open>\<open>Credential\<close>, a map that may be nil.\<close>
type_synonym Credential = "json_map option"

definition contextProfile_fields :: "ContextProfile fields" where
  "contextProfile_fields = [(''platform'', field cp_Platform cp_Platform_update decode_string),
     (''namespace'', field cp_Namespace cp_Namespace_update decode_string)]"

definition createRequest_fields :: "CreateServiceInstanceRequest fields" where
  "createRequest_fields = [(''organization_guid'', field csi_OrgID csi_OrgID_update decode_string),
     (''plan_id'', field csi_PlanID csi_PlanID_update decode_string),
     (''service_id'', field csi_ServiceID csi_ServiceID_update decode_string),
     (''space_guid'', field csi_SpaceID csi_SpaceID_update decode_string),
     (''parameters'', field csi_Parameters csi_Parameters_update decode_map),
     (''accepts_incomplete'', field csi_AcceptsIncomplete csi_AcceptsIncomplete_update decode_bool),
     (''context'', field csi_ContextProfile csi_ContextProfile_update (decode_struct contextProfile_fields))]"

definition bindingRequest_fields :: "BindingRequest fields" where
  "bindingRequest_fields = [(''app_guid'', field brq_AppGUID brq_AppGUID_update decode_string),
     (''plan_id'', field brq_PlanID brq_PlanID_update decode_string),
     (''service_id'', field brq_ServiceID brq_ServiceID_update decode_string),
     (''bind_resource'', field brq_BindResource brq_BindResource_update decode_map),
     (''parameters'', field brq_Parameters brq_Parameters_update decode_map)]"

definition empty_CreateServiceInstanceRequest :: CreateServiceInstanceRequest where
  "empty_CreateServiceInstanceRequest = \<lparr> csi_OrgID = [], csi_PlanID = [], csi_ServiceID = [], csi_SpaceID = [],
     csi_Parameters = None, csi_AcceptsIncomplete = False, csi_ContextProfile = \<lparr> cp_Platform = [], cp_Namespace = [] \<rparr> \<rparr>"

definition empty_BindingRequest :: BindingRequest where
  "empty_BindingRequest = \<lparr> brq_AppGUID = [], brq_PlanID = [], brq_ServiceID = [], brq_BindResource = None, brq_Parameters = None \<rparr>"

definition omit_string :: "string \<Rightarrow> string \<Rightarrow> json_map" where
  "omit_string k s = (if s = [] then [] else [(k, JStr s)])"

definition createResponse_json :: "CreateServiceInstanceResponse \<Rightarrow> json" where
  "createResponse_json r = JObj (omit_string ''dashboard_url'' (csr_DashboardURL r) @ omit_string ''operation'' (csr_Operation r))"

definition deleteResponse_json :: "DeleteServiceInstanceResponse \<Rightarrow> json" where
  "deleteResponse_json r = JObj (omit_string ''operation'' (dsr_Operation r))"

definition lastOperationResponse_json :: "brokerapi_LastOperationResponse \<Rightarrow> json" where
  "lastOperationResponse_json r = JObj ((''state'', JStr (blo_State r)) # omit_string ''description'' (blo_Description r))"

definition bindingResponse_json :: "Credential \<Rightarrow> json" where
  "bindingResponse_json c = JObj [(''credentials'', case c of None \<Rightarrow> JNull | Some m \<Rightarrow> JObj m)]"

definition omit_nil :: "string \<Rightarrow> json option \<Rightarrow> json_map" where
  "omit_nil k v = (case v of None \<Rightarrow> [] | Some j \<Rightarrow> [(k, j)])"

definition omit_strings :: "string \<Rightarrow> string list \<Rightarrow> json_map" where
  "omit_strings k ss = (if ss = [] then [] else [(k, JArr (map JStr ss))])"

definition omit_false :: "string \<Rightarrow> bool \<Rightarrow> json_map" where
  "omit_false k b = (if b then [(k, JBool True)] else [])"

definition servicePlan_json :: "brokerapi_ServicePlan \<Rightarrow> json" where
  "servicePlan_json p = JObj ([(''name'', JStr (bsp_Name p)), (''id'', JStr (bsp_ID p)), (''description'', JStr (bsp_Description p))] @
     omit_nil ''metadata'' (bsp_Metadata p) @ omit_false ''free'' (bsp_Free p) @ omit_nil ''bindable'' (map_option JBool (bsp_Bindable p)) @
     omit_nil ''schemas'' (bsp_Schemas p))"

definition service_json :: "brokerapi_Service \<Rightarrow> json" where
  "service_json s = JObj ([(''name'', JStr (bsv_Name s)), (''id'', JStr (bsv_ID s)), (''description'', JStr (bsv_Description s))] @
     omit_strings ''tags'' (bsv_Tags s) @ omit_strings ''requires'' (bsv_Requires s) @ [(''bindable'', JBool (bsv_Bindable s))] @
     omit_nil ''metadata'' (bsv_Metadata s) @
     [(''dashboard_client'', case bsv_DashboardClient s of None \<Rightarrow> JNull | Some j \<Rightarrow> j)] @
     omit_false ''plan_updateable'' (bsv_PlanUpdateable s) @
     [(''plans'', case bsv_Plans s of None \<Rightarrow> JNull | Some ps \<Rightarrow> JArr (map servicePlan_json ps))])"

definition catalog_json :: "Catalog \<Rightarrow> json" where
  "catalog_json c = JObj [(''services'', JArr (map service_json c))]"

section \<open>The interface\<close>

text \<open>The operations of \<open>controller.Controller\<close>, as functions of its state.\<close>
record 'c controller_interface =
  ci_Catalog :: "'c \<Rightarrow> (go_error + Catalog) \<times> 'c"
  ci_Create :: "string \<Rightarrow> CreateServiceInstanceRequest \<Rightarrow> 'c \<Rightarrow> (go_error + CreateServiceInstanceResponse) \<times> 'c"
  ci_LastOperation :: "string \<Rightarrow> string \<Rightarrow> string \<Rightarrow> string \<Rightarrow> 'c \<Rightarrow> (go_error + brokerapi_LastOperationResponse) \<times> 'c"
  ci_Remove :: "string \<Rightarrow> string \<Rightarrow> string \<Rightarrow> bool \<Rightarrow> 'c \<Rightarrow> (go_error + DeleteServiceInstanceResponse) \<times> 'c"
  ci_Bind :: "string \<Rightarrow> string \<Rightarrow> BindingRequest \<Rightarrow> 'c \<Rightarrow> (go_error + Credential) \<times> 'c"
  ci_UnBind :: "string \<Rightarrow> string \<Rightarrow> string \<Rightarrow> string \<Rightarrow> 'c \<Rightarrow> (go_error + unit) \<times> 'c"

section \<open>The handlers\<close>

definition WriteResponse :: "int \<Rightarrow> json \<Rightarrow> http_response" where
  "WriteResponse code object = \<lparr> hs_StatusCode = code, hs_Body = Some object \<rparr>"

definition WriteErrorResponse :: "int \<Rightarrow> go_error \<Rightarrow> http_response" where
  "WriteErrorResponse code err = WriteResponse code (JObj [(''Error'', JStr (error_string err))])"

definition BodyToObject :: "'r fields \<Rightarrow> json option \<Rightarrow> 'r \<Rightarrow> go_error + 'r" where
  "BodyToObject fs body r = (case body of None \<Rightarrow> Inl (PlainError ''unexpected end of JSON input'') | Some j \<Rightarrow> decode_struct fs j r)"

text \<open>\<open>if err == nil { WriteResponse } else { WriteErrorResponse(BadRequest) }\<close>\<close>
definition respond :: "int \<Rightarrow> ('a \<Rightarrow> json) \<Rightarrow> go_error + 'a \<Rightarrow> http_response" where
  "respond code print r = (case r of Inr x \<Rightarrow> WriteResponse code (print x) | Inl e \<Rightarrow> WriteErrorResponse 400 e)"

definition query_Get :: "string \<Rightarrow> (string \<times> string) list \<Rightarrow> string" where
  "query_Get k q = (case map_of q k of None \<Rightarrow> [] | Some v \<Rightarrow> v)"

definition server_catalog :: "'c controller_interface \<Rightarrow> 'c \<Rightarrow> http_response \<times> 'c" where
  "server_catalog C c = map_prod (respond 200 catalog_json) id (ci_Catalog C c)"

definition server_getServiceInstanceLastOperation ::
  "'c controller_interface \<Rightarrow> string \<Rightarrow> (string \<times> string) list \<Rightarrow> 'c \<Rightarrow> http_response \<times> 'c" where
  "server_getServiceInstanceLastOperation C instanceID q c =
     map_prod (respond 200 lastOperationResponse_json) id
       (ci_LastOperation C instanceID (query_Get ''service_id'' q) (query_Get ''plan_id'' q) (query_Get ''operation'' q) c)"

definition server_createServiceInstance :: "'c controller_interface \<Rightarrow> string \<Rightarrow> json option \<Rightarrow> 'c \<Rightarrow> http_response \<times> 'c" where
  "server_createServiceInstance C instanceID body c =
     (case BodyToObject createRequest_fields body empty_CreateServiceInstanceRequest of
        Inl e \<Rightarrow> (WriteErrorResponse 400 e, c)
      | Inr req \<Rightarrow>
          (let req = (if csi_Parameters req = None then req \<lparr> csi_Parameters := Some [] \<rparr> else req)
           in map_prod (respond 201 createResponse_json) id (ci_Create C instanceID req c)))"

definition server_removeServiceInstance ::
  "'c controller_interface \<Rightarrow> string \<Rightarrow> (string \<times> string) list \<Rightarrow> 'c \<Rightarrow> http_response \<times> 'c" where
  "server_removeServiceInstance C instanceID q c =
     map_prod (respond 200 deleteResponse_json) id
       (ci_Remove C instanceID (query_Get ''service_id'' q) (query_Get ''plan_id'' q) (query_Get ''accepts_incomplete'' q = ''true'') c)"

definition server_bind :: "'c controller_interface \<Rightarrow> string \<Rightarrow> string \<Rightarrow> json option \<Rightarrow> 'c \<Rightarrow> http_response \<times> 'c" where
  "server_bind C instanceID bindingID body c =
     (case BodyToObject bindingRequest_fields body empty_BindingRequest of
        Inl e \<Rightarrow> (WriteErrorResponse 400 e, c)
      | Inr req \<Rightarrow>
          (let ps = (case brq_Parameters req of None \<Rightarrow> [] | Some m \<Rightarrow> m);
               req = req \<lparr> brq_Parameters := Some (AList.update ''instanceId'' (JStr instanceID) ps) \<rparr>
           in map_prod (respond 200 bindingResponse_json) id (ci_Bind C instanceID bindingID req c)))"

definition server_unBind ::
  "'c controller_interface \<Rightarrow> string \<Rightarrow> string \<Rightarrow> (string \<times> string) list \<Rightarrow> 'c \<Rightarrow> http_response \<times> 'c" where
  "server_unBind C instanceID bindingID q c =
     map_prod (respond 200 (\<lambda>_. JObj [])) id
       (ci_UnBind C instanceID bindingID (query_Get ''service_id'' q) (query_Get ''plan_id'' q) c)"

text \<open>The requests as the router passes them on, the handler of each, and a sequence of them.\<close>
datatype broker_call =
  CatalogCall
| CreateCall string "json option"
| RemoveCall string "(string \<times> string) list"
| PollCall string "(string \<times> string) list"
| BindCall string string "json option"
| UnBindCall string string "(string \<times> string) list"

fun serve :: "'c controller_interface \<Rightarrow> broker_call \<Rightarrow> 'c \<Rightarrow> http_response \<times> 'c" where
  "serve C CatalogCall c = server_catalog C c"
| "serve C (CreateCall i body) c = server_createServiceInstance C i body c"
| "serve C (RemoveCall i q) c = server_removeServiceInstance C i q c"
| "serve C (PollCall i q) c = server_getServiceInstanceLastOperation C i q c"
| "serve C (BindCall i b body) c = server_bind C i b body c"
| "serve C (UnBindCall i b q) c = server_unBind C i b q c"

definition serve_all :: "'c controller_interface \<Rightarrow> broker_call list \<Rightarrow> 'c \<Rightarrow> 'c" where
  "serve_all C calls c = fold (\<lambda>call. snd \<circ> serve C call) calls c"

text \<open>The calls that replace or remove an instance.\<close>
fun disturbs :: "string \<Rightarrow> broker_call \<Rightarrow> bool" where
  "disturbs i (CreateCall j _) = (i = j)"
| "disturbs i (RemoveCall j _) = (i = j)"
| "disturbs i _ = False"

section \<open>The user provided controller\<close>

record userProvidedServiceInstance =
  up_Name :: string
  up_Credential :: Credential

record userProvidedController =
  upc_instanceMap :: "(string \<times> userProvidedServiceInstance) list"

definition CreateController :: userProvidedController where
  "CreateController = \<lparr> upc_instanceMap = [] \<rparr>"

definition errNoSuchInstance :: "string \<Rightarrow> go_error" where
  "errNoSuchInstance instanceID = PlainError (''no such instance with ID '' @ instanceID)"

definition userProvided_Catalog :: "userProvidedController \<Rightarrow> (go_error + Catalog) \<times> userProvidedController" where
  "userProvided_Catalog c = (Inr [\<lparr> bsv_Name = ''user-provided-service'', bsv_ID = ''4f6e6cf6-ffdd-425f-a2c7-3c9258ad2468'',
     bsv_Description = ''A user provided service'', bsv_Tags = [], bsv_Requires = [], bsv_Bindable = True, bsv_Metadata = None,
     bsv_DashboardClient = None, bsv_PlanUpdateable = False,
     bsv_Plans = Some [\<lparr> bsp_Name = ''default'', bsp_ID = ''86064792-7ea2-467b-af93-ac9694d96d52'',
       bsp_Description = ''Sample plan description'', bsp_Metadata = None, bsp_Free = True, bsp_Bindable = None,
       bsp_Schemas = None \<rparr>] \<rparr>], c)"

text \<open>The credentials of a request: marshalling a decoded value and unmarshalling it as a map gives the map, or
  fails if it is no object.\<close>
definition requested_credential :: "CreateServiceInstanceRequest \<Rightarrow> go_error + Credential" where
  "requested_credential req =
     (case map_of (case csi_Parameters req of None \<Rightarrow> [] | Some m \<Rightarrow> m) ''credentials'' of
        Some v \<Rightarrow> decode_map v None
      | None \<Rightarrow> Inr (Some [(''special-key-1'', JStr ''special-value-1''), (''special-key-2'', JStr ''special-value-2'')]))"

definition userProvided_CreateServiceInstance ::
  "string \<Rightarrow> CreateServiceInstanceRequest \<Rightarrow> userProvidedController \<Rightarrow> (go_error + CreateServiceInstanceResponse) \<times> userProvidedController" where
  "userProvided_CreateServiceInstance instanceID req c =
     (case requested_credential req of
        Inl e \<Rightarrow> (Inl e, c)
      | Inr cred \<Rightarrow> (Inr \<lparr> csr_DashboardURL = [], csr_Operation = [] \<rparr>,
          c \<lparr> upc_instanceMap := AList.update instanceID \<lparr> up_Name = instanceID, up_Credential = cred \<rparr> (upc_instanceMap c) \<rparr>))"

definition userProvided_GetServiceInstanceLastOperation ::
  "string \<Rightarrow> string \<Rightarrow> string \<Rightarrow> string \<Rightarrow> userProvidedController \<Rightarrow> (go_error + brokerapi_LastOperationResponse) \<times> userProvidedController" where
  "userProvided_GetServiceInstanceLastOperation instanceID serviceID planID operation c = (Inl (PlainError ''Unimplemented''), c)"

definition userProvided_RemoveServiceInstance ::
  "string \<Rightarrow> string \<Rightarrow> string \<Rightarrow> bool \<Rightarrow> userProvidedController \<Rightarrow> (go_error + DeleteServiceInstanceResponse) \<times> userProvidedController" where
  "userProvided_RemoveServiceInstance instanceID serviceID planID acceptsIncomplete c =
     (if map_of (upc_instanceMap c) instanceID \<noteq> None
      then (Inr \<lparr> dsr_Operation = [] \<rparr>, c \<lparr> upc_instanceMap := AList.delete instanceID (upc_instanceMap c) \<rparr>)
      else (Inr \<lparr> dsr_Operation = [] \<rparr>, c))"

definition userProvided_Bind ::
  "string \<Rightarrow> string \<Rightarrow> BindingRequest \<Rightarrow> userProvidedController \<Rightarrow> (go_error + Credential) \<times> userProvidedController" where
  "userProvided_Bind instanceID bindingID req c =
     (case map_of (upc_instanceMap c) instanceID of
        None \<Rightarrow> (Inl (errNoSuchInstance instanceID), c)
      | Some inst \<Rightarrow> (Inr (up_Credential inst), c))"

definition userProvided_UnBind ::
  "string \<Rightarrow> string \<Rightarrow> string \<Rightarrow> string \<Rightarrow> userProvidedController \<Rightarrow> (go_error + unit) \<times> userProvidedController" where
  "userProvided_UnBind instanceID bindingID serviceID planID c = (Inr (), c)"

definition userProvided :: "userProvidedController controller_interface" where
  "userProvided = \<lparr> ci_Catalog = userProvided_Catalog, ci_Create = userProvided_CreateServiceInstance, ci_LastOperation = userProvided_GetServiceInstanceLastOperation,
     ci_Remove = userProvided_RemoveServiceInstance, ci_Bind = userProvided_Bind, ci_UnBind = userProvided_UnBind \<rparr>"

definition stored_credential :: "userProvidedController \<Rightarrow> string \<Rightarrow> Credential option" where
  "stored_credential c i = map_option up_Credential (map_of (upc_instanceMap c) i)"

section \<open>The contract of a controller\<close>

text \<open>A controller stores a credential per instance: creating an instance sets it, removing the instance
  clears it, and binding reads it.\<close>
locale broker_controller =
  fixes C :: "'c controller_interface"
    and creds :: "CreateServiceInstanceRequest \<Rightarrow> go_error + Credential"
    and stored :: "'c \<Rightarrow> string \<Rightarrow> Credential option"
  assumes create_sets: "creds req = Inr cr \<Longrightarrow>
       \<exists>c'. ci_Create C i req c = (Inr \<lparr> csr_DashboardURL = [], csr_Operation = [] \<rparr>, c') \<and> stored c' = (stored c)(i \<mapsto> cr)"
    and create_refused: "creds req = Inl e \<Longrightarrow> ci_Create C i req c = (Inl e, c)"
    and remove_clears: "stored (snd (ci_Remove C i s p a c)) = (stored c)(i := None)"
    and bind_reads: "stored c i = Some cr \<Longrightarrow> ci_Bind C i b breq c = (Inr cr, c)"
    and bind_keeps: "snd (ci_Bind C i b breq c) = c"
    and unbind_keeps: "snd (ci_UnBind C i b s p c) = c"
    and catalog_keeps: "snd (ci_Catalog C c) = c"
    and poll_keeps: "snd (ci_LastOperation C i s p op c) = c"
begin

lemma serve_keeps: "\<not> disturbs i call \<Longrightarrow> stored (snd (serve C call c)) i = stored c i"
proof (induction call)
  case (CreateCall j body)
  show ?case
  proof (cases "BodyToObject createRequest_fields body empty_CreateServiceInstanceRequest")
    case (Inr req)
    let ?req = "if csi_Parameters req = None then req \<lparr> csi_Parameters := Some [] \<rparr> else req"
    show ?thesis
      using CreateCall Inr create_refused[of ?req _ j c] create_sets[of ?req _ j c]
      by (cases "creds ?req") (auto simp: server_createServiceInstance_def Let_def)
  qed (simp add: server_createServiceInstance_def)
qed (simp_all add: server_catalog_def server_removeServiceInstance_def server_getServiceInstanceLastOperation_def server_bind_def server_unBind_def Let_def
    remove_clears catalog_keeps bind_keeps unbind_keeps poll_keeps split: sum.split)

lemma serve_all_keeps: "\<forall>call \<in> set calls. \<not> disturbs i call \<Longrightarrow> stored (serve_all C calls c) i = stored c i"
  by (induction calls arbitrary: c) (simp_all add: serve_all_def serve_keeps)

end

interpretation up: broker_controller userProvided requested_credential stored_credential
  by unfold_locales
    (auto simp: userProvided_def userProvided_Catalog_def userProvided_CreateServiceInstance_def userProvided_RemoveServiceInstance_def userProvided_Bind_def
      userProvided_UnBind_def userProvided_GetServiceInstanceLastOperation_def stored_credential_def update_conv' delete_conv' fun_eq_iff
      split: option.splits)

section \<open>The broker seen through the client\<close>

text \<open>The broker as a network: the router turns each request into a call.\<close>
definition broker_network :: "'c controller_interface \<Rightarrow> (http_request \<Rightarrow> broker_call) \<Rightarrow> 'c network" where
  "broker_network C route req = State (\<lambda>c. map_prod Inr id (serve C (route req) c))"

text \<open>The router passes on the requests for one instance and one binding of it as \<open>createHandler\<close> asks it to, and
  those for the catalog.\<close>
definition delivers :: "(http_request \<Rightarrow> broker_call) \<Rightarrow> ClientConfiguration \<Rightarrow> string \<Rightarrow> string \<Rightarrow> bool" where
  "delivers route cfg instanceID bindingID \<longleftrightarrow> (\<forall>req.
     (hq_Method req = MethodGet \<and> hq_URL req = catalog_URL cfg \<longrightarrow> route req = CatalogCall) \<and>
     (hq_Method req = MethodPut \<and> hq_URL req = instance_URL cfg instanceID \<longrightarrow> route req = CreateCall instanceID (hq_Body req)) \<and>
     (hq_Method req = MethodPut \<and> hq_URL req = binding_URL cfg instanceID bindingID \<longrightarrow>
        route req = BindCall instanceID bindingID (hq_Body req)))"

text \<open>The create request that the server decodes from the controller's provision request.\<close>
lemma decode_provision_request:
  "BodyToObject createRequest_fields (Some (provisionRequestBody (provision_request sc sp inst nsUID params oi)))
     empty_CreateServiceInstanceRequest =
   Inr \<lparr> csi_OrgID = nsUID, csi_PlanID = sps_ExternalID (sp_Spec sp), csi_ServiceID = scs_ExternalID (sc_Spec sc), csi_SpaceID = nsUID,
     csi_Parameters = (if params = [] then None else Some params), csi_AcceptsIncomplete = False,
     csi_ContextProfile = \<lparr> cp_Platform = ''kubernetes'', cp_Namespace = om_Namespace (si_Meta inst) \<rparr> \<rparr>"
  by (simp add: BodyToObject_def provisionRequestBody_def provision_request_def decode_struct_def omit_empty_def createRequest_fields_def
      match_field_def field_def contextProfile_fields_def empty_CreateServiceInstanceRequest_def)

lemma decode_bind_request:
  "\<exists>body req. bindRequestBody (bind_request sc sp inst b appGUID params oi) = Inr body \<and>
     BodyToObject bindingRequest_fields (Some body) empty_BindingRequest = Inr req"
  by (simp add: BodyToObject_def bindRequestBody_def bind_request_def bind_resource_body_def decode_struct_def omit_empty_def
      bindingRequest_fields_def match_field_def field_def empty_BindingRequest_def)

lemma provision_at_user_provided:
  assumes "delivers route cfg (sis_ExternalID (si_Spec inst)) bid" "isOK (identity_header isValidJSON cfg oi)"
    and "validateProvisionRequest (provision_request sc sp inst nsUID params oi) = None"
    and "map_of params ''credentials'' = Some (JObj creds)"
  shows "\<exists>c1. run_state (client_ProvisionInstance isValidJSON (broker_network userProvided route) cfg
      (provision_request sc sp inst nsUID params oi)) c = (Inr \<lparr> prr_Async = False, prr_DashboardURL = None, prr_OperationKey = None \<rparr>, c1) \<and>
    stored_credential c1 (sis_ExternalID (si_Spec inst)) = Some (Some creds)"
proof -
  let ?i = "sis_ExternalID (si_Spec inst)" and ?r = "provision_request sc sp inst nsUID params oi"
  obtain hdr where hdr: "identity_header isValidJSON cfg oi = Inr hdr" using assms(2) by (auto simp: isOK_iff)
  let ?req = "\<lparr> csi_OrgID = nsUID, csi_PlanID = sps_ExternalID (sp_Spec sp), csi_ServiceID = scs_ExternalID (sc_Spec sc), csi_SpaceID = nsUID,
     csi_Parameters = Some params, csi_AcceptsIncomplete = False,
     csi_ContextProfile = \<lparr> cp_Platform = ''kubernetes'', cp_Namespace = om_Namespace (si_Meta inst) \<rparr> \<rparr>"
  have "params \<noteq> []" using assms(4) by auto
  obtain c1 where c1: "ci_Create userProvided ?i ?req c = (Inr \<lparr> csr_DashboardURL = [], csr_Operation = [] \<rparr>, c1)"
    "stored_credential c1 = (stored_credential c)(?i \<mapsto> Some creds)"
    using up.create_sets[of ?req "Some creds" ?i c] assms(4) by (auto simp: requested_credential_def)
  have "serve userProvided (CreateCall ?i (Some (provisionRequestBody ?r))) c = (WriteResponse 201 (JObj []), c1)"
    using c1(1) \<open>params \<noteq> []\<close>
    by (simp add: server_createServiceInstance_def decode_provision_request respond_def createResponse_json_def omit_string_def)
  moreover have "route \<lparr> hq_Method = MethodPut, hq_URL = instance_URL cfg ?i, hq_Query = q, hq_Body = body, hq_Auth = a, hq_OriginatingIdentity = h \<rparr> =
      CreateCall ?i body" for q body a h
    using assms(1) by (simp add: delivers_def)
  moreover have "pr_InstanceID ?r = ?i" "pr_OriginatingIdentity ?r = oi" by (simp_all add: provision_request_def)
  moreover have "provision_result (WriteResponse 201 (JObj [])) = Inr \<lparr> prr_Async = False, prr_DashboardURL = None, prr_OperationKey = None \<rparr>"
    by (simp add: provision_result_def WriteResponse_def unmarshalResponse_def decode_struct_def)
  ultimately show ?thesis
    using c1(2) hdr assms(3) by (simp add: client_ProvisionInstance_def unless_error_def prepareAndDo_def broker_network_def)
qed

lemma bind_at_user_provided:
  assumes "delivers route cfg (sis_ExternalID (si_Spec inst)) (crs_ExternalID (cr_Spec b))" "isOK (identity_header isValidJSON cfg oi)"
    and "validateBindRequest (bind_request sc sp inst b appGUID params oi) = None"
    and "stored_credential c (sis_ExternalID (si_Spec inst)) = Some (Some creds)"
  shows "run_state (client_Bind isValidJSON (broker_network userProvided route) cfg (bind_request sc sp inst b appGUID params oi)) c =
    (Inr \<lparr> bdrr_Credentials = creds \<rparr>, c)"
proof -
  let ?i = "sis_ExternalID (si_Spec inst)" and ?b = "crs_ExternalID (cr_Spec b)" and ?r = "bind_request sc sp inst b appGUID params oi"
  obtain hdr where hdr: "identity_header isValidJSON cfg oi = Inr hdr" using assms(2) by (auto simp: isOK_iff)
  obtain body req where body: "bindRequestBody ?r = Inr body" "BodyToObject bindingRequest_fields (Some body) empty_BindingRequest = Inr req"
    using decode_bind_request by blast
  have "serve userProvided (BindCall ?i ?b (Some body)) c = (WriteResponse 200 (JObj [(''credentials'', JObj creds)]), c)"
    by (simp add: server_bind_def body(2) Let_def up.bind_reads[OF assms(4)] respond_def bindingResponse_json_def)
  moreover have "route \<lparr> hq_Method = MethodPut, hq_URL = binding_URL cfg ?i ?b, hq_Query = q, hq_Body = bd, hq_Auth = a, hq_OriginatingIdentity = h \<rparr> =
      BindCall ?i ?b bd" for q bd a h
    using assms(1) by (simp add: delivers_def)
  moreover have "bdr_InstanceID ?r = ?i" "bdr_BindingID ?r = ?b" "bdr_OriginatingIdentity ?r = oi" by (simp_all add: bind_request_def)
  moreover have "bind_response_result (WriteResponse 200 (JObj [(''credentials'', JObj creds)])) = Inr \<lparr> bdrr_Credentials = creds \<rparr>"
    by (simp add: bind_response_result_def WriteResponse_def unmarshalResponse_def decode_struct_def bindResponseBody_def match_field_def)
  ultimately show ?thesis
    using hdr body(1) assms(3) by (simp add: client_Bind_def unless_error_def prepareAndDo_def broker_network_def)
qed

text \<open>The one service of the user provided broker, as the client sees it.\<close>
definition up_service :: osb_Service where
  "up_service = \<lparr> osv_ID = ''4f6e6cf6-ffdd-425f-a2c7-3c9258ad2468'', osv_Name = ''user-provided-service'',
     osv_Description = ''A user provided service'', osv_Tags = [], osv_Requires = [], osv_Bindable = True, osv_PlanUpdatable = None,
     osv_Plans = [\<lparr> opl_ID = ''86064792-7ea2-467b-af93-ac9694d96d52'', opl_Name = ''default'',
       opl_Description = ''Sample plan description'', opl_Free = Some True, opl_Bindable = None, opl_Metadata = None,
       opl_AlphaParameterSchemas = None \<rparr>], osv_Metadata = None \<rparr>"

lemma decode_catalog:
  "decode_struct catalogResponse_fields (catalog_json (projr (fst (userProvided_Catalog c)))) [] = Inr [up_service]"
  by (simp add: userProvided_Catalog_def up_service_def catalog_json_def service_json_def servicePlan_json_def omit_nil_def omit_strings_def
      omit_false_def decode_struct_def catalogResponse_fields_def service_fields_def plan_fields_def empty_Service_def empty_Plan_def
      match_field_def field_def unused_field_def decode_ptr_def)

lemma catalog_at_user_provided:
  assumes "delivers route cfg i bid"
  shows "run_state (client_GetCatalog isValidJSON (broker_network userProvided route) cfg) c = (Inr [up_service], c)"
proof -
  have "catalog_result alpha (WriteResponse 200 (catalog_json (projr (fst (userProvided_Catalog c))))) = Inr [up_service]" for alpha
    by (simp add: catalog_result_def WriteResponse_def unmarshalResponse_def decode_catalog)
      (simp add: without_schemas_def up_service_def)
  moreover have "serve userProvided CatalogCall c = (WriteResponse 200 (catalog_json (projr (fst (userProvided_Catalog c)))), c)"
    by (simp add: server_catalog_def userProvided_def userProvided_Catalog_def respond_def)
  moreover have "route \<lparr> hq_Method = MethodGet, hq_URL = catalog_URL cfg, hq_Query = q, hq_Body = body, hq_Auth = a,
      hq_OriginatingIdentity = h \<rparr> = CatalogCall" for q body a h
    using assms by (simp add: delivers_def)
  ultimately show ?thesis
    by (simp add: client_GetCatalog_def prepareAndDo_def identity_header_def broker_network_def)
qed

text \<open>Its class and plan are identified, so that the client sends the requests for them.\<close>
lemma convert_up_service:
  "\<exists>sc sp. convertCatalog [up_service] = Inr ([sc], [sp]) \<and> scs_ExternalID (sc_Spec sc) \<noteq> [] \<and> sps_ExternalID (sp_Spec sp) \<noteq> []"
  by (simp add: up_service_def convertServiceClass_def convertServicePlans_def convertServicePlan_def marshal_opt_def instance_schema_def
      binding_schema_def)

section \<open>Properties\<close>

text \<open>C16: the user provided broker serves the controller.  Its catalog, fetched by the client and converted by the
  controller, has one class and one plan.  If the controller provisions an instance of them with
  credentials among the parameters, then after any requests of which none creates or removes that instance,
  a bind request of the controller returns exactly these credentials.  The router delivers requests by
  method and path, the identifiers of the instance, the credential and the namespace are not empty, and the
  originating identity can be printed.\<close>
theorem sample_broker_round_trip:
  assumes "delivers route cfg (sis_ExternalID (si_Spec inst)) (crs_ExternalID (cr_Spec b))" "isOK (identity_header isValidJSON cfg oi)"
    and "sis_ExternalID (si_Spec inst) \<noteq> []" "crs_ExternalID (cr_Spec b) \<noteq> []" "nsUID \<noteq> []"
    and "map_of params ''credentials'' = Some (JObj creds)" "\<forall>call \<in> set calls. \<not> disturbs (sis_ExternalID (si_Spec inst)) call"
  shows "\<exists>sc sp c1.
    bind_result (fst (run_state (client_GetCatalog isValidJSON (broker_network userProvided route) cfg) c)) convertCatalog = Inr ([sc], [sp]) \<and>
    run_state (client_ProvisionInstance isValidJSON (broker_network userProvided route) cfg
      (provision_request sc sp inst nsUID params oi)) c = (Inr \<lparr> prr_Async = False, prr_DashboardURL = None, prr_OperationKey = None \<rparr>, c1) \<and>
    fst (run_state (client_Bind isValidJSON (broker_network userProvided route) cfg (bind_request sc sp inst b appGUID bparams oi))
      (serve_all userProvided calls c1)) = Inr \<lparr> bdrr_Credentials = creds \<rparr>"
proof -
  obtain sc sp where cat: "convertCatalog [up_service] = Inr ([sc], [sp])"
    and ids: "scs_ExternalID (sc_Spec sc) \<noteq> []" "sps_ExternalID (sp_Spec sp) \<noteq> []"
    using convert_up_service by blast
  have valid: "validateProvisionRequest (provision_request sc sp inst nsUID params oi) = None"
    "validateBindRequest (bind_request sc sp inst b appGUID bparams oi) = None"
    using ids assms(3,4,5) by (simp_all add: validateProvisionRequest_def validateBindRequest_def provision_request_def bind_request_def)
  obtain c1 where p: "run_state (client_ProvisionInstance isValidJSON (broker_network userProvided route) cfg
      (provision_request sc sp inst nsUID params oi)) c = (Inr \<lparr> prr_Async = False, prr_DashboardURL = None, prr_OperationKey = None \<rparr>, c1)"
    "stored_credential c1 (sis_ExternalID (si_Spec inst)) = Some (Some creds)"
    using provision_at_user_provided[OF assms(1,2) valid(1) assms(6)] by blast
  have "stored_credential (serve_all userProvided calls c1) (sis_ExternalID (si_Spec inst)) = Some (Some creds)"
    using up.serve_all_keeps[OF assms(7)] p(2) by simp
  from bind_at_user_provided[OF assms(1,2) valid(2) this] show ?thesis
    using p(1) cat catalog_at_user_provided[OF assms(1)] by auto
qed

end
