(* ===== verification/SC_Broker.thy ===== *)
theory SC_Broker
  imports SC_Instance
begin

text \<open>
  The control loop of service brokers, \<open>pkg/controller/controller_broker.go\<close>: when a broker is listed
  again, the reconciliation of the classes and plans of its catalog, the status of the broker and the
  removal of its classes and plans on deletion.  The functions have the names of the source; the two
  halves of the handler (add or update, and deletion) and its error paths are definitions of their own.
\<close>

section \<open>When to list a broker\<close>

text \<open>The scan for the \<open>Ready\<close> condition; the first one decides.\<close>
fun relist_due :: "BrokerSpec \<Rightarrow> go_time \<Rightarrow> Condition list \<Rightarrow> bool" where
  "relist_due spec now [] = True"
| "relist_due spec now (c # cs) =
     (if c_Type c = ConditionReady then
        (if c_Status c = ConditionTrue then
           (if bks_RelistBehavior spec = RelistManualBehavior then False
            else case bks_RelistDuration spec of
                   None \<Rightarrow> False
                 | Some duration \<Rightarrow> now > c_LastTransitionTime c + duration)
         else True)
      else relist_due spec now cs)"

definition shouldReconcileClusterServiceBroker :: "ClusterServiceBroker \<Rightarrow> go_time \<Rightarrow> bool" where
  "shouldReconcileClusterServiceBroker broker now =
     (if bkst_ReconciledGeneration (bk_Status broker) \<noteq> om_Generation (bk_Meta broker) then True
      else if om_DeletionTimestamp (bk_Meta broker) \<noteq> None \<or> length (bkst_Conditions (bk_Status broker)) = 0 then True
      else relist_due (bk_Spec broker) now (bkst_Conditions (bk_Status broker)))"

section \<open>Status and finalizers\<close>

definition broker_event :: "ClusterServiceBroker \<Rightarrow> event_type \<Rightarrow> string \<Rightarrow> string \<Rightarrow> unit io" where
  "broker_event b ty reason msg = record_event (event_object ''ClusterServiceBroker'' (bk_Meta b)) ty reason msg"

text \<open>\<open>Status.ReconciledGeneration = Generation\<close> when the broker becomes ready.\<close>
definition note_reconciled :: "ConditionType \<Rightarrow> ConditionStatus \<Rightarrow> ClusterServiceBroker \<Rightarrow> ClusterServiceBroker" where
  "note_reconciled ty st b =
     (if ty = ConditionReady \<and> st = ConditionTrue
      then bk_Status_update (\<lambda>s. s \<lparr> bkst_ReconciledGeneration := om_Generation (bk_Meta b) \<rparr>) b
      else b)"

definition updateClusterServiceBrokerCondition ::
  "env \<Rightarrow> ClusterServiceBroker \<Rightarrow> ConditionType \<Rightarrow> ConditionStatus \<Rightarrow> string \<Rightarrow> string \<Rightarrow> (go_error + unit) io" where
  "updateClusterServiceBrokerCondition E broker ty st reason msg = do {
     t \<leftarrow> time_Now E;
     r \<leftarrow> brokers_UpdateStatus E (note_reconciled ty st (setClusterServiceBrokerCondition broker ty st reason msg t));
     on_ok r (\<lambda>_. State_Monad.return (Inr ())) }"

text \<open>When the read fails, the client returns an empty broker and the code goes on with it; a request
  without a name is refused by the client before it is sent.\<close>
definition updateClusterServiceBrokerFinalizers :: "env \<Rightarrow> ClusterServiceBroker \<Rightarrow> string list \<Rightarrow> (go_error + unit) io" where
  "updateClusterServiceBrokerFinalizers E broker finalizers = do {
     r \<leftarrow> brokers_Get E (om_Name (bk_Meta broker));
     case r of
       Inl _ \<Rightarrow> State_Monad.return (Inl (PlainError ''resource name may not be empty''))
     | Inr latest \<Rightarrow> do {
         u \<leftarrow> brokers_UpdateStatus E (bk_Meta_update (\<lambda>m. m \<lparr> om_Finalizers := finalizers \<rparr>) latest);
         on_ok u (\<lambda>_. State_Monad.return (Inr ())) } }"

text \<open>\<open>if err := c.updateClusterServiceBrokerCondition(...); err != nil { return err }; return err\<close>\<close>
definition broker_condition_then ::
  "env \<Rightarrow> ClusterServiceBroker \<Rightarrow> ConditionStatus \<Rightarrow> string \<Rightarrow> string \<Rightarrow> go_error \<Rightarrow> (go_error + unit) io" where
  "broker_condition_then E broker st reason msg err = do {
     r \<leftarrow> updateClusterServiceBrokerCondition E broker ConditionReady st reason msg;
     on_ok r (\<lambda>_. State_Monad.return (Inl err)) }"

text \<open>A warning, the \<open>Ready\<close> condition set to false, and the error.\<close>
definition broker_failed ::
  "env \<Rightarrow> ClusterServiceBroker \<Rightarrow> string \<Rightarrow> string \<Rightarrow> string \<Rightarrow> string \<Rightarrow> go_error \<Rightarrow> (go_error + unit) io" where
  "broker_failed E broker eventReason reason message s err = do {
     broker_event broker EventTypeWarning eventReason s;
     broker_condition_then E broker ConditionFalse reason (message @ s) err }"

section \<open>Classes and plans of the catalog\<close>

definition project_class :: "ServiceClass \<Rightarrow> ServiceClass \<Rightarrow> ServiceClass" where
  "project_class serviceClass existing = sc_Spec_update (\<lambda>s. s \<lparr>
     scs_Bindable := scs_Bindable (sc_Spec serviceClass),
     scs_PlanUpdatable := scs_PlanUpdatable (sc_Spec serviceClass),
     scs_Tags := scs_Tags (sc_Spec serviceClass),
     scs_Description := scs_Description (sc_Spec serviceClass),
     scs_Requires := scs_Requires (sc_Spec serviceClass) \<rparr>) existing"

definition reconcileServiceClassFromClusterServiceBrokerCatalog ::
  "env \<Rightarrow> ClusterServiceBroker \<Rightarrow> ServiceClass \<Rightarrow> (go_error + unit) io" where
  "reconcileServiceClassFromClusterServiceBrokerCatalog E broker sc0 =
     (let name = om_Name (bk_Meta broker);
          sc = sc_Spec_update (\<lambda>s. s \<lparr> scs_ClusterServiceBrokerName := name \<rparr>) sc0
      in do {
     g \<leftarrow> serviceClassLister_Get (om_Name (sc_Meta sc));
     case g of
       Inl e \<Rightarrow>
         (if IsNotFound e
          then do { r \<leftarrow> classes_Create E sc; on_ok r (\<lambda>_. State_Monad.return (Inr ())) }
          else State_Monad.return (Inl e))
     | Inr existing \<Rightarrow>
         (if scs_ClusterServiceBrokerName (sc_Spec existing) \<noteq> name
          then State_Monad.return (Inl (PlainError (''ServiceClass '' @ quoted (scs_ExternalName (sc_Spec sc)) @
                 '' for ClusterServiceBroker '' @ quoted name @ '' already exists for Broker '' @
                 quoted (scs_ClusterServiceBrokerName (sc_Spec existing)))))
          else if scs_ExternalID (sc_Spec existing) \<noteq> scs_ExternalID (sc_Spec sc)
          then State_Monad.return (Inl (PlainError (''ServiceClass '' @ quoted (scs_ExternalName (sc_Spec sc)) @
                 '' already exists with OSB guid '' @ quoted (om_Name (sc_Meta existing)) @
                 '', received different guid '' @ quoted (om_Name (sc_Meta sc)))))
          else do {
            r \<leftarrow> classes_Update E (project_class sc existing);
            on_ok r (\<lambda>_. State_Monad.return (Inr ())) }) })"

definition project_plan :: "ServicePlan \<Rightarrow> ServicePlan \<Rightarrow> ServicePlan" where
  "project_plan servicePlan existing = sp_Spec_update (\<lambda>s. s \<lparr>
     sps_Description := sps_Description (sp_Spec servicePlan),
     sps_Bindable := sps_Bindable (sp_Spec servicePlan),
     sps_Free := sps_Free (sp_Spec servicePlan),
     sps_ServiceInstanceCreateParameterSchema := sps_ServiceInstanceCreateParameterSchema (sp_Spec servicePlan),
     sps_ServiceInstanceUpdateParameterSchema := sps_ServiceInstanceUpdateParameterSchema (sp_Spec servicePlan),
     sps_ServiceInstanceCredentialCreateParameterSchema :=
       sps_ServiceInstanceCredentialCreateParameterSchema (sp_Spec servicePlan) \<rparr>) existing"

definition reconcileServicePlan :: "env \<Rightarrow> ClusterServiceBroker \<Rightarrow> ServicePlan \<Rightarrow> (go_error + unit) io" where
  "reconcileServicePlan E broker sp0 =
     (let sp = sp_Spec_update (\<lambda>s. s \<lparr> sps_ClusterServiceBrokerName := om_Name (bk_Meta broker) \<rparr>) sp0
      in do {
     g \<leftarrow> servicePlanLister_Get (om_Name (sp_Meta sp));
     case g of
       Inl e \<Rightarrow>
         (if IsNotFound e
          then do { r \<leftarrow> plans_Create E sp; on_ok r (\<lambda>_. State_Monad.return (Inr ())) }
          else State_Monad.return (Inl e))
     | Inr existing \<Rightarrow>
         (if sps_ExternalID (sp_Spec existing) \<noteq> sps_ExternalID (sp_Spec sp)
          then State_Monad.return (Inl (PlainError (''ServicePlan '' @ quoted (om_Name (sp_Meta sp)) @
                 '' already exists with OSB guid '' @ quoted (sps_ExternalID (sp_Spec existing)) @
                 '', received different guid '' @ quoted (sps_ExternalID (sp_Spec sp)))))
          else do {
            r \<leftarrow> plans_Update E (project_plan sp existing);
            on_ok r (\<lambda>_. State_Monad.return (Inr ())) }) })"

text \<open>The two loops over the converted catalog stop at the first error.  The error of the condition
  update is dropped for plans and returned for classes.\<close>
fun reconcile_plans :: "env \<Rightarrow> ClusterServiceBroker \<Rightarrow> ServicePlan list \<Rightarrow> (go_error + unit) io" where
  "reconcile_plans E broker [] = State_Monad.return (Inr ())"
| "reconcile_plans E broker (sp # sps) = do {
     r \<leftarrow> reconcileServicePlan E broker sp;
     case r of
       Inr _ \<Rightarrow> reconcile_plans E broker sps
     | Inl e \<Rightarrow>
         (let s = ''Error reconciling servicePlan '' @ quoted (sps_ExternalName (sp_Spec sp)) @ '' (broker '' @
                  quoted (om_Name (bk_Meta broker)) @ ''): '' @ error_string e
          in do {
            broker_event broker EventTypeWarning errorSyncingCatalogReason s;
            _ \<leftarrow> updateClusterServiceBrokerCondition E broker ConditionReady ConditionFalse
                  errorSyncingCatalogReason (errorSyncingCatalogMessage @ s);
            State_Monad.return (Inl e) }) }"

fun reconcile_classes :: "env \<Rightarrow> ClusterServiceBroker \<Rightarrow> ServiceClass list \<Rightarrow> (go_error + unit) io" where
  "reconcile_classes E broker [] = State_Monad.return (Inr ())"
| "reconcile_classes E broker (sc # scs) = do {
     r \<leftarrow> reconcileServiceClassFromClusterServiceBrokerCatalog E broker sc;
     case r of
       Inr _ \<Rightarrow> reconcile_classes E broker scs
     | Inl e \<Rightarrow>
         broker_failed E broker errorSyncingCatalogReason errorSyncingCatalogReason errorSyncingCatalogMessage
           (''Error reconciling serviceClass '' @ quoted (scs_ExternalName (sc_Spec sc)) @ '' (broker '' @
            quoted (om_Name (bk_Meta broker)) @ ''): '' @ error_string e) e }"

section \<open>Adding and updating a broker\<close>

definition broker_timeout_message :: "ClusterServiceBroker \<Rightarrow> string" where
  "broker_timeout_message broker = ''Stopping reconciliation retries on ClusterServiceBroker '' @
     quoted (om_Name (bk_Meta broker)) @ '' because too much time has elapsed''"

definition set_broker_start :: "go_time option \<Rightarrow> ClusterServiceBroker \<Rightarrow> ClusterServiceBroker" where
  "set_broker_start t = bk_Status_update (\<lambda>s. s \<lparr> bkst_OperationStartTime := t \<rparr>)"

text \<open>The broker is given up: its generation counts as reconciled and it gets the condition \<open>Failed\<close>.\<close>
definition catalog_give_up :: "env \<Rightarrow> ClusterServiceBroker \<Rightarrow> (go_error + unit) io" where
  "catalog_give_up E broker = do {
     broker_event broker EventTypeWarning errorReconciliationRetryTimeoutReason (broker_timeout_message broker);
     updateClusterServiceBrokerCondition E
       (bk_Status_update (\<lambda>s. s \<lparr> bkst_OperationStartTime := None,
          bkst_ReconciledGeneration := om_Generation (bk_Meta broker) \<rparr>) broker)
       ConditionFailed ConditionTrue errorReconciliationRetryTimeoutReason (broker_timeout_message broker) }"

definition catalog_error :: "env \<Rightarrow> ClusterServiceBroker \<Rightarrow> go_time \<Rightarrow> go_error \<Rightarrow> (go_error + unit) io" where
  "catalog_error E broker now e =
     (let s = ''Error getting broker catalog for broker '' @ quoted (om_Name (bk_Meta broker)) @ '': '' @ error_string e
      in do {
        broker_event broker EventTypeWarning errorFetchingCatalogReason s;
        r \<leftarrow> updateClusterServiceBrokerCondition E broker ConditionReady ConditionFalse
               errorFetchingCatalogReason (errorFetchingCatalogMessage @ s);
        on_ok r (\<lambda>_.
          case bkst_OperationStartTime (bk_Status broker) of
            None \<Rightarrow> do {
              u \<leftarrow> brokers_UpdateStatus E (set_broker_start (Some now) broker);
              on_ok u (\<lambda>_. State_Monad.return (Inl e)) }
          | Some start \<Rightarrow> do {
              expired \<leftarrow> retry_expired E start;
              if expired then catalog_give_up E broker else State_Monad.return (Inl e) }) })"

text \<open>Forget the start time of an earlier failed listing.\<close>
definition clear_broker_start :: "env \<Rightarrow> ClusterServiceBroker \<Rightarrow> (go_error + unit) io" where
  "clear_broker_start E broker =
     (if bkst_OperationStartTime (bk_Status broker) \<noteq> None
      then do {
        r \<leftarrow> brokers_UpdateStatus E (set_broker_start None broker);
        on_ok r (\<lambda>_. State_Monad.return (Inr ())) }
      else State_Monad.return (Inr ()))"

definition sync_catalog :: "env \<Rightarrow> ClusterServiceBroker \<Rightarrow> CatalogResponse \<Rightarrow> (go_error + unit) io" where
  "sync_catalog E broker catalog = (case convertCatalog catalog of
     Inl e \<Rightarrow>
       broker_failed E broker errorSyncingCatalogReason errorSyncingCatalogReason errorSyncingCatalogMessage
         (''Error converting catalog payload for broker '' @ quoted (om_Name (bk_Meta broker)) @
          '' to service-catalog API: '' @ error_string e) e
   | Inr (serviceClasses, servicePlans) \<Rightarrow>
       (if length serviceClasses = 0
        then (let s = ''Error getting catalog payload for broker '' @ quoted (om_Name (bk_Meta broker)) @
                      ''; received zero services; at least one service is required''
              in broker_failed E broker errorSyncingCatalogReason errorSyncingCatalogReason errorSyncingCatalogMessage
                   s (PlainError s))
        else do {
          rp \<leftarrow> reconcile_plans E broker servicePlans;
          on_ok rp (\<lambda>_. do {
            rc \<leftarrow> reconcile_classes E broker serviceClasses;
            on_ok rc (\<lambda>_. do {
              ru \<leftarrow> updateClusterServiceBrokerCondition E broker ConditionReady ConditionTrue
                      successFetchedCatalogReason successFetchedCatalogMessage;
              on_ok ru (\<lambda>_. do {
                broker_event broker EventTypeNormal successFetchedCatalogReason successFetchedCatalogMessage;
                State_Monad.return (Inr ()) }) }) }) }))"

definition list_catalog :: "env \<Rightarrow> ClusterServiceBroker \<Rightarrow> ClientConfiguration \<Rightarrow> (go_error + unit) io" where
  "list_catalog E broker client = do {
     now \<leftarrow> time_Now E;
     c \<leftarrow> GetCatalog E client;
     case c of
       Inl e \<Rightarrow> catalog_error E broker now e
     | Inr catalog \<Rightarrow> do {
         r \<leftarrow> clear_broker_start E broker;
         on_ok r (\<lambda>_. sync_catalog E broker catalog) } }"

definition reconcile_broker_update :: "env \<Rightarrow> ClusterServiceBroker \<Rightarrow> (go_error + unit) io" where
  "reconcile_broker_update E broker = do {
     ra \<leftarrow> getAuthCredentialsFromClusterServiceBroker E broker;
     case ra of
       Inl e \<Rightarrow>
         (if e = NilDereference then State_Monad.return (Inl e)
          else broker_failed E broker errorAuthCredentialsReason errorFetchingCatalogReason errorFetchingCatalogMessage
                 (''Error getting broker auth credentials for broker '' @ quoted (om_Name (bk_Meta broker)) @ '': '' @
                  error_string e) e)
     | Inr authConfig \<Rightarrow> do {
         rc \<leftarrow> brokerClientCreateFunc E (NewClientConfigurationForBroker broker authConfig);
         case rc of
           Inl e \<Rightarrow>
             broker_failed E broker errorAuthCredentialsReason errorFetchingCatalogReason errorFetchingCatalogMessage
               (''Error creating client for broker '' @ quoted (om_Name (bk_Meta broker)) @ '': '' @ error_string e) e
         | Inr client \<Rightarrow> list_catalog E broker client } }"

section \<open>Deleting a broker\<close>

fun delete_class_plans ::
  "env \<Rightarrow> ClusterServiceBroker \<Rightarrow> ServiceClass \<Rightarrow> ServicePlan list \<Rightarrow> (go_error + unit) io" where
  "delete_class_plans E broker sc [] = State_Monad.return (Inr ())"
| "delete_class_plans E broker sc (plan # plans) =
     (if om_Name (sc_Meta sc) = sps_ServiceClassRef (sp_Spec plan)
      then do {
        r \<leftarrow> plans_Delete E (om_Name (sp_Meta plan));
        case r of
          Inr _ \<Rightarrow> delete_class_plans E broker sc plans
        | Inl e \<Rightarrow>
            (if IsNotFound e then delete_class_plans E broker sc plans
             else (let s = ''Error deleting ServicePlan '' @ quoted (om_Name (sp_Meta plan)) @ '' (ServiceClass '' @
                           quoted (scs_ExternalName (sc_Spec sc)) @ ''): '' @ error_string e
                   in do {
                     _ \<leftarrow> updateClusterServiceBrokerCondition E broker ConditionReady ConditionUnknown
                           errorDeletingServicePlanMessage (errorDeletingServicePlanReason @ s);
                     broker_event broker EventTypeWarning errorDeletingServicePlanReason
                       (errorDeletingServicePlanMessage @ '' '' @ s);
                     State_Monad.return (Inl e) })) }
      else delete_class_plans E broker sc plans)"

definition delete_class :: "env \<Rightarrow> ClusterServiceBroker \<Rightarrow> ServiceClass \<Rightarrow> (go_error + unit) io" where
  "delete_class E broker sc = do {
     r \<leftarrow> classes_Delete E (om_Name (sc_Meta sc));
     case r of
       Inr _ \<Rightarrow> State_Monad.return (Inr ())
     | Inl e \<Rightarrow>
         (if IsNotFound e then State_Monad.return (Inr ())
          else (let s = ''Error deleting ServiceClass '' @ quoted (scs_ExternalName (sc_Spec sc)) @
                        '' (ClusterServiceBroker '' @ quoted (om_Name (bk_Meta broker)) @ ''): '' @ error_string e
                in do {
                  broker_event broker EventTypeWarning errorDeletingServiceClassReason
                    (errorDeletingServiceClassMessage @ '' '' @ s);
                  broker_condition_then E broker ConditionUnknown errorDeletingServiceClassMessage
                    (errorDeletingServiceClassReason @ s) e })) }"

text \<open>The plans are listed anew for every class.  The listers report no error.\<close>
fun delete_broker_classes :: "env \<Rightarrow> ClusterServiceBroker \<Rightarrow> ServiceClass list \<Rightarrow> (go_error + unit) io" where
  "delete_broker_classes E broker [] = State_Monad.return (Inr ())"
| "delete_broker_classes E broker (sc # scs) =
     (if scs_ClusterServiceBrokerName (sc_Spec sc) = om_Name (bk_Meta broker)
      then do {
        rl \<leftarrow> servicePlanLister_List;
        on_ok rl (\<lambda>plans. do {
          rp \<leftarrow> delete_class_plans E broker sc plans;
          on_ok rp (\<lambda>_. do {
            rc \<leftarrow> delete_class E broker sc;
            on_ok rc (\<lambda>_. delete_broker_classes E broker scs) }) }) }
      else delete_broker_classes E broker scs)"

definition reconcile_broker_delete :: "env \<Rightarrow> ClusterServiceBroker \<Rightarrow> (go_error + unit) io" where
  "reconcile_broker_delete E broker =
     (if FinalizerServiceCatalog \<in> set (om_Finalizers (bk_Meta broker))
      then do {
        rl \<leftarrow> serviceClassLister_List;
        on_ok rl (\<lambda>classes. do {
          rd \<leftarrow> delete_broker_classes E broker classes;
          on_ok rd (\<lambda>_. do {
            ru \<leftarrow> updateClusterServiceBrokerCondition E broker ConditionReady ConditionFalse
                    successClusterServiceBrokerDeletedReason ''The broker was deleted successfully'';
            on_ok ru (\<lambda>_. do {
              _ \<leftarrow> updateClusterServiceBrokerFinalizers E broker 
                    (delete_finalizer FinalizerServiceCatalog (om_Finalizers (bk_Meta broker)));
              broker_event broker EventTypeNormal successClusterServiceBrokerDeletedReason
                (''The broker '' @ om_Name (bk_Meta broker) @ '' was deleted successfully.'');
              State_Monad.return (Inr ()) }) }) }) }
      else State_Monad.return (Inr ()))"

section \<open>The handler\<close>

definition reconcileClusterServiceBroker :: "env \<Rightarrow> ClusterServiceBroker \<Rightarrow> (go_error + unit) io" where
  "reconcileClusterServiceBroker E broker = do {
     now \<leftarrow> time_Now E;
     if \<not> shouldReconcileClusterServiceBroker broker now then State_Monad.return (Inr ())
     else if om_DeletionTimestamp (bk_Meta broker) = None then reconcile_broker_update E broker
     else reconcile_broker_delete E broker }"

definition reconcileClusterServiceBrokerKey :: "env \<Rightarrow> string \<Rightarrow> (go_error + unit) io" where
  "reconcileClusterServiceBrokerKey E key = do {
     r \<leftarrow> brokerLister_Get key;
     case r of
       Inl e \<Rightarrow> State_Monad.return (if IsNotFound e then Inr () else Inl e)
     | Inr broker \<Rightarrow> reconcileClusterServiceBroker E broker }"

end
