(* ===== verification/SC_InstanceFrame.thy ===== *)
theory SC_InstanceFrame
  imports SC_Instance
begin

text \<open>
  What the control loop of an instance cannot touch.  The locale \<open>instance_relation\<close> lifts any relation
  between states that is respected by the clock, the action log and status or reference writes of one
  key through every block of the handlers up to \<open>reconcileServiceInstance\<close>.  Its interpretations give
  the frame of the handler (only the one instance is written, and of its specification only the two
  references) and the preservation of the store invariant.
\<close>

section \<open>Keys of the intermediate copies\<close>

lemma results_setServiceInstanceCondition:
  "j \<in> results (setServiceInstanceCondition E i ty st reason msg) \<Longrightarrow> inst_key j = inst_key i"
  by (auto simp: setServiceInstanceCondition_def setServiceInstanceConditionInternal_def elim!: results_bindE)

lemma inst_key_operation [simp]:
  "inst_key (clearServiceInstanceCurrentOperation i) = inst_key i"
  "inst_key (setServiceInstanceStartOrphanMitigation i) = inst_key i"
  "inst_key (clear_catalog_finalizer i) = inst_key i"
  "inst_key (si_Meta_update (\<lambda>m. m \<lparr> om_Finalizers := fs \<rparr>) i) = inst_key i"
  by (simp_all add: clearServiceInstanceCurrentOperation_def setServiceInstanceStartOrphanMitigation_def
      clear_catalog_finalizer_def inst_key_def)

lemma results_recordStart:
  "Inr j \<in> results (recordStartOfServiceInstanceOperation E i operation) \<Longrightarrow> inst_key j = inst_key i"
  unfolding recordStartOfServiceInstanceOperation_def Let_def updateServiceInstanceStatus_def
  by (elim results_bindE, drule results_instances_UpdateStatus, drule results_setServiceInstanceCondition) simp

lemma results_ensure_started: "Inr j \<in> results (ensure_started E i operation) \<Longrightarrow> inst_key j = inst_key i"
  by (auto simp: ensure_started_def dest: results_recordStart split: if_splits)

lemma results_start_mitigation_clock: "j \<in> results (start_mitigation_clock E i) \<Longrightarrow> inst_key j = inst_key i"
  by (auto simp: start_mitigation_clock_def elim!: results_bindE split: if_splits)

lemma results_fail_unless_mitigating:
  "j \<in> results (fail_unless_mitigating E inst i reason s) \<Longrightarrow> inst_key j = inst_key i"
  by (auto simp: fail_unless_mitigating_def dest: results_setServiceInstanceCondition split: if_splits)

lemma results_lookup_failed: "r \<in> results (lookup_failed E inst reason prefix s err) \<Longrightarrow> r = Inl err"
  by (auto simp: lookup_failed_def elim!: results_bindE)

lemma results_resolveServiceClassRef:
  "Inr (j, found) \<in> results (resolveServiceClassRef E i) \<Longrightarrow> inst_key j = inst_key i"
  by (auto simp: resolveServiceClassRef_def Let_def elim!: results_bindE dest: results_lookup_failed
      split: option.splits sum.splits)

lemma results_resolveServicePlanRef:
  "Inr j \<in> results (resolveServicePlanRef E i found) \<Longrightarrow> inst_key j = inst_key i"
  by (auto simp: resolveServicePlanRef_def Let_def elim!: results_bindE dest!: results_lookup_failed results_on_ok
      split: option.splits sum.splits)

lemma results_resolveReferences: "Inr j \<in> results (resolveReferences E i) \<Longrightarrow> inst_key j = inst_key i"
  by (auto simp: resolveReferences_def updateServiceInstanceReferences_def elim!: results_bindE
      dest!: results_on_ok results_resolveServiceClassRef results_resolveServicePlanRef results_instances_UpdateReferences
      split: if_splits)

lemmas key_results = results_setServiceInstanceCondition results_ensure_started results_start_mitigation_clock
  results_fail_unless_mitigating results_resolveReferences results_resolveServiceClassRef results_resolveServicePlanRef

section \<open>Relations kept by the handlers\<close>

context client_relation
begin

lemma keeps_retry_expired [keeps_intros]: "keeps R (retry_expired E start)"
  unfolding retry_expired_def by (intro keeps_intros)

lemma keeps_auth [keeps_intros]: "keeps R (getAuthCredentialsFromClusterServiceBroker E broker)"
  unfolding getAuthCredentialsFromClusterServiceBroker_def auth_from_secret_def by (intro keeps_intros)

lemma keeps_fetchParametersFromSource [keeps_intros]: "keeps R (fetchParametersFromSource E ns src)"
  unfolding fetchParametersFromSource_def fetchSecretKeyValue_def by (intro keeps_intros)

lemma keeps_build_from_sources [keeps_intros]: "keeps R (build_from_sources E ns srcs acc)"
  by (induction srcs arbitrary: acc) (auto intro!: keeps_intros)

lemma keeps_buildParameters [keeps_intros]: "keeps R (buildParameters E ns srcs raw)"
  unfolding buildParameters_def by (intro keeps_intros)

end

locale instance_relation = client_relation R E A
  for R :: "world \<Rightarrow> world \<Rightarrow> bool" and E :: env and A :: "action \<Rightarrow> bool" +
  fixes key :: store_key
  assumes keeps_UpdateStatus: "inst_key i = key \<Longrightarrow> keeps R (instances_UpdateStatus E i)"
    and keeps_UpdateReferences: "inst_key i = key \<Longrightarrow> keeps R (instances_UpdateReferences E i)"
begin

lemma keeps_setServiceInstanceCondition [keeps_intros]:
  "keeps R (setServiceInstanceCondition E i ty st reason msg)"
  unfolding setServiceInstanceCondition_def by (intro keeps_intros)

lemma keeps_updateServiceInstanceCondition [keeps_intros]:
  "inst_key i = key \<Longrightarrow> keeps R (updateServiceInstanceCondition E i ty st reason msg)"
  unfolding updateServiceInstanceCondition_def
  by (intro keeps_intros keeps_UpdateStatus) (simp add: results_setServiceInstanceCondition)

lemma keeps_update_status_then [keeps_intros]:
  "inst_key i = key \<Longrightarrow> keeps R k \<Longrightarrow> keeps R (update_status_then E i k)"
  unfolding update_status_then_def updateServiceInstanceStatus_def
  by (intro keeps_intros keeps_UpdateStatus)

lemma keeps_instance_event [keeps_intros]: "keeps R (instance_event i ty reason msg)"
  unfolding instance_event_def by (intro keeps_intros)

lemma keeps_polling_queue [keeps_intros]:
  "keeps R (beginPollingServiceInstance i)" "keeps R (continuePollingServiceInstance i)"
  "keeps R (finishPollingServiceInstance i)"
  unfolding continuePollingServiceInstance_def beginPollingServiceInstance_def finishPollingServiceInstance_def
  by (intro keeps_intros)+

lemma keeps_recordStart [keeps_intros]:
  "inst_key i = key \<Longrightarrow> keeps R (recordStartOfServiceInstanceOperation E i operation)"
  unfolding recordStartOfServiceInstanceOperation_def updateServiceInstanceStatus_def
  by (intro keeps_intros keeps_UpdateStatus) (simp add: results_setServiceInstanceCondition)

lemma keeps_lookup_failed [keeps_intros]:
  "inst_key i = key \<Longrightarrow> keeps R (lookup_failed E i reason prefix s err)"
  unfolding lookup_failed_def by (intro keeps_intros)

lemma keeps_getServiceClassPlanAndClusterServiceBroker [keeps_intros]:
  "inst_key i = key \<Longrightarrow> keeps R (getServiceClassPlanAndClusterServiceBroker E i)"
  unfolding getServiceClassPlanAndClusterServiceBroker_def getServicePlan_step_def getBroker_step_def
  by (intro keeps_intros)

lemma keeps_resolveServiceClassRef [keeps_intros]: "inst_key i = key \<Longrightarrow> keeps R (resolveServiceClassRef E i)"
  unfolding resolveServiceClassRef_def by (intro keeps_intros)

lemma keeps_resolveServicePlanRef [keeps_intros]: "inst_key i = key \<Longrightarrow> keeps R (resolveServicePlanRef E i found)"
  unfolding resolveServicePlanRef_def class_of_reference_def by (intro keeps_intros)

lemma keeps_resolveReferences [keeps_intros]: "inst_key i = key \<Longrightarrow> keeps R (resolveReferences E i)"
  unfolding resolveReferences_def updateServiceInstanceReferences_def
  by (intro keeps_intros keeps_UpdateReferences) (auto dest!: key_results)

lemma keeps_reject_request [keeps_intros]:
  "inst_key i = key \<Longrightarrow> keeps R (reject_request E inst i reason s msg err)"
  unfolding reject_request_def updateServiceInstanceStatus_def
  by (intro keeps_intros keeps_UpdateStatus) (auto dest!: key_results)

lemma keeps_originating_identity [keeps_intros]:
  "inst_key i = key \<Longrightarrow> keeps R (originating_identity E inst i verb)"
  unfolding originating_identity_def by (intro keeps_intros)

lemma keeps_prepare_parameters [keeps_intros]:
  "inst_key i = key \<Longrightarrow> keeps R (prepare_parameters E inst i)"
  unfolding prepare_parameters_def by (intro keeps_intros)

lemma keeps_ensure_started [keeps_intros]: "inst_key i = key \<Longrightarrow> keeps R (ensure_started E i operation)"
  unfolding ensure_started_def by (intro keeps_intros)

lemma keeps_start_mitigation_clock [keeps_intros]: "keeps R (start_mitigation_clock E i)"
  unfolding start_mitigation_clock_def by (intro keeps_intros)

lemma keeps_fail_unless_mitigating [keeps_intros]: "keeps R (fail_unless_mitigating E inst i reason s)"
  unfolding fail_unless_mitigating_def by (intro keeps_intros)

lemma keeps_start_async [keeps_intros]:
  "inst_key i = key \<Longrightarrow> keeps R (start_async E inst i opkey reason message)"
  unfolding start_async_def by (intro keeps_intros) (auto dest!: key_results)

text \<open>The blocks of polling, deprovisioning and provisioning.\<close>

lemma keeps_stop_polling [keeps_intros]:
  "inst_key i = key \<Longrightarrow> keeps R (stop_polling E inst i mitigating deleting s)"
  unfolding stop_polling_def by (intro keeps_intros) (auto dest!: key_results split: if_splits)

lemma keeps_poll_deprovisioned [keeps_intros]:
  "inst_key i = key \<Longrightarrow> keeps R (poll_deprovisioned E inst i mitigating)"
  unfolding poll_deprovisioned_def by (intro keeps_intros) (auto dest!: key_results)

lemma keeps_poll_error [keeps_intros]:
  "inst_key i = key \<Longrightarrow> keeps R (poll_error E i mitigating deleting start err)"
  unfolding poll_error_def poll_gone_def by (intro keeps_intros) simp_all

lemma keeps_poll_in_progress [keeps_intros]:
  "inst_key i = key \<Longrightarrow> keeps R (poll_in_progress E i mitigating deleting start descr)"
  unfolding poll_in_progress_def
  by (intro keeps_intros) (auto dest!: key_results elim!: results_bindE split: option.splits)

lemma keeps_poll_answers [keeps_intros]:
  "inst_key i = key \<Longrightarrow> keeps R (poll_succeeded E i mitigating deleting)"
  "inst_key i = key \<Longrightarrow> keeps R (poll_failed E sc brokerName i mitigating deleting descr)"
  "inst_key i = key \<Longrightarrow> keeps R (poll_invalid_state E i mitigating deleting start st)"
  unfolding poll_succeeded_def poll_failed_def poll_invalid_state_def
  by (intro keeps_intros; auto dest!: key_results split: if_splits)+

lemma keeps_pollServiceInstance [keeps_intros]:
  assumes "inst_key i = key" "\<And>cl r. A (BrokerPollCall cl r)"
  shows "keeps R (pollServiceInstance E sc sp brokerName client i)"
  unfolding pollServiceInstance_def
  by (intro keeps_intros assms) (auto split: LastOperationState.split intro!: keeps_intros assms)

lemma keeps_pollServiceInstanceInternal [keeps_intros]:
  "inst_key i = key \<Longrightarrow> (\<And>cl r. A (BrokerPollCall cl r)) \<Longrightarrow> keeps R (pollServiceInstanceInternal E i)"
  unfolding pollServiceInstanceInternal_def by (intro keeps_intros)

lemma keeps_deprovision_errors [keeps_intros]:
  "inst_key i = key \<Longrightarrow> keeps R (deprovision_http_error E sc brokerName inst i code errMsg descr)"
  "inst_key i = key \<Longrightarrow> keeps R (deprovision_other_error E sc brokerName inst i err)"
  unfolding deprovision_http_error_def deprovision_other_error_def
  by (intro keeps_intros; auto dest!: key_results)+

lemma keeps_deprovision_call [keeps_intros]:
  "inst_key i = key \<Longrightarrow> (\<And>cl r. A (BrokerDeprovisionCall cl r)) \<Longrightarrow> keeps R (deprovision_call E sc brokerName client request inst i)"
  unfolding deprovision_call_def deprovision_done_def
  by (intro keeps_intros) (auto dest!: key_results)

lemma keeps_deprovision_at_broker [keeps_intros]:
  "inst_key i = key \<Longrightarrow> (\<And>cl r. A (BrokerDeprovisionCall cl r)) \<Longrightarrow> keeps R (deprovision_at_broker E i)"
  unfolding deprovision_at_broker_def by (intro keeps_intros) (auto dest!: key_results)

lemma keeps_reconcileServiceInstanceDelete [keeps_intros]:
  "inst_key i = key \<Longrightarrow> (\<And>cl r. A (BrokerDeprovisionCall cl r)) \<Longrightarrow> keeps R (reconcileServiceInstanceDelete E i)"
  unfolding reconcileServiceInstanceDelete_def deprovision_blocked_def
  by (intro keeps_intros) (auto dest!: key_results)

lemma keeps_provision_errors [keeps_intros]:
  "inst_key i = key \<Longrightarrow> keeps R (provision_http_error E sc brokerName inst i err code)"
  "inst_key i = key \<Longrightarrow> keeps R (provision_other_error E sc brokerName inst i err)"
  unfolding provision_http_error_def provision_other_error_def provision_timeout_def provision_retry_def
  by (intro keeps_intros; auto dest!: key_results)+

lemma keeps_provision_call [keeps_intros]:
  "inst_key i = key \<Longrightarrow> (\<And>cl r. A (BrokerProvisionCall cl r)) \<Longrightarrow> keeps R (provision_call E sc brokerName client request inst i)"
  unfolding provision_call_def provision_done_def by (intro keeps_intros) (auto dest!: key_results)

lemma keeps_provision_at_broker [keeps_intros]:
  "inst_key i = key \<Longrightarrow> (\<And>cl r. A (BrokerProvisionCall cl r)) \<Longrightarrow> keeps R (provision_at_broker E sc sp brokerName client inst i)"
  unfolding provision_at_broker_def by (intro keeps_intros) (auto dest!: key_results)

theorem keeps_reconcileServiceInstance [keeps_intros]:
  "inst_key i = key \<Longrightarrow> (\<And>cl r. A (BrokerPollCall cl r)) \<Longrightarrow> (\<And>cl r. A (BrokerDeprovisionCall cl r)) \<Longrightarrow>
   (\<And>cl r. A (BrokerProvisionCall cl r)) \<Longrightarrow> keeps R (reconcileServiceInstance E i)"
  unfolding reconcileServiceInstance_def by (intro keeps_intros) (auto dest!: key_results)

end

section \<open>The frame of the control loop\<close>

text \<open>What a controller write may change of an instance: its status, its finalizers and the two
  references; never the rest of the specification, the identity, the generation or the deletion mark.\<close>
definition instance_evolves :: "ServiceInstance \<Rightarrow> ServiceInstance \<Rightarrow> bool" where
  "instance_evolves i i' \<longleftrightarrow>
     om_UID (si_Meta i') = om_UID (si_Meta i) \<and> om_Generation (si_Meta i') = om_Generation (si_Meta i) \<and>
     om_DeletionTimestamp (si_Meta i') = om_DeletionTimestamp (si_Meta i) \<and>
     (si_Spec i') \<lparr> sis_ServiceClassRef := None, sis_ServicePlanRef := None \<rparr> =
       (si_Spec i) \<lparr> sis_ServiceClassRef := None, sis_ServicePlanRef := None \<rparr>"

lemma instance_evolves_refl: "instance_evolves i i"
  by (simp add: instance_evolves_def)

lemma instance_evolves_trans: "instance_evolves i j \<Longrightarrow> instance_evolves j l \<Longrightarrow> instance_evolves i l"
  by (auto simp: instance_evolves_def)

lemma status_BeforeUpdate:
  assumes "BeforeUpdate (instanceStatusUpdateStrategy yaml oi) ctx obj old = Inr new"
  shows "si_Spec new = si_Spec old" "si_Status new = si_Status obj"
    "om_Generation (si_Meta new) = om_Generation (si_Meta old)"
  using assms
  by (auto simp: BeforeUpdate_def bind_result_eq_Inr Let_def instanceStatusUpdateStrategy_def instanceRESTStrategies_def
      instanceStatus_PrepareForUpdate_def upd_meta_def settle_namespace_def RepairObjectMeta_def split: if_splits)

lemma reference_BeforeUpdate:
  assumes "BeforeUpdate (instanceReferenceUpdateStrategy yaml oi) ctx obj old = Inr new"
  shows "si_Spec new = (si_Spec old) \<lparr> sis_ServiceClassRef := sis_ServiceClassRef (si_Spec obj),
           sis_ServicePlanRef := sis_ServicePlanRef (si_Spec obj) \<rparr>"
    "si_Status new = si_Status old" "om_Generation (si_Meta new) = om_Generation (si_Meta old)"
  using assms
  by (auto simp: BeforeUpdate_def bind_result_eq_Inr Let_def instanceReferenceUpdateStrategy_def instanceRESTStrategies_def
      instanceReference_PrepareForUpdate_def upd_meta_def settle_namespace_def RepairObjectMeta_def split: if_splits)

lemma rs_meta_instance [simp]:
  "rs_meta (instanceRESTStrategies yaml oi) = si_Meta"
  "rs_meta (instanceStatusUpdateStrategy yaml oi) = si_Meta"
  "rs_meta (instanceReferenceUpdateStrategy yaml oi) = si_Meta"
  "rs_NamespaceScoped (instanceStatusUpdateStrategy yaml oi)"
  "rs_NamespaceScoped (instanceReferenceUpdateStrategy yaml oi)"
  "rs_set_meta (instanceStatusUpdateStrategy yaml oi) = (\<lambda>m i. i \<lparr> si_Meta := m \<rparr>)"
  "rs_set_meta (instanceReferenceUpdateStrategy yaml oi) = (\<lambda>m i. i \<lparr> si_Meta := m \<rparr>)"
  by (simp_all add: instanceStatusUpdateStrategy_def instanceReferenceUpdateStrategy_def instanceRESTStrategies_def)

lemma status_evolves:
  "BeforeUpdate (instanceStatusUpdateStrategy yaml oi) ctx obj old = Inr new \<Longrightarrow> instance_evolves old new"
  using inst_status_store.BeforeUpdate_ok(4,8)[of yaml oi ctx obj old new] status_BeforeUpdate[of yaml oi ctx obj old new]
  by (simp add: instance_evolves_def)

lemma reference_evolves:
  "BeforeUpdate (instanceReferenceUpdateStrategy yaml oi) ctx obj old = Inr new \<Longrightarrow> instance_evolves old new"
  using inst_ref_store.BeforeUpdate_ok(4,8)[of yaml oi ctx obj old new] reference_BeforeUpdate[of yaml oi ctx obj old new]
  by (auto simp: instance_evolves_def)

text \<open>The relation between the states before and after: everything but the instance under \<open>key\<close> is as
  before, the instance evolved or is gone, and the action log was only extended.\<close>
definition instance_frame :: "store_key \<Rightarrow> world \<Rightarrow> world \<Rightarrow> bool" where
  "instance_frame key w w' \<longleftrightarrow>
     w_credentials w' = w_credentials w \<and> w_brokers w' = w_brokers w \<and> w_classes w' = w_classes w \<and>
     w_plans w' = w_plans w \<and> w_secrets w' = w_secrets w \<and> w_namespaces w' = w_namespaces w \<and>
     w_instanceCache w' = w_instanceCache w \<and> w_credentialCache w' = w_credentialCache w \<and>
     w_brokerCache w' = w_brokerCache w \<and> w_classCache w' = w_classCache w \<and> w_planCache w' = w_planCache w \<and>
     (\<forall>k. k \<noteq> key \<longrightarrow> st_objs (w_instances w') k = st_objs (w_instances w) k) \<and>
     stored_evolves instance_evolves (st_objs (w_instances w) key) (st_objs (w_instances w') key) \<and>
     (\<exists>new. w_log w' = new @ w_log w)"

lemma instance_frame_refl: "instance_frame key w w"
  by (simp add: instance_frame_def stored_evolves_refl[OF instance_evolves_refl])

lemma instance_frame_trans: "instance_frame key u v \<Longrightarrow> instance_frame key v w \<Longrightarrow> instance_frame key u w"
  by (auto simp: instance_frame_def intro: stored_evolves_trans[OF instance_evolves_trans])

lemma instance_write_frame:
  assumes S: "strategy_contract S valid" "rs_meta S = si_Meta" "rs_set_meta S = (\<lambda>m i. i \<lparr> si_Meta := m \<rparr>)"
    and ev: "\<And>ctx old new. BeforeUpdate S ctx i old = Inr new \<Longrightarrow> instance_evolves old new"
  shows "instance_frame (inst_key i) w (snd (instance_write E S i w))"
proof (cases "Update S (client_ctx E (om_Namespace (si_Meta i))) (inst_key i) i (w_instances w)")
  case (Pair r st')
  have rev: "instance_evolves old new \<Longrightarrow> instance_evolves old (upd_meta S (\<lambda>m. m \<lparr> om_ResourceVersion := v \<rparr>) new)" for old new v
    by (simp add: instance_evolves_def upd_meta_def S(2,3))
  show ?thesis
  proof (cases r)
    case (Inl e)
    then show ?thesis using Pair by (simp add: instance_write_def inst_key_def instance_frame_refl)
  next
    case (Inr out)
    then have u: "Update S (client_ctx E (om_Namespace (si_Meta i))) (inst_key i) i (w_instances w) = (Inr out, st')"
      using Pair by simp
    have "stored_evolves instance_evolves (st_objs (w_instances w) (inst_key i)) (st_objs st' (inst_key i))"
      using strategy_contract.Update_stored[OF S(1) u, of instance_evolves] ev rev by (auto simp: stored_evolves_def)
    moreover have "\<forall>k. k \<noteq> inst_key i \<longrightarrow> st_objs st' k = st_objs (w_instances w) k"
      using strategy_contract.Update_key(3)[OF S(1) u] by blast
    ultimately show ?thesis
      using u by (simp add: instance_write_def Let_def instance_frame_def inst_key_def)
  qed
qed

interpretation inst_frame_client: client_relation "instance_frame key" E "\<lambda>_. True" for key E
proof
  show "instance_frame key w w" for w by (rule instance_frame_refl)
  show "instance_frame key u v \<Longrightarrow> instance_frame key v w \<Longrightarrow> instance_frame key u w" for u v w
    by (rule instance_frame_trans)
qed (auto simp: instance_frame_def stored_evolves_refl[of instance_evolves, OF instance_evolves_refl])

interpretation inst_frame: instance_relation "instance_frame key" E "\<lambda>_. True" key for key E
proof
  fix i assume key: "inst_key i = key"
  show "keeps (instance_frame key) (instances_UpdateStatus E i)"
    unfolding instances_UpdateStatus_def key[symmetric]
    by (rule inst_frame_client.keeps_api_request,
        rule instance_write_frame[OF inst_status_store.strategy_contract_axioms])
      (simp_all add: status_evolves)
  show "keeps (instance_frame key) (instances_UpdateReferences E i)"
    unfolding instances_UpdateReferences_def key[symmetric]
    by (rule inst_frame_client.keeps_api_request,
        rule instance_write_frame[OF inst_ref_store.strategy_contract_axioms])
      (simp_all add: reference_evolves)
qed

interpretation inst_ok: instance_relation "inv_rel (world_ok E)" E "\<lambda>_. True" key for E key
  by unfold_locales (rule keeps_world_ok_instance)+

section \<open>Properties\<close>

text \<open>C17: whatever the broker answers and whichever requests fail, one run of the instance control loop
  changes nothing but the instance it works on, and only appends to the action log.  That instance keeps its
  specification but for the two references, its UID, its generation and its deletion timestamp, or
  disappears.  The remaining metadata is not compared: a status update writes the owner references of the
  cached copy.\<close>
theorem reconcileServiceInstance_frame:
  "instance_frame (inst_key i) w (snd (run_state (reconcileServiceInstance E i) w))"
  using inst_frame.keeps_reconcileServiceInstance[of i "inst_key i" E] by (simp add: keeps_def)

end
