(* ===== verification/SC_Trace.thy ===== *)
theory SC_Trace
  imports SC_Client
begin

text \<open>
  The external actions of one run of a handler.  \<open>traces m L\<close> says that \<open>m\<close> extends the action log by a
  list that satisfies \<open>L\<close> (newest action first), so that ordering properties are proved by composing
  the languages of the blocks.  The locale \<open>request_record\<close> is the contract of the control loops with
  the broker: at most one request per run, sent only after a record of it (the parameter \<open>rec\<close>).
\<close>

section \<open>Languages of the action log\<close>

definition log_only :: "(action \<Rightarrow> bool) \<Rightarrow> world \<Rightarrow> world \<Rightarrow> bool" where
  "log_only P w w' \<longleftrightarrow> (\<exists>new. w_log w' = new @ w_log w \<and> (\<forall>a \<in> set new. is_broker_call a \<longrightarrow> P a))"

lemma log_only_same: "w_log w' = w_log w \<Longrightarrow> log_only P w w'"
  by (auto simp: log_only_def)

lemma log_only_one: "w_log w' = a # w_log w \<Longrightarrow> (is_broker_call a \<longrightarrow> P a) \<Longrightarrow> log_only P w w'"
  by (auto simp: log_only_def intro!: exI[of _ "[a]"])

lemma log_only_trans: "log_only P u v \<Longrightarrow> log_only P v w \<Longrightarrow> log_only P u w"
  unfolding log_only_def by (metis Un_iff append.assoc set_append)

interpretation log_client: client_relation "log_only P" E "\<lambda>a. is_broker_call a \<longrightarrow> P a" for P E
  by unfold_locales (auto intro: log_only_same log_only_one log_only_trans)

definition traces :: "'a io \<Rightarrow> ('a \<Rightarrow> action list \<Rightarrow> bool) \<Rightarrow> bool" where
  "traces m L \<longleftrightarrow> (\<forall>w. \<exists>new. w_log (snd (run_state m w)) = new @ w_log w \<and> L (fst (run_state m w)) new)"

definition silent :: "action list \<Rightarrow> bool" where
  "silent new \<longleftrightarrow> (\<forall>a \<in> set new. \<not> is_broker_call a)"

lemma silent_simps [simp]:
  "silent []" "silent (xs @ ys) \<longleftrightarrow> silent xs \<and> silent ys" "silent (a # xs) \<longleftrightarrow> \<not> is_broker_call a \<and> silent xs"
  by (auto simp: silent_def)

lemma traces_return: "L a [] \<Longrightarrow> traces (State_Monad.return a) L"
  by (simp add: traces_def)

lemma traces_bind:
  assumes "traces m K" and "\<And>a new. a \<in> results m \<Longrightarrow> K a new \<Longrightarrow> traces (k a) (\<lambda>b new'. L b (new' @ new))"
  shows "traces (State_Monad.bind m k) L"
  unfolding traces_def
proof
  fix w
  obtain a w1 where m: "run_state m w = (a, w1)" by force
  then obtain new where new: "w_log w1 = new @ w_log w" "K a new"
    using assms(1) unfolding traces_def by (metis fst_conv snd_conv)
  have "a \<in> results m" using m by (auto simp: results_def)
  then obtain new' where "w_log (snd (run_state (k a) w1)) = new' @ w_log w1" "L (fst (run_state (k a) w1)) (new' @ new)"
    using assms(2)[OF _ new(2)] unfolding traces_def by blast
  then show "\<exists>new. w_log (snd (run_state (State_Monad.bind m k) w)) = new @ w_log w \<and>
      L (fst (run_state (State_Monad.bind m k) w)) new"
    using m new(1) by auto
qed

lemma traces_weaken: "traces m K \<Longrightarrow> (\<And>a new. a \<in> results m \<Longrightarrow> K a new \<Longrightarrow> L a new) \<Longrightarrow> traces m L"
  unfolding traces_def results_def by (metis (mono_tags, lifting) mem_Collect_eq prod.collapse)

text \<open>A handler that keeps \<open>log_only\<close> of the empty set is silent.\<close>
lemma traces_silent: "keeps (log_only (\<lambda>_. False)) m \<Longrightarrow> traces m (\<lambda>_ new. silent new)"
  by (simp add: keeps_def log_only_def traces_def silent_def)

lemma traces_ProvisionInstance: "traces (ProvisionInstance E cl r) (\<lambda>_ new. new = [BrokerProvisionCall cl r])"
  and traces_DeprovisionInstance: "traces (DeprovisionInstance E cl dr) (\<lambda>_ new. new = [BrokerDeprovisionCall cl dr])"
  and traces_PollLastOperation: "traces (PollLastOperation E cl lor) (\<lambda>_ new. new = [BrokerPollCall cl lor])"
  by (simp_all add: traces_def ProvisionInstance_def DeprovisionInstance_def PollLastOperation_def tick_def log_action_def)

text \<open>A call followed by silence.\<close>
lemma traces_call:
  assumes "traces m (\<lambda>_ new. new = [c])" and "\<And>a. keeps (log_only (\<lambda>_. False)) (k a)"
  shows "traces (State_Monad.bind m k) (\<lambda>_ new. \<exists>after. silent after \<and> new = after @ [c])"
  by (rule traces_bind[OF assms(1)], rule traces_weaken[OF traces_silent[OF assms(2)]]) simp

lemma traces_request:
  assumes "\<And>w. \<exists>new. w_log (snd (f w)) = new @ w_log w \<and> silent new \<and> (\<forall>j. fst (f w) = Inr j \<longrightarrow> P j new)"
  shows "traces (api_request E f) (\<lambda>r new. silent new \<and> (\<forall>j. r = Inr j \<longrightarrow> P j new))"
  unfolding traces_def
proof
  fix w
  obtain new where "w_log (snd (f (w \<lparr> w_tick := Suc (w_tick w) \<rparr>))) = new @ w_log w" "silent new"
    "\<forall>j. fst (f (w \<lparr> w_tick := Suc (w_tick w) \<rparr>)) = Inr j \<longrightarrow> P j new"
    using assms[of "w \<lparr> w_tick := Suc (w_tick w) \<rparr>"] by auto
  then show "\<exists>new. w_log (snd (run_state (api_request E f) w)) = new @ w_log w \<and> silent new \<and>
      (\<forall>j. fst (run_state (api_request E f) w) = Inr j \<longrightarrow> P j new)"
    by (auto simp: api_request_def Let_def split: option.splits)
qed

section \<open>At most one recorded request\<close>

text \<open>No request, or exactly one, sent when \<open>rec\<close> held of the actions before it.\<close>
definition one_request :: "(action list \<Rightarrow> bool) \<Rightarrow> action list \<Rightarrow> bool" where
  "one_request rec new \<longleftrightarrow> silent new \<or>
     (\<exists>after c before. new = after @ c # before \<and> is_broker_call c \<and> silent after \<and> silent before \<and> rec before)"

lemma one_request_silent [simp]: "silent new \<Longrightarrow> one_request rec new"
  by (simp add: one_request_def)

lemma one_request_mono:
  assumes "one_request rec new" "silent old" and "\<And>before. rec before \<Longrightarrow> rec' (before @ old)"
  shows "one_request rec' (new @ old)"
proof (cases "silent new")
  case True
  then show ?thesis using assms(2) by simp
next
  case False
  then obtain after c before where *: "new = after @ c # before" "is_broker_call c" "silent after" "silent before" "rec before"
    using assms(1) unfolding one_request_def by blast
  then have "new @ old = after @ c # (before @ old)" "silent (before @ old)" "rec' (before @ old)"
    using assms by simp_all
  then show ?thesis unfolding one_request_def using * by blast
qed

locale request_record =
  fixes rec :: "action list \<Rightarrow> bool"
  assumes rec_append: "rec before \<Longrightarrow> rec (before @ old)"
begin

text \<open>Composition: a silent block, then one that sends at most one request.\<close>
lemma traces_then:
  assumes "keeps (log_only (\<lambda>_. False)) m" and "\<And>a. a \<in> results m \<Longrightarrow> traces (k a) (\<lambda>_. one_request rec)"
  shows "traces (State_Monad.bind m k) (\<lambda>_. one_request rec)"
  by (rule traces_bind[OF traces_silent[OF assms(1)]], rule traces_weaken[OF assms(2)])
    (auto intro: one_request_mono rec_append)

lemma traces_quiet: "keeps (log_only (\<lambda>_. False)) m \<Longrightarrow> traces m (\<lambda>_. one_request rec)"
  by (rule traces_weaken[OF traces_silent]) simp_all

lemma traces_on_ok:
  "(\<And>a. r = Inr a \<Longrightarrow> traces (k a) (\<lambda>_. one_request rec)) \<Longrightarrow> traces (on_ok r k) (\<lambda>_. one_request rec)"
  by (cases r) (auto intro: traces_return)

text \<open>The operation is recorded, then the request is sent.\<close>
lemma traces_start_and_call:
  fixes m :: "('e + 'a) io"
  assumes start: "traces m (\<lambda>r new. silent new \<and> (\<forall>j. r = Inr j \<longrightarrow> rec new))"
    and call: "\<And>j. traces (k j) (\<lambda>_ new. \<exists>after. silent after \<and> new = after @ [c])" and c: "is_broker_call c"
  shows "traces (State_Monad.bind m (\<lambda>rs. on_ok rs k)) (\<lambda>_. one_request rec)"
proof (rule traces_bind[OF start])
  fix rs :: "'e + 'a" and new
  assume new: "silent new \<and> (\<forall>j. rs = Inr j \<longrightarrow> rec new)"
  show "traces (on_ok rs k) (\<lambda>_ new'. one_request rec (new' @ new))"
  proof (cases rs)
    case (Inl e)
    then show ?thesis using new by (simp add: traces_return)
  next
    case (Inr j)
    have "one_request rec (new' @ new)" if "\<exists>after. silent after \<and> new' = after @ [c]" for new'
      using that c new Inr unfolding one_request_def by (metis append.assoc append_Cons append_Nil)
    then show ?thesis using Inr by (auto intro: traces_weaken[OF call])
  qed
qed

end

end
