(* ===== verification/SC_BindingFrame.thy ===== *)
theory SC_BindingFrame
  imports SC_Binding SC_InstanceFrame SC_Trace
begin

text \<open>
  What the control loop of a credential can touch, and in which order it acts.  The locale
  \<open>binding_relation\<close> lifts a relation that is respected by status writes of one credential and by
  the injection and ejection of its secret through the whole handler; the traces show that at most one
  request is sent to the broker and only after its operation was stored.
\<close>

section \<open>Keys of the intermediate copies\<close>

lemma results_setServiceInstanceCredentialCondition:
  assumes "c \<in> results (setServiceInstanceCredentialCondition E b ty st reason msg)"
  obtains t where "c = setServiceInstanceCredentialConditionInternal b ty st reason msg t"
  using assms unfolding setServiceInstanceCredentialCondition_def by (elim results_bindE) auto

lemma credential_condition_key:
  "c \<in> results (setServiceInstanceCredentialCondition E b ty st reason msg) \<Longrightarrow> cred_key c = cred_key b"
  by (erule results_setServiceInstanceCredentialCondition) (simp add: setServiceInstanceCredentialConditionInternal_def)

lemma cred_key_operation [simp]:
  "cred_key (clearServiceInstanceCredentialCurrentOperation b) = cred_key b"
  "cred_key (start_orphan_mitigation b) = cred_key b"
  "cred_key (cr_Meta_update (\<lambda>m. m \<lparr> om_Finalizers := fs \<rparr>) b) = cred_key b"
  by (simp_all add: clearServiceInstanceCredentialCurrentOperation_def start_orphan_mitigation_def cred_key_def)

lemma results_recordStart_credential:
  "Inr c \<in> results (recordStartOfServiceInstanceCredentialOperation E b operation) \<Longrightarrow> cred_key c = cred_key b"
  unfolding recordStartOfServiceInstanceCredentialOperation_def Let_def updateServiceInstanceCredentialStatus_def
  by (elim results_bindE, drule results_credentials_UpdateStatus, drule credential_condition_key) simp

lemma results_ensure_credential_started:
  "Inr c \<in> results (ensure_credential_started E b operation) \<Longrightarrow> cred_key c = cred_key b"
  by (auto simp: ensure_credential_started_def dest: results_recordStart_credential split: if_splits)

lemma results_start_unbind: "Inr c \<in> results (start_unbind E b) \<Longrightarrow> cred_key c = cred_key b"
  by (auto simp: start_unbind_def dest: results_recordStart_credential elim!: results_bindE split: if_splits)

lemmas cred_key_results = credential_condition_key results_ensure_credential_started results_start_unbind

section \<open>Relations kept by the handler\<close>

locale binding_relation = client_relation R E A
  for R :: "world \<Rightarrow> world \<Rightarrow> bool" and E :: env and A :: "action \<Rightarrow> bool" +
  fixes key :: store_key and secretName :: string
  assumes keeps_cred_UpdateStatus: "cred_key b = key \<Longrightarrow> keeps R (credentials_UpdateStatus E b)"
    and keeps_inject: "cred_key b = key \<Longrightarrow> crs_SecretName (cr_Spec b) = secretName \<Longrightarrow>
      keeps R (injectServiceInstanceCredential E b credentials)"
    and keeps_eject: "cred_key b = key \<Longrightarrow> crs_SecretName (cr_Spec b) = secretName \<Longrightarrow>
      keeps R (ejectServiceInstanceCredential E b)"
begin

lemma keeps_credential_condition [keeps_intros]:
  "keeps R (setServiceInstanceCredentialCondition E b ty st reason msg)"
  unfolding setServiceInstanceCredentialCondition_def by (intro keeps_intros)

lemma keeps_updateServiceInstanceCredentialCondition [keeps_intros]:
  "cred_key b = key \<Longrightarrow> keeps R (updateServiceInstanceCredentialCondition E b ty st reason msg)"
  unfolding updateServiceInstanceCredentialCondition_def
  by (intro keeps_intros keeps_cred_UpdateStatus) (simp add: credential_condition_key)

lemma keeps_credential_status_then [keeps_intros]:
  "cred_key b = key \<Longrightarrow> keeps R k \<Longrightarrow> keeps R (credential_status_then E b k)"
  unfolding credential_status_then_def updateServiceInstanceCredentialStatus_def
  by (intro keeps_intros keeps_cred_UpdateStatus)

lemma keeps_binding_event [keeps_intros]: "keeps R (binding_event b ty reason msg)"
  unfolding binding_event_def by (intro keeps_intros)

lemma keeps_recordStart_credential [keeps_intros]:
  "cred_key b = key \<Longrightarrow> keeps R (recordStartOfServiceInstanceCredentialOperation E b operation)"
  unfolding recordStartOfServiceInstanceCredentialOperation_def updateServiceInstanceCredentialStatus_def
  by (intro keeps_intros keeps_cred_UpdateStatus) (simp add: credential_condition_key)

lemma keeps_setAndUpdateOrphanMitigation [keeps_intros]:
  "cred_key c = key \<Longrightarrow> keeps R (setAndUpdateOrphanMitigation E b c inst sc brokerName errorStr)"
  unfolding setAndUpdateOrphanMitigation_def by (intro keeps_intros) (auto dest!: cred_key_results)

lemma keeps_refuse_binding [keeps_intros]:
  "cred_key c = key \<Longrightarrow> keeps R (refuse_binding E b c st reason s msg result)"
  unfolding refuse_binding_def by (intro keeps_intros) (auto dest!: cred_key_results)

lemma keeps_binding_lookup_failed [keeps_intros]:
  "cred_key b = key \<Longrightarrow> keeps R (binding_lookup_failed E b reason prefix s err)"
  unfolding binding_lookup_failed_def by (intro keeps_intros)

lemma keeps_binding_lookup [keeps_intros]:
  "cred_key b = key \<Longrightarrow> keeps R (getServiceClassPlanAndClusterServiceBrokerForServiceInstanceCredential E inst b)"
  unfolding getServiceClassPlanAndClusterServiceBrokerForServiceInstanceCredential_def binding_plan_step_def
    binding_broker_step_def
  by (intro keeps_intros)

lemma keeps_binding_parameters [keeps_intros]: "cred_key c = key \<Longrightarrow> keeps R (binding_parameters E b c)"
  unfolding binding_parameters_def by (intro keeps_intros)

lemma keeps_binding_identity [keeps_intros]: "cred_key c = key \<Longrightarrow> keeps R (binding_identity E b c verb)"
  unfolding binding_identity_def by (intro keeps_intros)

lemma keeps_ensure_credential_started [keeps_intros]:
  "cred_key c = key \<Longrightarrow> keeps R (ensure_credential_started E c operation)"
  unfolding ensure_credential_started_def by (intro keeps_intros)

lemma keeps_start_unbind [keeps_intros]: "cred_key c = key \<Longrightarrow> keeps R (start_unbind E c)"
  unfolding start_unbind_def by (intro keeps_intros)

lemma keeps_bind_errors [keeps_intros]:
  "cred_key c = key \<Longrightarrow> keeps R (bind_http_error E sc brokerName inst b c err code)"
  "cred_key c = key \<Longrightarrow> keeps R (bind_other_error E sc brokerName inst b c err)"
  "cred_key c = key \<Longrightarrow> keeps R (bind_timeout E sc brokerName inst b c err)"
  "cred_key c = key \<Longrightarrow> keeps R (inject_failed E sc brokerName inst b c err)"
  unfolding bind_http_error_def bind_other_error_def bind_timeout_def inject_failed_def
  by (intro keeps_intros; auto dest!: cred_key_results)+

lemma keeps_bind_succeeded [keeps_intros]:
  "cred_key b = key \<Longrightarrow> crs_SecretName (cr_Spec b) = secretName \<Longrightarrow> cred_key c = key \<Longrightarrow>
   keeps R (bind_succeeded E sc brokerName inst b c credentials)"
  unfolding bind_succeeded_def by (intro keeps_intros keeps_inject) (auto dest!: cred_key_results)

lemma keeps_bind_call [keeps_intros]:
  "cred_key b = key \<Longrightarrow> crs_SecretName (cr_Spec b) = secretName \<Longrightarrow> cred_key c = key \<Longrightarrow>
   (\<And>cl r. A (BrokerBindCall cl r)) \<Longrightarrow> keeps R (bind_call E sc brokerName client request inst b c)"
  unfolding bind_call_def by (intro keeps_intros)

lemma keeps_bind_at_broker [keeps_intros]:
  "cred_key b = key \<Longrightarrow> crs_SecretName (cr_Spec b) = secretName \<Longrightarrow>
   (\<And>cl r. A (BrokerBindCall cl r)) \<Longrightarrow> keeps R (bind_at_broker E sc sp brokerName client inst b)"
  unfolding bind_at_broker_def by (intro keeps_intros) (auto dest!: cred_key_results)

lemma keeps_unbind_answers [keeps_intros]:
  "cred_key c = key \<Longrightarrow> keeps R (unbind_http_error E sc brokerName inst b c err)"
  "cred_key c = key \<Longrightarrow> keeps R (unbind_other_error E sc brokerName inst b c err)"
  "cred_key c = key \<Longrightarrow> keeps R (unbind_done E b c)"
  unfolding unbind_http_error_def unbind_other_error_def unbind_give_up_def unbind_done_def
  by (intro keeps_intros; auto dest!: cred_key_results elim!: results_bindE split: if_splits)+

lemma keeps_unbind_at_broker [keeps_intros]:
  "cred_key b = key \<Longrightarrow> crs_SecretName (cr_Spec b) = secretName \<Longrightarrow>
   (\<And>cl r. A (BrokerUnbindCall cl r)) \<Longrightarrow> keeps R (unbind_at_broker E sc sp brokerName client inst b)"
  unfolding unbind_at_broker_def unbind_call_def
  by (intro keeps_intros keeps_eject) (auto dest!: cred_key_results)

lemma keeps_reconcileServiceInstanceCredential [keeps_intros]:
  "cred_key b = key \<Longrightarrow> crs_SecretName (cr_Spec b) = secretName \<Longrightarrow> (\<And>cl r. A (BrokerBindCall cl r)) \<Longrightarrow>
   (\<And>cl r. A (BrokerUnbindCall cl r)) \<Longrightarrow> keeps R (reconcileServiceInstanceCredential E b)"
  unfolding reconcileServiceInstanceCredential_def reconcile_with_instance_def by (intro keeps_intros)

end

section \<open>The stores stay valid\<close>

lemma keeps_world_ok_secret:
  "keeps (inv_rel (world_ok E)) (injectServiceInstanceCredential E b credentials)"
  "keeps (inv_rel (world_ok E)) (ejectServiceInstanceCredential E b)"
  unfolding injectServiceInstanceCredential_def ejectServiceInstanceCredential_def update_secret_def create_secret_def
  by (intro keeps_intros)+

interpretation cred_ok: binding_relation "inv_rel (world_ok E)" E "\<lambda>_. True" key secretName for E key secretName
  by unfold_locales (rule keeps_world_ok_credential keeps_world_ok_secret)+

section \<open>What a run leaves alone\<close>

definition credential_evolves :: "ServiceInstanceCredential \<Rightarrow> ServiceInstanceCredential \<Rightarrow> bool" where
  "credential_evolves c c' \<longleftrightarrow>
     om_UID (cr_Meta c') = om_UID (cr_Meta c) \<and> om_Generation (cr_Meta c') = om_Generation (cr_Meta c) \<and>
     om_DeletionTimestamp (cr_Meta c') = om_DeletionTimestamp (cr_Meta c) \<and> cr_Spec c' = cr_Spec c"

lemma credential_evolves_refl: "credential_evolves c c"
  by (simp add: credential_evolves_def)

lemma credential_evolves_trans: "credential_evolves a b \<Longrightarrow> credential_evolves b c \<Longrightarrow> credential_evolves a c"
  by (simp add: credential_evolves_def)

text \<open>Of the state only the credential under \<open>key\<close>, the secret it names and the action log change.\<close>
definition binding_frame :: "store_key \<Rightarrow> string \<Rightarrow> world \<Rightarrow> world \<Rightarrow> bool" where
  "binding_frame key secretName w w' \<longleftrightarrow>
     w_instances w' = w_instances w \<and> w_brokers w' = w_brokers w \<and> w_classes w' = w_classes w \<and>
     w_plans w' = w_plans w \<and> w_namespaces w' = w_namespaces w \<and>
     w_instanceCache w' = w_instanceCache w \<and> w_credentialCache w' = w_credentialCache w \<and>
     w_brokerCache w' = w_brokerCache w \<and> w_classCache w' = w_classCache w \<and> w_planCache w' = w_planCache w \<and>
     (\<forall>k. k \<noteq> key \<longrightarrow> st_objs (w_credentials w') k = st_objs (w_credentials w) k) \<and>
     stored_evolves credential_evolves (st_objs (w_credentials w) key) (st_objs (w_credentials w') key) \<and>
     (\<forall>k. k \<noteq> (fst key, secretName) \<longrightarrow> st_objs (w_secrets w') k = st_objs (w_secrets w) k) \<and>
     (\<exists>new. w_log w' = new @ w_log w)"

lemma binding_frame_refl: "binding_frame key secretName w w"
  by (simp add: binding_frame_def stored_evolves_refl[OF credential_evolves_refl])

lemma binding_frame_trans:
  "binding_frame key secretName u v \<Longrightarrow> binding_frame key secretName v w \<Longrightarrow> binding_frame key secretName u w"
  by (auto simp: binding_frame_def intro: stored_evolves_trans[OF credential_evolves_trans])

text \<open>The frame holds from valid stores: the secret that is read is stored under its own name there.\<close>
definition binding_step :: "env \<Rightarrow> store_key \<Rightarrow> string \<Rightarrow> world \<Rightarrow> world \<Rightarrow> bool" where
  "binding_step E key secretName w w' \<longleftrightarrow>
     (world_ok E w \<longrightarrow> world_ok E w' \<and> binding_frame key secretName w w')"

lemma keeps_binding_step:
  "keeps (inv_rel (world_ok E)) m \<Longrightarrow>
   (\<And>w. world_ok E w \<Longrightarrow> binding_frame key secretName w (snd (run_state m w))) \<Longrightarrow>
   keeps (binding_step E key secretName) m"
  by (simp add: keeps_def binding_step_def inv_rel_def)

lemma binding_status_BeforeUpdate:
  assumes "BeforeUpdate (bindingStatusUpdateStrategy yaml oi) ctx obj old = Inr new"
  shows "cr_Spec new = cr_Spec old" "cr_Status new = cr_Status obj"
    "om_Generation (cr_Meta new) = om_Generation (cr_Meta old)"
  using assms
  by (auto simp: BeforeUpdate_def bind_result_eq_Inr Let_def bindingStatusUpdateStrategy_def bindingRESTStrategies_def
      bindingStatus_PrepareForUpdate_def upd_meta_def settle_namespace_def RepairObjectMeta_def split: if_splits)

lemma rs_meta_binding [simp]:
  "rs_meta (bindingRESTStrategies yaml oi) = cr_Meta"
  "rs_meta (bindingStatusUpdateStrategy yaml oi) = cr_Meta"
  "rs_NamespaceScoped (bindingStatusUpdateStrategy yaml oi)"
  "rs_set_meta (bindingStatusUpdateStrategy yaml oi) = (\<lambda>m b. b \<lparr> cr_Meta := m \<rparr>)"
  by (simp_all add: bindingStatusUpdateStrategy_def bindingRESTStrategies_def)

lemma binding_status_evolves:
  "BeforeUpdate (bindingStatusUpdateStrategy yaml oi) ctx obj old = Inr new \<Longrightarrow> credential_evolves old new"
  using cred_status_store.BeforeUpdate_ok(4,8)[of yaml oi ctx obj old new]
    binding_status_BeforeUpdate[of yaml oi ctx obj old new]
  by (simp add: credential_evolves_def)

lemma credential_write_frame: "binding_frame (cred_key b) secretName w (snd (credential_write E b w))"
proof -
  let ?S = "bindingStatusUpdateStrategy (ev_yaml E) (ev_OriginatingIdentity E)"
  obtain r st' where u: "Update ?S (client_ctx E (om_Namespace (cr_Meta b))) (cred_key b) b (w_credentials w) = (r, st')"
    by force
  show ?thesis
  proof (cases r)
    case (Inl e)
    then show ?thesis using u by (simp add: credential_write_def cred_key_def binding_frame_refl)
  next
    case (Inr out)
    note u' = u[unfolded Inr]
    have "stored_evolves credential_evolves (st_objs (w_credentials w) (cred_key b)) (st_objs st' (cred_key b))"
      using cred_status_store.Update_stored[OF u', of credential_evolves] binding_status_evolves
      by (auto simp: stored_evolves_def upd_meta_def credential_evolves_def)
    moreover have "\<forall>k. k \<noteq> cred_key b \<longrightarrow> st_objs st' k = st_objs (w_credentials w) k"
      using cred_status_store.Update_key(3)[OF u'] by blast
    ultimately show ?thesis
      using u' by (simp add: credential_write_def Let_def binding_frame_def cred_key_def)
  qed
qed

lemma binding_frame_tick: "binding_frame key secretName w (w \<lparr> w_tick := t \<rparr>)"
  by (simp add: binding_frame_def stored_evolves_refl[OF credential_evolves_refl])

interpretation cred_step_client: client_relation "binding_step E key secretName" E "\<lambda>_. True" for E key secretName
proof
  show "binding_step E key secretName w w" for w by (simp add: binding_step_def binding_frame_refl)
  show "binding_step E key secretName u v \<Longrightarrow> binding_step E key secretName v w \<Longrightarrow> binding_step E key secretName u w" for u v w
    by (auto simp: binding_step_def intro: binding_frame_trans)
qed (auto simp: binding_step_def binding_frame_def stored_evolves_refl[of credential_evolves, OF credential_evolves_refl])

subsection \<open>The secret\<close>

text \<open>The state apart from the clock and the secrets.\<close>
definition without_secrets :: "world \<Rightarrow> world" where
  "without_secrets w = w \<lparr> w_tick := 0, w_secrets := \<lparr> st_alist = [], st_rev = 0 \<rparr> \<rparr>"

text \<open>At most the secret under \<open>k\<close> is written.\<close>
definition secret_frame :: "store_key \<Rightarrow> world \<Rightarrow> world \<Rightarrow> bool" where
  "secret_frame k w w' \<longleftrightarrow> without_secrets w' = without_secrets w \<and>
     (\<forall>k'. k' \<noteq> k \<longrightarrow> st_objs (w_secrets w') k' = st_objs (w_secrets w) k')"

lemma without_secrets_simps [simp]:
  "without_secrets (w \<lparr> w_tick := t \<rparr>) = without_secrets w" "without_secrets (w \<lparr> w_secrets := st \<rparr>) = without_secrets w"
  by (simp_all add: without_secrets_def)

lemma secret_frame_binding_frame: "secret_frame (fst key, secretName) w w' \<Longrightarrow> binding_frame key secretName w w'"
  by (cases w; cases w')
    (simp add: secret_frame_def without_secrets_def binding_frame_def stored_evolves_refl[of credential_evolves, OF credential_evolves_refl])

lemma secret_frame_tick: "secret_frame k w (w \<lparr> w_tick := t \<rparr>)"
  by (simp add: secret_frame_def)

lemma secret_frame_trans: "secret_frame k u v \<Longrightarrow> secret_frame k v w \<Longrightarrow> secret_frame k u w"
  by (simp add: secret_frame_def)

lemma secret_request:
  assumes "\<And>w. secret_frame k w (snd (f w))"
  shows "secret_frame k w (snd (run_state (api_request E f) w))"
  unfolding run_api_request
  by (simp add: Let_def secret_frame_tick secret_frame_trans[OF secret_frame_tick assms] split: option.split bool.split)

lemma rs_secret [simp]: "rs_meta secretStrategy = sec_Meta" "rs_NamespaceScoped secretStrategy"
  by (simp_all add: secretStrategy_def)

lemma secret_frame_requests:
  "secret_frame (ns, om_Name (sec_Meta s)) w (snd (run_state (secrets_Create E ns s) w))"
  "secret_frame (ns, om_Name (sec_Meta s)) w (snd (run_state (secrets_Update E ns s) w))"
  "secret_frame (ns, name) w (snd (run_state (secrets_Delete E ns name) w))"
  unfolding secrets_Create_def secrets_Update_def secrets_Delete_def
  by (rule secret_request,
      simp add: secret_frame_def split_beta Let_def secret_store.Create_other client_ctx_def Update_other Delete_other)+

lemma run_secrets_Get:
  "run_state (secrets_Get E ns name) w = (r, w1) \<Longrightarrow>
   w1 = w \<lparr> w_tick := Suc (w_tick w) \<rparr> \<and> (\<forall>s. r = Inr s \<longrightarrow> st_objs (w_secrets w) (ns, name) = Some s)"
  by (auto simp: secrets_Get_def api_request_def Let_def split: option.splits if_splits)

lemma stored_secret_name: "world_ok E w \<Longrightarrow> st_objs (w_secrets w) (ns, name) = Some s \<Longrightarrow> om_Name (sec_Meta s) = name"
  by (auto simp: world_ok_def key_of_def dest!: store_okD)

lemma inject_frame:
  assumes "world_ok E w"
  shows "secret_frame (om_Namespace (cr_Meta b), crs_SecretName (cr_Spec b)) w
    (snd (run_state (injectServiceInstanceCredential E b credentials) w))"
proof (cases "serialize_credentials credentials []")
  case (Inl e)
  then show ?thesis by (simp add: injectServiceInstanceCredential_def secret_frame_def)
next
  case (Inr secretData)
  let ?ns = "om_Namespace (cr_Meta b)" and ?name = "crs_SecretName (cr_Spec b)"
  obtain r w1 where g: "run_state (secrets_Get E ?ns ?name) w = (r, w1)" by force
  have w1: "secret_frame (?ns, ?name) w w1"
    using run_secrets_Get[OF g] by (simp add: secret_frame_tick)
  have "secret_frame (?ns, ?name) w1 (snd (run_state (create_secret E b secretData) w1))"
    using secret_frame_requests(1)[of ?ns "new_secret b secretData" w1 E]
    by (simp add: create_secret_def new_secret_def split_beta)
  moreover have "secret_frame (?ns, ?name) w1 (snd (run_state (update_secret E b s secretData) w1))" if "r = Inr s" for s
    using secret_frame_requests(2)[of ?ns "s \<lparr> sec_Data := secretData \<rparr>" w1 E] that run_secrets_Get[OF g]
      stored_secret_name[OF assms, of ?ns ?name s]
    by (simp add: update_secret_def secret_frame_def split_beta)
  ultimately show ?thesis
    using g w1 Inr
    by (cases r) (auto simp: injectServiceInstanceCredential_def secret_frame_trans)
qed

lemma eject_frame:
  "secret_frame (om_Namespace (cr_Meta b), crs_SecretName (cr_Spec b)) w
    (snd (run_state (ejectServiceInstanceCredential E b) w))"
  using secret_frame_requests(3)[of "om_Namespace (cr_Meta b)" "crs_SecretName (cr_Spec b)" w E]
  by (simp add: ejectServiceInstanceCredential_def split_beta)

interpretation cred_step: binding_relation "binding_step E key secretName" E "\<lambda>_. True" key secretName for E key secretName
proof
  fix b credentials assume key: "cred_key b = key"
  show "keeps (binding_step E key secretName) (credentials_UpdateStatus E b)"
    unfolding credentials_UpdateStatus_def key[symmetric]
  proof (rule keeps_binding_step)
    show "keeps (inv_rel (world_ok E)) (api_request E (credential_write E b))"
      using keeps_world_ok_credential unfolding credentials_UpdateStatus_def .
    show "binding_frame (cred_key b) secretName w (snd (run_state (api_request E (credential_write E b)) w))" for w
      unfolding run_api_request
      by (simp add: Let_def binding_frame_tick binding_frame_trans[OF binding_frame_tick credential_write_frame]
          split: option.split bool.split)
  qed
  assume name: "crs_SecretName (cr_Spec b) = secretName"
  have k: "(om_Namespace (cr_Meta b), crs_SecretName (cr_Spec b)) = (fst key, secretName)"
    using key name by (auto simp: cred_key_def)
  show "keeps (binding_step E key secretName) (injectServiceInstanceCredential E b credentials)"
    by (intro keeps_binding_step keeps_world_ok_secret secret_frame_binding_frame inject_frame[where b = b, unfolded k])
  show "keeps (binding_step E key secretName) (ejectServiceInstanceCredential E b)"
    by (intro keeps_binding_step keeps_world_ok_secret secret_frame_binding_frame eject_frame[where b = b, unfolded k])
qed

section \<open>Properties\<close>

text \<open>C18: one run of the credential control loop changes, apart from the action log, nothing but the
  credential it works on (which keeps its specification, UID, generation and deletion timestamp, or
  disappears; the remaining metadata is not compared) and the secret that the credential names in its own
  namespace; the stores stay valid.\<close>
theorem reconcileServiceInstanceCredential_frame:
  assumes "world_ok E w"
  shows "binding_frame (cred_key b) (crs_SecretName (cr_Spec b)) w (snd (run_state (reconcileServiceInstanceCredential E b) w)) \<and>
    world_ok E (snd (run_state (reconcileServiceInstanceCredential E b) w))"
  using cred_step.keeps_reconcileServiceInstanceCredential[of b "cred_key b" "crs_SecretName (cr_Spec b)" E] assms
  by (simp add: keeps_def binding_step_def)

end
