(* ===== verification/SC_BindingTrace.thy ===== *)
theory SC_BindingTrace
  imports SC_BindingFrame
begin

text \<open>
  The external actions of one run of the credential control loop, in the manner of the instances: at most
  one request reaches the broker, and only after a bind or unbind operation is stored in the status of
  the credential.
\<close>

section \<open>Silence of the writes\<close>

lemma credential_write_log: "log_only P w (snd (credential_write E b w))"
  by (auto simp: credential_write_def Let_def intro: log_only_same log_only_one split: prod.splits sum.splits)

lemma keeps_log_secrets:
  "keeps (log_only P) (secrets_Create E ns s)" "keeps (log_only P) (secrets_Update E ns s)"
  "keeps (log_only P) (secrets_Delete E ns name)"
  unfolding secrets_Create_def secrets_Update_def secrets_Delete_def
  by (rule log_client.keeps_api_request, simp add: split_beta log_only_same)+

interpretation log_cred: binding_relation "log_only P" E "\<lambda>a. is_broker_call a \<longrightarrow> P a" key secretName for P E key secretName
proof
  show "keeps (log_only P) (credentials_UpdateStatus E b)" for b
    unfolding credentials_UpdateStatus_def by (rule log_client.keeps_api_request, rule credential_write_log)
  show "keeps (log_only P) (injectServiceInstanceCredential E b credentials)" for b credentials
    unfolding injectServiceInstanceCredential_def update_secret_def create_secret_def
    by (intro keeps_intros keeps_log_secrets)
  show "keeps (log_only P) (ejectServiceInstanceCredential E b)" for b
    unfolding ejectServiceInstanceCredential_def by (intro keeps_intros keeps_log_secrets)
qed

lemma traces_if: "(b \<Longrightarrow> traces m L) \<Longrightarrow> (\<not> b \<Longrightarrow> traces n L) \<Longrightarrow> traces (if b then m else n) L"
  by simp

section \<open>The operation is recorded first\<close>

text \<open>A status update that succeeds has written the status it was given, on the specification stored.\<close>
lemma Update_credential_status:
  assumes u: "Update (bindingStatusUpdateStrategy yaml oi) ctx k obj st = (Inr out, st')"
  shows "\<exists>old. st_objs st k = Some old \<and> cr_Status out = cr_Status obj \<and> cr_Spec out = cr_Spec old \<and>
           om_Generation (cr_Meta out) = om_Generation (cr_Meta old) \<and> credential_valid yaml out"
proof -
  let ?S = "bindingStatusUpdateStrategy yaml oi"
  obtain old new where o: "st_objs st k = Some old" "BeforeUpdate ?S ctx obj old = Inr new"
    "if shouldDeleteDuringUpdate ?S new old then out = new \<and> st' = remove_object k st
     else (out, st') = write_object ?S k old new st"
    using cred_status_store.Update_ok[OF u] by metis
  note new = binding_status_BeforeUpdate[OF o(2)] and valid = cred_status_store.BeforeUpdate_ok(1)[OF o(2)]
  show ?thesis
  proof (cases "shouldDeleteDuringUpdate ?S new old")
    case True
    then show ?thesis using o new valid by simp
  next
    case False
    then have w: "write_object ?S k old new st = (out, st')" using o(3) by simp
    then have out: "out = upd_meta ?S (\<lambda>m. m \<lparr> om_ResourceVersion := om_ResourceVersion (rs_meta ?S out) \<rparr>) new"
      using cred_status_store.write_object_result[OF w o(1)] by blast
    have "credential_valid yaml out"
      using valid by (subst out, intro cred_status_store.valid_upd) (simp_all add: meta_evolves_def)
    moreover have "cr_Status out = cr_Status new" "cr_Spec out = cr_Spec new"
      "om_Generation (cr_Meta out) = om_Generation (cr_Meta new)"
      by (subst out, simp add: upd_meta_def)+
    ultimately show ?thesis using o new by simp
  qed
qed

lemma credential_write_trace:
  "\<exists>new. w_log (snd (credential_write E b w)) = new @ w_log w \<and> silent new \<and> (\<forall>c. fst (credential_write E b w) = Inr c \<longrightarrow>
     CredentialWritten c \<in> set new \<and> cr_Status c = cr_Status b \<and> cred_key c = cred_key b)"
proof -
  let ?u = "Update (bindingStatusUpdateStrategy (ev_yaml E) (ev_OriginatingIdentity E))
    (client_ctx E (om_Namespace (cr_Meta b))) (om_Namespace (cr_Meta b), om_Name (cr_Meta b)) b (w_credentials w)"
  obtain r st where u: "?u = (r, st)" by force
  show ?thesis
  proof (cases r)
    case (Inl e)
    then show ?thesis using u by (simp add: credential_write_def)
  next
    case (Inr out)
    then have res: "credential_write E b w = (Inr out, w \<lparr> w_credentials := st, w_log := CredentialWritten out # w_log w \<rparr>)"
      using u by (simp add: credential_write_def)
    moreover have "cr_Status out = cr_Status b" using Update_credential_status u Inr by blast
    moreover have "cred_key out = cred_key b" using credential_write_key[of E b w out] res by simp
    ultimately show ?thesis by (intro exI[of _ "[CredentialWritten out]"]) simp
  qed
qed

lemma cred_UpdateStatus_written:
  "traces (credentials_UpdateStatus E b) (\<lambda>r new. silent new \<and> (\<forall>c. r = Inr c \<longrightarrow>
     CredentialWritten c \<in> set new \<and> cr_Status c = cr_Status b \<and> cred_key c = cred_key b))"
  unfolding credentials_UpdateStatus_def by (rule traces_request[OF credential_write_trace])

text \<open>A bind or unbind operation is recorded.\<close>
definition credential_in_flight :: "ServiceInstanceCredential \<Rightarrow> bool" where
  "credential_in_flight b \<longleftrightarrow> crst_CurrentOperation (cr_Status b) \<noteq> CredentialOperationNone"

definition credential_operation_recorded :: "ServiceInstanceCredential \<Rightarrow> action list \<Rightarrow> bool" where
  "credential_operation_recorded b before \<longleftrightarrow>
     (\<exists>c. (c = b \<or> CredentialWritten c \<in> set before) \<and> cred_key c = cred_key b \<and> credential_in_flight c)"

interpretation cred_record: request_record "credential_operation_recorded b" for b
  by unfold_locales (auto simp: credential_operation_recorded_def)

lemma recordStart_credential_written:
  assumes "operation \<noteq> CredentialOperationNone"
  shows "traces (recordStartOfServiceInstanceCredentialOperation E b operation) (\<lambda>r new. silent new \<and> (\<forall>c. r = Inr c \<longrightarrow>
     CredentialWritten c \<in> set new \<and> credential_in_flight c \<and> cred_key c = cred_key b))"
  unfolding recordStartOfServiceInstanceCredentialOperation_def Let_def updateServiceInstanceCredentialStatus_def
proof (rule traces_bind[OF traces_silent[OF log_client.keeps_time_Now]],
    rule traces_bind[OF traces_silent[OF log_cred.keeps_credential_condition]], goal_cases)
  case (1 now new1 c new2)
  then have "credential_in_flight c" "cred_key c = cred_key b"
    using assms by (auto elim!: results_setServiceInstanceCredentialCondition
        simp: credential_in_flight_def setServiceInstanceCredentialConditionInternal_def)
  then show ?case
    using 1 by (intro traces_weaken[OF cred_UpdateStatus_written]) (auto simp: credential_in_flight_def)
qed

lemma start_credential_recorded:
  assumes "cred_key c = cred_key b" "credential_in_flight c \<Longrightarrow> credential_in_flight b"
  shows "operation \<noteq> CredentialOperationNone \<Longrightarrow> traces (ensure_credential_started E c operation)
      (\<lambda>r new. silent new \<and> (\<forall>j. r = Inr j \<longrightarrow> credential_operation_recorded b new))"
    and "traces (start_unbind E c) (\<lambda>r new. silent new \<and> (\<forall>j. r = Inr j \<longrightarrow> credential_operation_recorded b new))"
proof -
  have rec: "traces (recordStartOfServiceInstanceCredentialOperation E c operation)
      (\<lambda>r new. silent new \<and> (\<forall>j. r = Inr j \<longrightarrow> credential_operation_recorded b new))" if "operation \<noteq> CredentialOperationNone" for operation
    by (rule traces_weaken[OF recordStart_credential_written[OF that]])
      (use assms(1) in \<open>auto simp: credential_operation_recorded_def\<close>)
  have old: "credential_operation_recorded b new" if "crst_CurrentOperation (cr_Status c) \<noteq> CredentialOperationNone" for new
    using assms(2) that by (auto simp: credential_operation_recorded_def credential_in_flight_def)
  show "operation \<noteq> CredentialOperationNone \<Longrightarrow> traces (ensure_credential_started E c operation)
      (\<lambda>r new. silent new \<and> (\<forall>j. r = Inr j \<longrightarrow> credential_operation_recorded b new))"
    unfolding ensure_credential_started_def by (intro traces_if rec traces_return) (simp_all add: old)
  have clock: "traces (State_Monad.bind (time_Now E) (\<lambda>now. State_Monad.return
      (Inr (cr_Status_update (\<lambda>s. s \<lparr> crst_OperationStartTime := Some now \<rparr>) c))))
      (\<lambda>r new. silent new \<and> (\<forall>j. r = Inr j \<longrightarrow> credential_operation_recorded b new))"
    if "crst_CurrentOperation (cr_Status c) \<noteq> CredentialOperationNone"
    by (rule traces_bind[OF traces_silent[OF log_client.keeps_time_Now]], rule traces_return) (simp add: old[OF that])
  show "traces (start_unbind E c) (\<lambda>r new. silent new \<and> (\<forall>j. r = Inr j \<longrightarrow> credential_operation_recorded b new))"
    unfolding start_unbind_def by (intro traces_if rec clock traces_return) (simp_all add: old)
qed

section \<open>At most one request per reconciliation\<close>

lemma traces_Bind: "traces (Bind E cl r) (\<lambda>_ new. new = [BrokerBindCall cl r])"
  and traces_Unbind: "traces (Unbind E cl ur) (\<lambda>_ new. new = [BrokerUnbindCall cl ur])"
  by (simp_all add: traces_def Bind_def Unbind_def tick_def log_action_def)

lemma traces_bind_call:
  "traces (bind_call E sc brokerName client request inst b c)
     (\<lambda>_ new. \<exists>after. silent after \<and> new = after @ [BrokerBindCall client request])"
  unfolding bind_call_def
  by (rule traces_call[OF traces_Bind], unfold bind_succeeded_def, intro keeps_intros log_cred.keeps_inject)
    (auto dest!: cred_key_results)

lemma traces_unbind_call:
  "traces (unbind_call E sc brokerName client request inst b c)
     (\<lambda>_ new. \<exists>after. silent after \<and> new = after @ [BrokerUnbindCall client request])"
  unfolding unbind_call_def
  by (rule traces_call[OF traces_Unbind], intro keeps_intros) auto

lemmas silent_binding_blocks = log_client.keeps_listers log_client.keeps_reads log_cred.keeps_binding_lookup
  log_cred.keeps_binding_identity log_cred.keeps_binding_parameters

lemmas silent_binding_then = silent_binding_blocks [THEN cred_record.traces_then]

lemma traces_refuse_binding:
  "traces (refuse_binding E b c st reason s msg result) (\<lambda>_. one_request (credential_operation_recorded d))"
  by (rule cred_record.traces_quiet, rule log_cred.keeps_refuse_binding) simp

lemma traces_bind_at_broker:
  "traces (bind_at_broker E sc sp brokerName client inst b) (\<lambda>_. one_request (credential_operation_recorded b))"
proof -
  let ?set = "\<lambda>pp. cr_Status_update (\<lambda>s. s \<lparr> crst_InProgressProperties := Some (credential_in_progress_properties b pp) \<rparr>) b"
  have tail: "traces (State_Monad.bind (ensure_credential_started E (?set pp) CredentialOperationBind)
      (\<lambda>rs. on_ok rs (bind_call E sc brokerName client request inst b))) (\<lambda>_. one_request (credential_operation_recorded b))" for pp request
    by (intro cred_record.traces_start_and_call[OF start_credential_recorded(1) traces_bind_call])
      (auto simp: credential_in_flight_def)
  show ?thesis
    unfolding bind_at_broker_def Let_def
    by (auto intro!: cred_record.traces_on_ok silent_binding_then tail traces_refuse_binding split: sum.split)
qed

lemma traces_unbind_at_broker:
  "traces (unbind_at_broker E sc sp brokerName client inst b) (\<lambda>_. one_request (credential_operation_recorded b))"
proof -
  have tail: "traces (State_Monad.bind (start_unbind E b)
      (\<lambda>rs. on_ok rs (unbind_call E sc brokerName client request inst b))) (\<lambda>_. one_request (credential_operation_recorded b))" for request
    by (intro cred_record.traces_start_and_call[OF start_credential_recorded(2) traces_unbind_call]) auto
  show ?thesis
    unfolding unbind_at_broker_def Let_def
    by (auto intro!: cred_record.traces_on_ok silent_binding_then tail traces_refuse_binding traces_return
        log_cred.keeps_eject[THEN cred_record.traces_then] split: sum.split)
qed

lemma traces_reconcileServiceInstanceCredential:
  "traces (reconcileServiceInstanceCredential E b) (\<lambda>_. one_request (credential_operation_recorded b))"
  unfolding reconcileServiceInstanceCredential_def reconcile_with_instance_def Let_def
  by (auto intro!: cred_record.traces_on_ok silent_binding_then traces_refuse_binding traces_return
      traces_bind_at_broker traces_unbind_at_broker split: sum.split)

section \<open>Properties\<close>

text \<open>C6: one run of the credential control loop sends at most one request to the service broker, and it
  sends it only when a bind or unbind operation is recorded, in the credential it was called with or in
  a status of the same credential that it has itself written before.\<close>
theorem reconcileServiceInstanceCredential_one_recorded_request:
  "\<exists>new. w_log (snd (run_state (reconcileServiceInstanceCredential E b) w)) = new @ w_log w \<and>
         one_request (credential_operation_recorded b) new"
  using traces_reconcileServiceInstanceCredential[of E b] by (simp add: traces_def)

end
