(* ===== verification/SC_BrokerFrame.thy ===== *)
theory SC_BrokerFrame
  imports SC_Broker SC_BindingTrace
begin

text \<open>
  What the control loop of a broker can touch.  The locale \<open>broker_relation\<close> lifts a relation respected by
  status writes of one broker and by writes of classes and plans through the handler; it is interpreted
  for the validity of the stores, for the frame of a run, and for the action log.
\<close>

section \<open>Relations kept by the handler\<close>

lemma broker_name_updates [simp]:
  "om_Name (bk_Meta (setClusterServiceBrokerCondition b ty st reason msg t)) = om_Name (bk_Meta b)"
  "om_Name (bk_Meta (note_reconciled ty st b)) = om_Name (bk_Meta b)"
  "om_Name (bk_Meta (set_broker_start s b)) = om_Name (bk_Meta b)"
  by (simp_all add: setClusterServiceBrokerCondition_def note_reconciled_def set_broker_start_def)

locale broker_relation = client_relation R E A
  for R :: "world \<Rightarrow> world \<Rightarrow> bool" and E :: env and A :: "action \<Rightarrow> bool" +
  fixes name :: string
  assumes keeps_broker_UpdateStatus: "om_Name (bk_Meta b) = name \<Longrightarrow> keeps R (brokers_UpdateStatus E b)"
    and keeps_broker_finalizers: "om_Name (bk_Meta b) = name \<Longrightarrow> keeps R (updateClusterServiceBrokerFinalizers E b fs)"
    and keeps_class_Create: "keeps R (classes_Create E c)" and keeps_class_Update: "keeps R (classes_Update E c)"
    and keeps_class_Delete: "keeps R (classes_Delete E n)"
    and keeps_plan_Create: "keeps R (plans_Create E p)" and keeps_plan_Update: "keeps R (plans_Update E p)"
    and keeps_plan_Delete: "keeps R (plans_Delete E n)"
begin

lemmas keeps_catalog_writes = keeps_class_Create keeps_class_Update keeps_class_Delete
  keeps_plan_Create keeps_plan_Update keeps_plan_Delete

lemma keeps_broker_event [keeps_intros]: "keeps R (broker_event b ty reason msg)"
  unfolding broker_event_def by (intro keeps_intros)

lemma keeps_updateClusterServiceBrokerCondition [keeps_intros]:
  "om_Name (bk_Meta b) = name \<Longrightarrow> keeps R (updateClusterServiceBrokerCondition E b ty st reason msg)"
  unfolding updateClusterServiceBrokerCondition_def by (intro keeps_intros keeps_broker_UpdateStatus) simp

lemma keeps_broker_failed [keeps_intros]:
  "om_Name (bk_Meta b) = name \<Longrightarrow> keeps R (broker_condition_then E b st reason msg err)"
  "om_Name (bk_Meta b) = name \<Longrightarrow> keeps R (broker_failed E b ereason reason msg s err)"
  unfolding broker_failed_def broker_condition_then_def by (intro keeps_intros; assumption)+

lemma keeps_reconcile_catalog [keeps_intros]:
  "keeps R (reconcileServiceClassFromClusterServiceBrokerCatalog E b sc)" "keeps R (reconcileServicePlan E b sp)"
  unfolding reconcileServiceClassFromClusterServiceBrokerCatalog_def reconcileServicePlan_def
  by (intro keeps_intros keeps_catalog_writes)+

lemma keeps_reconcile_plans [keeps_intros]: "om_Name (bk_Meta b) = name \<Longrightarrow> keeps R (reconcile_plans E b sps)"
  by (induction sps) (auto intro!: keeps_intros)

lemma keeps_reconcile_classes [keeps_intros]: "om_Name (bk_Meta b) = name \<Longrightarrow> keeps R (reconcile_classes E b scs)"
  by (induction scs) (auto intro!: keeps_intros)

lemma keeps_sync_catalog [keeps_intros]: "om_Name (bk_Meta b) = name \<Longrightarrow> keeps R (sync_catalog E b catalog)"
  unfolding sync_catalog_def by (intro keeps_intros)

lemma keeps_catalog_error [keeps_intros]: "om_Name (bk_Meta b) = name \<Longrightarrow> keeps R (catalog_error E b now e)"
  unfolding catalog_error_def catalog_give_up_def by (intro keeps_intros keeps_broker_UpdateStatus) simp_all

lemma keeps_list_catalog [keeps_intros]:
  "om_Name (bk_Meta b) = name \<Longrightarrow> (\<And>cl. A (BrokerCatalogCall cl)) \<Longrightarrow> keeps R (list_catalog E b client)"
  unfolding list_catalog_def clear_broker_start_def by (intro keeps_intros keeps_broker_UpdateStatus) simp_all

lemma keeps_broker_update [keeps_intros]:
  "om_Name (bk_Meta b) = name \<Longrightarrow> (\<And>cl. A (BrokerCatalogCall cl)) \<Longrightarrow> keeps R (reconcile_broker_update E b)"
  unfolding reconcile_broker_update_def by (intro keeps_intros)

lemma keeps_delete_class [keeps_intros]: "om_Name (bk_Meta b) = name \<Longrightarrow> keeps R (delete_class E b sc)"
  unfolding delete_class_def by (intro keeps_intros keeps_catalog_writes)

lemma keeps_delete_class_plans [keeps_intros]: "om_Name (bk_Meta b) = name \<Longrightarrow> keeps R (delete_class_plans E b sc plans)"
  by (induction plans) (auto intro!: keeps_intros keeps_catalog_writes)

lemma keeps_delete_broker_classes [keeps_intros]: "om_Name (bk_Meta b) = name \<Longrightarrow> keeps R (delete_broker_classes E b scs)"
  by (induction scs) (auto intro!: keeps_intros)

lemma keeps_broker_delete [keeps_intros]: "om_Name (bk_Meta b) = name \<Longrightarrow> keeps R (reconcile_broker_delete E b)"
  unfolding reconcile_broker_delete_def by (intro keeps_intros keeps_broker_finalizers)

lemma keeps_reconcileClusterServiceBroker:
  "om_Name (bk_Meta b) = name \<Longrightarrow> (\<And>cl. A (BrokerCatalogCall cl)) \<Longrightarrow> keeps R (reconcileClusterServiceBroker E b)"
  unfolding reconcileClusterServiceBroker_def by (intro keeps_intros)

end

section \<open>The stores stay valid\<close>

lemma keeps_world_ok_broker_finalizers: "keeps (inv_rel (world_ok E)) (updateClusterServiceBrokerFinalizers E b fs)"
  unfolding updateClusterServiceBrokerFinalizers_def by (intro keeps_intros)

interpretation broker_ok: broker_relation "inv_rel (world_ok E)" E "\<lambda>_. True" name for E name
  by unfold_locales (rule keeps_world_ok_other keeps_world_ok_broker_finalizers)+

section \<open>What a run leaves alone\<close>

definition broker_evolves :: "ClusterServiceBroker \<Rightarrow> ClusterServiceBroker \<Rightarrow> bool" where
  "broker_evolves b b' \<longleftrightarrow>
     om_UID (bk_Meta b') = om_UID (bk_Meta b) \<and> om_Generation (bk_Meta b') = om_Generation (bk_Meta b) \<and>
     om_DeletionTimestamp (bk_Meta b') = om_DeletionTimestamp (bk_Meta b) \<and> bk_Spec b' = bk_Spec b"

lemma broker_evolves_refl: "broker_evolves b b"
  by (simp add: broker_evolves_def)

lemma broker_evolves_trans: "broker_evolves a b \<Longrightarrow> broker_evolves b c \<Longrightarrow> broker_evolves a c"
  by (simp add: broker_evolves_def)

text \<open>Of the state only the broker \<open>name\<close>, the classes, the plans and the action log change.\<close>
definition broker_frame :: "string \<Rightarrow> world \<Rightarrow> world \<Rightarrow> bool" where
  "broker_frame name w w' \<longleftrightarrow>
     w_instances w' = w_instances w \<and> w_credentials w' = w_credentials w \<and> w_secrets w' = w_secrets w \<and>
     w_namespaces w' = w_namespaces w \<and>
     w_instanceCache w' = w_instanceCache w \<and> w_credentialCache w' = w_credentialCache w \<and>
     w_brokerCache w' = w_brokerCache w \<and> w_classCache w' = w_classCache w \<and> w_planCache w' = w_planCache w \<and>
     (\<forall>k. k \<noteq> ([], name) \<longrightarrow> st_objs (w_brokers w') k = st_objs (w_brokers w) k) \<and>
     stored_evolves broker_evolves (st_objs (w_brokers w) ([], name)) (st_objs (w_brokers w') ([], name)) \<and>
     (\<exists>new. w_log w' = new @ w_log w)"

lemma broker_frame_refl: "broker_frame name w w"
  by (simp add: broker_frame_def stored_evolves_refl[OF broker_evolves_refl])

lemma broker_frame_trans: "broker_frame name u v \<Longrightarrow> broker_frame name v w \<Longrightarrow> broker_frame name u w"
  by (auto simp: broker_frame_def intro: stored_evolves_trans[OF broker_evolves_trans])

lemma broker_frame_simps [simp]:
  "broker_frame name w (w \<lparr> w_tick := t \<rparr>)" "broker_frame name w (w \<lparr> w_classes := cs \<rparr>)"
  "broker_frame name w (w \<lparr> w_plans := ps \<rparr>)" "broker_frame name w (w \<lparr> w_log := a # w_log w \<rparr>)"
  by (simp_all add: broker_frame_def stored_evolves_refl[of broker_evolves, OF broker_evolves_refl])

definition broker_step :: "env \<Rightarrow> string \<Rightarrow> world \<Rightarrow> world \<Rightarrow> bool" where
  "broker_step E name w w' \<longleftrightarrow> (world_ok E w \<longrightarrow> world_ok E w' \<and> broker_frame name w w')"

lemma keeps_broker_step:
  "keeps (inv_rel (world_ok E)) m \<Longrightarrow> (\<And>w. world_ok E w \<Longrightarrow> broker_frame name w (snd (run_state m w))) \<Longrightarrow>
   keeps (broker_step E name) m"
  by (simp add: keeps_def broker_step_def inv_rel_def)

lemma rs_meta_broker [simp]:
  "rs_meta brokerRESTStrategies = bk_Meta" "rs_meta brokerStatusUpdateStrategy = bk_Meta"
  "rs_set_meta brokerStatusUpdateStrategy = (\<lambda>m b. b \<lparr> bk_Meta := m \<rparr>)"
  by (simp_all add: brokerStatusUpdateStrategy_def brokerRESTStrategies_def)

lemma broker_status_BeforeUpdate:
  assumes "BeforeUpdate brokerStatusUpdateStrategy ctx obj old = Inr new"
  shows "bk_Spec new = bk_Spec old" "bk_Status new = bk_Status obj"
    "om_Generation (bk_Meta new) = om_Generation (bk_Meta old)"
  using assms
  by (auto simp: BeforeUpdate_def bind_result_eq_Inr Let_def brokerStatusUpdateStrategy_def brokerRESTStrategies_def
      brokerStatus_PrepareForUpdate_def upd_meta_def settle_namespace_def RepairObjectMeta_def split: if_splits)

lemma broker_status_evolves:
  "BeforeUpdate brokerStatusUpdateStrategy ctx obj old = Inr new \<Longrightarrow> broker_evolves old new"
  using broker_status_store.BeforeUpdate_ok(4,8)[of ctx obj old new] broker_status_BeforeUpdate[of ctx obj old new]
  by (simp add: broker_evolves_def)

lemma broker_request:
  assumes "\<And>v. broker_frame name v (snd (f v))"
  shows "broker_frame name w (snd (run_state (api_request E f) w))"
  unfolding run_api_request
  by (simp add: Let_def broker_frame_trans[OF broker_frame_simps(1) assms] split: option.split bool.split)

lemma broker_status_frame:
  "broker_frame (om_Name (bk_Meta b)) w (snd (run_state (brokers_UpdateStatus E b) w))"
proof -
  let ?k = "([], om_Name (bk_Meta b))" and ?S = brokerStatusUpdateStrategy
  have wr: "broker_frame (om_Name (bk_Meta b)) v
      (v \<lparr> w_brokers := snd (Update ?S (client_ctx E []) ?k b (w_brokers v)) \<rparr>)" for v
  proof -
    obtain r st' where u: "Update ?S (client_ctx E []) ?k b (w_brokers v) = (r, st')" by force
    have "stored_evolves broker_evolves (st_objs (w_brokers v) ?k) (st_objs st' ?k)"
    proof (cases r)
      case (Inl e)
      then show ?thesis
        using u broker_status_store.Update_error[OF u[unfolded Inl]] by (simp add: stored_evolves_refl[OF broker_evolves_refl])
    next
      case (Inr out)
      show ?thesis
        using broker_status_store.Update_stored[OF u[unfolded Inr], of broker_evolves] broker_status_evolves
        by (auto simp: stored_evolves_def upd_meta_def broker_evolves_def)
    qed
    moreover have "\<forall>k. k \<noteq> ?k \<longrightarrow> st_objs st' k = st_objs (w_brokers v) k"
      using Update_other[of _ ?k ?S "client_ctx E []" b "w_brokers v"] u by auto
    ultimately show ?thesis using u by (simp add: broker_frame_def)
  qed
  show ?thesis
    unfolding brokers_UpdateStatus_def by (rule broker_request) (simp add: split_beta wr)
qed

lemma stored_broker_name: "world_ok E w \<Longrightarrow> st_objs (w_brokers w) (ns, name) = Some b \<Longrightarrow> om_Name (bk_Meta b) = name"
  by (auto simp: world_ok_def key_of_def dest!: store_okD)

lemma run_brokers_Get:
  "run_state (brokers_Get E name) w = (r, w1) \<Longrightarrow>
   w1 = w \<lparr> w_tick := Suc (w_tick w) \<rparr> \<and> (\<forall>b. r = Inr b \<longrightarrow> st_objs (w_brokers w) ([], name) = Some b)"
  by (auto simp: brokers_Get_def api_request_def Let_def split: option.splits if_splits)

lemma broker_finalizers_frame:
  assumes ok: "world_ok E w"
  shows "broker_frame (om_Name (bk_Meta b)) w (snd (run_state (updateClusterServiceBrokerFinalizers E b fs) w))"
proof -
  obtain r w1 where g: "run_state (brokers_Get E (om_Name (bk_Meta b))) w = (r, w1)" by force
  then have w1: "broker_frame (om_Name (bk_Meta b)) w w1" using run_brokers_Get by (metis broker_frame_simps(1))
  show ?thesis
  proof (cases r)
    case (Inl e)
    then show ?thesis using g w1 by (simp add: updateClusterServiceBrokerFinalizers_def)
  next
    case (Inr latest)
    let ?new = "bk_Meta_update (\<lambda>m. m \<lparr> om_Finalizers := fs \<rparr>) latest"
    have "om_Name (bk_Meta ?new) = om_Name (bk_Meta b)"
      using run_brokers_Get[OF g] Inr stored_broker_name[OF ok, of "[]" "om_Name (bk_Meta b)" latest] by simp
    then have "broker_frame (om_Name (bk_Meta b)) w1 (snd (run_state (brokers_UpdateStatus E ?new) w1))"
      using broker_status_frame[of ?new w1 E] by simp
    then show ?thesis
      using g w1 Inr
      by (auto simp: updateClusterServiceBrokerFinalizers_def split_beta on_ok_def split: sum.split intro: broker_frame_trans)
  qed
qed

interpretation broker_step_client: client_relation "broker_step E name" E "\<lambda>_. True" for E name
proof
  show "broker_step E name w w" for w by (simp add: broker_step_def broker_frame_refl)
  show "broker_step E name u v \<Longrightarrow> broker_step E name v w \<Longrightarrow> broker_step E name u w" for u v w
    by (auto simp: broker_step_def intro: broker_frame_trans)
qed (auto simp: broker_step_def)

lemma catalog_write_frame:
  "broker_frame name w (snd (run_state (classes_Create E c) w))" "broker_frame name w (snd (run_state (classes_Update E c) w))"
  "broker_frame name w (snd (run_state (classes_Delete E n) w))"
  "broker_frame name w (snd (run_state (plans_Create E p) w))" "broker_frame name w (snd (run_state (plans_Update E p) w))"
  "broker_frame name w (snd (run_state (plans_Delete E n) w))"
  unfolding classes_Create_def classes_Update_def classes_Delete_def plans_Create_def plans_Update_def plans_Delete_def
  by (rule broker_request, simp add: split_beta)+

interpretation broker_fr: broker_relation "broker_step E name" E "\<lambda>_. True" name for E name
proof
  fix b :: ClusterServiceBroker assume n: "om_Name (bk_Meta b) = name"
  show "keeps (broker_step E name) (brokers_UpdateStatus E b)"
    by (rule keeps_broker_step[OF keeps_world_ok_other(1)]) (use broker_status_frame[of b] n in simp)
  show "keeps (broker_step E name) (updateClusterServiceBrokerFinalizers E b fs)" for fs
    by (rule keeps_broker_step[OF keeps_world_ok_broker_finalizers]) (use broker_finalizers_frame[of E _ b] n in simp)
qed (rule keeps_broker_step, rule keeps_world_ok_other, rule catalog_write_frame)+

section \<open>Requests\<close>

lemma keeps_log_catalog_writes:
  "keeps (log_only P) (brokers_UpdateStatus E b)" "keeps (log_only P) (classes_Create E c)" "keeps (log_only P) (classes_Update E c)"
  "keeps (log_only P) (classes_Delete E n)" "keeps (log_only P) (plans_Create E p)" "keeps (log_only P) (plans_Update E p)"
  "keeps (log_only P) (plans_Delete E n)"
  unfolding brokers_UpdateStatus_def classes_Create_def classes_Update_def classes_Delete_def
    plans_Create_def plans_Update_def plans_Delete_def
  by (rule log_client.keeps_api_request, simp add: split_beta log_only_same)+

interpretation log_broker: broker_relation "log_only P" E "\<lambda>a. is_broker_call a \<longrightarrow> P a" name for P E name
proof
  show "keeps (log_only P) (updateClusterServiceBrokerFinalizers E b fs)" for b fs
    unfolding updateClusterServiceBrokerFinalizers_def by (intro keeps_intros keeps_log_catalog_writes)
qed (rule keeps_log_catalog_writes)+

section \<open>Properties\<close>

text \<open>C19: one run of the broker control loop changes, apart from classes, plans and the action log, nothing
  but the broker it works on (which keeps its specification, UID, generation and deletion timestamp, or
  disappears; the remaining metadata is not compared); the stores stay valid, and it sends no other request
  than listings of catalogs.\<close>
theorem reconcileClusterServiceBroker_frame:
  assumes "world_ok E w"
  shows "world_ok E (snd (run_state (reconcileClusterServiceBroker E b) w)) \<and>
    broker_frame (om_Name (bk_Meta b)) w (snd (run_state (reconcileClusterServiceBroker E b) w)) \<and>
    log_only (\<lambda>a. \<exists>cl. a = BrokerCatalogCall cl) w (snd (run_state (reconcileClusterServiceBroker E b) w))"
  using assms broker_fr.keeps_reconcileClusterServiceBroker[of b "om_Name (bk_Meta b)" E]
    log_broker.keeps_reconcileClusterServiceBroker[of b "om_Name (bk_Meta b)" "\<lambda>a. \<exists>cl. a = BrokerCatalogCall cl" E]
  by (simp add: keeps_def broker_step_def)

end
