(* ===== verification/SC_InstanceTrace.thy ===== *)
theory SC_InstanceTrace
  imports SC_InstanceFrame SC_Trace
begin

text \<open>
  The external actions of one run of the instance control loop.  \<open>traces m L\<close> says that \<open>m\<close> extends the
  action log by a list that satisfies \<open>L\<close> (newest action first), so that ordering properties are
  proved by composing the languages of the blocks: at most one request reaches the broker, and it
  leaves only after the operation it belongs to is stored in the status.
\<close>

section \<open>Silence of the writes\<close>

lemma instance_write_log: "log_only P w (snd (instance_write E S i w))"
  by (auto simp: instance_write_def Let_def intro: log_only_same log_only_one split: prod.splits sum.splits)

interpretation log_inst: instance_relation "log_only P" E "\<lambda>a. is_broker_call a \<longrightarrow> P a" key for P E key
  by unfold_locales
    (auto simp: instances_UpdateStatus_def instances_UpdateReferences_def
      intro!: log_client.keeps_api_request instance_write_log)

section \<open>The operation is recorded first\<close>

definition started :: "ServiceInstanceOperation \<Rightarrow> ServiceInstance \<Rightarrow> bool" where
  "started operation i \<longleftrightarrow>
     ist_CurrentOperation (si_Status i) = operation \<and> ist_OperationStartTime (si_Status i) \<noteq> None"

text \<open>A status update that succeeds has written the status it was given, on the specification stored.\<close>
lemma Update_status:
  assumes u: "Update (instanceStatusUpdateStrategy yaml oi) ctx k obj st = (Inr out, st')"
  shows "\<exists>old. st_objs st k = Some old \<and> si_Status out = si_Status obj \<and> si_Spec out = si_Spec old \<and>
           om_Generation (si_Meta out) = om_Generation (si_Meta old) \<and> instance_valid yaml out"
proof -
  let ?S = "instanceStatusUpdateStrategy yaml oi"
  obtain old new where o: "st_objs st k = Some old" "BeforeUpdate ?S ctx obj old = Inr new"
    "if shouldDeleteDuringUpdate ?S new old then out = new \<and> st' = remove_object k st
     else (out, st') = write_object ?S k old new st"
    using inst_status_store.Update_ok[OF u] by metis
  note new = status_BeforeUpdate[OF o(2)] and valid = inst_status_store.BeforeUpdate_ok(1)[OF o(2)]
  show ?thesis
  proof (cases "shouldDeleteDuringUpdate ?S new old")
    case True
    then show ?thesis using o new valid by simp
  next
    case False
    then have w: "write_object ?S k old new st = (out, st')" using o(3) by simp
    then have out: "out = upd_meta ?S (\<lambda>m. m \<lparr> om_ResourceVersion := om_ResourceVersion (rs_meta ?S out) \<rparr>) new"
      using inst_status_store.write_object_result[OF w o(1)] by blast
    have "instance_valid yaml out"
      using valid by (subst out, intro inst_status_store.valid_upd) (simp_all add: meta_evolves_def)
    moreover have "si_Status out = si_Status new" "si_Spec out = si_Spec new"
      "om_Generation (si_Meta out) = om_Generation (si_Meta new)"
      by (subst out, simp add: upd_meta_def)+
    ultimately show ?thesis using o new by simp
  qed
qed

lemma status_write_trace:
  fixes E i w
  defines "res \<equiv> instance_write E (instanceStatusUpdateStrategy (ev_yaml E) (ev_OriginatingIdentity E)) i w"
  shows "\<exists>new. w_log (snd res) = new @ w_log w \<and> silent new \<and> (\<forall>j. fst res = Inr j \<longrightarrow>
     InstanceWritten j \<in> set new \<and> si_Status j = si_Status i \<and> inst_key j = inst_key i)"
proof (cases "Update (instanceStatusUpdateStrategy (ev_yaml E) (ev_OriginatingIdentity E))
    (client_ctx E (om_Namespace (si_Meta i))) (om_Namespace (si_Meta i), om_Name (si_Meta i)) i (w_instances w)")
  case (Pair r st)
  show ?thesis
  proof (cases r)
    case (Inl e)
    then show ?thesis using Pair by (simp add: res_def instance_write_def)
  next
    case (Inr out)
    then have res: "res = (Inr out, w \<lparr> w_instances := st, w_log := InstanceWritten out # w_log w \<rparr>)"
      using Pair by (simp add: res_def instance_write_def)
    then have "fst res = Inr out" by simp
    then have "inst_key out = inst_key i"
      unfolding res_def by (rule instance_write_key[OF _ inst_status_store.strategy_contract_axioms]) simp_all
    moreover have "si_Status out = si_Status i" using Update_status Pair Inr by blast
    ultimately show ?thesis using res by (intro exI[of _ "[InstanceWritten out]"]) simp
  qed
qed

lemma UpdateStatus_written:
  "traces (instances_UpdateStatus E i) (\<lambda>r new. silent new \<and> (\<forall>j. r = Inr j \<longrightarrow>
     InstanceWritten j \<in> set new \<and> si_Status j = si_Status i \<and> inst_key j = inst_key i))"
  unfolding instances_UpdateStatus_def by (rule traces_request[OF status_write_trace])

lemma setServiceInstanceCondition_result:
  assumes "j \<in> results (setServiceInstanceCondition E i ty st reason msg)"
  obtains t where "j = setServiceInstanceConditionInternal i ty st reason msg t"
  using assms unfolding setServiceInstanceCondition_def by (elim results_bindE) auto

lemma recordStart_written:
  "traces (recordStartOfServiceInstanceOperation E i operation) (\<lambda>r new. silent new \<and> (\<forall>j. r = Inr j \<longrightarrow>
     InstanceWritten j \<in> set new \<and> started operation j \<and> inst_key j = inst_key i))"
  unfolding recordStartOfServiceInstanceOperation_def Let_def updateServiceInstanceStatus_def
proof (rule traces_bind[OF traces_silent[OF log_client.keeps_time_Now]],
    rule traces_bind[OF traces_silent[OF log_inst.keeps_setServiceInstanceCondition]], goal_cases)
  case (1 now new1 i2 new2)
  then have "started operation i2" "inst_key i2 = inst_key i"
    by (auto elim!: setServiceInstanceCondition_result
        simp: started_def setServiceInstanceConditionInternal_def)
  then show ?case
    using 1 by (intro traces_weaken[OF UpdateStatus_written]) (auto simp: started_def)
qed

lemma ensure_started_written:
  "traces (ensure_started E i operation) (\<lambda>r new. silent new \<and> (\<forall>j. r = Inr j \<longrightarrow>
     j = i \<and> ist_CurrentOperation (si_Status i) \<noteq> InstanceOperationNone \<or>
     InstanceWritten j \<in> set new \<and> started operation j \<and> inst_key j = inst_key i))"
proof (cases "ist_CurrentOperation (si_Status i) = InstanceOperationNone")
  case True
  then show ?thesis
    by (simp add: ensure_started_def) (rule traces_weaken[OF recordStart_written], auto)
next
  case False
  then show ?thesis by (auto simp: ensure_started_def intro: traces_return)
qed

text \<open>An operation on the instance is under way: one is recorded as current or as asynchronous.\<close>
definition in_flight :: "ServiceInstance \<Rightarrow> bool" where
  "in_flight i \<longleftrightarrow> ist_CurrentOperation (si_Status i) \<noteq> InstanceOperationNone \<or> ist_AsyncOpInProgress (si_Status i)"

definition operation_recorded :: "ServiceInstance \<Rightarrow> action list \<Rightarrow> bool" where
  "operation_recorded i before \<longleftrightarrow>
     (\<exists>j. (j = i \<or> InstanceWritten j \<in> set before) \<and> inst_key j = inst_key i \<and> in_flight j)"

interpretation inst_record: request_record "operation_recorded i" for i
  by unfold_locales (auto simp: operation_recorded_def)

lemma start_recorded:
  assumes "inst_key i1 = inst_key i" "in_flight i1 \<Longrightarrow> operation_recorded i []" "operation \<noteq> InstanceOperationNone"
  shows "traces (ensure_started E i1 operation) (\<lambda>r new. silent new \<and> (\<forall>j. r = Inr j \<longrightarrow> operation_recorded i new))"
  by (rule traces_weaken[OF ensure_started_written])
    (use assms in \<open>fastforce simp: operation_recorded_def in_flight_def started_def\<close>)

section \<open>At most one request per reconciliation\<close>

lemmas silent_blocks = log_client.keeps_brokerClientCreateFunc log_client.keeps_listers log_client.keeps_reads
  log_inst.keeps_getServiceClassPlanAndClusterServiceBroker log_inst.keeps_originating_identity
  log_inst.keeps_prepare_parameters log_inst.keeps_resolveReferences log_inst.keeps_start_mitigation_clock

lemmas silent_then = silent_blocks [THEN inst_record.traces_then]

lemma traces_provision_call:
  "traces (provision_call E sc brokerName client request inst i)
     (\<lambda>_ new. \<exists>after. silent after \<and> new = after @ [BrokerProvisionCall client request])"
  unfolding provision_call_def
  by (rule traces_call[OF traces_ProvisionInstance], unfold provision_done_def, intro keeps_intros)
    (auto dest!: key_results)

lemma traces_deprovision_call:
  "traces (deprovision_call E sc brokerName client request inst i)
     (\<lambda>_ new. \<exists>after. silent after \<and> new = after @ [BrokerDeprovisionCall client request])"
  unfolding deprovision_call_def
  by (rule traces_call[OF traces_DeprovisionInstance], unfold deprovision_done_def, intro keeps_intros)
    (auto dest!: key_results)

lemma traces_pollServiceInstance:
  assumes "ist_AsyncOpInProgress (si_Status i)"
  shows "traces (pollServiceInstance E sc sp brokerName client i) (\<lambda>_. one_request (operation_recorded i))"
proof (cases "ist_OperationStartTime (si_Status i)")
  case None
  then show ?thesis
    unfolding pollServiceInstance_def Let_def
    by (simp add: None) (rule inst_record.traces_quiet, intro keeps_intros, simp)
next
  case (Some start)
  have call: "traces (State_Monad.bind (PollLastOperation E client req) k) (\<lambda>_. one_request (operation_recorded i))"
    if "\<And>a. keeps (log_only (\<lambda>_. False)) (k a)" for req and k :: "go_error + LastOperationResponse \<Rightarrow> (go_error + unit) io"
    by (rule traces_weaken[OF traces_call[OF traces_PollLastOperation that]])
      (use assms in \<open>force simp: one_request_def operation_recorded_def in_flight_def\<close>)
  show ?thesis
    unfolding pollServiceInstance_def Let_def
    by (simp add: Some, intro inst_record.traces_then inst_record.traces_on_ok silent_blocks call keeps_intros)
      (auto split: LastOperationState.split intro!: keeps_intros)
qed

lemma operation_recorded_self: "in_flight i \<Longrightarrow> operation_recorded i before"
  by (auto simp: operation_recorded_def)

lemma start_mitigation_clock_flight:
  "j \<in> results (start_mitigation_clock E i) \<Longrightarrow> in_flight j = in_flight i \<and> inst_key j = inst_key i"
  by (auto simp: start_mitigation_clock_def in_flight_def split: if_splits elim!: results_bindE)

lemma traces_deprovision_at_broker: "traces (deprovision_at_broker E i) (\<lambda>_. one_request (operation_recorded i))"
proof -
  have tail: "traces (State_Monad.bind (ensure_started E i1 InstanceOperationDeprovision)
      (\<lambda>rs. on_ok rs (deprovision_call E sc brokerName client request i))) (\<lambda>_. one_request (operation_recorded i))"
    if "i1 \<in> results (start_mitigation_clock E i)" for i1 sc brokerName client request
    using start_mitigation_clock_flight[OF that]
    by (intro inst_record.traces_start_and_call[OF start_recorded traces_deprovision_call]) (auto intro: operation_recorded_self)
  show ?thesis
    unfolding deprovision_at_broker_def by (auto intro!: inst_record.traces_on_ok silent_then tail)
qed

lemma traces_reconcileServiceInstanceDelete: "traces (reconcileServiceInstanceDelete E i) (\<lambda>_. one_request (operation_recorded i))"
proof -
  have quiet: "keeps (log_only (\<lambda>_. False)) (deprovision_blocked E i)"
    "keeps (log_only (\<lambda>_. False)) (update_status_then E (clear_catalog_finalizer i) (State_Monad.return (Inr ())))"
    unfolding deprovision_blocked_def by (intro keeps_intros; auto dest: key_results)+
  show ?thesis
    unfolding reconcileServiceInstanceDelete_def
    by (auto intro!: inst_record.traces_on_ok silent_then traces_deprovision_at_broker traces_return inst_record.traces_quiet[OF quiet(1)]
        inst_record.traces_quiet[OF quiet(2)])
qed

lemma traces_provision_at_broker:
  "traces (provision_at_broker E sc sp brokerName client inst i) (\<lambda>_. one_request (operation_recorded i))"
proof -
  let ?set = "\<lambda>pp. si_Status_update (\<lambda>s. s \<lparr> ist_InProgressProperties := Some (in_progress_properties sp inst pp) \<rparr>) i"
  have tail: "traces (State_Monad.bind (ensure_started E (?set pp) InstanceOperationProvision)
      (\<lambda>rs. on_ok rs (provision_call E sc brokerName client request inst))) (\<lambda>_. one_request (operation_recorded i))" for pp request
    by (intro inst_record.traces_start_and_call[OF start_recorded traces_provision_call]) (auto simp: in_flight_def operation_recorded_def)
  have quiet: "keeps (log_only (\<lambda>_. False)) (reject_request E inst i reason s msg err :: (go_error + unit) io)" for reason s msg err
    by (intro keeps_intros) simp
  show ?thesis
    unfolding provision_at_broker_def Let_def
    by (auto intro!: inst_record.traces_on_ok silent_then tail quiet[THEN inst_record.traces_quiet] split: sum.split)
qed

text \<open>The instance \<open>resolveReferences\<close> returns is the one it was given or the one it wrote.\<close>
lemma instance_write_trace:
  "\<exists>new. w_log (snd (instance_write E S i w)) = new @ w_log w \<and> silent new \<and>
     (\<forall>j. fst (instance_write E S i w) = Inr j \<longrightarrow> InstanceWritten j \<in> set new)"
  by (cases "Update S (client_ctx E (om_Namespace (si_Meta i))) (om_Namespace (si_Meta i), om_Name (si_Meta i)) i (w_instances w)")
    (auto simp: instance_write_def split: sum.split)

lemma UpdateReferences_written:
  "traces (instances_UpdateReferences E i) (\<lambda>r new. silent new \<and> (\<forall>j. r = Inr j \<longrightarrow> InstanceWritten j \<in> set new))"
  unfolding instances_UpdateReferences_def by (rule traces_request[OF instance_write_trace])

definition written_or :: "ServiceInstance \<Rightarrow> go_error + ServiceInstance \<Rightarrow> action list \<Rightarrow> bool" where
  "written_or i r new \<longleftrightarrow> silent new \<and> (\<forall>j. r = Inr j \<longrightarrow> j = i \<or> InstanceWritten j \<in> set new)"

lemma traces_resolveReferences: "traces (resolveReferences E i) (written_or i)"
proof -
  have upd: "traces (instances_UpdateReferences E j) (\<lambda>r new. written_or i r (new @ old))" if "silent old" for j old
    using that by (intro traces_weaken[OF UpdateReferences_written]) (auto simp: written_or_def)
  have plan: "traces (on_ok rp (\<lambda>j. instances_UpdateReferences E j)) (\<lambda>r new. written_or i r (new @ old))" if "silent old" for rp old
    using that upd by (cases rp) (auto intro: traces_return simp: written_or_def)
  have cls: "traces (on_ok rc (\<lambda>(j, found). State_Monad.bind (resolveServicePlanRef E j found)
      (\<lambda>rp. on_ok rp (\<lambda>j. instances_UpdateReferences E j)))) (\<lambda>r new. written_or i r (new @ old))" if old: "silent old" for rc old
  proof (cases rc)
    case (Inl e)
    then show ?thesis using old by (auto intro: traces_return simp: written_or_def)
  next
    case (Inr p)
    show ?thesis
      unfolding Inr on_ok_simps split_def
      by (rule traces_bind[OF traces_silent[OF log_inst.keeps_resolveServicePlanRef]]) (use old plan in \<open>simp_all\<close>)
  qed
  show ?thesis
  proof (cases "sis_ServiceClassRef (si_Spec i) \<noteq> None \<and> sis_ServicePlanRef (si_Spec i) \<noteq> None")
    case True
    then show ?thesis by (simp add: resolveReferences_def written_or_def traces_return)
  next
    case False
    show ?thesis
      unfolding resolveReferences_def updateServiceInstanceReferences_def if_not_P[OF False]
      by (rule traces_bind[OF traces_silent[OF log_inst.keeps_resolveServiceClassRef]]) (simp_all add: cls)
  qed
qed

lemma one_request_written:
  "one_request (operation_recorded j) new \<Longrightarrow> written_or i (Inr j) old \<Longrightarrow> inst_key j = inst_key i \<Longrightarrow>
   one_request (operation_recorded i) (new @ old)"
  by (rule one_request_mono[where rec = "operation_recorded j"]) (auto simp: operation_recorded_def written_or_def)

lemma traces_reconcileServiceInstance: "traces (reconcileServiceInstance E i) (\<lambda>_. one_request (operation_recorded i))"
proof -
  have prov: "traces (on_ok rr (\<lambda>toUpdate. State_Monad.bind (getServiceClassPlanAndClusterServiceBroker E toUpdate)
      (\<lambda>rg. on_ok rg (\<lambda>(sc, sp, brokerName, client). provision_at_broker E sc sp brokerName client i toUpdate))))
      (\<lambda>_ new. one_request (operation_recorded i) (new @ old))" if "rr \<in> results (resolveReferences E i)" "written_or i rr old" for rr old
  proof (cases rr)
    case (Inl e)
    then show ?thesis using that by (auto intro: traces_return simp: written_or_def)
  next
    case (Inr j)
    have "traces (State_Monad.bind (getServiceClassPlanAndClusterServiceBroker E j)
        (\<lambda>rg. on_ok rg (\<lambda>(sc, sp, brokerName, client). provision_at_broker E sc sp brokerName client i j))) (\<lambda>_. one_request (operation_recorded j))"
      by (intro silent_then inst_record.traces_on_ok) (auto intro: traces_provision_at_broker)
    then show ?thesis
      using that one_request_written results_resolveReferences unfolding Inr on_ok_simps
      by (elim traces_weaken) blast
  qed
  have poll: "traces (pollServiceInstanceInternal E i) (\<lambda>_. one_request (operation_recorded i))" if "ist_AsyncOpInProgress (si_Status i)"
    unfolding pollServiceInstanceInternal_def
    by (auto intro!: silent_then inst_record.traces_on_ok traces_pollServiceInstance that)
  show ?thesis
    unfolding reconcileServiceInstance_def
    by (auto intro!: poll traces_reconcileServiceInstanceDelete traces_return traces_bind[OF traces_resolveReferences] prov)
qed

section \<open>Properties\<close>

text \<open>C2: one run of the instance control loop sends at most one request to the service broker, and it
  sends it only when an operation is recorded as under way, in the instance it was called with or in
  a status of the same instance that it has itself written before.\<close>
theorem reconcileServiceInstance_one_recorded_request:
  "\<exists>new. w_log (snd (run_state (reconcileServiceInstance E i) w)) = new @ w_log w \<and>
         one_request (operation_recorded i) new"
  using traces_reconcileServiceInstance[of E i] by (simp add: traces_def)

end
