(* ===== verification/SC_Workqueue.thy ===== *)
theory SC_Workqueue
  imports SC_Constants
begin

text \<open>
  The work queues between the informers and the workers: the queue of \<open>client-go/util/workqueue\<close> with
  its dirty and processing sets, delayed additions, the exponential rate limiter, and the pool of
  workers that \<open>Run\<close> starts on one queue.  The queue refines a specification with two sets only; the
  locale \<open>key_source\<close> is what a pool relies on, and gives that no key is handled by two workers at once.
\<close>

section \<open>The queue\<close>

record 'k workqueue =
  wq_queue :: "'k list"
  wq_dirty :: "'k set"
  wq_processing :: "'k set"
  wq_shuttingDown :: bool

definition NewNamed :: "'k workqueue" where
  "NewNamed = \<lparr> wq_queue = [], wq_dirty = {}, wq_processing = {}, wq_shuttingDown = False \<rparr>"

definition wq_Add :: "'k \<Rightarrow> 'k workqueue \<Rightarrow> 'k workqueue" where
  "wq_Add item q =
     (if wq_shuttingDown q then q
      else if item \<in> wq_dirty q then q
      else (let q = q \<lparr> wq_dirty := insert item (wq_dirty q) \<rparr>
            in if item \<in> wq_processing q then q
               else q \<lparr> wq_queue := wq_queue q @ [item] \<rparr>))"

definition wq_Len :: "'k workqueue \<Rightarrow> nat" where
  "wq_Len q = length (wq_queue q)"

datatype 'k got = Blocked | Shutdown | Item 'k

text \<open>\<open>Blocked\<close> stands for the wait on the condition variable.\<close>
definition wq_Get :: "'k workqueue \<Rightarrow> 'k got \<times> 'k workqueue" where
  "wq_Get q = (case wq_queue q of
     [] \<Rightarrow> (if wq_shuttingDown q then Shutdown else Blocked, q)
   | item # rest \<Rightarrow>
       (Item item, q \<lparr> wq_queue := rest, wq_processing := insert item (wq_processing q),
                       wq_dirty := wq_dirty q - {item} \<rparr>))"

definition wq_Done :: "'k \<Rightarrow> 'k workqueue \<Rightarrow> 'k workqueue" where
  "wq_Done item q =
     (let q = q \<lparr> wq_processing := wq_processing q - {item} \<rparr>
      in if item \<in> wq_dirty q then q \<lparr> wq_queue := wq_queue q @ [item] \<rparr> else q)"

definition wq_ShutDown :: "'k workqueue \<Rightarrow> 'k workqueue" where
  "wq_ShutDown q = q \<lparr> wq_shuttingDown := True \<rparr>"

section \<open>Rate limiting\<close>

text \<open>The failures counted per item; a missing entry of the Go map reads as zero.\<close>
record 'k ItemExponentialFailureRateLimiter =
  rl_failures :: "'k \<Rightarrow> nat"
  rl_baseDelay :: int
  rl_maxDelay :: int

definition NewItemExponentialFailureRateLimiter :: "int \<Rightarrow> int \<Rightarrow> 'k ItemExponentialFailureRateLimiter" where
  "NewItemExponentialFailureRateLimiter baseDelay maxDelay =
     \<lparr> rl_failures = (\<lambda>_. 0), rl_baseDelay = baseDelay, rl_maxDelay = maxDelay \<rparr>"

text \<open>Durations are nanoseconds.  The power is exact: it only changes the exponent of the float.\<close>
definition rl_When ::
  "'k \<Rightarrow> 'k ItemExponentialFailureRateLimiter \<Rightarrow> int \<times> 'k ItemExponentialFailureRateLimiter" where
  "rl_When item r =
     (let exp = rl_failures r item;
          r' = r \<lparr> rl_failures := (rl_failures r)(item := exp + 1) \<rparr>;
          backoff = rl_baseDelay r * 2 ^ exp
      in (if backoff > 2 ^ 63 then rl_maxDelay r
          else if backoff > rl_maxDelay r then rl_maxDelay r else backoff, r'))"

definition rl_NumRequeues :: "'k \<Rightarrow> 'k ItemExponentialFailureRateLimiter \<Rightarrow> nat" where
  "rl_NumRequeues item r = rl_failures r item"

definition rl_Forget :: "'k \<Rightarrow> 'k ItemExponentialFailureRateLimiter \<Rightarrow> 'k ItemExponentialFailureRateLimiter" where
  "rl_Forget item r = r \<lparr> rl_failures := (rl_failures r)(item := 0) \<rparr>"

definition millisecond :: int where "millisecond = 1000000"

text \<open>The limiter of the five resource queues, per item; its token bucket is the argument \<open>bucket\<close> of
  \<open>AddRateLimited\<close>, the delay the bucket asks for.  The polling queue has no bucket: its delay is zero.\<close>
definition DefaultControllerRateLimiter :: "'k ItemExponentialFailureRateLimiter" where
  "DefaultControllerRateLimiter = NewItemExponentialFailureRateLimiter (5 * millisecond) (1000 * 1000 * millisecond)"

definition pollingStartInterval :: int where "pollingStartInterval = 1000 * millisecond"
definition pollingMaxBackoffDuration :: int where "pollingMaxBackoffDuration = 3600 * 1000 * millisecond"

definition pollingRateLimiter :: "'k ItemExponentialFailureRateLimiter" where
  "pollingRateLimiter = NewItemExponentialFailureRateLimiter pollingStartInterval pollingMaxBackoffDuration"

section \<open>Delayed additions\<close>

text \<open>\<open>rq_ch\<close> is the channel \<open>waitingForAddCh\<close>, oldest entry first; \<open>rq_waiting\<close> is the priority queue of
  the waiting loop, in order of time, together with its index by item.\<close>
record 'k rate_limiting_queue =
  rq_q :: "'k workqueue"
  rq_limiter :: "'k ItemExponentialFailureRateLimiter"
  rq_ch :: "('k \<times> go_time) list"
  rq_waiting :: "('k \<times> go_time) list"

definition NewNamedRateLimitingQueue :: "'k ItemExponentialFailureRateLimiter \<Rightarrow> 'k rate_limiting_queue" where
  "NewNamedRateLimitingQueue rl = \<lparr> rq_q = NewNamed, rq_limiter = rl, rq_ch = [], rq_waiting = [] \<rparr>"

definition rq_Add :: "'k \<Rightarrow> 'k rate_limiting_queue \<Rightarrow> 'k rate_limiting_queue" where
  "rq_Add item q = q \<lparr> rq_q := wq_Add item (rq_q q) \<rparr>"

definition AddAfter :: "go_time \<Rightarrow> 'k \<Rightarrow> int \<Rightarrow> 'k rate_limiting_queue \<Rightarrow> 'k rate_limiting_queue" where
  "AddAfter now item duration q =
     (if wq_shuttingDown (rq_q q) then q
      else if duration \<le> 0 then rq_Add item q
      else q \<lparr> rq_ch := rq_ch q @ [(item, now + duration)] \<rparr>)"

definition AddRateLimited :: "go_time \<Rightarrow> int \<Rightarrow> 'k \<Rightarrow> 'k rate_limiting_queue \<Rightarrow> 'k rate_limiting_queue" where
  "AddRateLimited now bucket item q =
     (let (d, rl) = rl_When item (rq_limiter q)
      in AddAfter now item (max 0 (max d bucket)) (q \<lparr> rq_limiter := rl \<rparr>))"

definition NumRequeues :: "'k \<Rightarrow> 'k rate_limiting_queue \<Rightarrow> nat" where
  "NumRequeues item q = rl_NumRequeues item (rq_limiter q)"

definition Forget :: "'k \<Rightarrow> 'k rate_limiting_queue \<Rightarrow> 'k rate_limiting_queue" where
  "Forget item q = q \<lparr> rq_limiter := rl_Forget item (rq_limiter q) \<rparr>"

text \<open>\<open>insert\<close> of the waiting loop: an item that waits already keeps the earlier time.\<close>
definition waiting_insert :: "'k \<times> go_time \<Rightarrow> ('k \<times> go_time) list \<Rightarrow> ('k \<times> go_time) list" where
  "waiting_insert e ws = (case map_of ws (fst e) of
     None \<Rightarrow> insort_key snd e ws
   | Some readyAt \<Rightarrow>
       (if readyAt > snd e then insort_key snd e (filter (\<lambda>w. fst w \<noteq> fst e) ws) else ws))"

text \<open>The loop that adds the entries that are ready.\<close>
fun add_ready :: "go_time \<Rightarrow> ('k \<times> go_time) list \<Rightarrow> 'k workqueue \<Rightarrow> ('k \<times> go_time) list \<times> 'k workqueue" where
  "add_ready now [] q = ([], q)"
| "add_ready now ((item, readyAt) # ws) q =
     (if readyAt > now then ((item, readyAt) # ws, q) else add_ready now ws (wq_Add item q))"

text \<open>One entry received from the channel.\<close>
definition receive_entry :: "go_time \<Rightarrow> 'k \<times> go_time \<Rightarrow> 'k rate_limiting_queue \<Rightarrow> 'k rate_limiting_queue" where
  "receive_entry now e q =
     (if snd e > now then q \<lparr> rq_waiting := waiting_insert e (rq_waiting q) \<rparr> else rq_Add (fst e) q)"

text \<open>One turn of the waiting loop: add what is ready, then drain the channel.\<close>
definition waitingLoop_turn :: "go_time \<Rightarrow> go_time \<Rightarrow> 'k rate_limiting_queue \<Rightarrow> 'k rate_limiting_queue" where
  "waitingLoop_turn now now' q =
     (if wq_shuttingDown (rq_q q) then q
      else (let (ws, wq) = add_ready now (rq_waiting q) (rq_q q);
                q1 = q \<lparr> rq_waiting := ws, rq_q := wq, rq_ch := [] \<rparr>
            in fold (receive_entry now') (rq_ch q) q1))"

section \<open>Workers\<close>

text \<open>What \<open>worker\<close> does with the result of the reconciler; \<open>Done\<close> is deferred.\<close>
definition worker_finish ::
  "nat \<Rightarrow> bool \<Rightarrow> go_time \<Rightarrow> int \<Rightarrow> 'k \<Rightarrow> go_error + unit \<Rightarrow> 'k rate_limiting_queue \<Rightarrow> 'k rate_limiting_queue" where
  "worker_finish retries forgetAfterSuccess now bucket key r q =
     (let q1 = (case r of
            Inr _ \<Rightarrow> (if forgetAfterSuccess then Forget key q else q)
          | Inl _ \<Rightarrow> (if NumRequeues key q < retries then AddRateLimited now bucket key q else Forget key q))
      in q1 \<lparr> rq_q := wq_Done key (rq_q q1) \<rparr>)"

text \<open>The pool of the workers of one queue: which key each worker handles, and which have ended.\<close>
record 'k pool =
  pl_queue :: "'k rate_limiting_queue"
  pl_busy :: "nat \<rightharpoonup> 'k"
  pl_exited :: "nat set"

text \<open>
  \<open>add\<close> is an informer event, \<open>begin\<close> and \<open>finish\<close> are the two ends of an iteration of
  \<open>worker\<close>, \<open>exit\<close> is its return when the queue shuts down, \<open>turn\<close> a turn of the waiting loop.  Only the
  polling queue is also fed by \<open>AddRateLimited\<close> and cleared by \<open>Forget\<close> from outside its workers.
\<close>
inductive pool_step :: "nat \<Rightarrow> bool \<Rightarrow> bool \<Rightarrow> 'k pool \<Rightarrow> 'k pool \<Rightarrow> bool" for retries forget polling where
  pool_add: "pool_step retries forget polling p (p \<lparr> pl_queue := rq_Add k (pl_queue p) \<rparr>)"
| pool_poll: "polling \<Longrightarrow> pool_step retries forget polling p (p \<lparr> pl_queue := AddRateLimited now bucket k (pl_queue p) \<rparr>)"
| pool_forget: "polling \<Longrightarrow> pool_step retries forget polling p (p \<lparr> pl_queue := Forget k (pl_queue p) \<rparr>)"
| pool_begin: "wq_Get (rq_q (pl_queue p)) = (Item k, q') \<Longrightarrow> pl_busy p i = None \<Longrightarrow> i \<notin> pl_exited p \<Longrightarrow>
    pool_step retries forget polling p (p \<lparr> pl_queue := (pl_queue p) \<lparr> rq_q := q' \<rparr>, pl_busy := (pl_busy p)(i \<mapsto> k) \<rparr>)"
| pool_finish: "pl_busy p i = Some k \<Longrightarrow>
    pool_step retries forget polling p
      (p \<lparr> pl_queue := worker_finish retries forget now bucket k r (pl_queue p), pl_busy := (pl_busy p)(i := None) \<rparr>)"
| pool_exit: "wq_Get (rq_q (pl_queue p)) = (Shutdown, q') \<Longrightarrow> pl_busy p i = None \<Longrightarrow>
    pool_step retries forget polling p (p \<lparr> pl_exited := insert i (pl_exited p) \<rparr>)"
| pool_turn: "pool_step retries forget polling p (p \<lparr> pl_queue := waitingLoop_turn now now' (pl_queue p) \<rparr>)"
| pool_shutdown: "pool_step retries forget polling p
    (p \<lparr> pl_queue := (pl_queue p) \<lparr> rq_q := wq_ShutDown (rq_q (pl_queue p)) \<rparr> \<rparr>)"

inductive_cases pool_stepE: "pool_step retries forget polling p p'"

definition pool_init :: "'k ItemExponentialFailureRateLimiter \<Rightarrow> 'k pool" where
  "pool_init rl = \<lparr> pl_queue = NewNamedRateLimitingQueue rl, pl_busy = Map.empty, pl_exited = {} \<rparr>"

section \<open>The invariant of the queue\<close>

text \<open>The queue holds, once each, the items that need processing and are not being processed.\<close>
definition wq_ok :: "'k workqueue \<Rightarrow> bool" where
  "wq_ok q \<longleftrightarrow> distinct (wq_queue q) \<and> set (wq_queue q) = wq_dirty q - wq_processing q"

lemma wq_ok_new [simp]: "wq_ok NewNamed"
  by (simp add: wq_ok_def NewNamed_def)

lemma NewNamed_processing: "wq_processing NewNamed = {}"
  by (simp add: NewNamed_def)

lemma wq_ok_Add [simp]: "wq_ok q \<Longrightarrow> wq_ok (wq_Add k q)"
  by (cases "k \<in> wq_processing q") (simp_all add: wq_ok_def wq_Add_def Let_def insert_Diff_if)

lemma wq_Get_Item: "wq_Get q = (Item k, q') \<longleftrightarrow>
    (\<exists>rest. wq_queue q = k # rest \<and> q' = q \<lparr> wq_queue := rest, wq_processing := insert k (wq_processing q),
       wq_dirty := wq_dirty q - {k} \<rparr>)"
  by (auto simp: wq_Get_def split: list.splits)

lemma wq_ok_Get: "wq_ok q \<Longrightarrow> wq_Get q = (Item k, q') \<Longrightarrow>
    wq_ok q' \<and> k \<in> wq_dirty q \<and> k \<notin> wq_processing q \<and> wq_processing q' = insert k (wq_processing q)"
proof -
  assume ok: "wq_ok q" and "wq_Get q = (Item k, q')"
  then obtain rest where q: "wq_queue q = k # rest"
    and q': "wq_queue q' = rest" "wq_dirty q' = wq_dirty q - {k}" "wq_processing q' = insert k (wq_processing q)"
    by (auto simp: wq_Get_Item)
  have "k \<notin> set rest" "distinct rest" and D: "insert k (set rest) = wq_dirty q - wq_processing q"
    using ok q by (simp_all add: wq_ok_def)
  then have "set rest = wq_dirty q - {k} - insert k (wq_processing q)" by blast
  then show ?thesis
    using D \<open>distinct rest\<close> by (simp add: wq_ok_def q') blast
qed

lemma wq_ok_Done: "wq_ok q \<Longrightarrow> k \<in> wq_processing q \<Longrightarrow> wq_ok (wq_Done k q)"
  by (auto simp: wq_ok_def wq_Done_def Let_def)

lemma wq_Add_sets [simp]:
  "wq_processing (wq_Add k q) = wq_processing q"
  "wq_dirty (wq_Add k q) = (if wq_shuttingDown q then wq_dirty q else insert k (wq_dirty q))"
  "wq_shuttingDown (wq_Add k q) = wq_shuttingDown q"
  by (auto simp: wq_Add_def Let_def)

lemma wq_Done_sets [simp]:
  "wq_processing (wq_Done k q) = wq_processing q - {k}" "wq_dirty (wq_Done k q) = wq_dirty q"
  "wq_shuttingDown (wq_Done k q) = wq_shuttingDown q"
  by (auto simp: wq_Done_def Let_def)

lemma wq_ShutDown_sets [simp]:
  "wq_processing (wq_ShutDown q) = wq_processing q" "wq_dirty (wq_ShutDown q) = wq_dirty q"
  "wq_queue (wq_ShutDown q) = wq_queue q" "wq_shuttingDown (wq_ShutDown q)" "wq_ok (wq_ShutDown q) = wq_ok q"
  by (simp_all add: wq_ShutDown_def wq_ok_def)

section \<open>Refinement of the two-set specification\<close>

text \<open>The specification: the keys that need work, the keys being worked on, and whether new keys are taken.\<close>
type_synonym 'k key_spec = "'k set \<times> 'k set \<times> bool"

definition wq_abs :: "'k workqueue \<Rightarrow> 'k key_spec" where
  "wq_abs q = (wq_dirty q, wq_processing q, wq_shuttingDown q)"

fun spec_Add :: "'k \<Rightarrow> 'k key_spec \<Rightarrow> 'k key_spec" where
  "spec_Add k (dirty, processing, down) = (if down then dirty else insert k dirty, processing, down)"

fun spec_Done :: "'k \<Rightarrow> 'k key_spec \<Rightarrow> 'k key_spec" where
  "spec_Done k (dirty, processing, down) = (dirty, processing - {k}, down)"

text \<open>Any key that needs work and has no worker may be handed out; a caller waits, or is sent away
  after a shutdown, only when there is none.\<close>
inductive spec_Get :: "'k key_spec \<Rightarrow> 'k got \<Rightarrow> 'k key_spec \<Rightarrow> bool" where
  "k \<in> dirty \<Longrightarrow> k \<notin> processing \<Longrightarrow>
     spec_Get (dirty, processing, down) (Item k) (dirty - {k}, insert k processing, down)"
| "dirty \<subseteq> processing \<Longrightarrow> spec_Get (dirty, processing, False) Blocked (dirty, processing, False)"
| "dirty \<subseteq> processing \<Longrightarrow> spec_Get (dirty, processing, True) Shutdown (dirty, processing, True)"

lemma wq_Add_refines: "wq_abs (wq_Add k q) = spec_Add k (wq_abs q)"
  by (simp add: wq_abs_def)

lemma wq_Done_refines: "wq_abs (wq_Done k q) = spec_Done k (wq_abs q)"
  by (simp add: wq_abs_def)

lemma wq_Get_refines: "wq_ok q \<Longrightarrow> wq_Get q = (g, q') \<Longrightarrow> spec_Get (wq_abs q) g (wq_abs q')"
  by (auto simp: wq_abs_def wq_ok_def wq_Get_def split: list.splits if_splits intro!: spec_Get.intros)

section \<open>Order\<close>

text \<open>The number of keys before \<open>k\<close> in the queue.\<close>
definition ahead :: "'k \<Rightarrow> 'k workqueue \<Rightarrow> nat" where
  "ahead k q = length (takeWhile (\<lambda>x. x \<noteq> k) (wq_queue q))"

lemma ahead_Add: "k \<in> set (wq_queue q) \<Longrightarrow> ahead k (wq_Add k' q) = ahead k q"
  by (auto simp: ahead_def wq_Add_def Let_def takeWhile_append1)

lemma ahead_Done: "k \<in> set (wq_queue q) \<Longrightarrow> ahead k (wq_Done k' q) = ahead k q"
  by (auto simp: ahead_def wq_Done_def Let_def takeWhile_append1)

lemma ahead_Get: "k \<in> set (wq_queue q) \<Longrightarrow> wq_Get q = (g, q') \<Longrightarrow>
    g = Item k \<and> ahead k q = 0 \<or> k \<in> set (wq_queue q') \<and> ahead k q = Suc (ahead k q')"
  by (auto simp: ahead_def wq_Get_def split: list.splits)

section \<open>Pools\<close>

text \<open>No key has two workers.\<close>
definition one_each :: "('w \<rightharpoonup> 'k) \<Rightarrow> bool" where
  "one_each busy \<longleftrightarrow> (\<forall>i j k. busy i = Some k \<longrightarrow> busy j = Some k \<longrightarrow> i = j)"

lemma one_each_upd: "one_each busy \<Longrightarrow> k \<notin> ran busy \<Longrightarrow> one_each (busy(i \<mapsto> k))"
  unfolding one_each_def by (metis fun_upd_apply option.inject ranI)

lemma one_each_clear: "one_each busy \<Longrightarrow> one_each (busy(i := None))"
  unfolding one_each_def by (metis fun_upd_apply option.distinct(1))

lemma ran_clear: "one_each busy \<Longrightarrow> busy i = Some k \<Longrightarrow> ran (busy(i := None)) = ran busy - {k}"
  unfolding ran_def one_each_def set_eq_iff by simp (metis option.inject)

text \<open>What a pool of workers relies on: a key that is handed out was not held, and stays held until it is
  given back.\<close>
locale key_source =
  fixes get :: "'q \<Rightarrow> 'k got \<times> 'q" and give_back :: "'k \<Rightarrow> 'q \<Rightarrow> 'q"
    and held :: "'q \<Rightarrow> 'k set" and ok :: "'q \<Rightarrow> bool"
  assumes get_fresh: "ok q \<Longrightarrow> get q = (Item k, q') \<Longrightarrow> k \<notin> held q \<and> held q' = insert k (held q) \<and> ok q'"
    and back_held: "held (give_back k q) = held q - {k}"
    and back_ok: "ok q \<Longrightarrow> k \<in> held q \<Longrightarrow> ok (give_back k q)"
begin

text \<open>Every held key has exactly one worker.\<close>
definition exclusive :: "('w \<rightharpoonup> 'k) \<Rightarrow> 'q \<Rightarrow> bool" where
  "exclusive busy q \<longleftrightarrow> ok q \<and> held q = ran busy \<and> one_each busy"

lemma exclusive_start: "ok q \<Longrightarrow> held q = {} \<Longrightarrow> exclusive Map.empty q"
  by (simp add: exclusive_def one_each_def)

lemma exclusive_get:
  "exclusive busy q \<Longrightarrow> get q = (Item k, q') \<Longrightarrow> busy i = None \<Longrightarrow> exclusive (busy(i \<mapsto> k)) q'"
  using get_fresh[of q k q'] by (simp add: exclusive_def one_each_upd)

lemma exclusive_back:
  assumes "exclusive busy q" "busy i = Some k"
  shows "exclusive (busy(i := None)) (give_back k q)"
proof -
  have "k \<in> held q" using assms by (auto simp: exclusive_def ran_def)
  then show ?thesis
    using assms by (simp add: exclusive_def back_held back_ok one_each_clear ran_clear)
qed

lemma one_worker: "exclusive busy q \<Longrightarrow> busy i = Some k \<Longrightarrow> busy j = Some k \<Longrightarrow> i = j"
  unfolding exclusive_def one_each_def by blast

end

interpretation wq: key_source wq_Get wq_Done wq_processing wq_ok
proof unfold_locales
  fix q q' :: "'a workqueue" and k
  show "wq_ok q \<Longrightarrow> wq_Get q = (Item k, q') \<Longrightarrow>
      k \<notin> wq_processing q \<and> wq_processing q' = insert k (wq_processing q) \<and> wq_ok q'"
    by (drule (1) wq_ok_Get) simp
  show "wq_processing (wq_Done k q) = wq_processing q - {k}" by simp
  show "wq_ok q \<Longrightarrow> k \<in> wq_processing q \<Longrightarrow> wq_ok (wq_Done k q)" by (rule wq_ok_Done)
qed

text \<open>Additions only add: the keys in work stay, no key that needs work is lost.\<close>
definition grows :: "'k workqueue \<Rightarrow> 'k workqueue \<Rightarrow> bool" where
  "grows q q' \<longleftrightarrow> (wq_ok q \<longrightarrow> wq_ok q') \<and> wq_processing q' = wq_processing q \<and> wq_dirty q \<subseteq> wq_dirty q'"

lemma grows_refl [simp]: "grows q q"
  by (simp add: grows_def)

lemma grows_trans: "grows q q' \<Longrightarrow> grows q' q'' \<Longrightarrow> grows q q''"
  by (auto simp: grows_def)

lemma grows_Add: "grows q (wq_Add k q)"
  by (auto simp: grows_def)

lemma grows_AddRateLimited: "grows (rq_q q) (rq_q (AddRateLimited now bucket k q))"
  by (auto simp: AddRateLimited_def AddAfter_def rq_Add_def grows_Add split: prod.split)

lemma grows_add_ready: "grows q (snd (add_ready now ws q))"
  by (induction now ws q rule: add_ready.induct) (auto intro: grows_trans[OF grows_Add])

lemma grows_receive: "grows (rq_q q) (rq_q (fold (receive_entry now) es q))"
proof (induction es arbitrary: q)
  case (Cons e es)
  have "grows (rq_q q) (rq_q (receive_entry now e q))"
    by (simp add: receive_entry_def rq_Add_def grows_Add)
  then show ?case using Cons.IH[of "receive_entry now e q"] by (auto intro: grows_trans)
qed simp

lemma grows_turn: "grows (rq_q q) (rq_q (waitingLoop_turn now now' q))"
proof -
  obtain ws wq where a: "add_ready now (rq_waiting q) (rq_q q) = (ws, wq)" by force
  show ?thesis
    using grows_add_ready[of "rq_q q" now "rq_waiting q"]
      grows_receive[of "q \<lparr> rq_waiting := ws, rq_q := wq, rq_ch := [] \<rparr>"] a
    by (auto simp: waitingLoop_turn_def intro: grows_trans)
qed

text \<open>A worker that finishes gives its key back; additions come before.\<close>
lemma worker_finish_queue:
  "\<exists>q1. grows (rq_q q) q1 \<and> rq_q (worker_finish retries forget now bucket k r q) = wq_Done k q1"
proof (cases r)
  case (Inl e)
  then show ?thesis
    by (cases "NumRequeues k q < retries")
      (auto simp: worker_finish_def Forget_def Let_def intro: grows_AddRateLimited exI[of _ "rq_q q"])
next
  case (Inr u)
  then show ?thesis
    by (cases forget) (auto simp: worker_finish_def Forget_def Let_def intro: exI[of _ "rq_q q"])
qed

lemma exclusive_grows: "wq.exclusive busy q \<Longrightarrow> grows q q' \<Longrightarrow> wq.exclusive busy q'"
  by (simp add: wq.exclusive_def grows_def)

lemma Forget_queue [simp]: "rq_q (Forget k q) = rq_q q"
  by (simp add: Forget_def)

lemma exclusive_pool_step:
  assumes "pool_step retries forget polling p p'" "wq.exclusive (pl_busy p) (rq_q (pl_queue p))"
  shows "wq.exclusive (pl_busy p') (rq_q (pl_queue p'))"
  using assms(1)
proof cases
  case (pool_finish i k now bucket r)
  obtain q1 where "grows (rq_q (pl_queue p)) q1"
    "rq_q (worker_finish retries forget now bucket k r (pl_queue p)) = wq_Done k q1"
    using worker_finish_queue[of "pl_queue p" retries forget now bucket] by metis
  moreover have "wq.exclusive (pl_busy p) q1"
    using exclusive_grows[OF assms(2)] calculation(1) by blast
  ultimately show ?thesis
    using pool_finish by (simp add: wq.exclusive_back)
next
  case (pool_begin k q' i)
  then show ?thesis by (simp add: wq.exclusive_get[OF assms(2)])
next
  case (pool_turn now now')
  then show ?thesis by (simp add: exclusive_grows[OF assms(2) grows_turn])
next
  case (pool_poll now bucket k)
  then show ?thesis by (simp add: exclusive_grows[OF assms(2) grows_AddRateLimited])
next
  case (pool_add k)
  then show ?thesis by (simp add: rq_Add_def exclusive_grows[OF assms(2) grows_Add])
next
  case pool_shutdown
  moreover have "grows q (wq_ShutDown q)" for q :: "'a workqueue" by (simp add: grows_def)
  ultimately show ?thesis using exclusive_grows[OF assms(2)] by simp
qed (use assms(2) in simp_all)

text \<open>A key that needs work goes on needing it until a worker takes it.\<close>
lemma dirty_pool_step:
  assumes "pool_step retries forget polling p p'" "k \<in> wq_dirty (rq_q (pl_queue p))"
  shows "k \<in> wq_dirty (rq_q (pl_queue p')) \<or> (\<exists>i. pl_busy p i = None \<and> pl_busy p' i = Some k)"
  using assms(1)
proof cases
  case (pool_finish i k' now bucket r)
  obtain q1 where "grows (rq_q (pl_queue p)) q1"
    "rq_q (worker_finish retries forget now bucket k' r (pl_queue p)) = wq_Done k' q1"
    using worker_finish_queue[of "pl_queue p" retries forget now bucket] by metis
  then show ?thesis using pool_finish assms(2) by (auto simp: grows_def)
next
  case (pool_poll now bucket k')
  then show ?thesis using grows_AddRateLimited[of "pl_queue p" now bucket k'] assms(2) by (auto simp: grows_def)
next
  case (pool_turn now now')
  then show ?thesis using grows_turn[of "pl_queue p" now now'] assms(2) by (auto simp: grows_def)
next
  case (pool_begin k' q' i)
  have q': "wq_dirty q' = wq_dirty (rq_q (pl_queue p)) - {k'}"
    using pool_begin(2) by (auto simp: wq_Get_Item)
  show ?thesis
  proof (cases "k' = k")
    case True
    then have "pl_busy p i = None \<and> pl_busy p' i = Some k" using pool_begin by simp
    then show ?thesis by blast
  next
    case False
    then show ?thesis using pool_begin(1) q' assms(2) by simp
  qed
qed (use assms(2) in \<open>simp_all add: rq_Add_def\<close>)

lemma pool_reachable_exclusive:
  "(pool_step retries forget polling)\<^sup>*\<^sup>* (pool_init rl) p \<Longrightarrow> wq.exclusive (pl_busy p) (rq_q (pl_queue p))"
proof (induction rule: rtranclp_induct)
  case base
  show ?case
    by (simp add: pool_init_def NewNamedRateLimitingQueue_def wq.exclusive_start[OF wq_ok_new] NewNamed_processing)
next
  case (step y z)
  then show ?case by (blast intro: exclusive_pool_step)
qed

section \<open>Retries\<close>

lemma NumRequeues_simps [simp]:
  "NumRequeues k (rq_Add k' q) = NumRequeues k q"
  "NumRequeues k (q \<lparr> rq_q := x \<rparr>) = NumRequeues k q"
  "NumRequeues k (Forget k' q) = (if k = k' then 0 else NumRequeues k q)"
  by (auto simp: NumRequeues_def rl_NumRequeues_def rq_Add_def Forget_def rl_Forget_def)

lemma NumRequeues_AddRateLimited [simp]:
  "NumRequeues k (AddRateLimited now bucket k' q) = (if k = k' then Suc (NumRequeues k q) else NumRequeues k q)"
  by (auto simp: AddRateLimited_def AddAfter_def NumRequeues_def rl_NumRequeues_def rl_When_def rq_Add_def Let_def)

lemma NumRequeues_receive [simp]: "NumRequeues k (fold (receive_entry now) es q) = NumRequeues k q"
proof (induction es arbitrary: q)
  case (Cons e es)
  then show ?case by (simp add: receive_entry_def) (simp add: NumRequeues_def)
qed simp

lemma NumRequeues_turn [simp]: "NumRequeues k (waitingLoop_turn now now' q) = NumRequeues k q"
proof (cases "wq_shuttingDown (rq_q q)")
  case False
  obtain ws wq where "add_ready now (rq_waiting q) (rq_q q) = (ws, wq)" by force
  then show ?thesis using False by (simp add: waitingLoop_turn_def) (simp add: NumRequeues_def)
qed (simp add: waitingLoop_turn_def)

lemma NumRequeues_finish:
  "NumRequeues k q \<le> retries \<Longrightarrow> NumRequeues k (worker_finish retries forget now bucket k' r q) \<le> retries"
  by (auto simp: worker_finish_def Let_def split: sum.split)

lemma requeues_pool_step:
  "pool_step retries forget False p p' \<Longrightarrow> NumRequeues k (pl_queue p) \<le> retries \<Longrightarrow> NumRequeues k (pl_queue p') \<le> retries"
  by (erule pool_stepE) (simp_all add: NumRequeues_finish)

lemma pool_reachable_requeues:
  "(pool_step retries forget False)\<^sup>*\<^sup>* (pool_init rl) p \<Longrightarrow> rl_failures rl k \<le> retries \<Longrightarrow>
   NumRequeues k (pl_queue p) \<le> retries"
proof (induction rule: rtranclp_induct)
  case base
  then show ?case
    by (simp add: pool_init_def NewNamedRateLimitingQueue_def NumRequeues_def rl_NumRequeues_def)
next
  case (step y z)
  then show ?case by (blast intro: requeues_pool_step)
qed

text \<open>The settings of the limiter never change.\<close>
definition limits :: "'k rate_limiting_queue \<Rightarrow> int \<times> int" where
  "limits q = (rl_baseDelay (rq_limiter q), rl_maxDelay (rq_limiter q))"

lemma limits_simps [simp]:
  "limits (rq_Add k q) = limits q" "limits (q \<lparr> rq_q := x \<rparr>) = limits q" "limits (Forget k q) = limits q"
  "limits (AddRateLimited now bucket k q) = limits q" "limits (q \<lparr> rq_waiting := ws \<rparr>) = limits q"
  "limits (q \<lparr> rq_ch := es \<rparr>) = limits q"
  by (simp_all add: limits_def rq_Add_def Forget_def rl_Forget_def AddRateLimited_def AddAfter_def rl_When_def Let_def)

lemma limits_receive: "limits (fold (receive_entry now) es q) = limits q"
  by (induction es arbitrary: q) (simp_all add: receive_entry_def)

lemma limits_turn: "limits (waitingLoop_turn now now' q) = limits q"
  by (simp add: waitingLoop_turn_def limits_receive split: prod.split)

lemma limits_finish: "limits (worker_finish retries forget now bucket k r q) = limits q"
  by (simp add: worker_finish_def Let_def split: sum.split)

lemma pool_reachable_limits:
  "(pool_step retries forget polling)\<^sup>*\<^sup>* (pool_init rl) p \<Longrightarrow>
   limits (pl_queue p) = (rl_baseDelay rl, rl_maxDelay rl)"
proof (induction rule: rtranclp_induct)
  case base
  show ?case by (simp add: pool_init_def NewNamedRateLimitingQueue_def limits_def)
next
  case (step y z)
  from step(2) have "limits (pl_queue z) = limits (pl_queue y)"
    by (rule pool_stepE) (simp_all add: limits_turn limits_finish)
  with step(3) show ?case by simp
qed

text \<open>Within the retry bound the delay of the default limiter is never cut off.\<close>
lemma default_delay:
  assumes "n \<le> maxRetries" "rl_failures rl k = n" "rl_baseDelay rl = 5 * millisecond" "rl_maxDelay rl = 1000 * 1000 * millisecond"
  shows "fst (rl_When k rl) = 5 * millisecond * 2 ^ n"
proof -
  have "(2::int) ^ n \<le> 2 ^ 15" using assms(1) power_increasing[of n 15 "2::int"] by (simp add: maxRetries_def)
  then show ?thesis using assms(2-4) by (simp add: rl_When_def Let_def millisecond_def)
qed

lemma delay_bounds:
  "0 < rl_baseDelay rl \<Longrightarrow> rl_baseDelay rl \<le> rl_maxDelay rl \<Longrightarrow>
   rl_baseDelay rl \<le> fst (rl_When k rl) \<and> fst (rl_When k rl) \<le> rl_maxDelay rl"
  by (simp add: rl_When_def Let_def mult_le_cancel_left1)

section \<open>Sequences of operations\<close>

datatype 'k queue_op = OpAdd 'k | OpDone 'k | OpGet | OpShutDown

fun run_op :: "'k queue_op \<Rightarrow> 'k workqueue \<Rightarrow> 'k got list \<times> 'k workqueue" where
  "run_op (OpAdd k) q = ([], wq_Add k q)"
| "run_op (OpDone k) q = ([], wq_Done k q)"
| "run_op OpGet q = (case wq_Get q of (g, q') \<Rightarrow> ([g], q'))"
| "run_op OpShutDown q = ([], wq_ShutDown q)"

fun run_ops :: "'k queue_op list \<Rightarrow> 'k workqueue \<Rightarrow> 'k got list \<times> 'k workqueue" where
  "run_ops [] q = ([], q)"
| "run_ops (x # xs) q = (case run_op x q of (gs, q1) \<Rightarrow> case run_ops xs q1 of (hs, q2) \<Rightarrow> (gs @ hs, q2))"

lemma queue_kept:
  "k \<in> set (wq_queue q) \<Longrightarrow> k \<in> set (wq_queue (wq_Add k' q))"
  "k \<in> set (wq_queue q) \<Longrightarrow> k \<in> set (wq_queue (wq_Done k' q))"
  by (auto simp: wq_Add_def wq_Done_def Let_def)

lemma ahead_ShutDown: "ahead k (wq_ShutDown q) = ahead k q"
  by (simp add: ahead_def)

lemma served_after_gets:
  "k \<in> set (wq_queue q) \<Longrightarrow> ahead k q < length (filter (\<lambda>x. x = OpGet) ops) \<Longrightarrow> Item k \<in> set (fst (run_ops ops q))"
proof (induction ops arbitrary: q)
  case (Cons x xs)
  show ?case
  proof (cases x)
    case OpGet
    obtain g q' where g: "wq_Get q = (g, q')" by force
    obtain gs q2 where r: "run_ops xs q' = (gs, q2)" by force
    from ahead_Get[OF Cons.prems(1) g] show ?thesis
    proof
      assume "g = Item k \<and> ahead k q = 0"
      then show ?thesis using OpGet g r by simp
    next
      assume a: "k \<in> set (wq_queue q') \<and> ahead k q = Suc (ahead k q')"
      then have "ahead k q' < length (filter (\<lambda>x. x = OpGet) xs)" using Cons.prems(2) OpGet by simp
      then show ?thesis using Cons.IH[of q'] a OpGet g r by simp
    qed
  qed (use Cons in \<open>simp_all add: queue_kept ahead_Add ahead_Done ahead_ShutDown split: prod.splits\<close>)
qed simp

section \<open>Properties\<close>

text \<open>The workers of one queue never handle the same key at the same time, whatever the order in
  which informer events, workers, the waiting loop and a shutdown are interleaved.\<close>
theorem workers_never_share_a_key:
  assumes "(pool_step maxRetries forget polling)\<^sup>*\<^sup>* (pool_init rl) p"
    and "pl_busy p i = Some k" "pl_busy p j = Some k"
  shows "i = j"
  using pool_reachable_exclusive[OF assms(1)] assms(2,3) by (rule wq.one_worker)

text \<open>One key added and taken by worker 0.\<close>
definition pool_example :: "string pool" where
  "pool_example = (let p = pool_init DefaultControllerRateLimiter; p1 = p \<lparr> pl_queue := rq_Add ''ns/db'' (pl_queue p) \<rparr>
     in p1 \<lparr> pl_queue := (pl_queue p1) \<lparr> rq_q := snd (wq_Get (rq_q (pl_queue p1))) \<rparr>, pl_busy := (pl_busy p1)(0 \<mapsto> ''ns/db'') \<rparr>)"

lemma pool_example_reachable:
  "(pool_step maxRetries forget polling)\<^sup>*\<^sup>* (pool_init DefaultControllerRateLimiter) pool_example"
proof -
  let ?p = "pool_init DefaultControllerRateLimiter :: string pool"
  let ?p1 = "?p \<lparr> pl_queue := rq_Add ''ns/db'' (pl_queue ?p) \<rparr>"
  let ?q1 = "rq_q (pl_queue ?p1)"
  have "wq_Get ?q1 = (Item ''ns/db'', snd (wq_Get ?q1))" "pl_busy ?p1 0 = None" "0 \<notin> pl_exited ?p1"
    by (simp_all add: pool_init_def NewNamedRateLimitingQueue_def NewNamed_def rq_Add_def wq_Add_def wq_Get_def)
  then have "pool_step maxRetries forget polling ?p1 pool_example"
    unfolding pool_example_def Let_def by (rule pool_begin)
  then show ?thesis
    using pool_add[of maxRetries forget polling ?p "''ns/db''"] by (meson r_into_rtranclp rtranclp.rtrancl_into_rtrancl)
qed

theorem workers_never_share_a_key_witness:
  "(pool_step maxRetries True False)\<^sup>*\<^sup>* (pool_init DefaultControllerRateLimiter) pool_example \<and>
   pl_busy pool_example 0 = Some ''ns/db'' \<and> pl_busy pool_example 1 \<noteq> Some ''ns/db''"
proof -
  have r: "(pool_step maxRetries True False)\<^sup>*\<^sup>* (pool_init DefaultControllerRateLimiter) pool_example"
    by (rule pool_example_reachable)
  have b: "pl_busy pool_example 0 = Some ''ns/db''" by (simp add: pool_example_def Let_def)
  show ?thesis using workers_never_share_a_key[OF r b, of 1] r b by auto
qed

text \<open>C4: the queue implements the two-set specification: \<open>Add\<close> marks a key, \<open>Get\<close> hands out some marked key
  that has no worker (and blocks, or reports the shutdown, only if there is none), \<open>Done\<close> releases it;
  and the invariant of the implementation is kept.\<close>
theorem workqueue_refines_key_spec:
  "wq_abs (wq_Add k q) = spec_Add k (wq_abs q) \<and> wq_abs (wq_Done k q) = spec_Done k (wq_abs q) \<and>
   (wq_ok q \<longrightarrow> spec_Get (wq_abs q) (fst (wq_Get q)) (wq_abs (snd (wq_Get q))) \<and> wq_ok (snd (wq_Get q)) \<and>
      wq_ok (wq_Add k q) \<and> (k \<in> wq_processing q \<longrightarrow> wq_ok (wq_Done k q)))"
proof -
  obtain g q' where g: "wq_Get q = (g, q')" by force
  have "wq_ok q \<Longrightarrow> wq_ok q'"
    using g wq_ok_Get[of q _ q'] by (cases g) (auto simp: wq_Get_def split: list.splits)
  then show ?thesis
    using g wq_Get_refines[OF _ g] by (simp add: wq_Add_refines wq_Done_refines wq_ok_Done)
qed

theorem workqueue_refines_key_spec_witness:
  "wq_ok (wq_Add (2::nat) (wq_Add 1 NewNamed)) \<and> fst (wq_Get (wq_Add (2::nat) (wq_Add 1 NewNamed))) = Item 1 \<and>
   spec_Get ({1, 2}, {}, False) (Item 1) ({2}, {1::nat}, False) \<and>
   wq_ok (wq_Done 1 (wq_Add 1 (snd (wq_Get (wq_Add (2::nat) (wq_Add 1 NewNamed))))))"
proof -
  let ?q = "wq_Add (2::nat) (wq_Add 1 NewNamed)"
  have ok: "wq_ok ?q" by simp
  have g: "fst (wq_Get ?q) = Item 1" "wq_abs ?q = ({1, 2}, {}, False)" "wq_abs (snd (wq_Get ?q)) = ({2}, {1}, False)"
    by (auto simp: wq_Get_def wq_Add_def NewNamed_def wq_abs_def)
  have "wq_processing (wq_Add 1 (snd (wq_Get ?q))) = {1}"
    by (simp add: wq_Get_def wq_Add_def NewNamed_def)
  then show ?thesis
    using workqueue_refines_key_spec[of 1 ?q] workqueue_refines_key_spec[of 1 "snd (wq_Get ?q)"]
      workqueue_refines_key_spec[of 1 "wq_Add 1 (snd (wq_Get ?q))"] ok g
    by simp
qed

text \<open>C10: no key waits for ever: with \<open>n\<close> keys ahead of it, a queued key is among the next \<open>n + 1\<close> that \<open>Get\<close>
  hands out, whatever is added, finished or shut down in between.\<close>
theorem queued_key_is_served:
  assumes "k \<in> set (wq_queue q)" "ahead k q < length (filter (\<lambda>x. x = OpGet) ops)"
  shows "Item k \<in> set (fst (run_ops ops q))"
  using assms by (rule served_after_gets)

theorem queued_key_is_served_witness:
  "Item (7::nat) \<in> set (fst (run_ops [OpAdd 9, OpGet, OpShutDown, OpDone 3, OpGet]
     \<lparr> wq_queue = [3, 7], wq_dirty = {3, 7}, wq_processing = {}, wq_shuttingDown = False \<rparr>))"
  by (rule queued_key_is_served) (simp_all add: ahead_def)

text \<open>A key that is marked while a worker handles it is queued again when the worker finishes, whatever
  the result of the worker and the retry settings.\<close>
theorem marked_while_handled_is_requeued:
  assumes "k \<in> wq_processing (rq_q q)" "\<not> wq_shuttingDown (rq_q q)"
  shows "k \<in> set (wq_queue (rq_q (worker_finish retries forget now bucket k r (rq_Add k q))))"
proof -
  obtain q1 where "grows (rq_q (rq_Add k q)) q1"
    and "rq_q (worker_finish retries forget now bucket k r (rq_Add k q)) = wq_Done k q1"
    using worker_finish_queue[of "rq_Add k q"] by metis
  moreover have "k \<in> wq_dirty (rq_q (rq_Add k q))" using assms(2) by (simp add: rq_Add_def)
  ultimately show ?thesis by (auto simp: grows_def wq_Done_def Let_def)
qed

theorem marked_while_handled_is_requeued_witness:
  "''ns/db'' \<in> set (wq_queue (rq_q (worker_finish maxRetries True 0 0 ''ns/db'' (Inr ())
     (rq_Add ''ns/db'' (pl_queue pool_example)))))"
  by (rule marked_while_handled_is_requeued)
    (simp_all add: pool_example_def pool_init_def NewNamedRateLimitingQueue_def NewNamed_def rq_Add_def wq_Add_def wq_Get_def)

text \<open>C20: a worker retries a failing key at most \<open>maxRetries\<close> times before it drops it; the n-th retry waits
  5 ms times 2 to the n, so the longest wait of the resource queues is under 82 seconds.\<close>
theorem retries_are_bounded:
  assumes "(pool_step maxRetries forget False)\<^sup>*\<^sup>* (pool_init DefaultControllerRateLimiter) p"
  shows "NumRequeues k (pl_queue p) \<le> maxRetries \<and>
    NumRequeues k (worker_finish maxRetries forget now bucket k (Inl e) (pl_queue p)) =
      (if NumRequeues k (pl_queue p) < maxRetries then Suc (NumRequeues k (pl_queue p)) else 0) \<and>
    fst (rl_When k (rq_limiter (pl_queue p))) = 5 * millisecond * 2 ^ NumRequeues k (pl_queue p) \<and>
    (NumRequeues k (pl_queue p) < maxRetries \<longrightarrow> fst (rl_When k (rq_limiter (pl_queue p))) < 82 * 1000 * millisecond)"
proof -
  let ?n = "NumRequeues k (pl_queue p)"
  have n: "?n \<le> maxRetries"
    by (rule pool_reachable_requeues[OF assms])
      (simp add: DefaultControllerRateLimiter_def NewItemExponentialFailureRateLimiter_def)
  have d: "fst (rl_When k (rq_limiter (pl_queue p))) = 5 * millisecond * 2 ^ ?n"
    using default_delay[OF n, of "rq_limiter (pl_queue p)" k] pool_reachable_limits[OF assms]
    by (simp add: limits_def NumRequeues_def rl_NumRequeues_def DefaultControllerRateLimiter_def
        NewItemExponentialFailureRateLimiter_def)
  have "?n < maxRetries \<Longrightarrow> 5 * millisecond * 2 ^ ?n < 82 * 1000 * millisecond"
    using power_increasing[of ?n 14 "2::int"] by (simp add: maxRetries_def millisecond_def)
  then show ?thesis
    using n d by (auto simp: worker_finish_def Let_def)
qed

theorem retries_are_bounded_witness:
  "NumRequeues ''ns/db'' (pl_queue pool_example) \<le> maxRetries \<and>
   NumRequeues ''ns/db'' (worker_finish maxRetries True 0 0 ''ns/db'' (Inl (PlainError ''x'')) (pl_queue pool_example)) = 1 \<and>
   fst (rl_When ''ns/db'' (rq_limiter (pl_queue pool_example))) = 5 * millisecond"
proof -
  have "NumRequeues ''ns/db'' (pl_queue pool_example) = 0"
    by (simp add: pool_example_def pool_init_def NewNamedRateLimitingQueue_def NumRequeues_def rl_NumRequeues_def
        rq_Add_def DefaultControllerRateLimiter_def NewItemExponentialFailureRateLimiter_def Let_def)
  then show ?thesis
    using retries_are_bounded[OF pool_example_reachable, of "''ns/db''" True 0 0 "PlainError ''x''"]
    by (simp add: maxRetries_def)
qed

end
