(* ===== verification/SC_System.thy ===== *)
theory SC_System
  imports SC_BrokerFrame SC_InstanceTrace SC_Workqueue
begin

text \<open>
  The controller as a whole: the informer event handlers, the six queues with their workers, and the step
  relation in which clients of the API server, informers, workers, waiting loops and a shutdown take
  turns in any order.  A worker takes a key in one step and runs its reconciler in a later one, so any
  number of workers are under way at a time; the caches may be stale by any number of steps.
\<close>

section \<open>Queues and informer events\<close>

datatype queue_kind = BrokerQueue | ClassQueue | PlanQueue | InstanceQueue | BindingQueue | PollingQueue

record controller =
  ct_world :: world
  ct_pools :: "queue_kind \<Rightarrow> string pool"

definition upd_queue :: "queue_kind \<Rightarrow> (string rate_limiting_queue \<Rightarrow> string rate_limiting_queue) \<Rightarrow> controller \<Rightarrow> controller" where
  "upd_queue kind f c = c \<lparr> ct_pools := (ct_pools c)(kind :=
     (ct_pools c kind) \<lparr> pl_queue := f (pl_queue (ct_pools c kind)) \<rparr>) \<rparr>"

definition brokerAdd :: "ClusterServiceBroker \<Rightarrow> controller \<Rightarrow> controller" where
  "brokerAdd b = upd_queue BrokerQueue (rq_Add (meta_key (bk_Meta b)))"

definition brokerUpdate :: "ClusterServiceBroker \<Rightarrow> ClusterServiceBroker \<Rightarrow> controller \<Rightarrow> controller" where
  "brokerUpdate old new = brokerAdd new"

text \<open>A delete event is only logged, here and for the other resources.\<close>
definition brokerDelete :: "ClusterServiceBroker \<Rightarrow> controller \<Rightarrow> controller" where
  "brokerDelete b c = c"

definition serviceClassAdd :: "ServiceClass \<Rightarrow> controller \<Rightarrow> controller" where
  "serviceClassAdd sc = upd_queue ClassQueue (rq_Add (meta_key (sc_Meta sc)))"

definition serviceClassUpdate :: "ServiceClass \<Rightarrow> ServiceClass \<Rightarrow> controller \<Rightarrow> controller" where
  "serviceClassUpdate old new = serviceClassAdd new"

definition serviceClassDelete :: "ServiceClass \<Rightarrow> controller \<Rightarrow> controller" where
  "serviceClassDelete sc c = c"

definition reconcileServiceClassKey :: "string \<Rightarrow> (go_error + unit) io" where
  "reconcileServiceClassKey key = State_Monad.return (Inr ())"

definition servicePlanAdd :: "ServicePlan \<Rightarrow> controller \<Rightarrow> controller" where
  "servicePlanAdd sp = upd_queue PlanQueue (rq_Add (meta_key (sp_Meta sp)))"

definition servicePlanUpdate :: "ServicePlan \<Rightarrow> ServicePlan \<Rightarrow> controller \<Rightarrow> controller" where
  "servicePlanUpdate old new = servicePlanAdd new"

definition servicePlanDelete :: "ServicePlan \<Rightarrow> controller \<Rightarrow> controller" where
  "servicePlanDelete sp c = c"

definition reconcileServicePlanKey :: "string \<Rightarrow> (go_error + unit) io" where
  "reconcileServicePlanKey key = State_Monad.return (Inr ())"

definition instanceAdd :: "ServiceInstance \<Rightarrow> controller \<Rightarrow> controller" where
  "instanceAdd i = upd_queue InstanceQueue (rq_Add (meta_key (si_Meta i)))"

text \<open>An instance with an asynchronous operation is left to the polling queue.\<close>
definition instanceUpdate :: "ServiceInstance \<Rightarrow> ServiceInstance \<Rightarrow> controller \<Rightarrow> controller" where
  "instanceUpdate old new c = (if \<not> ist_AsyncOpInProgress (si_Status new) then instanceAdd new c else c)"

definition instanceDelete :: "ServiceInstance \<Rightarrow> controller \<Rightarrow> controller" where
  "instanceDelete i c = c"

definition bindingAdd :: "ServiceInstanceCredential \<Rightarrow> controller \<Rightarrow> controller" where
  "bindingAdd b = upd_queue BindingQueue (rq_Add (meta_key (cr_Meta b)))"

definition bindingUpdate :: "ServiceInstanceCredential \<Rightarrow> ServiceInstanceCredential \<Rightarrow> controller \<Rightarrow> controller" where
  "bindingUpdate old new = bindingAdd new"

definition bindingDelete :: "ServiceInstanceCredential \<Rightarrow> controller \<Rightarrow> controller" where
  "bindingDelete b c = c"

definition requeueServiceInstanceForPoll :: "string \<Rightarrow> controller \<Rightarrow> controller" where
  "requeueServiceInstanceForPoll key = upd_queue InstanceQueue (rq_Add key)"

section \<open>Workers\<close>

text \<open>The queues of \<open>NewController\<close>.\<close>
definition NewController :: "world \<Rightarrow> controller" where
  "NewController w = \<lparr> ct_world = w, ct_pools = (\<lambda>kind. pool_init
     (if kind = PollingQueue then pollingRateLimiter else DefaultControllerRateLimiter)) \<rparr>"

text \<open>The arguments with which \<open>Run\<close> creates the workers: whether a success clears the retry count, and the
  reconciler.  The poller's reconciler only adds to the instance queue.\<close>
definition forget_after_success :: "queue_kind \<Rightarrow> bool" where
  "forget_after_success kind \<longleftrightarrow> kind \<noteq> PollingQueue"

fun reconciler :: "env \<Rightarrow> queue_kind \<Rightarrow> string \<Rightarrow> (go_error + unit) io" where
  "reconciler E BrokerQueue key = reconcileClusterServiceBrokerKey E key"
| "reconciler E ClassQueue key = reconcileServiceClassKey key"
| "reconciler E PlanQueue key = reconcileServicePlanKey key"
| "reconciler E InstanceQueue key = reconcileServiceInstanceKey E key"
| "reconciler E BindingQueue key = reconcileServiceInstanceCredentialKey E key"
| "reconciler E PollingQueue key = State_Monad.return (Inr ())"

text \<open>The operations of a run on the polling queue, oldest first.\<close>
fun polling_action :: "go_time \<Rightarrow> action \<Rightarrow> string rate_limiting_queue \<Rightarrow> string rate_limiting_queue" where
  "polling_action now (PollingAddRateLimited key) q = AddRateLimited now 0 key q"
| "polling_action now (PollingForget key) q = Forget key q"
| "polling_action now _ q = q"

definition new_actions :: "world \<Rightarrow> world \<Rightarrow> action list" where
  "new_actions w w' = rev (take (length (w_log w') - length (w_log w)) (w_log w'))"

definition worker_begin :: "queue_kind \<Rightarrow> nat \<Rightarrow> controller \<Rightarrow> controller" where
  "worker_begin kind i c = (let p = ct_pools c kind in
     case wq_Get (rq_q (pl_queue p)) of
       (Item k, q') \<Rightarrow> c \<lparr> ct_pools := (ct_pools c)(kind :=
          p \<lparr> pl_queue := (pl_queue p) \<lparr> rq_q := q' \<rparr>, pl_busy := (pl_busy p)(i \<mapsto> k) \<rparr>) \<rparr>
     | (Shutdown, _) \<Rightarrow> c \<lparr> ct_pools := (ct_pools c)(kind := p \<lparr> pl_exited := insert i (pl_exited p) \<rparr>) \<rparr>
     | (Blocked, _) \<Rightarrow> c)"

definition worker_end :: "env \<Rightarrow> go_time \<Rightarrow> int \<Rightarrow> queue_kind \<Rightarrow> nat \<Rightarrow> string \<Rightarrow> controller \<Rightarrow> controller" where
  "worker_end E now bucket kind i key c =
     (let (r, w') = run_state (reconciler E kind key) (ct_world c);
          c1 = upd_queue PollingQueue (fold (polling_action now) (new_actions (ct_world c) w')) (c \<lparr> ct_world := w' \<rparr>);
          c2 = (if kind = PollingQueue then requeueServiceInstanceForPoll key c1 else c1);
          p = ct_pools c2 kind
      in c2 \<lparr> ct_pools := (ct_pools c2)(kind :=
           p \<lparr> pl_queue := worker_finish maxRetries (forget_after_success kind) now bucket key r (pl_queue p),
               pl_busy := (pl_busy p)(i := None) \<rparr>) \<rparr>)"

section \<open>Steps of the system\<close>

text \<open>A request of some client of the API server, through any endpoint of the registry.\<close>
inductive client_request :: "env \<Rightarrow> world \<Rightarrow> world \<Rightarrow> bool" for E where
  "client_request E w (w \<lparr> w_instances := snd (Create (instanceRESTStrategies (ev_yaml E) (ev_OriginatingIdentity E)) ctx uid i (w_instances w)) \<rparr>)"
| "client_request E w (w \<lparr> w_instances := snd (Update (instanceRESTStrategies (ev_yaml E) (ev_OriginatingIdentity E)) ctx k i (w_instances w)) \<rparr>)"
| "client_request E w (w \<lparr> w_instances := snd (Update (instanceStatusUpdateStrategy (ev_yaml E) (ev_OriginatingIdentity E)) ctx k i (w_instances w)) \<rparr>)"
| "client_request E w (w \<lparr> w_instances := snd (Delete (instanceRESTStrategies (ev_yaml E) (ev_OriginatingIdentity E)) ctx now k opts (w_instances w)) \<rparr>)"
| "client_request E w (w \<lparr> w_credentials := snd (Create (bindingRESTStrategies (ev_yaml E) (ev_OriginatingIdentity E)) ctx uid b (w_credentials w)) \<rparr>)"
| "client_request E w (w \<lparr> w_credentials := snd (Update (bindingRESTStrategies (ev_yaml E) (ev_OriginatingIdentity E)) ctx k b (w_credentials w)) \<rparr>)"
| "client_request E w (w \<lparr> w_credentials := snd (Update (bindingStatusUpdateStrategy (ev_yaml E) (ev_OriginatingIdentity E)) ctx k b (w_credentials w)) \<rparr>)"
| "client_request E w (w \<lparr> w_credentials := snd (Delete (bindingRESTStrategies (ev_yaml E) (ev_OriginatingIdentity E)) ctx now k opts (w_credentials w)) \<rparr>)"
| "client_request E w (w \<lparr> w_brokers := snd (Create brokerRESTStrategies ctx uid br (w_brokers w)) \<rparr>)"
| "client_request E w (w \<lparr> w_brokers := snd (Update brokerRESTStrategies ctx k br (w_brokers w)) \<rparr>)"
| "client_request E w (w \<lparr> w_brokers := snd (Update brokerStatusUpdateStrategy ctx k br (w_brokers w)) \<rparr>)"
| "client_request E w (w \<lparr> w_brokers := snd (Delete brokerRESTStrategies ctx now k opts (w_brokers w)) \<rparr>)"
| "client_request E w (w \<lparr> w_classes := snd (Delete serviceclassRESTStrategies ctx now k opts (w_classes w)) \<rparr>)"
| "client_request E w (w \<lparr> w_plans := snd (Delete serviceplanRESTStrategies ctx now k opts (w_plans w)) \<rparr>)"
| "client_request E w (w \<lparr> w_secrets := snd (Create secretStrategy ctx uid s (w_secrets w)) \<rparr>)"
| "client_request E w (w \<lparr> w_secrets := snd (Update secretStrategy ctx k s (w_secrets w)) \<rparr>)"
| "client_request E w (w \<lparr> w_secrets := snd (Delete secretStrategy ctx now k opts (w_secrets w)) \<rparr>)"

text \<open>An informer replaces the cached copy of one object by the stored one and runs the handler, or drops
  the copy of an object that is gone.\<close>
definition recache :: "('a \<Rightarrow> ObjectMeta) \<Rightarrow> 'a \<Rightarrow> 'a list \<Rightarrow> 'a list" where
  "recache meta x xs = x # filter (\<lambda>y. meta_key (meta y) \<noteq> meta_key (meta x)) xs"

definition uncache :: "('a \<Rightarrow> ObjectMeta) \<Rightarrow> 'a \<Rightarrow> 'a list \<Rightarrow> 'a list" where
  "uncache meta x xs = filter (\<lambda>y. meta_key (meta y) \<noteq> meta_key (meta x)) xs"

definition upd_world :: "(world \<Rightarrow> world) \<Rightarrow> controller \<Rightarrow> controller" where
  "upd_world f c = c \<lparr> ct_world := f (ct_world c) \<rparr>"

inductive informer_event :: "controller \<Rightarrow> controller \<Rightarrow> bool" where
  "st_objs (w_instances (ct_world c)) k = Some i \<Longrightarrow> c' = instanceAdd i c \<or> c' = instanceUpdate old i c \<Longrightarrow>
     informer_event c (upd_world (\<lambda>w. w \<lparr> w_instanceCache := recache si_Meta i (w_instanceCache w) \<rparr>) c')"
| "informer_event c (upd_world (\<lambda>w. w \<lparr> w_instanceCache := uncache si_Meta i (w_instanceCache w) \<rparr>) (instanceDelete i c))"
| "st_objs (w_credentials (ct_world c)) k = Some b \<Longrightarrow> c' = bindingAdd b c \<or> c' = bindingUpdate oldb b c \<Longrightarrow>
     informer_event c (upd_world (\<lambda>w. w \<lparr> w_credentialCache := recache cr_Meta b (w_credentialCache w) \<rparr>) c')"
| "informer_event c (upd_world (\<lambda>w. w \<lparr> w_credentialCache := uncache cr_Meta b (w_credentialCache w) \<rparr>) (bindingDelete b c))"
| "st_objs (w_brokers (ct_world c)) k = Some br \<Longrightarrow> c' = brokerAdd br c \<or> c' = brokerUpdate oldbr br c \<Longrightarrow>
     informer_event c (upd_world (\<lambda>w. w \<lparr> w_brokerCache := recache bk_Meta br (w_brokerCache w) \<rparr>) c')"
| "informer_event c (upd_world (\<lambda>w. w \<lparr> w_brokerCache := uncache bk_Meta br (w_brokerCache w) \<rparr>) (brokerDelete br c))"
| "st_objs (w_classes (ct_world c)) k = Some sc \<Longrightarrow> c' = serviceClassAdd sc c \<or> c' = serviceClassUpdate oldsc sc c \<Longrightarrow>
     informer_event c (upd_world (\<lambda>w. w \<lparr> w_classCache := recache sc_Meta sc (w_classCache w) \<rparr>) c')"
| "informer_event c (upd_world (\<lambda>w. w \<lparr> w_classCache := uncache sc_Meta sc (w_classCache w) \<rparr>) (serviceClassDelete sc c))"
| "st_objs (w_plans (ct_world c)) k = Some sp \<Longrightarrow> c' = servicePlanAdd sp c \<or> c' = servicePlanUpdate oldsp sp c \<Longrightarrow>
     informer_event c (upd_world (\<lambda>w. w \<lparr> w_planCache := recache sp_Meta sp (w_planCache w) \<rparr>) c')"
| "informer_event c (upd_world (\<lambda>w. w \<lparr> w_planCache := uncache sp_Meta sp (w_planCache w) \<rparr>) (servicePlanDelete sp c))"

inductive system_step :: "env \<Rightarrow> controller \<Rightarrow> controller \<Rightarrow> bool" for E where
  step_client: "client_request E (ct_world c) w' \<Longrightarrow> system_step E c (c \<lparr> ct_world := w' \<rparr>)"
| step_informer: "informer_event c c' \<Longrightarrow> system_step E c c'"
| step_begin: "pl_busy (ct_pools c kind) i = None \<Longrightarrow> i \<notin> pl_exited (ct_pools c kind) \<Longrightarrow>
    system_step E c (worker_begin kind i c)"
| step_end: "pl_busy (ct_pools c kind) i = Some key \<Longrightarrow> system_step E c (worker_end E now bucket kind i key c)"
| step_turn: "system_step E c (upd_queue kind (waitingLoop_turn now now') c)"
| step_shutdown: "system_step E c (upd_queue kind (\<lambda>q. q \<lparr> rq_q := wq_ShutDown (rq_q q) \<rparr>) c)"

section \<open>Reconcilers keep the stores valid and the caches alone\<close>

definition caches :: "world \<Rightarrow> ServiceInstance list \<times> ServiceInstanceCredential list \<times> ClusterServiceBroker list \<times>
    ServiceClass list \<times> ServicePlan list" where
  "caches w = (w_instanceCache w, w_credentialCache w, w_brokerCache w, w_classCache w, w_planCache w)"

definition sound_step :: "env \<Rightarrow> world \<Rightarrow> world \<Rightarrow> bool" where
  "sound_step E w w' \<longleftrightarrow> (world_ok E w \<longrightarrow> world_ok E w' \<and> caches w' = caches w)"

interpretation sound: client_relation "sound_step E" E "\<lambda>_. True" for E
  by unfold_locales (auto simp: sound_step_def caches_def)

lemma keeps_sound:
  "keeps (inv_rel (world_ok E)) m \<Longrightarrow> (\<And>w. world_ok E w \<Longrightarrow> caches (snd (run_state m w)) = caches w) \<Longrightarrow> keeps (sound_step E) m"
  by (simp add: keeps_def sound_step_def inv_rel_def)

lemma sound_reconcileServiceInstance [keeps_intros]: "keeps (sound_step E) (reconcileServiceInstance E i)"
  using inst_ok.keeps_reconcileServiceInstance[of i "inst_key i" E] inst_frame.keeps_reconcileServiceInstance[of i "inst_key i" E]
  by (intro keeps_sound) (simp_all add: keeps_def instance_frame_def caches_def)

lemma sound_reconcileServiceInstanceCredential [keeps_intros]:
  "keeps (sound_step E) (reconcileServiceInstanceCredential E b)"
  using cred_ok.keeps_reconcileServiceInstanceCredential[of b "cred_key b" "crs_SecretName (cr_Spec b)" E]
    cred_step.keeps_reconcileServiceInstanceCredential[of b "cred_key b" "crs_SecretName (cr_Spec b)" E]
  by (intro keeps_sound) (simp_all add: keeps_def binding_step_def binding_frame_def caches_def)

lemma sound_reconcileClusterServiceBroker [keeps_intros]: "keeps (sound_step E) (reconcileClusterServiceBroker E b)"
  using broker_ok.keeps_reconcileClusterServiceBroker[of b "om_Name (bk_Meta b)" E]
    broker_fr.keeps_reconcileClusterServiceBroker[of b "om_Name (bk_Meta b)" E]
  by (intro keeps_sound) (simp_all add: keeps_def broker_step_def broker_frame_def caches_def)

lemma sound_reconciler: "keeps (sound_step E) (reconciler E kind key)"
  by (cases kind)
    (auto simp: reconcileClusterServiceBrokerKey_def reconcileServiceClassKey_def reconcileServicePlanKey_def
      reconcileServiceInstanceKey_def reconcileServiceInstanceCredentialKey_def intro!: keeps_intros split: sum.split)

section \<open>The invariant\<close>

text \<open>Every cached object was stored, hence valid.\<close>
definition caches_ok :: "env \<Rightarrow> world \<Rightarrow> bool" where
  "caches_ok E w \<longleftrightarrow>
     (\<forall>i \<in> set (w_instanceCache w). instance_valid (ev_yaml E) i) \<and>
     (\<forall>b \<in> set (w_credentialCache w). credential_valid (ev_yaml E) b) \<and>
     (\<forall>b \<in> set (w_brokerCache w). broker_valid b) \<and>
     (\<forall>c \<in> set (w_classCache w). class_valid c) \<and> (\<forall>p \<in> set (w_planCache w). plan_valid p)"

definition pools_ok :: "controller \<Rightarrow> bool" where
  "pools_ok c \<longleftrightarrow> (\<forall>kind. wq.exclusive (pl_busy (ct_pools c kind)) (rq_q (pl_queue (ct_pools c kind))))"

definition retries_ok :: "controller \<Rightarrow> bool" where
  "retries_ok c \<longleftrightarrow> (\<forall>kind key. kind \<noteq> PollingQueue \<longrightarrow> NumRequeues key (pl_queue (ct_pools c kind)) \<le> maxRetries)"

definition system_ok :: "env \<Rightarrow> controller \<Rightarrow> bool" where
  "system_ok E c \<longleftrightarrow> world_ok E (ct_world c) \<and> caches_ok E (ct_world c) \<and> pools_ok c \<and> retries_ok c"

lemma caches_ok_cong: "caches w' = caches w \<Longrightarrow> caches_ok E w' = caches_ok E w"
  by (simp add: caches_def caches_ok_def)

lemma client_request_ok: "client_request E w w' \<Longrightarrow> world_ok E w \<Longrightarrow> world_ok E w' \<and> caches w' = caches w"
  by (induction rule: client_request.induct)
    (simp_all add: world_ok_def caches_def inst_store.Create_store_ok inst_store.Update_store_ok inst_store.Delete_store_ok
      inst_status_store.Update_store_ok[unfolded store_ok_subresource]
      cred_store.Create_store_ok cred_store.Update_store_ok cred_store.Delete_store_ok
      cred_status_store.Update_store_ok[unfolded store_ok_subresource]
      broker_store.Create_store_ok broker_store.Update_store_ok broker_store.Delete_store_ok
      broker_status_store.Update_store_ok[unfolded store_ok_subresource]
      class_store.Delete_store_ok plan_store.Delete_store_ok
      secret_store.Create_store_ok secret_store.Update_store_ok secret_store.Delete_store_ok)

lemma world_ok_caches [simp]:
  "world_ok E (w \<lparr> w_instanceCache := ic \<rparr>) = world_ok E w" "world_ok E (w \<lparr> w_credentialCache := cc \<rparr>) = world_ok E w"
  "world_ok E (w \<lparr> w_brokerCache := bc \<rparr>) = world_ok E w" "world_ok E (w \<lparr> w_classCache := sc \<rparr>) = world_ok E w"
  "world_ok E (w \<lparr> w_planCache := pc \<rparr>) = world_ok E w"
  by (simp_all add: world_ok_def)

lemma stored_valid:
  assumes "world_ok E w"
  shows "st_objs (w_instances w) k = Some i \<Longrightarrow> instance_valid (ev_yaml E) i"
    and "st_objs (w_credentials w) k = Some b \<Longrightarrow> credential_valid (ev_yaml E) b"
    and "st_objs (w_brokers w) k = Some br \<Longrightarrow> broker_valid br"
    and "st_objs (w_classes w) k = Some c \<Longrightarrow> class_valid c"
    and "st_objs (w_plans w) k = Some p \<Longrightarrow> plan_valid p"
  using assms by (auto simp: world_ok_def dest: store_okD)

subsection \<open>Pools\<close>

lemma pools_ok_upd_queue: "pools_ok c \<Longrightarrow> (\<And>q. grows (rq_q q) (rq_q (f q))) \<Longrightarrow> pools_ok (upd_queue kind f c)"
  by (simp add: pools_ok_def upd_queue_def) (metis exclusive_grows)

lemma upd_queue_world [simp]: "ct_world (upd_queue kind f c) = ct_world c"
  by (simp add: upd_queue_def)

lemma retries_ok_upd_queue:
  "retries_ok c \<Longrightarrow> kind = PollingQueue \<or> (\<forall>q key. NumRequeues key (f q) = NumRequeues key q) \<Longrightarrow> retries_ok (upd_queue kind f c)"
  by (auto simp: retries_ok_def upd_queue_def)

lemma grows_rq_Add: "grows (rq_q q) (rq_q (rq_Add k q))"
  by (simp add: rq_Add_def grows_Add)

lemma grows_polling_action: "grows (rq_q q) (rq_q (polling_action now a q))"
  by (cases a) (simp_all add: grows_AddRateLimited)

lemma grows_polling_actions: "grows (rq_q q) (rq_q (fold (polling_action now) as q))"
proof (induction as arbitrary: q)
  case (Cons a as)
  then show ?case using grows_polling_action[of q now a] grows_trans by fastforce
qed simp

lemmas queue_event_defs = instanceAdd_def instanceUpdate_def instanceDelete_def bindingAdd_def bindingUpdate_def
  bindingDelete_def brokerAdd_def brokerUpdate_def brokerDelete_def serviceClassAdd_def serviceClassUpdate_def
  serviceClassDelete_def servicePlanAdd_def servicePlanUpdate_def servicePlanDelete_def requeueServiceInstanceForPoll_def

lemma pools_ok_world [simp]: "pools_ok (upd_world f c) = pools_ok c" "pools_ok (c \<lparr> ct_world := w \<rparr>) = pools_ok c"
  and retries_ok_world [simp]: "retries_ok (upd_world f c) = retries_ok c" "retries_ok (c \<lparr> ct_world := w \<rparr>) = retries_ok c"
  by (simp_all add: pools_ok_def retries_ok_def upd_world_def)

lemma informer_event_ok:
  "informer_event c c' \<Longrightarrow> system_ok E c \<Longrightarrow> system_ok E c'"
proof (induction rule: informer_event.induct)
qed (auto simp: system_ok_def queue_event_defs upd_world_def caches_ok_def recache_def uncache_def stored_valid
    intro!: pools_ok_upd_queue retries_ok_upd_queue grows_rq_Add split: if_splits)

lemma begin_ok:
  assumes "pools_ok c" "pl_busy (ct_pools c kind) i = None"
  shows "pools_ok (worker_begin kind i c)"
proof -
  let ?p = "ct_pools c kind"
  obtain g q' where g: "wq_Get (rq_q (pl_queue ?p)) = (g, q')" by force
  have ex: "wq.exclusive (pl_busy ?p) (rq_q (pl_queue ?p))" using assms(1) by (simp add: pools_ok_def)
  show ?thesis
  proof (cases g)
    case (Item k)
    have "wq.exclusive ((pl_busy ?p)(i \<mapsto> k)) q'" using wq.exclusive_get[OF ex g[unfolded Item] assms(2)] .
    then show ?thesis using assms(1) g Item by (simp add: worker_begin_def Let_def pools_ok_def)
  qed (use assms(1) g in \<open>simp_all add: worker_begin_def Let_def pools_ok_def\<close>)
qed

lemma begin_retries: "retries_ok c \<Longrightarrow> retries_ok (worker_begin kind i c)"
  by (auto simp: worker_begin_def Let_def retries_ok_def split: prod.split got.split)

lemma begin_world: "ct_world (worker_begin kind i c) = ct_world c"
  by (simp add: worker_begin_def Let_def split: prod.split got.split)

lemma end_decompose:
  obtains r w' c2 where "run_state (reconciler E kind key) (ct_world c) = (r, w')"
    and "worker_end E now bucket kind i key c = c2 \<lparr> ct_pools := (ct_pools c2)(kind := (ct_pools c2 kind)
           \<lparr> pl_queue := worker_finish maxRetries (forget_after_success kind) now bucket key r (pl_queue (ct_pools c2 kind)),
             pl_busy := (pl_busy (ct_pools c2 kind))(i := None) \<rparr>) \<rparr>"
    and "ct_world c2 = w'" and "\<And>knd. pl_busy (ct_pools c2 knd) = pl_busy (ct_pools c knd)"
    and "pools_ok c \<Longrightarrow> pools_ok c2" and "retries_ok c \<Longrightarrow> retries_ok c2"
proof -
  obtain r w' where run: "run_state (reconciler E kind key) (ct_world c) = (r, w')" by force
  let ?c1 = "upd_queue PollingQueue (fold (polling_action now) (new_actions (ct_world c) w')) (c \<lparr> ct_world := w' \<rparr>)"
  let ?c2 = "if kind = PollingQueue then requeueServiceInstanceForPoll key ?c1 else ?c1"
  show thesis
  proof (rule that[of r w' ?c2])
    show "pl_busy (ct_pools ?c2 knd) = pl_busy (ct_pools c knd)" for knd
      by (simp add: upd_queue_def requeueServiceInstanceForPoll_def)
    show "pools_ok c \<Longrightarrow> pools_ok ?c2"
      by (auto simp: requeueServiceInstanceForPoll_def intro!: pools_ok_upd_queue grows_polling_actions grows_rq_Add)
    show "retries_ok c \<Longrightarrow> retries_ok ?c2"
      by (auto simp: requeueServiceInstanceForPoll_def intro!: retries_ok_upd_queue)
  qed (simp_all add: run worker_end_def Let_def requeueServiceInstanceForPoll_def)
qed

lemma end_ok:
  assumes "pools_ok c" "pl_busy (ct_pools c kind) i = Some key"
  shows "pools_ok (worker_end E now bucket kind i key c)"
proof -
  obtain r w' c2 where e: "worker_end E now bucket kind i key c = c2 \<lparr> ct_pools := (ct_pools c2)(kind := (ct_pools c2 kind)
      \<lparr> pl_queue := worker_finish maxRetries (forget_after_success kind) now bucket key r (pl_queue (ct_pools c2 kind)),
        pl_busy := (pl_busy (ct_pools c2 kind))(i := None) \<rparr>) \<rparr>"
    and b: "pl_busy (ct_pools c2 kind) = pl_busy (ct_pools c kind)" and ok: "pools_ok c2"
    using assms(1) by (rule_tac end_decompose[of E kind key c now bucket i]) blast
  obtain q1 where q1: "grows (rq_q (pl_queue (ct_pools c2 kind))) q1"
    "rq_q (worker_finish maxRetries (forget_after_success kind) now bucket key r (pl_queue (ct_pools c2 kind))) = wq_Done key q1"
    using worker_finish_queue[of "pl_queue (ct_pools c2 kind)"] by metis
  have "wq.exclusive (pl_busy (ct_pools c2 kind)) q1"
    using ok q1(1) exclusive_grows by (auto simp: pools_ok_def)
  then have "wq.exclusive ((pl_busy (ct_pools c2 kind))(i := None)) (wq_Done key q1)"
    using assms(2) b by (simp add: wq.exclusive_back)
  then show ?thesis using ok e q1(2) by (simp add: pools_ok_def)
qed

lemma end_retries: "retries_ok c \<Longrightarrow> retries_ok (worker_end E now bucket kind i key c)"
  by (rule end_decompose[of E kind key c now bucket i]) (auto simp: retries_ok_def NumRequeues_finish)

lemma end_world:
  assumes "world_ok E (ct_world c)" "caches_ok E (ct_world c)"
  shows "world_ok E (ct_world (worker_end E now bucket kind i key c))" "caches_ok E (ct_world (worker_end E now bucket kind i key c))"
proof -
  let ?w = "snd (run_state (reconciler E kind key) (ct_world c))"
  have w: "ct_world (worker_end E now bucket kind i key c) = ?w"
    by (rule end_decompose[of E kind key c now bucket i]) simp
  have "world_ok E ?w \<and> caches ?w = caches (ct_world c)"
    using sound_reconciler[of E kind key] assms(1) by (simp add: keeps_def sound_step_def)
  then show "world_ok E (ct_world (worker_end E now bucket kind i key c))" "caches_ok E (ct_world (worker_end E now bucket kind i key c))"
    using assms(2) caches_ok_cong[of ?w "ct_world c" E] by (simp_all add: w)
qed

lemma system_step_ok: "system_step E c c' \<Longrightarrow> system_ok E c \<Longrightarrow> system_ok E c'"
proof (induction rule: system_step.induct)
  case (step_client c w')
  then show ?case using client_request_ok[OF step_client(1)] caches_ok_cong[of w' "ct_world c" E] by (auto simp: system_ok_def)
next
  case (step_informer c c')
  then show ?case by (rule informer_event_ok)
next
  case (step_begin c kind i)
  then show ?case by (simp add: system_ok_def begin_ok begin_retries begin_world)
next
  case (step_end c kind i key now bucket)
  then show ?case by (simp add: system_ok_def end_ok end_retries end_world)
next
  case (step_turn c kind now now')
  then show ?case by (simp add: system_ok_def pools_ok_upd_queue grows_turn retries_ok_upd_queue)
next
  case (step_shutdown c kind)
  then show ?case
    by (simp add: system_ok_def pools_ok_upd_queue retries_ok_upd_queue) (simp add: grows_def pools_ok_upd_queue)
qed

end
