(* ===== verification/SC_ApiProps.thy ===== *)
theory SC_ApiProps
  imports SC_Strategies
begin

text \<open>
  What the clients of the API server may rely on: concurrent updates are not lost, the endpoints of an
  instance write disjoint parts of it besides finalizers and owner references, and an object that is deleted
  stays until its last finalizer is removed.
\<close>

section \<open>Revisions\<close>

context strategy_contract
begin

text \<open>A write that changes the store leaves no object under the key or one of a new revision.\<close>
lemma Update_rev:
  assumes "Update S ctx k obj st = (Inr out, st')" "st' \<noteq> st"
  shows "\<forall>x. st_objs st' k = Some x \<longrightarrow> om_ResourceVersion (rs_meta S x) = Suc (st_rev st)"
proof -
  obtain existing new where u: "st_objs st k = Some existing"
    "if shouldDeleteDuringUpdate S new existing then out = new \<and> st' = remove_object k st
     else (out, st') = write_object S k existing new st"
    using Update_ok[OF assms(1)] by metis
  show ?thesis
  proof (cases "shouldDeleteDuringUpdate S new existing")
    case True
    then show ?thesis using u by simp
  next
    case False
    then have "write_object S k existing new st = (out, st')" using u(2) by simp
    then show ?thesis using write_object_result[OF _ u(1)] assms(2) by fastforce
  qed
qed

text \<open>An update that changes nothing returns the stored object.\<close>
lemma Update_noop: "Update S ctx k obj st = (Inr out, st) \<Longrightarrow> st_objs st k = Some out"
proof -
  assume "Update S ctx k obj st = (Inr out, st)"
  then obtain existing new where u: "st_objs st k = Some existing"
    "if shouldDeleteDuringUpdate S new existing then out = new \<and> st = remove_object k st
     else (out, st) = write_object S k existing new st"
    using Update_ok[of ctx k obj st out st] by metis
  have "st \<noteq> remove_object k st" using u(1) st_rev_remove[of k st] by (metis n_not_Suc_n)
  then have "write_object S k existing new st = (out, st)" using u(2) by (metis (full_types))
  then show ?thesis using write_object_result[of k existing new st out st] u(1) by blast
qed

text \<open>An update that carries another revision than the stored one has no effect.\<close>
lemma Update_stale:
  assumes "\<And>x. st_objs st k = Some x \<Longrightarrow> om_ResourceVersion (rs_meta S x) \<noteq> om_ResourceVersion (rs_meta S obj)"
    and "om_ResourceVersion (rs_meta S obj) \<noteq> 0"
  shows "\<exists>e. Update S ctx k obj st = (Inl e, st) \<and> (IsConflict e \<or> IsNotFound e)"
  using assms by (auto simp: Update_def NewConflict_def NewNotFound_def IsConflict_def IsNotFound_def split: option.split)

text \<open>An accepted update is a no-op, or its revision is outdated afterwards.\<close>
lemma Update_outdates:
  assumes "store_ok S valid st" "Update S ctx k obj st = (Inr out, st')"
  shows "st' = st \<and> st_objs st k = Some out \<or>
    om_ResourceVersion (rs_meta S obj) \<noteq> 0 \<and>
    (\<forall>x. st_objs st' k = Some x \<longrightarrow> om_ResourceVersion (rs_meta S x) \<noteq> om_ResourceVersion (rs_meta S obj))"
proof (cases "st' = st")
  case True
  then show ?thesis using Update_noop assms(2) by blast
next
  case False
  obtain old where old: "st_objs st k = Some old" "om_ResourceVersion (rs_meta S obj) = om_ResourceVersion (rs_meta S old)"
    using Update_ok[OF assms(2)] by metis
  have "om_ResourceVersion (rs_meta S obj) \<le> st_rev st" using store_okD[OF assms(1) old(1)] old(2) by simp
  moreover have "om_ResourceVersion (rs_meta S obj) \<noteq> 0" using assms(2) old(1) by (auto simp: Update_def split: if_splits)
  ultimately show ?thesis using Update_rev[OF assms(2) False] by auto
qed

text \<open>Owner references are written as given.\<close>
lemma BeforeUpdate_owners:
  assumes "BeforeUpdate S ctx obj old = Inr new"
  shows "om_OwnerReferences (rs_meta S new) = om_OwnerReferences (rs_meta S obj)"
proof -
  obtain obj1 where obj1: "settle_namespace S ctx obj = Inr obj1"
    using assms by (auto simp: BeforeUpdate_def bind_result_eq_Inr)
  then obtain ns where ns: "obj1 = upd_meta S (\<lambda>m. m \<lparr> om_Namespace := ns \<rparr>) obj"
    using settle_namespace_meta by blast
  define obj2 where "obj2 = upd_meta S (\<lambda>m. m \<lparr> om_Generation := om_Generation (rs_meta S old) \<rparr>) obj1"
  obtain g where "rs_meta S (rs_PrepareForUpdate S ctx obj2 old) = (rs_meta S obj2) \<lparr> om_Generation := g \<rparr>"
    using prepare_update_meta[of obj2 old ctx] by (auto simp: obj2_def)
  moreover have "new = upd_meta S (\<lambda>m. RepairObjectMeta m (rs_meta S old)) (rs_PrepareForUpdate S ctx obj2 old)"
    using assms obj1 by (auto simp: BeforeUpdate_def bind_result_eq_Inr Let_def obj2_def split: if_splits)
  ultimately show ?thesis by (simp add: RepairObjectMeta_def obj2_def ns)
qed

lemma Update_gone_iff:
  assumes ok: "store_ok S valid st" and gc: "rs_EnableGarbageCollection S"
    and u: "Update S ctx k obj st = (Inr out, st')" and old: "st_objs st k = Some old"
  shows "st_objs st' k = None \<longleftrightarrow> om_DeletionTimestamp (rs_meta S old) \<noteq> None \<and> om_Finalizers (rs_meta S obj) = []"
proof -
  obtain new where n: "BeforeUpdate S ctx obj old = Inr new"
    "if shouldDeleteDuringUpdate S new old then out = new \<and> st' = remove_object k st
     else (out, st') = write_object S k old new st"
    using Update_ok[OF u] old by (metis option.inject)
  have "shouldDeleteDuringUpdate S new old \<longleftrightarrow>
      om_DeletionTimestamp (rs_meta S old) \<noteq> None \<and> om_Finalizers (rs_meta S obj) = []"
    using gc BeforeUpdate_ok(6)[OF n(1)] store_okD[OF ok old] by (auto simp: shouldDeleteDuringUpdate_def deletion_ok_def)
  moreover have "\<not> shouldDeleteDuringUpdate S new old \<Longrightarrow> st_objs st' k = Some out"
    using n(2) write_object_result[of k old new st out st'] old by simp
  ultimately show ?thesis using n(2) by (auto split: if_splits)
qed

end

section \<open>Deletion\<close>

lemma other_finalizer_kept:
  "f \<noteq> FinalizerOrphanDependents \<Longrightarrow> f \<noteq> FinalizerDeleteDependents \<Longrightarrow> f \<in> set fs \<Longrightarrow>
   f \<in> set (snd (shouldUpdateFinalizers fs opts))"
  by (auto simp: shouldUpdateFinalizers_def Let_def)

lemma catalog_finalizer_other:
  "FinalizerServiceCatalog \<noteq> FinalizerOrphanDependents" "FinalizerServiceCatalog \<noteq> FinalizerDeleteDependents"
  by (simp_all add: FinalizerServiceCatalog_def FinalizerOrphanDependents_def FinalizerDeleteDependents_def)

text \<open>What \<open>BeforeDelete\<close> makes of a stored instance.\<close>
lemma instance_BeforeDelete:
  assumes "BeforeDelete (instanceRESTStrategies yaml oi) ctx now opts i = Inr (j, graceful, pending, g)"
    and "deletion_ok True (si_Meta i)"
  shows "\<not> graceful \<and> \<not> pending \<and> si_Meta j = si_Meta i \<and> si_Status j = si_Status i"
  using assms
  by (auto simp: BeforeDelete_def instanceRESTStrategies_def instance_CheckGracefulDelete_def deletion_ok_def Let_def
      setServiceInstanceUserInfo_def split: if_splits option.splits prod.splits)

lemma instance_Delete_marks:
  fixes yaml oi
  defines "S \<equiv> instanceRESTStrategies yaml oi"
  assumes ok: "deletion_ok True (si_Meta i)" and i: "st_objs st k = Some i"
    and f: "FinalizerServiceCatalog \<in> set (om_Finalizers (si_Meta i))"
    and d: "Delete S ctx now k opts st = (r, st')"
  shows "\<exists>i'. st_objs st' k = Some i' \<and> si_Status i' = si_Status i \<and>
    FinalizerServiceCatalog \<in> set (om_Finalizers (si_Meta i')) \<and> (r = Inr () \<longrightarrow> om_DeletionTimestamp (si_Meta i') \<noteq> None)"
proof (cases "BeforeDelete S ctx now opts i")
  case (Inl e)
  then show ?thesis using d i f by (auto simp: Delete_def)
next
  case (Inr t)
  obtain j graceful pending g where t: "t = (j, graceful, pending, g)" by (metis prod_cases4)
  have S [simp]: "rs_meta S = si_Meta" "rs_EnableGarbageCollection S" "rs_set_meta S = (\<lambda>m i. i \<lparr> si_Meta := m \<rparr>)"
    by (simp_all add: S_def instanceRESTStrategies_def)
  have j: "\<not> graceful" "\<not> pending" "si_Meta j = si_Meta i" "si_Status j = si_Status i"
    using instance_BeforeDelete[of yaml oi ctx now opts i j graceful pending g] Inr t ok by (simp_all add: S_def)
  obtain upd fs where fs: "shouldUpdateFinalizers (om_Finalizers (si_Meta j)) opts = (upd, fs)" by force
  let ?j1 = "if upd then upd_meta S (\<lambda>m. m \<lparr> om_Finalizers := fs \<rparr>) j else j"
  let ?m = "markAsDeleting S now ?j1"
  have f1: "FinalizerServiceCatalog \<in> set (om_Finalizers (si_Meta ?j1))"
    using other_finalizer_kept[OF catalog_finalizer_other, of "om_Finalizers (si_Meta j)" opts] fs f j
    by (auto simp: upd_meta_def)
  then have ne: "om_Finalizers (si_Meta ?j1) \<noteq> []" by auto
  have "om_Finalizers (si_Meta j) \<noteq> []" using f j by auto
  then have D: "Delete S ctx now k opts st = (Inr (), snd (write_object S k i ?m st))"
    using i Inr t j fs ne
    by (auto simp: Delete_def updateForGracefulDeletionAndFinalizers_def)
  obtain out st2 where w: "write_object S k i ?m st = (out, st2)" by force
  have st2: "st_objs st2 k = Some out"
    and out: "out = upd_meta S (\<lambda>m. m \<lparr> om_ResourceVersion := om_ResourceVersion (rs_meta S out) \<rparr>) ?m"
    using inst_store.write_object_result[of yaml oi k i ?m st out st2] w i unfolding S_def by blast+
  have o: "si_Status out = si_Status ?m" "om_Finalizers (si_Meta out) = om_Finalizers (si_Meta ?m)"
      "om_DeletionTimestamp (si_Meta out) = om_DeletionTimestamp (si_Meta ?m)"
    by (subst out, simp add: upd_meta_def)+
  have "si_Status ?m = si_Status i" "om_DeletionTimestamp (si_Meta ?m) \<noteq> None"
    "om_Finalizers (si_Meta ?m) = om_Finalizers (si_Meta ?j1)"
    using j by (simp_all add: markAsDeleting_def upd_meta_def)
  then show ?thesis using st2 o f1 D d w by auto
qed

section \<open>What the endpoints write\<close>

text \<open>The metadata that an accepted update stores: finalizers and owner references are the writer's.\<close>
definition meta_written :: "ObjectMeta \<Rightarrow> ObjectMeta \<Rightarrow> nat \<Rightarrow> ObjectMeta" where
  "meta_written old new rv = old \<lparr> om_ResourceVersion := rv, om_Finalizers := om_Finalizers new, om_OwnerReferences := om_OwnerReferences new \<rparr>"

lemma instance_status_BeforeUpdate:
  assumes "BeforeUpdate (instanceStatusUpdateStrategy yaml oi) ctx obj old = Inr new"
  shows "si_Spec new = si_Spec old \<and> om_Generation (si_Meta new) = om_Generation (si_Meta old) \<and> si_Status new = si_Status obj"
  using assms
  by (auto simp: BeforeUpdate_def bind_result_eq_Inr Let_def instanceStatusUpdateStrategy_def instanceRESTStrategies_def
      instanceStatus_PrepareForUpdate_def upd_meta_def settle_namespace_def RepairObjectMeta_def split: if_splits)

lemma instance_rest_BeforeUpdate:
  assumes "BeforeUpdate (instanceRESTStrategies yaml oi) ctx obj old = Inr new"
  shows "si_Status new = si_Status old \<and> si_Spec new = si_Spec old \<and> om_Generation (si_Meta new) = om_Generation (si_Meta old)"
  using assms
  by (auto simp: BeforeUpdate_def bind_result_eq_Inr Let_def instanceRESTStrategies_def
      instance_PrepareForUpdate_eq upd_meta_def settle_namespace_def RepairObjectMeta_def split: if_splits)

lemma instance_reference_BeforeUpdate:
  assumes "BeforeUpdate (instanceReferenceUpdateStrategy yaml oi) ctx obj old = Inr new"
  shows "si_Status new = si_Status old \<and> om_Generation (si_Meta new) = om_Generation (si_Meta old) \<and>
    si_Spec new = (si_Spec old) \<lparr> sis_ServiceClassRef := sis_ServiceClassRef (si_Spec obj), sis_ServicePlanRef := sis_ServicePlanRef (si_Spec obj) \<rparr>"
  using assms
  by (auto simp: BeforeUpdate_def bind_result_eq_Inr Let_def instanceReferenceUpdateStrategy_def instanceRESTStrategies_def
      instanceReference_PrepareForUpdate_def upd_meta_def settle_namespace_def RepairObjectMeta_def split: if_splits)

text \<open>An update that keeps the generation stores exactly these metadata.\<close>
context strategy_contract
begin

lemma Update_stores_meta:
  assumes u: "Update S ctx k obj st = (Inr out, st')" and st: "st_objs st k = Some old" "st_objs st' k = Some new"
    and gen: "\<And>new. BeforeUpdate S ctx obj old = Inr new \<Longrightarrow> om_Generation (rs_meta S new) = om_Generation (rs_meta S old)"
  shows "\<exists>x rv. BeforeUpdate S ctx obj old = Inr x \<and> new = upd_meta S (\<lambda>m. m \<lparr> om_ResourceVersion := rv \<rparr>) x \<and>
    rs_meta S new = meta_written (rs_meta S old) (rs_meta S obj) (om_ResourceVersion (rs_meta S new))"
proof -
  obtain x where x: "BeforeUpdate S ctx obj old = Inr x"
    "if shouldDeleteDuringUpdate S x old then out = x \<and> st' = remove_object k st else (out, st') = write_object S k old x st"
    using Update_ok[OF u] st(1) by (metis option.inject)
  have "\<not> shouldDeleteDuringUpdate S x old" using x(2) st(2) by auto
  then have "st_objs st' k = Some out" "out = upd_meta S (\<lambda>m. m \<lparr> om_ResourceVersion := om_ResourceVersion (rs_meta S out) \<rparr>) x"
    using x(2) write_object_result[of k old x st out st'] st(1) by metis+
  then obtain rv where new: "new = upd_meta S (\<lambda>m. m \<lparr> om_ResourceVersion := rv \<rparr>) x" using st(2) by auto
  have "rs_meta S new = meta_written (rs_meta S old) (rs_meta S obj) (om_ResourceVersion (rs_meta S new))"
    unfolding new meta_written_def using BeforeUpdate_ok[OF x(1)] BeforeUpdate_owners[OF x(1)] gen[OF x(1)]
    by (intro ObjectMeta.equality) simp_all
  then show ?thesis using x(1) new by blast
qed

end

lemma instance_written:
  fixes y :: ServiceInstance
  assumes "\<exists>x rv. BeforeUpdate S ctx j i = Inr x \<and> i' = upd_meta S (\<lambda>m. m \<lparr> om_ResourceVersion := rv \<rparr>) x \<and> rs_meta S i' = M"
    and "rs_meta S = si_Meta" "rs_set_meta S = (\<lambda>m i. i \<lparr> si_Meta := m \<rparr>)"
    and "\<And>x. BeforeUpdate S ctx j i = Inr x \<Longrightarrow> si_Spec x = si_Spec y \<and> si_Status x = si_Status y" "si_Meta y = M"
  shows "i' = y"
  using assms by (auto simp: upd_meta_def intro!: ServiceInstance.equality)

section \<open>Properties\<close>

text \<open>C3: no update is lost.  Of two writers that read the same revision of an instance, one is accepted by any of
  the three endpoints.  Either its update changed nothing, and the answer is the instance as it was stored; or
  the other writer is refused by every endpoint with a conflict, or because the instance is gone, and has no
  effect.\<close>
theorem no_lost_update:
  fixes yaml oi
  defines "endpoints \<equiv> {instanceRESTStrategies yaml oi, instanceStatusUpdateStrategy yaml oi, instanceReferenceUpdateStrategy yaml oi}"
  assumes "store_ok (instanceRESTStrategies yaml oi) (instance_valid yaml) st"
    and "S \<in> endpoints" "Update S ctx k i st = (Inr out, st')"
    and "S' \<in> endpoints" "om_ResourceVersion (si_Meta j) = om_ResourceVersion (si_Meta i)"
  shows "st' = st \<and> st_objs st k = Some out \<or>
    (\<exists>e. Update S' ctx' k j st' = (Inl e, st') \<and> (IsConflict e \<or> IsNotFound e))"
proof -
  have m: "rs_meta (instanceRESTStrategies yaml oi) = si_Meta" "rs_meta (instanceStatusUpdateStrategy yaml oi) = si_Meta"
    "rs_meta (instanceReferenceUpdateStrategy yaml oi) = si_Meta"
    and ok: "store_ok (instanceStatusUpdateStrategy yaml oi) (instance_valid yaml) st"
      "store_ok (instanceReferenceUpdateStrategy yaml oi) (instance_valid yaml) st"
    using assms(2) by (simp_all add: instance_strategy_defs store_ok_def key_of_def)
  have "st' = st \<and> st_objs st k = Some out \<or> om_ResourceVersion (si_Meta i) \<noteq> 0 \<and>
      (\<forall>x. st_objs st' k = Some x \<longrightarrow> om_ResourceVersion (si_Meta x) \<noteq> om_ResourceVersion (si_Meta i))"
    using assms(3,4) inst_store.Update_outdates[OF assms(2), of ctx k i out st'] m
      inst_status_store.Update_outdates[OF ok(1), of ctx k i out st'] inst_ref_store.Update_outdates[OF ok(2), of ctx k i out st']
    unfolding endpoints_def by auto
  then show ?thesis
    using assms(5,6) inst_store.Update_stale[of st' k yaml oi j ctx'] inst_status_store.Update_stale[of st' k yaml oi j ctx']
      inst_ref_store.Update_stale[of st' k yaml oi j ctx'] m unfolding endpoints_def by auto
qed

text \<open>C8: deletion of an instance waits for the controller.  As long as the catalog finalizer is present a
  deletion only marks the instance, whatever the delete options; and an accepted status update removes
  the instance from the store exactly if it was marked and the update leaves no finalizer.\<close>
theorem instance_deletion_waits_for_finalizers:
  assumes "store_ok (instanceRESTStrategies yaml oi) (instance_valid yaml) st" "st_objs st k = Some i"
  shows "(FinalizerServiceCatalog \<in> set (om_Finalizers (si_Meta i)) \<longrightarrow>
      (\<exists>i'. st_objs (snd (Delete (instanceRESTStrategies yaml oi) ctx now k opts st)) k = Some i' \<and>
        si_Status i' = si_Status i \<and> FinalizerServiceCatalog \<in> set (om_Finalizers (si_Meta i')) \<and>
        (fst (Delete (instanceRESTStrategies yaml oi) ctx now k opts st) = Inr () \<longrightarrow> om_DeletionTimestamp (si_Meta i') \<noteq> None))) \<and>
    (\<forall>j out st'. Update (instanceStatusUpdateStrategy yaml oi) ctx k j st = (Inr out, st') \<longrightarrow>
      (st_objs st' k = None \<longleftrightarrow> om_DeletionTimestamp (si_Meta i) \<noteq> None \<and> om_Finalizers (si_Meta j) = []))"
proof -
  have S: "rs_meta (instanceRESTStrategies yaml oi) = si_Meta" "rs_EnableGarbageCollection (instanceRESTStrategies yaml oi)"
    "rs_meta (instanceStatusUpdateStrategy yaml oi) = si_Meta" "rs_EnableGarbageCollection (instanceStatusUpdateStrategy yaml oi)"
    "store_ok (instanceStatusUpdateStrategy yaml oi) (instance_valid yaml) st"
    using assms(1) by (simp_all add: instance_strategy_defs store_ok_def key_of_def)
  have "deletion_ok True (si_Meta i)" using store_okD[OF assms] S by simp
  then show ?thesis
    using instance_Delete_marks[OF _ assms(2)] inst_status_store.Update_gone_iff[OF S(5,4) _ assms(2)] S(3)
    by (metis prod.collapse)
qed


end
