(* ===== verification/SC_InstanceProps.thy ===== *)
theory SC_InstanceProps
  imports SC_InstanceTrace SC_ApiProps
begin

text \<open>
  The behaviour of the instance control loop on its branches: what a successful provision leaves behind,
  what blocks a deletion, which requests an asynchronous operation sends, and three cases in which the
  status the controller computes is refused by the API server's own validation.
\<close>

section \<open>Refused statuses\<close>

lemma instance_validD:
  assumes "instance_valid yaml i"
  shows "instance_status_ok yaml (si_Status i)"
    and "generations_ok (ist_ReconciledGeneration (si_Status i)) (om_Generation (si_Meta i))
          (ist_CurrentOperation (si_Status i) \<noteq> InstanceOperationNone)"
  using assms by (simp_all add: instance_valid_def internalValidateServiceInstance_def)

text \<open>A status update has no effect on the instances and fails, or it is an update of the store, whose
  result may still be lost on the way back.\<close>
lemma UpdateStatus_cases:
  assumes "run_state (instances_UpdateStatus E i) w = (r, w')"
  obtains (refused) e where "r = Inl e" "w_instances w' = w_instances w"
  | (accepted) out where "Update (instanceStatusUpdateStrategy (ev_yaml E) (ev_OriginatingIdentity E))
        (client_ctx E (om_Namespace (si_Meta i))) (inst_key i) i (w_instances w) = (Inr out, w_instances w')"
      "r = Inr out \<or> (\<exists>e. r = Inl e)"
proof (cases "Update (instanceStatusUpdateStrategy (ev_yaml E) (ev_OriginatingIdentity E))
    (client_ctx E (om_Namespace (si_Meta i))) (inst_key i) i (w_instances w)")
  case (Pair ru st)
  show ?thesis
  proof (cases ru)
    case (Inl e)
    then show ?thesis
      using assms Pair refused
      by (auto simp: instances_UpdateStatus_def api_request_def instance_write_def Let_def inst_key_def split: option.splits if_splits)
  next
    case (Inr out)
    then have "(r = Inr out \<or> (\<exists>e. r = Inl e)) \<and> w_instances w' = st \<or> (\<exists>e. r = Inl e) \<and> w_instances w' = w_instances w"
      using assms Pair
      by (auto simp: instances_UpdateStatus_def api_request_def instance_write_def Let_def inst_key_def split: option.splits if_splits)
    then show ?thesis using refused accepted Pair Inr by blast
  qed
qed

text \<open>An accepted status update had a valid status for the stored generation.\<close>
lemma UpdateStatus_accepted:
  assumes "run_state (instances_UpdateStatus E i) w = (r, w')" "w_instances w' \<noteq> w_instances w \<or> (\<exists>j. r = Inr j)"
  shows "\<exists>old. st_objs (w_instances w) (inst_key i) = Some old \<and> instance_status_ok (ev_yaml E) (si_Status i) \<and>
    generations_ok (ist_ReconciledGeneration (si_Status i)) (om_Generation (si_Meta old))
      (ist_CurrentOperation (si_Status i) \<noteq> InstanceOperationNone)"
  using assms(1)
proof (cases rule: UpdateStatus_cases)
  case (refused e)
  then show ?thesis using assms(2) by simp
next
  case (accepted out)
  from Update_status[OF accepted(1)] show ?thesis using instance_validD[of "ev_yaml E" out] by auto
qed

text \<open>No operation can be recorded for a generation that counts as reconciled.\<close>
lemma operation_refused:
  assumes "\<And>x. st_objs (w_instances w) (inst_key i) = Some x \<Longrightarrow> om_Generation (si_Meta x) = ist_ReconciledGeneration (si_Status i)"
    and "ist_CurrentOperation (si_Status i) \<noteq> InstanceOperationNone"
  shows "\<exists>e. fst (run_state (instances_UpdateStatus E i) w) = Inl e"
  using UpdateStatus_accepted[of E i w] assms
  by (cases "run_state (instances_UpdateStatus E i) w", cases "fst (run_state (instances_UpdateStatus E i) w)")
    (auto simp: generations_ok_def)

lemma run_condition:
  "run_state (setServiceInstanceCondition E i ty st reason msg) w =
     (setServiceInstanceConditionInternal i ty st reason msg (ev_clock E (w_tick w)), w \<lparr> w_tick := Suc (w_tick w) \<rparr>)"
  by (simp add: setServiceInstanceCondition_def time_Now_def tick_def)

lemma recordStart_refused:
  assumes "\<And>x. st_objs (w_instances w) (inst_key i) = Some x \<Longrightarrow> om_Generation (si_Meta x) = ist_ReconciledGeneration (si_Status i)"
    and "operation \<noteq> InstanceOperationNone"
  shows "\<exists>e. fst (run_state (recordStartOfServiceInstanceOperation E i operation) w) = Inl e"
  unfolding recordStartOfServiceInstanceOperation_def updateServiceInstanceStatus_def Let_def
  by (simp add: time_Now_def tick_def run_condition, rule operation_refused)
    (use assms in \<open>simp_all add: setServiceInstanceConditionInternal_def\<close>)

text \<open>The stored generation is not touched by the handler, so the refusal holds all along a run.\<close>
lemma frame_generation:
  assumes "instance_frame key w w'" "\<And>x. st_objs (w_instances w) key = Some x \<Longrightarrow> om_Generation (si_Meta x) = g"
    and "st_objs (w_instances w') key = Some y"
  shows "om_Generation (si_Meta y) = g"
  using assms by (auto simp: instance_frame_def stored_evolves_def instance_evolves_def split: option.splits)

lemma log_onlyI: "keeps (log_only P) m \<Longrightarrow> run_state m w = (r, w') \<Longrightarrow> log_only P w w'"
  by (metis keeps_def snd_conv)

lemma frameI: "keeps (instance_frame key) m \<Longrightarrow> run_state m w = (r, w') \<Longrightarrow> instance_frame key w w'"
  by (metis keeps_def snd_conv)

text \<open>A deletion whose operation cannot be recorded never reaches the broker.\<close>
lemma deprovision_never_sent:
  assumes g: "\<And>x. st_objs (w_instances w) (inst_key i) = Some x \<Longrightarrow> om_Generation (si_Meta x) = ist_ReconciledGeneration (si_Status i)"
    and op: "ist_CurrentOperation (si_Status i) = InstanceOperationNone" and om: "\<not> ist_OrphanMitigationInProgress (si_Status i)"
  shows "log_only (\<lambda>_. False) w (snd (run_state (deprovision_at_broker E i) w)) \<and>
    (\<exists>e. fst (run_state (deprovision_at_broker E i) w) = Inl e)"
proof -
  obtain r w1 where r: "run_state (getServiceClassPlanAndClusterServiceBroker E i) w = (r, w1)" by force
  have w1: "log_only (\<lambda>_. False) w w1" "instance_frame (inst_key i) w w1"
    using log_onlyI[OF log_inst.keeps_getServiceClassPlanAndClusterServiceBroker r]
      frameI[OF inst_frame.keeps_getServiceClassPlanAndClusterServiceBroker r] by simp_all
  show ?thesis
  proof (cases r)
    case (Inl e)
    then show ?thesis using r w1 by (simp add: deprovision_at_broker_def)
  next
    case (Inr t)
    obtain sc sp brokerName client where t: "t = (sc, sp, brokerName, client)" by (metis prod_cases4)
    obtain ro w2 where ro: "run_state (originating_identity E i i ''deprovisioning'') w1 = (ro, w2)" by force
    have w2: "log_only (\<lambda>_. False) w1 w2" "instance_frame (inst_key i) w1 w2"
      using log_onlyI[OF log_inst.keeps_originating_identity ro] frameI[OF inst_frame.keeps_originating_identity ro] by simp_all
    show ?thesis
    proof (cases ro)
      case (Inl e)
      then show ?thesis
        using r Inr t ro log_only_trans[OF w1(1) w2(1)] by (simp add: deprovision_at_broker_def)
    next
      case (Inr oi)
      have "\<exists>e. fst (run_state (recordStartOfServiceInstanceOperation E i InstanceOperationDeprovision) w2) = Inl e"
        by (rule recordStart_refused) (use g frame_generation[OF instance_frame_trans[OF w1(2) w2(2)]] in blast, simp)
      then obtain e w3 where e: "run_state (recordStartOfServiceInstanceOperation E i InstanceOperationDeprovision) w2 = (Inl e, w3)"
        by (metis prod.collapse)
      have w3: "log_only (\<lambda>_. False) w2 w3"
        using log_onlyI[OF log_inst.keeps_recordStart e] by simp
      show ?thesis
        using r \<open>r = Inr t\<close> t ro Inr e op om log_only_trans[OF log_only_trans[OF w1(1) w2(1)] w3]
        by (simp add: deprovision_at_broker_def start_mitigation_clock_def ensure_started_def)
    qed
  qed
qed

text \<open>A status without a start time for its operation is refused whatever else it says.\<close>
lemma unstarted_refused:
  assumes "ist_CurrentOperation (si_Status i) \<noteq> InstanceOperationNone" "ist_OperationStartTime (si_Status i) = None"
    and "run_state (instances_UpdateStatus E i) w = (r, w')"
  shows "w_instances w' = w_instances w \<and> (\<exists>e. r = Inl e)"
  using UpdateStatus_accepted[OF assms(3)] assms(1,2)
  by (cases r) (auto simp: instance_status_ok_def)

text \<open>What the status updates of the deletion leave of an instance with the catalog finalizer.\<close>
lemma UpdateStatus_stays:
  assumes ok: "world_ok E w" and s: "st_objs (w_instances w) (inst_key i) = Some s"
    and f: "f \<in> set (om_Finalizers (si_Meta s))" "f \<in> set (om_Finalizers (si_Meta i))"
    and u: "run_state (instances_UpdateStatus E i) w = (r, w')"
  shows "\<exists>x. st_objs (w_instances w') (inst_key i) = Some x \<and> f \<in> set (om_Finalizers (si_Meta x))"
  using u
proof (cases rule: UpdateStatus_cases)
  case (accepted out)
  note st = inst_status_store.Update_stored[OF accepted(1), of "\<lambda>old new. om_Finalizers (si_Meta new) = om_Finalizers (si_Meta i)"]
  have "store_ok (instanceStatusUpdateStrategy (ev_yaml E) (ev_OriginatingIdentity E)) (instance_valid (ev_yaml E)) (w_instances w)"
    using ok by (simp add: world_ok_def instance_strategy_defs store_ok_def key_of_def)
  from inst_status_store.Update_gone_iff[OF this _ accepted(1) s] obtain x where "st_objs (w_instances w') (inst_key i) = Some x"
    using f by (auto simp: instance_strategy_defs)
  then show ?thesis
    using st inst_status_store.BeforeUpdate_ok(6)[of "ev_yaml E" "ev_OriginatingIdentity E"] f s
    by (auto simp: upd_meta_def)
qed (use s f in auto)

lemma UpdateStatus_finalizers:
  assumes ok: "world_ok E w" and s: "st_objs (w_instances w) (inst_key i) = Some s"
    and u: "run_state (instances_UpdateStatus E i) w = (Inr j, w')"
  shows "(\<forall>x. st_objs (w_instances w') (inst_key i) = Some x \<longrightarrow> om_Finalizers (si_Meta x) = om_Finalizers (si_Meta i)) \<and>
    (st_objs (w_instances w') (inst_key i) = None \<longleftrightarrow> om_DeletionTimestamp (si_Meta s) \<noteq> None \<and> om_Finalizers (si_Meta i) = [])"
  using u
proof (cases rule: UpdateStatus_cases)
  case (accepted out)
  have "store_ok (instanceStatusUpdateStrategy (ev_yaml E) (ev_OriginatingIdentity E)) (instance_valid (ev_yaml E)) (w_instances w)"
    using ok by (simp add: world_ok_def instance_strategy_defs store_ok_def key_of_def)
  note gone = inst_status_store.Update_gone_iff[OF this _ accepted(1) s]
  have "om_Finalizers (si_Meta x) = om_Finalizers (si_Meta i)" if "st_objs (w_instances w') (inst_key i) = Some x" for x
    using inst_status_store.Update_stored[OF accepted(1), of "\<lambda>old new. om_Finalizers (si_Meta new) = om_Finalizers (si_Meta i)"]
      inst_status_store.BeforeUpdate_ok(6)[of "ev_yaml E" "ev_OriginatingIdentity E"] that
    by (auto simp: upd_meta_def instance_strategy_defs)
  then show ?thesis using gone by (auto simp: instance_strategy_defs)
qed simp

lemma run_update_status_then:
  "run_state (update_status_then E i k) w = (case run_state (instances_UpdateStatus E i) w of
     (Inl e, w') \<Rightarrow> (Inl e, w') | (Inr _, w') \<Rightarrow> run_state k w')"
  by (simp add: update_status_then_def updateServiceInstanceStatus_def split: prod.split sum.split)

lemma run_instance_event:
  "run_state (instance_event i ty reason msg) w =
     ((), w \<lparr> w_log := EventRecorded (event_object ''ServiceInstance'' (si_Meta i)) ty reason msg # w_log w \<rparr>)"
  by (simp add: instance_event_def record_event_def log_action_def)

text \<open>The same after the last update of a handler.\<close>
lemma update_unstarted_refused:
  assumes "ist_CurrentOperation (si_Status i) \<noteq> InstanceOperationNone" "ist_OperationStartTime (si_Status i) = None"
  shows "w_instances (snd (run_state (update_status_then E i k) w)) = w_instances w \<and>
    (\<exists>e. fst (run_state (update_status_then E i k) w) = Inl e)"
proof (cases "run_state (instances_UpdateStatus E i) w")
  case (Pair r w')
  then show ?thesis using unstarted_refused[OF assms Pair] by (auto simp: run_update_status_then)
qed

lemma world_ok_tick_log [simp]:
  "world_ok E (w \<lparr> w_tick := t \<rparr>) = world_ok E w" "world_ok E (w \<lparr> w_log := l \<rparr>) = world_ok E w"
  by (simp_all add: world_ok_def)

lemma condition_write_stays:
  assumes ok: "world_ok E w" and s: "st_objs (w_instances w) (inst_key i) = Some s"
    and f: "f \<in> set (om_Finalizers (si_Meta s))" "f \<in> set (om_Finalizers (si_Meta i))"
  shows "\<exists>x. st_objs (w_instances (snd (run_state (do {
      instance_event i ty reason text;
      j \<leftarrow> setServiceInstanceCondition E i cty cst reason msg;
      update_status_then E j (State_Monad.return (Inr ())) }) w))) (inst_key i) = Some x \<and> f \<in> set (om_Finalizers (si_Meta x))"
proof -
  define w1 where "w1 = w \<lparr> w_log := EventRecorded (event_object ''ServiceInstance'' (si_Meta i)) ty reason text # w_log w,
    w_tick := Suc (w_tick w) \<rparr>"
  define j where "j = setServiceInstanceConditionInternal i cty cst reason msg (ev_clock E (w_tick w))"
  obtain r w2 where u: "run_state (instances_UpdateStatus E j) w1 = (r, w2)" by force
  have j: "inst_key j = inst_key i" "si_Meta j = si_Meta i" by (simp_all add: j_def setServiceInstanceConditionInternal_def)
  have "\<exists>x. st_objs (w_instances w2) (inst_key i) = Some x \<and> f \<in> set (om_Finalizers (si_Meta x))"
    using UpdateStatus_stays[OF _ _ f(1) _ u] ok s f(2) j by (simp add: w1_def)
  then show ?thesis
    using u by (cases r) (simp_all add: run_instance_event run_condition run_update_status_then w1_def j_def)
qed

text \<open>An instance without an operation whose generation is reconciled is left alone.\<close>
lemma settled_noop:
  "\<not> ist_AsyncOpInProgress (si_Status j) \<Longrightarrow> om_DeletionTimestamp (si_Meta j) = None \<Longrightarrow>
   \<not> ist_OrphanMitigationInProgress (si_Status j) \<Longrightarrow> ist_ReconciledGeneration (si_Status j) = om_Generation (si_Meta j) \<Longrightarrow>
   run_state (reconcileServiceInstance E j) w = (Inr (), w)"
  by (simp add: reconcileServiceInstance_def)

text \<open>An accepted status update of an instance that is not deleted is stored.\<close>
lemma UpdateStatus_stored:
  assumes u: "run_state (instances_UpdateStatus E i) w = (Inr j, w')"
    and s: "st_objs (w_instances w) (inst_key i) = Some s" "om_DeletionTimestamp (si_Meta s) = None" and ok: "world_ok E w"
  shows "st_objs (w_instances w') (inst_key i) = Some j \<and> si_Status j = si_Status i \<and>
    om_Generation (si_Meta j) = om_Generation (si_Meta s) \<and> om_DeletionTimestamp (si_Meta j) = None"
  using u
proof (cases rule: UpdateStatus_cases)
  case (accepted out)
  have ok': "store_ok (instanceStatusUpdateStrategy (ev_yaml E) (ev_OriginatingIdentity E)) (instance_valid (ev_yaml E)) (w_instances w)"
    using ok by (simp add: world_ok_def instance_strategy_defs store_ok_def key_of_def)
  have "st_objs (w_instances w') (inst_key i) \<noteq> None"
    using inst_status_store.Update_gone_iff[OF ok' _ accepted(1) s(1)] s(2) by (auto simp: instance_strategy_defs)
  moreover have "om_DeletionTimestamp (si_Meta out) = om_DeletionTimestamp (si_Meta s) \<and>
      (st_objs (w_instances w') (inst_key i) = None \<or> st_objs (w_instances w') (inst_key i) = Some out)"
    using inst_status_store.Update_stored[OF accepted(1), of "\<lambda>old new. om_DeletionTimestamp (si_Meta new) = om_DeletionTimestamp (si_Meta old)"]
      inst_status_store.BeforeUpdate_ok(8)[of "ev_yaml E" "ev_OriginatingIdentity E"] s(1)
    by (auto simp: upd_meta_def)
  ultimately show ?thesis using Update_status[OF accepted(1)] accepted(2) s by auto
qed simp

text \<open>A cached credential refers to the instance.\<close>
definition has_credential :: "world \<Rightarrow> ServiceInstance \<Rightarrow> bool" where
  "has_credential w i \<longleftrightarrow> (\<exists>b \<in> set (w_credentialCache w). om_Namespace (cr_Meta b) = om_Namespace (si_Meta i) \<and>
     crs_ServiceInstanceRef (cr_Spec b) = om_Name (si_Meta i))"

lemma delete_finalizer_set: "set (delete_finalizer f fs) = set fs - {f}" "delete_finalizer f fs = [] \<longleftrightarrow> set fs \<subseteq> {f}"
proof -
  show set: "set (delete_finalizer f fs) = set fs - {f}" by (auto simp: delete_finalizer_def)
  show "delete_finalizer f fs = [] \<longleftrightarrow> set fs \<subseteq> {f}" using set by (metis Diff_eq_empty_iff set_empty)
qed

section \<open>Properties\<close>

text \<open>C5: a provision that succeeds settles the instance.  If the broker answers the provision request with
  a synchronous success and the run succeeds, the stored instance is ready, has no operation in
  progress, has the properties of the request as its external properties and counts as reconciled, and
  reconciling it again changes nothing and sends nothing.\<close>
theorem provisioned_instance_is_settled:
  assumes "world_ok E w" "st_objs (w_instances w) (inst_key i) = Some i" "om_DeletionTimestamp (si_Meta i) = None"
    and "ev_provision E (w_tick w) client request = Inr response" "\<not> prr_Async response"
    and "run_state (provision_call E sc brokerName client request inst i) w = (Inr (), w')"
  shows "\<exists>j. st_objs (w_instances w') (inst_key i) = Some j \<and> isServiceInstanceReady j \<and> \<not> in_flight j \<and>
    ist_ExternalProperties (si_Status j) = ist_InProgressProperties (si_Status i) \<and>
    ist_InProgressProperties (si_Status j) = None \<and> ist_ReconciledGeneration (si_Status j) = om_Generation (si_Meta j) \<and>
    (\<forall>E2 w2. run_state (reconcileServiceInstance E2 j) w2 = (Inr (), w2))"
proof -
  define i1 where "i1 = clearServiceInstanceCurrentOperation (si_Status_update (\<lambda>s. s \<lparr> ist_ExternalProperties := ist_InProgressProperties s \<rparr>)
    (si_Status_update (remember_dashboard (prr_DashboardURL response)) i))"
  define i2 where "i2 = setServiceInstanceConditionInternal i1 ConditionReady ConditionTrue successProvisionReason successProvisionMessage
    (ev_clock E (Suc (w_tick w)))"
  define w1 where "w1 = w \<lparr> w_log := BrokerProvisionCall client request # w_log w, w_tick := Suc (Suc (w_tick w)) \<rparr>"
  obtain j w2 where u: "run_state (instances_UpdateStatus E i2) w1 = (Inr j, w2)" and w': "w_instances w' = w_instances w2"
    using assms(4-6)
    by (auto simp: provision_call_def ProvisionInstance_def tick_def log_action_def provision_done_def Let_def run_condition
        run_update_status_then run_instance_event w1_def i2_def i1_def split: prod.splits sum.splits)
  have i2: "inst_key i2 = inst_key i" "isServiceInstanceReady i2"
    "ist_ReconciledGeneration (si_Status i2) = om_Generation (si_Meta i)" "\<not> ist_AsyncOpInProgress (si_Status i2)"
    "\<not> ist_OrphanMitigationInProgress (si_Status i2)" "ist_CurrentOperation (si_Status i2) = InstanceOperationNone"
    "ist_InProgressProperties (si_Status i2) = None" "ist_ExternalProperties (si_Status i2) = ist_InProgressProperties (si_Status i)"
    by (auto simp: i2_def i1_def setServiceInstanceConditionInternal_def clearServiceInstanceCurrentOperation_def remember_dashboard_def
        isServiceInstanceReady_def ready_loop_iff first_condition_set_same split: option.split)
  have j: "st_objs (w_instances w') (inst_key i) = Some j" "si_Status j = si_Status i2" "om_Generation (si_Meta j) = om_Generation (si_Meta i)"
    "om_DeletionTimestamp (si_Meta j) = None"
    using UpdateStatus_stored[OF u _ assms(3)] assms(1,2) i2(1) w' by (simp_all add: w1_def)
  have "isServiceInstanceReady j" using i2(2) j(2) by (simp add: isServiceInstanceReady_def)
  then show ?thesis using i2 j settled_noop[of j] by (auto simp: in_flight_def)
qed

text \<open>C22: an asynchronous operation is only polled.  While one is recorded, a run of the control loop sends
  the broker no request other than polls of the last operation, also when the instance is deleted
  meanwhile.\<close>
theorem async_operation_is_only_polled:
  assumes "ist_AsyncOpInProgress (si_Status i)"
  shows "log_only (\<lambda>a. \<exists>client request. a = BrokerPollCall client request) w (snd (run_state (reconcileServiceInstance E i) w))"
proof -
  have "keeps (log_only (\<lambda>a. \<exists>client request. a = BrokerPollCall client request)) (pollServiceInstanceInternal E i)"
    by (intro keeps_intros) auto
  then show ?thesis using assms by (simp add: reconcileServiceInstance_def keeps_def)
qed

text \<open>C23: an instance is not deprovisioned while it has credentials.  If a cached credential refers to the
  deleted instance, which has no asynchronous operation under way, a run of the control loop sends no request
  to a broker, and the instance stays stored with the catalog finalizer if the stored and the reconciled
  copy have it.\<close>
theorem deletion_blocked_by_credentials:
  assumes "world_ok E w" "om_DeletionTimestamp (si_Meta i) \<noteq> None" "\<not> ist_AsyncOpInProgress (si_Status i)" "has_credential w i"
    and "st_objs (w_instances w) (inst_key i) = Some s" "FinalizerServiceCatalog \<in> set (om_Finalizers (si_Meta s))"
    and "FinalizerServiceCatalog \<in> set (om_Finalizers (si_Meta i))"
  shows "log_only (\<lambda>_. False) w (snd (run_state (reconcileServiceInstance E i) w)) \<and>
    (\<exists>x. st_objs (w_instances (snd (run_state (reconcileServiceInstance E i) w))) (inst_key i) = Some x \<and>
      FinalizerServiceCatalog \<in> set (om_Finalizers (si_Meta x)))"
proof -
  have "\<exists>b \<in> set (w_credentialCache w). om_Namespace (cr_Meta b) = om_Namespace (si_Meta i) \<and> om_Name (si_Meta i) = crs_ServiceInstanceRef (cr_Spec b)"
    using assms(4) by (auto simp: has_credential_def)
  then have "run_state (reconcileServiceInstance E i) w = run_state (deprovision_blocked E i) w"
    using assms(2,3) by (auto simp: reconcileServiceInstance_def reconcileServiceInstanceDelete_def bindingLister_List_def list_ex_iff)
  moreover have "keeps (log_only (\<lambda>_. False)) (deprovision_blocked E i)"
    unfolding deprovision_blocked_def by (intro keeps_intros; auto dest: key_results)+
  moreover have "\<exists>x. st_objs (w_instances (snd (run_state (deprovision_blocked E i) w))) (inst_key i) = Some x \<and>
      FinalizerServiceCatalog \<in> set (om_Finalizers (si_Meta x))"
    unfolding deprovision_blocked_def Let_def by (rule condition_write_stays[OF assms(1,5-7)])
  ultimately show ?thesis by (simp add: keeps_def)
qed

text \<open>C39: an instance that never reached a reconciled generation, or that has failed, is given up without the broker.
  Let it be deleted and have the catalog finalizer, neither an asynchronous operation nor orphan mitigation
  under way, and no cached credential.  Then a run of the control loop sends no request to a broker, whatever
  operation its status records as in progress.  If the run succeeds the catalog finalizer is removed, and the
  instance is gone from the store exactly if it had no other finalizer.\<close>
theorem unreconciled_instance_is_abandoned:
  assumes "world_ok E w" "st_objs (w_instances w) (inst_key i) = Some s" "om_DeletionTimestamp (si_Meta s) \<noteq> None"
    and "om_DeletionTimestamp (si_Meta i) \<noteq> None" "FinalizerServiceCatalog \<in> set (om_Finalizers (si_Meta i))"
    and "\<not> ist_AsyncOpInProgress (si_Status i)" "\<not> ist_OrphanMitigationInProgress (si_Status i)"
    and "ist_ReconciledGeneration (si_Status i) = 0 \<or> isServiceInstanceFailed i" "\<not> has_credential w i"
    and "run_state (reconcileServiceInstance E i) w = (r, w')"
  shows "log_only (\<lambda>_. False) w w' \<and>
    (r = Inr () \<longrightarrow> (\<forall>x. st_objs (w_instances w') (inst_key i) = Some x \<longrightarrow> FinalizerServiceCatalog \<notin> set (om_Finalizers (si_Meta x))) \<and>
      (st_objs (w_instances w') (inst_key i) = None \<longleftrightarrow> set (om_Finalizers (si_Meta i)) = {FinalizerServiceCatalog}))"
proof -
  have run: "run_state (reconcileServiceInstance E i) w =
      run_state (update_status_then E (clear_catalog_finalizer i) (State_Monad.return (Inr ()))) w"
    using assms(4-9) by (auto simp: reconcileServiceInstance_def reconcileServiceInstanceDelete_def bindingLister_List_def
        has_credential_def list_ex_iff)
  have "keeps (log_only (\<lambda>_. False)) (update_status_then E (clear_catalog_finalizer i) (State_Monad.return (Inr ())))"
    by (intro keeps_intros) auto
  then have "log_only (\<lambda>_. False) w w'" using run assms(10) by (metis keeps_def snd_conv)
  moreover have "(\<forall>x. st_objs (w_instances w') (inst_key i) = Some x \<longrightarrow> FinalizerServiceCatalog \<notin> set (om_Finalizers (si_Meta x))) \<and>
      (st_objs (w_instances w') (inst_key i) = None \<longleftrightarrow> set (om_Finalizers (si_Meta i)) = {FinalizerServiceCatalog})" if ok: "r = Inr ()"
  proof -
    obtain j where u: "run_state (instances_UpdateStatus E (clear_catalog_finalizer i)) w = (Inr j, w')"
      using run assms(10) ok by (auto simp: run_update_status_then split: prod.splits sum.splits)
    have "inst_key (clear_catalog_finalizer i) = inst_key i" by (simp add: clear_catalog_finalizer_def inst_key_def)
    then show ?thesis using UpdateStatus_finalizers[OF assms(1) _ u] assms(2,3,5)
      by (auto simp: clear_catalog_finalizer_def delete_finalizer_set)
  qed
  ultimately show ?thesis by simp
qed

text \<open>C38: a deleted instance whose generation counts as reconciled cannot be deprovisioned.  Let the instance
  have the catalog finalizer, not have failed, record no operation, neither an asynchronous one nor orphan
  mitigation, and have no cached credential.  Deleting an instance during an asynchronous provision and the
  success of that provision lead to such a status.  The start of the deprovision is then refused by the
  validation of the status, so that every run fails before it contacts the broker.\<close>
theorem reconciled_deletion_is_stuck:
  assumes "om_DeletionTimestamp (si_Meta i) \<noteq> None" "FinalizerServiceCatalog \<in> set (om_Finalizers (si_Meta i))"
    and "ist_CurrentOperation (si_Status i) = InstanceOperationNone" "\<not> ist_AsyncOpInProgress (si_Status i)"
    and "\<not> ist_OrphanMitigationInProgress (si_Status i)" "\<not> isServiceInstanceFailed i"
    and "ist_ReconciledGeneration (si_Status i) \<noteq> 0" "\<not> has_credential w i"
    and "st_objs (w_instances w) (inst_key i) = Some s" "om_Generation (si_Meta s) = ist_ReconciledGeneration (si_Status i)"
  shows "log_only (\<lambda>_. False) w (snd (run_state (reconcileServiceInstance E i) w)) \<and>
    (\<exists>e. fst (run_state (reconcileServiceInstance E i) w) = Inl e)"
proof -
  have "run_state (reconcileServiceInstance E i) w = run_state (deprovision_at_broker E i) w"
    using assms(1-8) by (auto simp: reconcileServiceInstance_def reconcileServiceInstanceDelete_def bindingLister_List_def
        has_credential_def list_ex_iff)
  then show ?thesis using deprovision_never_sent[of w i E] assms(3,5,9,10) by simp
qed

text \<open>C37: orphan mitigation is never recorded.  When the controller decides to mitigate an orphan, after a
  failure status code of the provision call, after a timeout of that call or after polling for too
  long, the status it writes keeps the operation without a start time; the API server refuses it, and
  the stored instances are as before.\<close>
theorem orphan_mitigation_is_refused:
  assumes "ist_CurrentOperation (si_Status i) \<noteq> InstanceOperationNone" "shouldStartOrphanMitigation code"
    and "m \<in> {provision_http_error E sc brokerName inst i err code, provision_timeout E i detail err,
              stop_polling E inst i mitigatingOrphan False detail}"
  shows "w_instances (snd (run_state m w)) = w_instances w \<and> (\<exists>e. fst (run_state m w) = Inl e)"
proof -
  have refused: "w_instances (snd (run_state (update_status_then E (setServiceInstanceStartOrphanMitigation j) k) w1)) = w_instances w1 \<and>
      (\<exists>e. fst (run_state (update_status_then E (setServiceInstanceStartOrphanMitigation j) k) w1) = Inl e)"
    if "ist_CurrentOperation (si_Status j) = ist_CurrentOperation (si_Status i)" for j k w1
    by (rule update_unstarted_refused) (use that assms(1) in \<open>simp_all add: setServiceInstanceStartOrphanMitigation_def\<close>)
  show ?thesis
    using assms(2,3)
    by (auto simp: provision_http_error_def provision_timeout_def stop_polling_def Let_def run_condition run_instance_event
        refused setServiceInstanceConditionInternal_def simp del: append.simps)
qed

end
