(* ===== verification/SC_BindingProps.thy ===== *)
theory SC_BindingProps
  imports SC_BindingTrace SC_ApiProps
begin

text \<open>
  The behaviour of the credential control loop on its branches: which secrets it writes and deletes, what
  must hold of the instance before a bind request is sent, and two cases in which the status that the
  controller computes is refused by the API server's own validation.
\<close>

section \<open>Refused statuses\<close>

lemma credential_validD:
  assumes "credential_valid yaml b"
  shows "credential_status_ok yaml (cr_Status b)"
    and "generations_ok (crst_ReconciledGeneration (cr_Status b)) (om_Generation (cr_Meta b))
          (crst_CurrentOperation (cr_Status b) \<noteq> CredentialOperationNone)"
  using assms by (simp_all add: credential_valid_def internalValidateServiceInstanceCredential_def)

text \<open>A credential store that a status update changed, or an update that succeeded, had a valid status.\<close>
lemma cred_UpdateStatus_accepted:
  assumes "run_state (credentials_UpdateStatus E b) w = (r, w')" "w_credentials w' \<noteq> w_credentials w \<or> (\<exists>c. r = Inr c)"
  shows "\<exists>old. st_objs (w_credentials w) (cred_key b) = Some old \<and> credential_status_ok (ev_yaml E) (cr_Status b) \<and>
    generations_ok (crst_ReconciledGeneration (cr_Status b)) (om_Generation (cr_Meta old))
      (crst_CurrentOperation (cr_Status b) \<noteq> CredentialOperationNone)"
proof -
  let ?u = "Update (bindingStatusUpdateStrategy (ev_yaml E) (ev_OriginatingIdentity E))
    (client_ctx E (om_Namespace (cr_Meta b))) (cred_key b) b (w_credentials w)"
  have "\<exists>out st. ?u = (Inr out, st)"
    using assms
    by (auto simp: credentials_UpdateStatus_def api_request_def credential_write_def Let_def cred_key_def
        split: option.splits if_splits prod.splits sum.splits)
  then obtain out st where u: "?u = (Inr out, st)" by blast
  from Update_credential_status[OF u] show ?thesis using credential_validD[of "ev_yaml E" out] by auto
qed

lemma run_credential_condition:
  "run_state (setServiceInstanceCredentialCondition E b ty st reason msg) w =
     (setServiceInstanceCredentialConditionInternal b ty st reason msg (ev_clock E (w_tick w)), w \<lparr> w_tick := Suc (w_tick w) \<rparr>)"
  by (simp add: setServiceInstanceCredentialCondition_def time_Now_def tick_def)

lemma run_binding_event:
  "run_state (binding_event b ty reason msg) w =
     ((), w \<lparr> w_log := EventRecorded (event_object ''ServiceInstanceCredential'' (cr_Meta b)) ty reason msg # w_log w \<rparr>)"
  by (simp add: binding_event_def record_event_def log_action_def)

lemma run_credential_status_then:
  "run_state (credential_status_then E b k) w = (case run_state (credentials_UpdateStatus E b) w of
     (Inl e, w') \<Rightarrow> (Inl e, w') | (Inr _, w') \<Rightarrow> run_state k w')"
  by (simp add: credential_status_then_def updateServiceInstanceCredentialStatus_def split: prod.split sum.split)

lemma credential_unstarted_refused:
  assumes "crst_CurrentOperation (cr_Status b) \<noteq> CredentialOperationNone" "crst_OperationStartTime (cr_Status b) = None"
  shows "w_credentials (snd (run_state (credential_status_then E b k) w)) = w_credentials w \<and>
    (\<exists>e. fst (run_state (credential_status_then E b k) w) = Inl e)"
proof (cases "run_state (credentials_UpdateStatus E b) w")
  case (Pair r w')
  then show ?thesis
    using cred_UpdateStatus_accepted[OF Pair] assms
    by (cases r) (auto simp: run_credential_status_then credential_status_ok_def)
qed

section \<open>The generation that counts as reconciled\<close>

text \<open>The stored credential, if any, has generation \<open>g\<close>.\<close>
definition generation_is :: "store_key \<Rightarrow> int \<Rightarrow> world \<Rightarrow> bool" where
  "generation_is key g w \<longleftrightarrow> (\<forall>x. st_objs (w_credentials w) key = Some x \<longrightarrow> om_Generation (cr_Meta x) = g)"

definition quiet_at :: "store_key \<Rightarrow> int \<Rightarrow> world \<Rightarrow> world \<Rightarrow> bool" where
  "quiet_at key g w w' \<longleftrightarrow> (generation_is key g w \<longrightarrow> generation_is key g w' \<and> log_only (\<lambda>_. False) w w')"

lemma quiet_at_same: "w_credentials w' = w_credentials w \<Longrightarrow> log_only (\<lambda>_. False) w w' \<Longrightarrow> quiet_at key g w w'"
  by (simp add: quiet_at_def generation_is_def)

lemma quiet_at_write: "quiet_at (cred_key b) g w (snd (credential_write E b w))"
  using credential_write_frame[of b "[]" w E] credential_write_log[of "\<lambda>_. False" w E b]
  by (auto simp: quiet_at_def generation_is_def binding_frame_def stored_evolves_def credential_evolves_def split: option.splits)

interpretation quiet_client: client_relation "quiet_at key g" E "\<lambda>a. \<not> is_broker_call a" for key g E
proof
  show "quiet_at key g u v \<Longrightarrow> quiet_at key g v w \<Longrightarrow> quiet_at key g u w" for u v w
    by (auto simp: quiet_at_def intro: log_only_trans)
qed (auto intro!: quiet_at_same intro: log_only_same log_only_one)

lemma keeps_quiet_secrets:
  "keeps (quiet_at key g) (secrets_Create E ns s)" "keeps (quiet_at key g) (secrets_Update E ns s)"
  "keeps (quiet_at key g) (secrets_Delete E ns name)"
  unfolding secrets_Create_def secrets_Update_def secrets_Delete_def
  by (rule quiet_client.keeps_api_request, simp add: split_beta quiet_at_same log_only_same)+

interpretation quiet: binding_relation "quiet_at key g" E "\<lambda>a. \<not> is_broker_call a" key secretName for key g E secretName
proof
  show "keeps (quiet_at key g) (credentials_UpdateStatus E b)" if "cred_key b = key" for b
    unfolding credentials_UpdateStatus_def that[symmetric] by (rule quiet_client.keeps_api_request, rule quiet_at_write)
  show "keeps (quiet_at key g) (injectServiceInstanceCredential E b credentials)" for b credentials
    unfolding injectServiceInstanceCredential_def update_secret_def create_secret_def
    by (intro keeps_intros keeps_quiet_secrets)
  show "keeps (quiet_at key g) (ejectServiceInstanceCredential E b)" for b
    unfolding ejectServiceInstanceCredential_def by (intro keeps_intros keeps_quiet_secrets)
qed

lemma unbind_start_refused:
  assumes "generation_is (cred_key b) (crst_ReconciledGeneration (cr_Status b)) w"
    and "crst_CurrentOperation (cr_Status b) = CredentialOperationNone"
  shows "\<exists>e. fst (run_state (start_unbind E b) w) = Inl e"
proof -
  define c where "c = setServiceInstanceCredentialConditionInternal
    (cr_Status_update (\<lambda>s. s \<lparr> crst_CurrentOperation := CredentialOperationUnbind, crst_OperationStartTime := Some (ev_clock E (w_tick w)) \<rparr>) b)
    ConditionReady ConditionFalse unbindingInFlightReason unbindingInFlightMessage (ev_clock E (Suc (w_tick w)))"
  define w1 where "w1 = w \<lparr> w_tick := Suc (Suc (w_tick w)) \<rparr>"
  obtain r w' where u: "run_state (credentials_UpdateStatus E c) w1 = (r, w')" by force
  have "\<not> (\<exists>d. r = Inr d)"
    using cred_UpdateStatus_accepted[OF u] assms(1)
    by (auto simp: c_def w1_def setServiceInstanceCredentialConditionInternal_def generations_ok_def generation_is_def)
  then show ?thesis
    using u assms(2)
    by (cases r) (simp_all add: start_unbind_def recordStartOfServiceInstanceCredentialOperation_def time_Now_def tick_def Let_def
        run_credential_condition updateServiceInstanceCredentialStatus_def credential_start_message_def c_def w1_def)
qed

text \<open>What follows a step that fails is not reached.\<close>
lemma keeps_stopped:
  fixes m :: "('e + 'a) io"
  assumes "keeps (quiet_at key g) m" and "\<And>w. generation_is key g w \<Longrightarrow> \<exists>e. fst (run_state m w) = Inl e"
  shows "keeps (quiet_at key g) (State_Monad.bind m (\<lambda>r. on_ok r k))"
  unfolding keeps_def
proof
  fix w
  obtain r w1 where r: "run_state m w = (r, w1)" by force
  show "quiet_at key g w (snd (run_state (State_Monad.bind m (\<lambda>r. on_ok r k)) w))"
  proof (cases "generation_is key g w")
    case True
    then obtain e where "r = Inl e" using assms(2) r by (metis fst_conv)
    then show ?thesis using assms(1) r unfolding keeps_def by (metis on_ok_simps(1) run_state_bind run_state_return snd_conv split_conv)
  qed (simp add: quiet_at_def)
qed

section \<open>Secrets\<close>

lemma secret_Create_cases:
  assumes "Create secretStrategy ctx uid s st = (r, st')"
  obtains (refused) e where "r = Inl e" "st' = st"
  | (created) out where "r = Inr out" "st_objs st (ctx_Namespace ctx, om_Name (sec_Meta s)) = None"
      "st_objs st' (ctx_Namespace ctx, om_Name (sec_Meta s)) = Some out" "sec_Data out = sec_Data s"
      "om_OwnerReferences (sec_Meta out) = om_OwnerReferences (sec_Meta s)"
proof (cases "BeforeCreate secretStrategy ctx uid s")
  case (Inl e)
  then show ?thesis using assms refused[of e] by (simp add: Create_def)
next
  case (Inr s1)
  then have s1: "key_of secretStrategy s1 = (ctx_Namespace ctx, om_Name (sec_Meta s))" "sec_Data s1 = sec_Data s"
    "om_OwnerReferences (sec_Meta s1) = om_OwnerReferences (sec_Meta s)"
    by (auto simp: BeforeCreate_def bind_result_eq_Inr Let_def key_of_def settle_namespace_def secretStrategy_def upd_meta_def
        split: if_splits)
  show ?thesis
    using assms Inr s1 refused created
    by (auto simp: Create_def Let_def upd_meta_def secretStrategy_def split: if_splits)
qed

lemma secret_BeforeUpdate:
  "BeforeUpdate secretStrategy ctx obj old = Inr new \<Longrightarrow>
   sec_Data new = sec_Data obj \<and> om_OwnerReferences (sec_Meta new) = om_OwnerReferences (sec_Meta obj)"
  by (auto simp: BeforeUpdate_def bind_result_eq_Inr Let_def secretStrategy_def upd_meta_def settle_namespace_def
      RepairObjectMeta_def split: if_splits)

lemma secret_Update_stored:
  assumes ok: "store_ok secretStrategy secret_valid st" and old: "st_objs st k = Some old"
    and u: "Update secretStrategy ctx k (old \<lparr> sec_Data := d \<rparr>) st = (Inr out, st')"
  shows "st_objs st' k = Some out \<and> sec_Data out = d \<and> om_OwnerReferences (sec_Meta out) = om_OwnerReferences (sec_Meta old)"
proof -
  have "deletion_ok True (sec_Meta old)" using store_okD[OF ok old] by (simp add: secretStrategy_def)
  then have "st_objs st' k \<noteq> None"
    using secret_store.Update_gone_iff[OF ok _ u old] by (auto simp: secretStrategy_def deletion_ok_def)
  moreover have "(sec_Data out = d \<and> om_OwnerReferences (sec_Meta out) = om_OwnerReferences (sec_Meta old)) \<and>
      (st_objs st' k = None \<or> st_objs st' k = Some out)"
    using secret_store.Update_stored[OF u, of "\<lambda>_ new. sec_Data new = d \<and> om_OwnerReferences (sec_Meta new) = om_OwnerReferences (sec_Meta old)"]
      secret_BeforeUpdate by (auto simp: secretStrategy_def upd_meta_def)
  ultimately show ?thesis by auto
qed

lemma api_request_ok: "run_state (api_request E f) w = (Inr a, w') \<Longrightarrow> f (w \<lparr> w_tick := Suc (w_tick w) \<rparr>) = (Inr a, w')"
  by (auto simp: api_request_def Let_def split: option.splits if_splits)

text \<open>A secret that was written holds the data and is owned by the credential.\<close>
lemma inject_stored:
  assumes ok: "world_ok E w" and run: "run_state (injectServiceInstanceCredential E b credentials) w = (Inr (), w')"
  shows "\<exists>d x. serialize_credentials credentials [] = Inr d \<and>
    st_objs (w_secrets w') (om_Namespace (cr_Meta b), crs_SecretName (cr_Spec b)) = Some x \<and>
    sec_Data x = d \<and> IsControlledBy (sec_Meta x) (cr_Meta b)"
proof -
  let ?k = "(om_Namespace (cr_Meta b), crs_SecretName (cr_Spec b))"
  obtain d where d: "serialize_credentials credentials [] = Inr d"
    using run by (cases "serialize_credentials credentials []") (simp_all add: injectServiceInstanceCredential_def)
  obtain r w1 where g: "run_state (secrets_Get E (fst ?k) (snd ?k)) w = (r, w1)" by force
  note w1 = run_secrets_Get[OF g]
  show ?thesis
  proof (cases r)
    case (Inr s)
    have own: "IsControlledBy (sec_Meta s) (cr_Meta b)" and upd: "run_state (update_secret E b s d) w1 = (Inr (), w')"
      using run d g Inr by (auto simp: injectServiceInstanceCredential_def update_secret_def split: if_splits)
    obtain out where "run_state (secrets_Update E (om_Namespace (cr_Meta b)) (s \<lparr> sec_Data := d \<rparr>)) w1 = (Inr out, w')"
      using upd own by (auto simp: update_secret_def split: prod.splits sum.splits if_splits)
    then have u: "Update secretStrategy (client_ctx E (om_Namespace (cr_Meta b))) ?k (s \<lparr> sec_Data := d \<rparr>) (w_secrets w) = (Inr out, w_secrets w')"
      using w1 Inr stored_secret_name[OF ok, of "fst ?k" "snd ?k" s] unfolding secrets_Update_def
      by (auto dest!: api_request_ok split: prod.splits)
    have "st_objs (w_secrets w) ?k = Some s" "store_ok secretStrategy secret_valid (w_secrets w)"
      using w1 Inr ok by (simp_all add: world_ok_def)
    from secret_Update_stored[OF this(2,1) u] show ?thesis
      using own d by (auto simp: IsControlledBy_def GetControllerOf_def)
  next
    case (Inl e)
    then have "run_state (create_secret E b d) w1 = (Inr (), w')"
      using run d g by (auto simp: injectServiceInstanceCredential_def split: if_splits)
    then obtain out where "run_state (secrets_Create E (om_Namespace (cr_Meta b)) (new_secret b d)) w1 = (Inr out, w')"
      by (auto simp: create_secret_def split: prod.splits sum.splits if_splits)
    then obtain uid where c: "Create secretStrategy (client_ctx E (om_Namespace (cr_Meta b))) uid (new_secret b d) (w_secrets w) = (Inr out, w_secrets w')"
      using w1 unfolding secrets_Create_def by (auto dest!: api_request_ok split: prod.splits)
    from c show ?thesis
      using d by (cases rule: secret_Create_cases)
        (auto simp: client_ctx_def new_secret_def IsControlledBy_def GetControllerOf_def NewControllerRef_def)
  qed
qed

text \<open>A secret that another object owns is not touched.\<close>
lemma inject_refuses_unowned:
  assumes s: "st_objs (w_secrets w) (om_Namespace (cr_Meta b), crs_SecretName (cr_Spec b)) = Some s"
    and own: "\<not> IsControlledBy (sec_Meta s) (cr_Meta b)"
  shows "w_secrets (snd (run_state (injectServiceInstanceCredential E b credentials) w)) = w_secrets w \<and>
    (\<exists>e. fst (run_state (injectServiceInstanceCredential E b credentials) w) = Inl e)"
proof (cases "serialize_credentials credentials []")
  case (Inl e)
  then show ?thesis by (simp add: injectServiceInstanceCredential_def)
next
  case (Inr d)
  obtain r w1 where g: "run_state (secrets_Get E (om_Namespace (cr_Meta b)) (crs_SecretName (cr_Spec b))) w = (r, w1)" by force
  note w1 = run_secrets_Get[OF g]
  obtain rc w2 where c: "run_state (secrets_Create E (om_Namespace (cr_Meta b)) (new_secret b d)) w1 = (rc, w2)" by force
  have none: "\<exists>e. Create secretStrategy (client_ctx E (om_Namespace (cr_Meta b))) uid (new_secret b d) (w_secrets w) = (Inl e, w_secrets w)" for uid
  proof (cases "Create secretStrategy (client_ctx E (om_Namespace (cr_Meta b))) uid (new_secret b d) (w_secrets w)")
    case (Pair rr st)
    from Pair show ?thesis
    proof (cases rule: secret_Create_cases)
      case (refused e)
      then show ?thesis using Pair by simp
    qed (use s in \<open>simp add: client_ctx_def new_secret_def\<close>)
  qed
  have "(\<exists>e. rc = Inl e) \<and> w_secrets w2 = w_secrets w"
    using c none[of "ev_uid E (Suc (w_tick w1))"] w1
    by (auto simp: secrets_Create_def api_request_def Let_def split: option.splits if_splits prod.splits)
  then show ?thesis
    using Inr g w1 s own c
    by (cases r) (auto simp: injectServiceInstanceCredential_def update_secret_def create_secret_def)
qed

section \<open>Properties\<close>

text \<open>C7: the credentials of a binding reach the secret and no other secret is overwritten.  When the
  injection succeeds, the secret that the binding names holds the serialised credentials and is owned
  by the binding; when a secret of that name exists that the binding does not own, the injection fails
  and the secrets are as before.\<close>
theorem injection_respects_ownership:
  assumes "world_ok E w" "run_state (injectServiceInstanceCredential E b credentials) w = (r, w')"
  shows "(r = Inr () \<longrightarrow> (\<exists>d x. serialize_credentials credentials [] = Inr d \<and>
      st_objs (w_secrets w') (om_Namespace (cr_Meta b), crs_SecretName (cr_Spec b)) = Some x \<and>
      sec_Data x = d \<and> IsControlledBy (sec_Meta x) (cr_Meta b))) \<and>
    (\<forall>s. st_objs (w_secrets w) (om_Namespace (cr_Meta b), crs_SecretName (cr_Spec b)) = Some s \<longrightarrow>
      \<not> IsControlledBy (sec_Meta s) (cr_Meta b) \<longrightarrow> r \<noteq> Inr () \<and> w_secrets w' = w_secrets w)"
  using inject_stored[OF assms(1), of b credentials w'] inject_refuses_unowned[of w b _ E credentials] assms(2)
  by auto

text \<open>C24: no bind request is sent for an instance that is not usable: one that is not ready, or that has an
  asynchronous operation in progress.\<close>
theorem no_bind_before_instance_is_ready:
  assumes "lister_get si_Meta (w_instanceCache w) (om_Namespace (cr_Meta b)) (crs_ServiceInstanceRef (cr_Spec b)) = Inr inst"
    and "\<not> isServiceInstanceReady inst \<or> ist_AsyncOpInProgress (si_Status inst)"
  shows "log_only (\<lambda>a. \<exists>client request. a = BrokerUnbindCall client request) w
    (snd (run_state (reconcileServiceInstanceCredential E b) w))"
proof -
  let ?R = "log_only (\<lambda>a. \<exists>client request. a = BrokerUnbindCall client request)"
  have bind: "keeps ?R (bind_at_broker E sc sp brokerName client inst b)" if "\<not> isServiceInstanceReady inst" for sc sp brokerName client
    unfolding bind_at_broker_def Let_def using that by (simp, intro keeps_intros) simp_all
  have "keeps ?R (reconcile_with_instance E b inst)"
    unfolding reconcile_with_instance_def Let_def using assms(2)
    by (intro keeps_intros bind) auto
  then have "?R w (snd (run_state (reconcile_with_instance E b inst) w))" by (simp add: keeps_def)
  then show ?thesis
    using assms(1) by (simp add: reconcileServiceInstanceCredential_def instanceLister_Get_def log_only_same)
qed

text \<open>A binding whose generation counts as reconciled cannot be unbound.  An unbind request that the
  broker answers with an error leaves such a status; the start of the next unbind is then refused by
  the validation of the status, so that no later run of the control loop reaches the broker.\<close>
theorem reconciled_unbind_is_stuck:
  assumes "om_DeletionTimestamp (cr_Meta b) \<noteq> None" "crst_CurrentOperation (cr_Status b) = CredentialOperationNone"
    and "st_objs (w_credentials w) (cred_key b) = Some s" "om_Generation (cr_Meta s) = crst_ReconciledGeneration (cr_Status b)"
  shows "log_only (\<lambda>_. False) w (snd (run_state (reconcileServiceInstanceCredential E b) w))"
proof -
  let ?R = "quiet_at (cred_key b) (crst_ReconciledGeneration (cr_Status b))"
  have unbind: "keeps ?R (unbind_at_broker E sc sp brokerName client inst b)" for sc sp brokerName client inst
    unfolding unbind_at_broker_def Let_def
    by (intro keeps_intros quiet.keeps_eject keeps_stopped unbind_start_refused assms(2)) auto
  have "keeps ?R (reconcileServiceInstanceCredential E b)"
    unfolding reconcileServiceInstanceCredential_def reconcile_with_instance_def Let_def
    by (intro unbind keeps_intros) (use assms(1) in simp_all)
  moreover have "generation_is (cred_key b) (crst_ReconciledGeneration (cr_Status b)) w" using assms(3,4) by (simp add: generation_is_def)
  ultimately show ?thesis by (simp add: keeps_def quiet_at_def)
qed

text \<open>Orphan mitigation of a binding is never recorded.  When the controller decides to mitigate an
  orphan, because of the status code of the bind request or because that request timed out, the status
  it writes has an operation without a start time; the API server refuses it, and the stored
  credentials are as before.\<close>
theorem binding_orphan_mitigation_is_refused:
  assumes "crst_CurrentOperation (cr_Status c) \<noteq> CredentialOperationNone" "bind_needs_mitigation code"
    and "m \<in> {bind_http_error E sc brokerName inst b c err code, bind_timeout E sc brokerName inst b c err,
              setAndUpdateOrphanMitigation E b c inst sc brokerName detail}"
  shows "w_credentials (snd (run_state m w)) = w_credentials w \<and> (\<exists>e. fst (run_state m w) = Inl e)"
proof -
  have refused: "w_credentials (snd (run_state (setAndUpdateOrphanMitigation E b d inst sc brokerName s) w1)) = w_credentials w1 \<and>
      (\<exists>e. fst (run_state (setAndUpdateOrphanMitigation E b d inst sc brokerName s) w1) = Inl e)"
    if "crst_CurrentOperation (cr_Status d) = crst_CurrentOperation (cr_Status c)" for d s w1
  proof -
    let ?w = "w1 \<lparr> w_tick := Suc (w_tick w1) \<rparr>"
    have "\<exists>d2 w2. crst_CurrentOperation (cr_Status d2) = crst_CurrentOperation (cr_Status c) \<and> crst_OperationStartTime (cr_Status d2) = None \<and>
        w_credentials w2 = w_credentials w1 \<and>
        run_state (setAndUpdateOrphanMitigation E b d inst sc brokerName s) w1 = run_state (credential_status_then E d2 (State_Monad.return (Inr ()))) w2"
      unfolding setAndUpdateOrphanMitigation_def Let_def run_state_bind run_credential_condition run_binding_event split_conv
      by (intro exI conjI) (auto simp: that start_orphan_mitigation_def setServiceInstanceCredentialConditionInternal_def)
    then show ?thesis using credential_unstarted_refused assms(1) by metis
  qed
  show ?thesis
    using assms(2,3)
    by (auto simp: bind_http_error_def bind_timeout_def run_credential_condition refused
        setServiceInstanceCredentialConditionInternal_def simp del: append.simps)
qed

end
