(* ===== verification/SC_BrokerProps.thy ===== *)
theory SC_BrokerProps
  imports SC_BrokerFrame
begin

text \<open>
  The behaviour of the broker control loop on its branches: when a broker is listed again, which
  conditions its status can show, what it does to classes and plans that belong to another broker, and
  that the deletion of a broker removes its classes.
\<close>

section \<open>Deletion of classes\<close>

lemma class_valid_cluster: "class_valid c \<Longrightarrow> om_Namespace (sc_Meta c) = []"
  by (auto simp: class_valid_def ValidateServiceClass_def internalValidateServiceClass_def ValidateObjectMeta_def split: if_splits)

text \<open>Classes have no graceful deletion and their store ignores finalizers: a request removes them.\<close>
lemma class_Delete_gone:
  "st_objs (snd (Delete serviceclassRESTStrategies ctx now k empty_delete_options st)) k = None"
  by (simp add: Delete_def BeforeDelete_def serviceclassRESTStrategies_def empty_delete_options_def split: option.split)

text \<open>No class is added or changed.\<close>
definition classes_shrink :: "world \<Rightarrow> world \<Rightarrow> bool" where
  "classes_shrink w w' \<longleftrightarrow> (\<forall>k. st_objs (w_classes w') k = None \<or> st_objs (w_classes w') k = st_objs (w_classes w) k)"

lemma classes_shrink_same: "w_classes w' = w_classes w \<Longrightarrow> classes_shrink w w'"
  by (simp add: classes_shrink_def)

interpretation shrink: client_relation classes_shrink E "\<lambda>_. True" for E
  by unfold_locales (auto simp: classes_shrink_def, metis)

lemma class_Delete_shrinks:
  "st_objs (snd (Delete serviceclassRESTStrategies ctx now k empty_delete_options st)) k' = None \<or>
   st_objs (snd (Delete serviceclassRESTStrategies ctx now k empty_delete_options st)) k' = st_objs st k'"
  by (metis class_Delete_gone Delete_other)

lemma keeps_shrink [keeps_intros]:
  "keeps classes_shrink (brokers_UpdateStatus E b)" "keeps classes_shrink (plans_Delete E name)"
  unfolding brokers_UpdateStatus_def plans_Delete_def
  by (rule shrink.keeps_api_request, simp add: split_beta classes_shrink_same)+

lemma keeps_shrink_delete [keeps_intros]: "keeps classes_shrink (classes_Delete E name)"
  unfolding classes_Delete_def
  by (rule shrink.keeps_api_request) (use class_Delete_shrinks in \<open>simp add: split_beta classes_shrink_def\<close>)

lemma keeps_shrink_condition [keeps_intros]: "keeps classes_shrink (updateClusterServiceBrokerCondition E b ty st reason msg)"
  unfolding updateClusterServiceBrokerCondition_def by (intro keeps_intros)

lemma keeps_shrink_plans [keeps_intros]: "keeps classes_shrink (delete_class_plans E b sc plans)"
  by (induction plans) (auto simp: broker_event_def Let_def intro!: keeps_intros)

lemma keeps_shrink_class [keeps_intros]: "keeps classes_shrink (delete_class E b sc)"
  unfolding delete_class_def broker_condition_then_def broker_event_def Let_def by (intro keeps_intros)

lemma keeps_shrink_classes [keeps_intros]: "keeps classes_shrink (delete_broker_classes E b scs)"
  by (induction scs) (auto intro!: keeps_intros)

lemma keeps_shrink_finalizers [keeps_intros]: "keeps classes_shrink (updateClusterServiceBrokerFinalizers E b fs)"
  unfolding updateClusterServiceBrokerFinalizers_def by (intro keeps_intros)

lemma shrinkI: "keeps classes_shrink m \<Longrightarrow> run_state m w = (r, w') \<Longrightarrow> classes_shrink w w'"
  by (metis keeps_def snd_conv)

lemma shrink_gone: "classes_shrink w w' \<Longrightarrow> st_objs (w_classes w) k = None \<Longrightarrow> st_objs (w_classes w') k = None"
  by (metis classes_shrink_def)

lemma shrink_stored: "classes_shrink w w' \<Longrightarrow> st_objs (w_classes w') k = Some c \<Longrightarrow> st_objs (w_classes w) k = Some c"
  by (metis classes_shrink_def option.distinct(1))

lemma broker_condition_then_fails: "fst (run_state (broker_condition_then E b st reason msg e) w) \<noteq> Inr ()"
proof (cases "run_state (updateClusterServiceBrokerCondition E b ConditionReady st reason msg) w")
  case (Pair r w')
  then show ?thesis by (cases r) (simp_all add: broker_condition_then_def)
qed

lemma delete_class_gone:
  assumes "\<And>t. ev_fault E t = None" "run_state (delete_class E b sc) w = (Inr (), w')"
  shows "st_objs (w_classes w') ([], om_Name (sc_Meta sc)) = None"
proof -
  obtain r w1 where d: "run_state (classes_Delete E (om_Name (sc_Meta sc))) w = (r, w1)" by force
  have "st_objs (w_classes w1) ([], om_Name (sc_Meta sc)) = None"
    using d assms(1) class_Delete_gone
    by (auto simp: classes_Delete_def api_request_def Let_def split: prod.splits) (metis snd_conv)
  moreover have "w' = w1"
    using assms(2) d broker_condition_then_fails
    by (auto simp: delete_class_def Let_def split: sum.splits if_splits prod.splits) (metis fst_conv)
  ultimately show ?thesis by simp
qed

lemma delete_broker_classes_gone:
  assumes "\<And>t. ev_fault E t = None" "run_state (delete_broker_classes E b scs) w = (Inr (), w')"
    and "c \<in> set scs" "scs_ClusterServiceBrokerName (sc_Spec c) = om_Name (bk_Meta b)"
  shows "st_objs (w_classes w') ([], om_Name (sc_Meta c)) = None"
  using assms(2,3)
proof (induction scs arbitrary: w)
  case (Cons sc scs)
  show ?case
  proof (cases "scs_ClusterServiceBrokerName (sc_Spec sc) = om_Name (bk_Meta b)")
    case True
    obtain rp w1 where p: "run_state (delete_class_plans E b sc (w_planCache w)) w = (rp, w1)" by force
    obtain rc w2 where c: "run_state (delete_class E b sc) w1 = (rc, w2)" by force
    have ok: "rp = Inr () \<and> rc = Inr () \<and> run_state (delete_broker_classes E b scs) w2 = (Inr (), w')"
      using Cons.prems(1) True p c by (cases rp; cases rc; simp add: servicePlanLister_List_def)
    then have rest: "run_state (delete_broker_classes E b scs) w2 = (Inr (), w')" by simp
    from ok have "st_objs (w_classes w2) ([], om_Name (sc_Meta sc)) = None" using delete_class_gone[OF assms(1)] c by blast
    then have "st_objs (w_classes w') ([], om_Name (sc_Meta sc)) = None"
      using shrink_gone shrinkI[OF keeps_shrink_classes rest] by blast
    then show ?thesis using Cons.IH[OF rest] Cons.prems(2) by auto
  next
    case False
    then show ?thesis using Cons assms(4) by auto
  qed
qed simp

text \<open>The deletion of a broker: the loop over the cached classes, then steps that add none.\<close>
lemma reconcile_broker_delete_split:
  assumes "FinalizerServiceCatalog \<in> set (om_Finalizers (bk_Meta b))" "run_state (reconcile_broker_delete E b) w = (Inr (), w')"
  shows "\<exists>w1. run_state (delete_broker_classes E b (w_classCache w)) w = (Inr (), w1) \<and> classes_shrink w1 w'"
proof -
  define T where "T = do {
    ru \<leftarrow> updateClusterServiceBrokerCondition E b ConditionReady ConditionFalse
            successClusterServiceBrokerDeletedReason ''The broker was deleted successfully'';
    on_ok ru (\<lambda>_. do {
      _ \<leftarrow> updateClusterServiceBrokerFinalizers E b (delete_finalizer FinalizerServiceCatalog (om_Finalizers (bk_Meta b)));
      broker_event b EventTypeNormal successClusterServiceBrokerDeletedReason
        (''The broker '' @ om_Name (bk_Meta b) @ '' was deleted successfully.'');
      State_Monad.return (Inr () :: go_error + unit) }) }"
  obtain rd w1 where d: "run_state (delete_broker_classes E b (w_classCache w)) w = (rd, w1)" by force
  have T: "keeps classes_shrink T" unfolding T_def broker_event_def by (intro keeps_intros)
  have "run_state (reconcile_broker_delete E b) w = (case rd of Inl e \<Rightarrow> (Inl e, w1) | Inr _ \<Rightarrow> run_state T w1)"
    unfolding reconcile_broker_delete_def T_def[symmetric] using assms(1) d
    by (simp add: serviceClassLister_List_def split: sum.split)
  then have "rd = Inr () \<and> run_state T w1 = (Inr (), w')" using assms(2) by (cases rd) auto
  then show ?thesis using d shrinkI[OF T] by blast
qed

section \<open>Listing\<close>

lemma relist_due_iff:
  "relist_due spec now cs \<longleftrightarrow> (case first_condition ConditionReady cs of
     None \<Rightarrow> True
   | Some c \<Rightarrow> c_Status c \<noteq> ConditionTrue \<or> bks_RelistBehavior spec \<noteq> RelistManualBehavior \<and>
       (\<exists>d. bks_RelistDuration spec = Some d \<and> c_LastTransitionTime c + d < now))"
  by (induction cs) (auto simp: first_condition_def split: option.split)

lemma first_condition_Nil [simp]: "first_condition ty [] = None"
  by (simp add: first_condition_def)

lemma plan_not_collected: "\<not> shouldDeleteDuringUpdate serviceplanRESTStrategies new old"
  by (simp add: shouldDeleteDuringUpdate_def serviceplanRESTStrategies_def)

section \<open>Properties\<close>

text \<open>A broker is listed exactly if its generation is not reconciled, it is being deleted, it has no
  \<open>Ready\<close> condition, it is not ready, or it relists by duration and more than the duration has passed
  since it became ready.  Otherwise the handler does nothing but read the clock.\<close>
theorem broker_is_relisted_iff:
  "shouldReconcileClusterServiceBroker b now \<longleftrightarrow>
     bkst_ReconciledGeneration (bk_Status b) \<noteq> om_Generation (bk_Meta b) \<or> om_DeletionTimestamp (bk_Meta b) \<noteq> None \<or>
     (case first_condition ConditionReady (bkst_Conditions (bk_Status b)) of
        None \<Rightarrow> True
      | Some c \<Rightarrow> c_Status c \<noteq> ConditionTrue \<or> bks_RelistBehavior (bk_Spec b) \<noteq> RelistManualBehavior \<and>
          (\<exists>d. bks_RelistDuration (bk_Spec b) = Some d \<and> c_LastTransitionTime c + d < now))"
  by (auto simp: shouldReconcileClusterServiceBroker_def relist_due_iff split: option.split)

text \<open>C40: a condition of a new type is lost.  Setting a condition of a broker shows it in the status if the
  broker had no condition at all or had one of that type; otherwise the conditions stay as they were,
  so that a broker which is given up never shows the condition \<open>Failed\<close> next to \<open>Ready\<close>.\<close>
theorem broker_condition_is_shown_iff:
  "(\<exists>c. first_condition ty (bkst_Conditions (bk_Status (setClusterServiceBrokerCondition b ty st reason msg t))) = Some c \<and>
        c_Status c = st \<and> c_Reason c = reason \<and> c_Message c = msg) \<longleftrightarrow>
     bkst_Conditions (bk_Status b) = [] \<or> first_condition ty (bkst_Conditions (bk_Status b)) \<noteq> None"
  (is "?shown \<longleftrightarrow> ?had")
proof (cases "first_condition ty (bkst_Conditions (bk_Status b))")
  case None
  then show ?thesis
    by (auto simp: setClusterServiceBrokerCondition_def broker_set_condition_def replace_condition_absent, simp add: first_condition_def)
next
  case (Some c)
  then show ?thesis
    using replace_condition_present[of ty "bkst_Conditions (bk_Status b)" st reason msg t]
    by (auto simp: setClusterServiceBrokerCondition_def broker_set_condition_def first_condition_set_same)
qed

text \<open>The classes of another broker are safe.  If the cache shows a class of the same name under
  another broker, or with another external identifier, the reconciliation of the class fails without a
  request.\<close>
theorem class_of_another_broker_is_kept:
  assumes "lister_get sc_Meta (w_classCache w) [] (om_Name (sc_Meta sc)) = Inr existing"
    and "scs_ClusterServiceBrokerName (sc_Spec existing) \<noteq> om_Name (bk_Meta b) \<or>
         scs_ExternalID (sc_Spec existing) \<noteq> scs_ExternalID (sc_Spec sc)"
  shows "\<exists>e. run_state (reconcileServiceClassFromClusterServiceBrokerCatalog E b sc) w = (Inl e, w)"
  using assms
  by (auto simp: reconcileServiceClassFromClusterServiceBrokerCatalog_def serviceClassLister_Get_def Let_def
      simp del: append.simps)

text \<open>C9: deleting a broker removes its classes.  With a cache that has every stored class and without
  transport errors, a run that succeeds leaves no stored class of the broker.\<close>
theorem deleted_broker_leaves_no_classes:
  assumes "world_ok E w" "\<And>t. ev_fault E t = None"
    and "\<And>k c. st_objs (w_classes w) k = Some c \<Longrightarrow> c \<in> set (w_classCache w)"
    and "om_DeletionTimestamp (bk_Meta b) \<noteq> None" "FinalizerServiceCatalog \<in> set (om_Finalizers (bk_Meta b))"
    and "run_state (reconcileClusterServiceBroker E b) w = (Inr (), w')" "st_objs (w_classes w') k = Some c"
  shows "scs_ClusterServiceBrokerName (sc_Spec c) \<noteq> om_Name (bk_Meta b)"
proof
  assume b: "scs_ClusterServiceBrokerName (sc_Spec c) = om_Name (bk_Meta b)"
  define w0 where "w0 = w \<lparr> w_tick := Suc (w_tick w) \<rparr>"
  have due: "shouldReconcileClusterServiceBroker b now" for now
    using assms(4) by (simp add: shouldReconcileClusterServiceBroker_def)
  have run: "run_state (reconcile_broker_delete E b) w0 = (Inr (), w')"
    using assms(4,6) due by (auto simp: reconcileClusterServiceBroker_def time_Now_def tick_def w0_def)
  obtain w1 where d: "run_state (delete_broker_classes E b (w_classCache w)) w0 = (Inr (), w1)" "classes_shrink w1 w'"
    using reconcile_broker_delete_split[OF assms(5) run] by (auto simp: w0_def)
  have "classes_shrink w0 w'" using shrink.trans_R shrinkI[OF keeps_shrink_classes d(1)] d(2) by blast
  then have stored: "st_objs (w_classes w) k = Some c" using shrink_stored[OF _ assms(7), of w0] by (simp add: w0_def)
  have c: "c \<in> set (w_classCache w)" "([], om_Name (sc_Meta c)) = k"
    using assms(3)[OF stored] store_okD[of serviceclassRESTStrategies class_valid "w_classes w" k c] stored assms(1)
    by (auto simp: world_ok_def key_of_def class_valid_cluster serviceclassRESTStrategies_def)
  have "st_objs (w_classes w1) k = None" using delete_broker_classes_gone[OF assms(2) d(1) c(1) b] c(2) by simp
  then show False using shrink_gone[OF d(2)] assms(7) by simp
qed

text \<open>The plans of another broker are not safe.  A plan in the cache with the same external identifier is
  overwritten whichever broker it belongs to: if the reconciliation of the plan succeeds, the stored
  plan has the description, the flags and the schemas of the catalog, but keeps the broker and the
  external name that it had.\<close>
theorem plan_of_another_broker_is_overwritten:
  assumes "lister_get sp_Meta (w_planCache w) [] (om_Name (sp_Meta sp)) = Inr existing"
    and "sps_ExternalID (sp_Spec existing) = sps_ExternalID (sp_Spec sp)"
    and "run_state (reconcileServicePlan E b sp) w = (Inr (), w')"
  shows "\<exists>x. st_objs (w_plans w') ([], om_Name (sp_Meta sp)) = Some x \<and>
    sps_Description (sp_Spec x) = sps_Description (sp_Spec sp) \<and> sps_Free (sp_Spec x) = sps_Free (sp_Spec sp) \<and>
    sps_Bindable (sp_Spec x) = sps_Bindable (sp_Spec sp) \<and>
    sps_ServiceInstanceCreateParameterSchema (sp_Spec x) = sps_ServiceInstanceCreateParameterSchema (sp_Spec sp) \<and>
    sps_ClusterServiceBrokerName (sp_Spec x) = sps_ClusterServiceBrokerName (sp_Spec existing) \<and>
    sps_ExternalName (sp_Spec x) = sps_ExternalName (sp_Spec existing)"
proof -
  let ?sp = "sp_Spec_update (\<lambda>s. s \<lparr> sps_ClusterServiceBrokerName := om_Name (bk_Meta b) \<rparr>) sp"
  let ?p = "project_plan ?sp existing"
  have name: "om_Name (sp_Meta existing) = om_Name (sp_Meta sp)"
    using assms(1) by (auto simp: lister_get_def find_Some_iff split: option.splits)
  obtain out where "run_state (plans_Update E ?p) w = (Inr out, w')"
    using assms by (auto simp: reconcileServicePlan_def servicePlanLister_Get_def Let_def on_ok_def split: prod.splits sum.splits)
  then have u: "Update serviceplanRESTStrategies (client_ctx E []) ([], om_Name (sp_Meta sp)) ?p (w_plans w) = (Inr out, w_plans w')"
    using name by (auto simp: plans_Update_def api_request_def Let_def project_plan_def split: option.splits prod.splits if_splits)
  then obtain old new where o: "st_objs (w_plans w) ([], om_Name (sp_Meta sp)) = Some old"
    "BeforeUpdate serviceplanRESTStrategies (client_ctx E []) ?p old = Inr new"
    "(out, w_plans w') = write_object serviceplanRESTStrategies ([], om_Name (sp_Meta sp)) old new (w_plans w)"
    using plan_store.Update_ok[OF u] by (metis plan_not_collected)
  have new: "sp_Spec new = (sp_Spec ?p) \<lparr> sps_ServiceClassRef := sps_ServiceClassRef (sp_Spec old) \<rparr>"
    using o(2) by (auto simp: BeforeUpdate_def bind_result_eq_Inr Let_def serviceplanRESTStrategies_def upd_meta_def
        settle_namespace_def RepairObjectMeta_def serviceplan_PrepareForUpdate_def split: if_splits)
  note out = plan_store.write_object_result[OF o(3)[symmetric] o(1)]
  have "sp_Spec out = sp_Spec new" by (subst out[THEN conjunct2, THEN conjunct2, THEN conjunct1]) (simp add: upd_meta_def serviceplanRESTStrategies_def)
  then show ?thesis using out new by (auto simp: project_plan_def)
qed

end
