(* ===== verification/SC_Admission.thy ===== *)
theory SC_Admission
  imports SC_Client SC_Constants
begin

text \<open>
  What the API server does to a request before the registry: the defaulting functions
  (\<open>pkg/apis/servicecatalog/v1alpha1/defaults.go\<close>), the admission plugins under
  \<open>plugin/pkg/admission\<close> and their chain, and the metadata helpers of \<open>pkg/api/meta\<close>.  A plugin returns an
  error or the attributes, whose object the default-plan plugin changes in place.  The informer caches,
  the answers of the API server and of the authorizer and the result of waiting for the caches are
  the record \<open>plugin_env\<close>.
\<close>

section \<open>Defaults\<close>

definition nanoseconds_per_minute :: int where "nanoseconds_per_minute = 60000000000"

definition SetDefaults_ClusterServiceBrokerSpec :: "BrokerSpec \<Rightarrow> BrokerSpec" where
  "SetDefaults_ClusterServiceBrokerSpec spec =
     (let spec1 = (if bks_RelistBehavior spec = RelistOther [] then spec \<lparr> bks_RelistBehavior := RelistDurationBehavior \<rparr> else spec)
      in if bks_RelistBehavior spec1 = RelistDurationBehavior \<and> bks_RelistDuration spec1 = None
         then spec1 \<lparr> bks_RelistDuration := Some (15 * nanoseconds_per_minute) \<rparr> else spec1)"

text \<open>\<open>uuid\<close> is the result of \<open>uuid.NewV4().String()\<close>.\<close>
definition SetDefaults_ServiceInstanceSpec :: "string \<Rightarrow> InstanceSpec \<Rightarrow> InstanceSpec" where
  "SetDefaults_ServiceInstanceSpec uuid spec =
     (if sis_ExternalID spec = [] then spec \<lparr> sis_ExternalID := uuid \<rparr> else spec)"

definition SetDefaults_ServiceInstanceCredentialSpec :: "string \<Rightarrow> CredentialSpec \<Rightarrow> CredentialSpec" where
  "SetDefaults_ServiceInstanceCredentialSpec uuid spec =
     (if crs_ExternalID spec = [] then spec \<lparr> crs_ExternalID := uuid \<rparr> else spec)"

definition SetDefaults_ServiceInstanceCredential :: "ServiceInstanceCredential \<Rightarrow> ServiceInstanceCredential" where
  "SetDefaults_ServiceInstanceCredential b =
     (if crs_SecretName (cr_Spec b) = []
      then cr_Spec_update (\<lambda>s. s \<lparr> crs_SecretName := om_Name (cr_Meta b) \<rparr>) b else b)"

section \<open>Metadata helpers\<close>

text \<open>The objects of the catalog all have metadata, so that \<open>meta.Accessor\<close> does not fail on them.\<close>
definition ErrNoDeletionTimestamp :: go_error where
  "ErrNoDeletionTimestamp = PlainError ''no deletion timestamp set''"

definition GetDeletionTimestamp :: "ObjectMeta \<Rightarrow> go_error + go_time" where
  "GetDeletionTimestamp m = (case om_DeletionTimestamp m of None \<Rightarrow> Inl ErrNoDeletionTimestamp | Some t \<Rightarrow> Inr t)"

definition DeletionTimestampExists :: "ObjectMeta \<Rightarrow> go_error + bool" where
  "DeletionTimestampExists m = (case GetDeletionTimestamp m of
     Inl e \<Rightarrow> if e = ErrNoDeletionTimestamp then Inr False else Inl e
   | Inr _ \<Rightarrow> Inr True)"

definition SetDeletionTimestamp :: "go_time \<Rightarrow> ObjectMeta \<Rightarrow> ObjectMeta" where
  "SetDeletionTimestamp t m = m \<lparr> om_DeletionTimestamp := Some t \<rparr>"

definition GetFinalizers :: "ObjectMeta \<Rightarrow> string list" where
  "GetFinalizers m = om_Finalizers m"

text \<open>\<open>sets.String\<close>: \<open>List\<close> is sorted and without duplicates.\<close>
definition AddFinalizer :: "string \<Rightarrow> ObjectMeta \<Rightarrow> ObjectMeta" where
  "AddFinalizer v m = m \<lparr> om_Finalizers := sort (remdups (v # om_Finalizers m)) \<rparr>"

definition RemoveFinalizer :: "string \<Rightarrow> ObjectMeta \<Rightarrow> string list \<times> ObjectMeta" where
  "RemoveFinalizer v m =
     (let newFinalizers = sort (remdups (filter (\<lambda>f. f \<noteq> v) (om_Finalizers m)))
      in (newFinalizers, m \<lparr> om_Finalizers := newFinalizers \<rparr>))"

section \<open>Requests\<close>

datatype admission_operation = AdmissionCreate | AdmissionUpdate | AdmissionDelete | AdmissionConnect

datatype runtime_object =
  InstanceObject ServiceInstance
| CredentialObject ServiceInstanceCredential
| BrokerObject ClusterServiceBroker
| ClassObject ServiceClass
| PlanObject ServicePlan

fun object_meta :: "runtime_object \<Rightarrow> ObjectMeta" where
  "object_meta (InstanceObject i) = si_Meta i"
| "object_meta (CredentialObject b) = cr_Meta b"
| "object_meta (BrokerObject b) = bk_Meta b"
| "object_meta (ClassObject c) = sc_Meta c"
| "object_meta (PlanObject p) = sp_Meta p"

record attributes =
  at_Operation :: admission_operation
  at_Group :: string
  at_Resource :: string
  at_Subresource :: string
  at_Namespace :: string
  at_Object :: "runtime_object option"
  at_UserInfo :: UserInfo

definition catalog_group :: string where "catalog_group = ''servicecatalog.k8s.io''"

text \<open>\<open>a.GetResource().Group == GroupName && a.GetResource().GroupResource() == Resource(name)\<close>\<close>
definition is_resource :: "attributes \<Rightarrow> string \<Rightarrow> bool" where
  "is_resource a name \<longleftrightarrow> at_Group a = catalog_group \<and> at_Resource a = name"

definition IsForbidden :: "go_error \<Rightarrow> bool" where
  "IsForbidden e = (case e of StatusError r _ \<Rightarrow> r = StatusReasonForbidden | _ \<Rightarrow> False)"

definition extractResourceName :: "attributes \<Rightarrow> string" where
  "extractResourceName a = (case at_Object a of
     None \<Rightarrow> ''Unknown''
   | Some obj \<Rightarrow> if length (om_Name (object_meta obj)) > 0 then om_Name (object_meta obj) else ''Unknown'')"

definition admission_NewForbidden :: "attributes \<Rightarrow> go_error \<Rightarrow> go_error" where
  "admission_NewForbidden a err =
     (if IsForbidden err then err
      else StatusError StatusReasonForbidden
        ((if at_Group a = [] then at_Resource a else at_Resource a @ ''.'' @ at_Group a) @ '' '' @
         quoted (extractResourceName a) @ '' is forbidden: '' @ error_string err))"

definition admission_NewNotFound :: "attributes \<Rightarrow> go_error" where
  "admission_NewNotFound a = NewNotFound (extractResourceName a)"

definition NewInternalError :: "go_error \<Rightarrow> go_error" where
  "NewInternalError e = StatusError (StatusReasonOther ''InternalError'') (''Internal error occurred: '' @ error_string e)"

datatype namespace_phase = NamespaceActive | NamespaceTerminating

record SubjectAccessReview =
  sar_Namespace :: string
  sar_Verb :: string
  sar_Group :: string
  sar_Version :: string
  sar_Resource :: string
  sar_Name :: string
  sar_User :: string
  sar_Groups :: "string list"
  sar_Extra :: "(string \<times> string list) list"

record SarStatus =
  sarst_Allowed :: bool
  sarst_Reason :: string
  sarst_EvaluationError :: string

text \<open>What the plugins see: the result of \<open>WaitForReady\<close>, their caches, two reads of the namespace cache, and
  the answers to the live lookups.\<close>
record plugin_env =
  pe_ready :: bool
  pe_classes :: "ServiceClass list"
  pe_plans :: "ServicePlan list"
  pe_instances :: "ServiceInstance list"
  pe_namespace_cache :: "string \<Rightarrow> go_error + namespace_phase"
  pe_namespace_cache_later :: "string \<Rightarrow> go_error + namespace_phase"
  pe_namespace_live :: "string \<Rightarrow> go_error + namespace_phase"
  pe_list_classes :: "string \<Rightarrow> go_error + ServiceClass list"
  pe_review :: "SubjectAccessReview \<Rightarrow> go_error + SarStatus"

definition not_ready :: "attributes \<Rightarrow> go_error" where
  "not_ready a = admission_NewForbidden a (PlainError ''not yet ready to handle request'')"

section \<open>The plugins\<close>

text \<open>\<open>serviceplan/changevalidator\<close>\<close>
definition denyPlanChangeIfNotUpdatable_Admit :: "plugin_env \<Rightarrow> attributes \<Rightarrow> go_error + attributes" where
  "denyPlanChangeIfNotUpdatable_Admit P a =
     (if \<not> pe_ready P then Inl (not_ready a)
      else if \<not> is_resource a ''serviceinstances'' then Inr a
      else case at_Object a of
        Some (InstanceObject inst) \<Rightarrow>
          (case lister_get sc_Meta (pe_classes P) [] (sis_ExternalServiceClassName (si_Spec inst)) of
             Inl err \<Rightarrow> if IsNotFound err then Inr a else Inl (admission_NewForbidden a err)
           | Inr sc \<Rightarrow>
               if scs_PlanUpdatable (sc_Spec sc) then Inr a
               else if sis_ExternalServicePlanName (si_Spec inst) \<noteq> [] then
                 (case lister_get si_Meta (pe_instances P) (om_Namespace (si_Meta inst)) (om_Name (si_Meta inst)) of
                    Inl err \<Rightarrow> Inl err
                  | Inr origInstance \<Rightarrow>
                      if sis_ExternalServicePlanName (si_Spec inst) \<noteq> sis_ExternalServicePlanName (si_Spec origInstance)
                      then Inl (admission_NewForbidden a
                             (PlainError (''The Service Class '' @ om_Name (sc_Meta sc) @ '' does not allow plan changes.'')))
                      else Inr a)
               else Inr a)
      | _ \<Rightarrow> Inl (NewBadRequest ''Resource was marked with kind Instance but was unable to be converted''))"

text \<open>\<open>serviceplan/defaultserviceplan\<close>\<close>
definition getServiceClassByExternalName :: "plugin_env \<Rightarrow> attributes \<Rightarrow> string \<Rightarrow> go_error + ServiceClass" where
  "getServiceClassByExternalName P a scName = (case pe_list_classes P scName of
     Inl err \<Rightarrow> Inl err
   | Inr items \<Rightarrow> (case items of [c] \<Rightarrow> Inr c | _ \<Rightarrow> Inl (admission_NewNotFound a)))"

definition defaultServicePlan_Admit :: "plugin_env \<Rightarrow> attributes \<Rightarrow> go_error + attributes" where
  "defaultServicePlan_Admit P a =
     (if \<not> pe_ready P then Inl (not_ready a)
      else if \<not> is_resource a ''serviceinstances'' then Inr a
      else case at_Object a of
        Some (InstanceObject inst) \<Rightarrow>
          (if length (sis_ExternalServicePlanName (si_Spec inst)) > 0 then Inr a
           else case getServiceClassByExternalName P a (sis_ExternalServiceClassName (si_Spec inst)) of
             Inl err \<Rightarrow>
               if \<not> IsNotFound err then Inl (admission_NewForbidden a err)
               else Inl (admission_NewForbidden a (PlainError (''ServiceClass '' @ quoted (sis_ExternalServiceClassName (si_Spec inst)) @
                      '' does not exist, can not figure out the default Service Plan.'')))
           | Inr sc \<Rightarrow>
               (let plans = pe_plans P in
                if length plans \<le> 0
                then Inl (admission_NewForbidden a (PlainError (''no plans found at all for service class '' @
                       quoted (sis_ExternalServiceClassName (si_Spec inst)))))
                else if length plans > 1
                then Inl (admission_NewForbidden a (PlainError (''ServiceClass '' @ quoted (sis_ExternalServiceClassName (si_Spec inst)) @
                       '' has more than one plan, PlanName must be specified'')))
                else Inr (a \<lparr> at_Object := Some (InstanceObject (si_Spec_update
                       (\<lambda>s. s \<lparr> sis_ExternalServicePlanName := sps_ExternalName (sp_Spec (plans ! 0)) \<rparr>) inst)) \<rparr>)))
      | _ \<Rightarrow> Inl (NewBadRequest ''Resource was marked with kind Instance but was unable to be converted''))"

text \<open>\<open>namespace/lifecycle\<close>\<close>
definition lifecycle_lookup :: "plugin_env \<Rightarrow> attributes \<Rightarrow> namespace_phase option \<Rightarrow> go_error + namespace_phase" where
  "lifecycle_lookup P a cached =
     bind_result
       (if cached = None \<and> at_Operation a = AdmissionCreate then
          (case pe_namespace_cache_later P (at_Namespace a) of
             Inl err \<Rightarrow> if IsNotFound err then Inr None else Inl (NewInternalError err)
           | Inr phase \<Rightarrow> Inr (Some phase))
        else Inr cached)
       (\<lambda>found. case found of
          Some phase \<Rightarrow> Inr phase
        | None \<Rightarrow> (case pe_namespace_live P (at_Namespace a) of
             Inl err \<Rightarrow> if IsNotFound err then Inl err else Inl (NewInternalError err)
           | Inr phase \<Rightarrow> Inr phase))"

definition lifecycle_Admit :: "plugin_env \<Rightarrow> attributes \<Rightarrow> go_error + attributes" where
  "lifecycle_Admit P a =
     (if \<not> pe_ready P then Inl (not_ready a)
      else bind_result
        (case pe_namespace_cache P (at_Namespace a) of
           Inl err \<Rightarrow> if \<not> IsNotFound err then Inl (NewInternalError err) else Inr None
         | Inr phase \<Rightarrow> Inr (Some phase))
        (\<lambda>cached.
          if length (at_Namespace a) = 0 then Inr a
          else bind_result (lifecycle_lookup P a cached) (\<lambda>phase.
            if at_Operation a = AdmissionCreate then
              (if phase \<noteq> NamespaceTerminating then Inr a
               else Inl (admission_NewForbidden a (PlainError (''unable to create new content in namespace '' @
                      at_Namespace a @ '' because it is being terminated''))))
            else Inr a)))"

text \<open>\<open>broker/authsarcheck\<close>\<close>
definition convertToSARExtra :: "(string \<times> string list) list \<Rightarrow> (string \<times> string list) list" where
  "convertToSARExtra extra = fold (\<lambda>(k, v) ret. AList.update k v ret) extra []"

definition auth_secret_ref :: "AuthInfo \<Rightarrow> ObjectReference option" where
  "auth_secret_ref ai = (case ai_Basic ai of
     Some ref \<Rightarrow> ref
   | None \<Rightarrow> (case ai_Bearer ai of Some ref \<Rightarrow> ref | None \<Rightarrow> ai_BasicAuthSecret ai))"

definition access_review :: "ObjectReference \<Rightarrow> UserInfo \<Rightarrow> SubjectAccessReview" where
  "access_review secretRef userInfo = \<lparr> sar_Namespace = oref_Namespace secretRef, sar_Verb = ''get'', sar_Group = [],
     sar_Version = ''v1'', sar_Resource = ''secrets'', sar_Name = oref_Name secretRef,
     sar_User = ui_Username userInfo, sar_Groups = ui_Groups userInfo, sar_Extra = convertToSARExtra (ui_Extra userInfo) \<rparr>"

definition sarcheck_Admit :: "plugin_env \<Rightarrow> attributes \<Rightarrow> go_error + attributes" where
  "sarcheck_Admit P a =
     (if \<not> pe_ready P then Inl (not_ready a)
      else if \<not> is_resource a ''servicebrokers'' then Inr a
      else case at_Object a of
        Some (BrokerObject broker) \<Rightarrow>
          (case bks_AuthInfo (bk_Spec broker) of
             None \<Rightarrow> Inr a
           | Some ai \<Rightarrow>
               (case auth_secret_ref ai of
                  None \<Rightarrow> Inl NilDereference
                | Some secretRef \<Rightarrow>
                    (case pe_review P (access_review secretRef (at_UserInfo a)) of
                       Inl err \<Rightarrow> Inl err
                     | Inr st \<Rightarrow>
                         if \<not> sarst_Allowed st
                         then Inl (admission_NewForbidden a (PlainError (''broker forbidden access to auth secret ('' @
                                oref_Name secretRef @ ''): Reason: '' @ sarst_Reason st @ '', EvaluationError: '' @ sarst_EvaluationError st)))
                         else Inr a)))
      | _ \<Rightarrow> Inl (NewBadRequest ''Resource was marked with kind ClusterServiceBroker, but was unable to be converted''))"

text \<open>\<open>serviceinstancecredentials/lifecycle\<close>\<close>
definition enforceNoNewCredentialsForDeletedInstance_Admit :: "plugin_env \<Rightarrow> attributes \<Rightarrow> go_error + attributes" where
  "enforceNoNewCredentialsForDeletedInstance_Admit P a =
     (if \<not> pe_ready P then Inl (not_ready a)
      else if \<not> is_resource a ''serviceinstancecredentials'' then Inr a
      else if at_Subresource a \<noteq> [] then Inr a
      else case at_Object a of
        Some (CredentialObject b) \<Rightarrow>
          (case lister_get si_Meta (pe_instances P) (om_Namespace (cr_Meta b)) (crs_ServiceInstanceRef (cr_Spec b)) of
             Inr inst \<Rightarrow>
               if om_DeletionTimestamp (si_Meta inst) \<noteq> None
               then Inl (admission_NewForbidden a (PlainError (''ServiceInstanceCredentials '' @ ns_name (cr_Meta b) @
                      '' references an instance that is being deleted: '' @ om_Namespace (cr_Meta b) @ ''/'' @
                      crs_ServiceInstanceRef (cr_Spec b))))
               else Inr a
           | Inl _ \<Rightarrow> Inr a)
      | _ \<Rightarrow> Inl (NewBadRequest ''Resource was marked with kind ServiceInstanceCredentials but was unable to be converted''))"

section \<open>The chain\<close>

datatype plugin = ServicePlanChangeValidator | DefaultServicePlan | KubernetesNamespaceLifecycle | BrokerAuthSarCheck
  | ServiceInstanceCredentialsLifecycle

text \<open>The operations each plugin passes to \<open>admission.NewHandler\<close>.\<close>
fun plugin_Handles :: "plugin \<Rightarrow> admission_operation \<Rightarrow> bool" where
  "plugin_Handles ServicePlanChangeValidator op = (op = AdmissionUpdate)"
| "plugin_Handles DefaultServicePlan op = (op = AdmissionCreate \<or> op = AdmissionUpdate)"
| "plugin_Handles KubernetesNamespaceLifecycle op = (op = AdmissionCreate \<or> op = AdmissionUpdate \<or> op = AdmissionDelete)"
| "plugin_Handles BrokerAuthSarCheck op = (op = AdmissionCreate \<or> op = AdmissionUpdate)"
| "plugin_Handles ServiceInstanceCredentialsLifecycle op = (op = AdmissionCreate)"

fun plugin_Admit :: "plugin_env \<Rightarrow> plugin \<Rightarrow> attributes \<Rightarrow> go_error + attributes" where
  "plugin_Admit P ServicePlanChangeValidator a = denyPlanChangeIfNotUpdatable_Admit P a"
| "plugin_Admit P DefaultServicePlan a = defaultServicePlan_Admit P a"
| "plugin_Admit P KubernetesNamespaceLifecycle a = lifecycle_Admit P a"
| "plugin_Admit P BrokerAuthSarCheck a = sarcheck_Admit P a"
| "plugin_Admit P ServiceInstanceCredentialsLifecycle a = enforceNoNewCredentialsForDeletedInstance_Admit P a"

text \<open>\<open>chainAdmissionHandler.Admit\<close>: the plugins that handle the operation, in order, up to the first error.\<close>
fun chain_Admit :: "plugin_env \<Rightarrow> plugin list \<Rightarrow> attributes \<Rightarrow> go_error + attributes" where
  "chain_Admit P [] a = Inr a"
| "chain_Admit P (h # hs) a =
     (if \<not> plugin_Handles h (at_Operation a) then chain_Admit P hs a
      else bind_result (plugin_Admit P h a) (\<lambda>a'. chain_Admit P hs a'))"

section \<open>What a chain can change\<close>

text \<open>The instance with the plan that the default-plan plugin fills in.\<close>
definition with_plan :: "ServicePlan \<Rightarrow> ServiceInstance \<Rightarrow> ServiceInstance" where
  "with_plan p inst = si_Spec_update (\<lambda>s. s \<lparr> sis_ExternalServicePlanName := sps_ExternalName (sp_Spec p) \<rparr>) inst"

text \<open>Nothing, or the missing plan name of an instance when there is exactly one plan.\<close>
definition plan_filled :: "plugin_env \<Rightarrow> attributes \<Rightarrow> attributes \<Rightarrow> bool" where
  "plan_filled P a a' \<longleftrightarrow> a' = a \<or>
     (\<exists>i p. at_Object a = Some (InstanceObject i) \<and> sis_ExternalServicePlanName (si_Spec i) = [] \<and> pe_plans P = [p] \<and>
        a' = a \<lparr> at_Object := Some (InstanceObject (with_plan p i)) \<rparr>)"

lemma plan_filled_refl: "plan_filled P a a"
  unfolding plan_filled_def by blast

lemma plan_filled_other: "plan_filled P a a' \<Longrightarrow> (\<And>i. at_Object a \<noteq> Some (InstanceObject i)) \<Longrightarrow> a' = a"
  unfolding plan_filled_def by blast

lemma with_plan_twice [simp]: "with_plan p (with_plan p i) = with_plan p i"
  by (simp add: with_plan_def comp_def)

lemma plan_filled_trans: "plan_filled P a b \<Longrightarrow> plan_filled P b c \<Longrightarrow> plan_filled P a c"
  by (auto simp: plan_filled_def with_plan_def comp_def)

lemma plan_filled_operation [simp]:
  "plan_filled P a a' \<Longrightarrow> at_Operation a' = at_Operation a" "plan_filled P a a' \<Longrightarrow> at_Namespace a' = at_Namespace a"
  by (auto simp: plan_filled_def)

lemma single_plan: "length ps \<le> 0 \<or> length ps > 1 \<or> (\<exists>p. ps = [p])"
  by (cases ps) auto

lemma defaultServicePlan_filled:
  assumes "defaultServicePlan_Admit P a = Inr a'"
  shows "plan_filled P a a'"
proof (cases "a' = a")
  case False
  then obtain i where i: "at_Object a = Some (InstanceObject i)" "sis_ExternalServicePlanName (si_Spec i) = []"
    using assms by (simp add: defaultServicePlan_Admit_def split: if_splits option.splits runtime_object.splits)
  then have n: "\<not> length (pe_plans P) \<le> 0" "\<not> length (pe_plans P) > 1"
    and a': "a' = a \<lparr> at_Object := Some (InstanceObject (with_plan (pe_plans P ! 0) i)) \<rparr>"
    using assms False
    by (simp_all add: defaultServicePlan_Admit_def with_plan_def Let_def split: if_splits sum.splits)
  obtain p where "pe_plans P = [p]" using n single_plan[of "pe_plans P"] by blast
  then show ?thesis unfolding plan_filled_def using i a' by (metis nth_Cons_0)
qed (metis plan_filled_refl)

lemma denyPlanChange_keeps: "denyPlanChangeIfNotUpdatable_Admit P a = Inr a' \<Longrightarrow> a' = a"
  unfolding denyPlanChangeIfNotUpdatable_Admit_def
  by (cases "at_Object a", simp split: if_splits, cases "the (at_Object a)") (simp_all split: if_splits sum.splits)

lemma sarcheck_keeps: "sarcheck_Admit P a = Inr a' \<Longrightarrow> a' = a"
  unfolding sarcheck_Admit_def
  by (cases "at_Object a", simp split: if_splits, cases "the (at_Object a)") (simp_all split: if_splits sum.splits option.splits)

lemma enforceNoNewCredentials_keeps: "enforceNoNewCredentialsForDeletedInstance_Admit P a = Inr a' \<Longrightarrow> a' = a"
  unfolding enforceNoNewCredentialsForDeletedInstance_Admit_def
  by (cases "at_Object a", simp split: if_splits, cases "the (at_Object a)") (simp_all split: if_splits sum.splits)

lemma lifecycle_keeps: "lifecycle_Admit P a = Inr a' \<Longrightarrow> a' = a"
  by (auto simp: lifecycle_Admit_def bind_result_eq_Inr split: if_splits)

lemmas plugins_keep = denyPlanChange_keeps sarcheck_keeps enforceNoNewCredentials_keeps lifecycle_keeps

lemma plugin_filled: "plugin_Admit P h a = Inr a' \<Longrightarrow> plan_filled P a a'"
  by (cases h) (simp_all add: defaultServicePlan_filled, (drule plugins_keep, simp only: plan_filled_refl)+)

lemma chain_filled: "chain_Admit P hs a = Inr a' \<Longrightarrow> plan_filled P a a'"
proof (induction hs arbitrary: a)
  case (Cons h hs)
  show ?case
  proof (cases "plugin_Handles h (at_Operation a)")
    case True
    then obtain b where "plugin_Admit P h a = Inr b" "chain_Admit P hs b = Inr a'" using Cons.prems by (auto simp: bind_result_eq_Inr)
    then show ?thesis using Cons.IH plugin_filled plan_filled_trans by blast
  qed (use Cons in auto)
qed (simp add: plan_filled_refl)

text \<open>A plugin of the chain that refuses whatever the plugins before it make of the request refuses the request.\<close>
lemma chain_refuses:
  assumes "h \<in> set hs" "plugin_Handles h (at_Operation a)"
    and "\<And>b. plan_filled P a b \<Longrightarrow> \<exists>e. plugin_Admit P h b = Inl e"
  shows "\<exists>e. chain_Admit P hs a = Inl e"
  using assms
proof (induction hs arbitrary: a)
  case (Cons g hs)
  show ?case
  proof (cases "plugin_Handles g (at_Operation a)")
    case False
    then show ?thesis using Cons by auto
  next
    case True
    show ?thesis
    proof (cases "plugin_Admit P g a")
      case (Inr b)
      have b: "plan_filled P a b" by (rule plugin_filled[OF Inr])
      have "h \<in> set hs" using Cons.prems(1) Cons.prems(3)[OF plan_filled_refl] Inr by auto
      then have "\<exists>e. chain_Admit P hs b = Inl e"
        using Cons.IH[of b] Cons.prems(2,3) b plan_filled_trans[OF b] by simp
      then show ?thesis using True Inr by (simp add: bind_result_def)
    qed (use True in \<open>simp add: bind_result_def\<close>)
  qed
qed simp

section \<open>Properties\<close>

text \<open>No credential is created for an instance that is being deleted.  A chain with the credentials plugin
  refuses the creation, wherever the plugin stands in the chain.\<close>
theorem no_credential_for_deleted_instance:
  assumes "ServiceInstanceCredentialsLifecycle \<in> set hs" "at_Operation a = AdmissionCreate"
    and "is_resource a ''serviceinstancecredentials''" "at_Subresource a = []" "at_Object a = Some (CredentialObject b)"
    and "lister_get si_Meta (pe_instances P) (om_Namespace (cr_Meta b)) (crs_ServiceInstanceRef (cr_Spec b)) = Inr inst"
    and "om_DeletionTimestamp (si_Meta inst) \<noteq> None"
  shows "\<exists>e. chain_Admit P hs a = Inl e"
proof (rule chain_refuses[OF assms(1)])
  show "plugin_Handles ServiceInstanceCredentialsLifecycle (at_Operation a)" using assms(2) by simp
  fix a' assume "plan_filled P a a'"
  then have "a' = a" by (rule plan_filled_other) (simp add: assms(5))
  then show "\<exists>e. plugin_Admit P ServiceInstanceCredentialsLifecycle a' = Inl e"
    using assms by (simp add: enforceNoNewCredentialsForDeletedInstance_Admit_def)
qed

text \<open>C34: admission changes nothing but a missing plan name.  An admitted request is the given one, or it is for
  an instance without a plan name in a cluster whose cache has exactly one plan, of whatever class,
  and has the name of that plan.\<close>
theorem admission_only_fills_the_plan:
  assumes "chain_Admit P hs a = Inr a'"
  shows "a' = a \<or> (\<exists>i p. at_Object a = Some (InstanceObject i) \<and> sis_ExternalServicePlanName (si_Spec i) = [] \<and> pe_plans P = [p] \<and>
    a' = a \<lparr> at_Object := Some (InstanceObject (si_Spec_update
      (\<lambda>s. s \<lparr> sis_ExternalServicePlanName := sps_ExternalName (sp_Spec p) \<rparr>) i)) \<rparr>)"
  using chain_filled[OF assms] unfolding plan_filled_def with_plan_def .

text \<open>C35: a plan change is refused only if the cache has a class under the external class name of the
  instance and this class does not allow plan changes.  Classes are cached under their identifiers, so
  that a plan change of an instance of any other class is admitted.\<close>
theorem plan_change_is_admitted_iff:
  assumes "pe_ready P" "is_resource a ''serviceinstances''" "at_Object a = Some (InstanceObject i)"
    and "lister_get si_Meta (pe_instances P) (om_Namespace (si_Meta i)) (om_Name (si_Meta i)) = Inr orig"
  shows "denyPlanChangeIfNotUpdatable_Admit P a = Inr a \<longleftrightarrow>
    sis_ExternalServicePlanName (si_Spec i) = [] \<or>
    sis_ExternalServicePlanName (si_Spec i) = sis_ExternalServicePlanName (si_Spec orig) \<or>
    (\<forall>sc. find (\<lambda>c. om_Namespace (sc_Meta c) = [] \<and> om_Name (sc_Meta c) = sis_ExternalServiceClassName (si_Spec i)) (pe_classes P) = Some sc \<longrightarrow>
      scs_PlanUpdatable (sc_Spec sc))"
  using assms
  by (auto simp: denyPlanChangeIfNotUpdatable_Admit_def lister_get_def NewNotFound_def IsNotFound_def split: option.splits)

text \<open>C36: the access check of broker secrets is not applied to brokers.  Requests for the resource
  \<open>clusterservicebrokers\<close> pass it unchecked; only those for \<open>servicebrokers\<close> are admitted exactly if the user
  may read the secret.\<close>
theorem broker_secret_access_is_checked_iff:
  assumes "pe_ready P" "at_Group a = catalog_group" "at_Object a = Some (BrokerObject b)" "bks_AuthInfo (bk_Spec b) = Some ai"
  shows "(at_Resource a = ''clusterservicebrokers'' \<longrightarrow> sarcheck_Admit P a = Inr a) \<and>
    (at_Resource a = ''servicebrokers'' \<longrightarrow> (sarcheck_Admit P a = Inr a \<longleftrightarrow>
      (\<exists>ref st. auth_secret_ref ai = Some ref \<and> pe_review P (access_review ref (at_UserInfo a)) = Inr st \<and> sarst_Allowed st)))"
  using assms by (auto simp: sarcheck_Admit_def is_resource_def split: option.splits sum.splits)

text \<open>Nothing is created in a namespace that is being terminated: if all lookups of the namespace that
  succeed report that it is terminating, the creation is refused.\<close>
theorem no_creation_in_terminating_namespace:
  assumes "KubernetesNamespaceLifecycle \<in> set hs" "at_Operation a = AdmissionCreate" "at_Namespace a \<noteq> []"
    and "\<forall>look \<in> {pe_namespace_cache P, pe_namespace_cache_later P, pe_namespace_live P}.
           \<forall>phase. look (at_Namespace a) = Inr phase \<longrightarrow> phase = NamespaceTerminating"
  shows "\<exists>e. chain_Admit P hs a = Inl e"
proof (rule chain_refuses[OF assms(1)])
  show "plugin_Handles KubernetesNamespaceLifecycle (at_Operation a)" using assms(2) by simp
  fix a' assume a': "plan_filled P a a'"
  have "at_Operation a' = AdmissionCreate" "at_Namespace a' = at_Namespace a" using a' assms(2) by simp_all
  then show "\<exists>e. plugin_Admit P KubernetesNamespaceLifecycle a' = Inl e"
    using assms(3,4)
    by (auto simp: lifecycle_Admit_def lifecycle_lookup_def bind_result_def split: sum.splits option.splits)
qed

text \<open>Adding and removing a finalizer are inverse up to order and repetition, and the list that results is
  sorted and without repetition.\<close>
theorem finalizer_round_trip:
  "set (GetFinalizers (AddFinalizer v m)) = insert v (set (GetFinalizers m)) \<and>
   set (fst (RemoveFinalizer v (AddFinalizer v m))) = set (GetFinalizers m) - {v} \<and>
   sorted (fst (RemoveFinalizer v m)) \<and> distinct (fst (RemoveFinalizer v m)) \<and>
   GetFinalizers (snd (RemoveFinalizer v m)) = fst (RemoveFinalizer v m) \<and>
   GetFinalizers (AddFinalizer v (AddFinalizer v m)) = GetFinalizers (AddFinalizer v m)"
  by (auto simp: GetFinalizers_def AddFinalizer_def RemoveFinalizer_def Let_def sorted_insort distinct_insort intro!: sorted_distinct_set_unique)

end
