(* ===== verification/SC_Example.thy ===== *)
theory SC_Example
  imports SC_System SC_InstanceProps SC_BindingProps SC_BrokerProps SC_DataProps SC_Admission
begin

text \<open>
  A concrete cluster on which the properties are applied: one instance, created through the registry, and
  an environment without transport errors whose broker answers every request at once.  The states are
  built by requests and handlers, so that their validity follows from the invariants.
\<close>

section \<open>The cluster\<close>

definition ex_env :: env where
  "ex_env = \<lparr> ev_clock = (\<lambda>t. 1000 + int t), ev_fault = (\<lambda>_. None), ev_uid = (\<lambda>t. ''uid-'' @ show_nat t),
     ev_yaml = (\<lambda>s. Inr []), ev_json = (\<lambda>s. Inr []), ev_OriginatingIdentity = False,
     ev_reconciliationRetryDuration = 100, ev_user = None,
     ev_newClient = (\<lambda>_ _. None), ev_catalog = (\<lambda>_ _. Inr []),
     ev_provision = (\<lambda>_ _ _. Inr \<lparr> prr_Async = False, prr_DashboardURL = None, prr_OperationKey = None \<rparr>),
     ev_deprovision = (\<lambda>_ _ _. Inr \<lparr> drr_Async = False, drr_OperationKey = None \<rparr>),
     ev_poll = (\<lambda>_ _ _. Inr \<lparr> lorr_State = StateSucceeded, lorr_Description = None \<rparr>),
     ev_bind = (\<lambda>_ _ _. Inr \<lparr> bdrr_Credentials = [(''user'', JStr ''u1'')] \<rparr>), ev_unbind = (\<lambda>_ _ _. Inr ()) \<rparr>"

definition empty_store :: "'a store" where
  "empty_store = \<lparr> st_alist = [], st_rev = 0 \<rparr>"

definition ex_world :: world where
  "ex_world = \<lparr> w_tick = 0, w_instances = empty_store, w_credentials = empty_store, w_brokers = empty_store,
     w_classes = empty_store, w_plans = empty_store, w_secrets = empty_store, w_namespaces = [(''ns'', ''ns-uid'')],
     w_instanceCache = [], w_credentialCache = [], w_brokerCache = [], w_classCache = [], w_planCache = [], w_log = [] \<rparr>"

definition ex_instance :: ServiceInstance where
  "ex_instance = \<lparr> si_Meta = (named_meta ''db'') \<lparr> om_Namespace := ''ns'' \<rparr>,
     si_Spec = \<lparr> sis_ExternalServiceClassName = ''mysql'', sis_ExternalServicePlanName = ''small'',
       sis_ServiceClassRef = None, sis_ServicePlanRef = None, sis_Parameters = None, sis_ParametersFrom = [],
       sis_ExternalID = ''i-1'', sis_UserInfo = None \<rparr>,
     si_Status = empty_InstanceStatus \<rparr>"

text \<open>The request that creates the instance, and its result.\<close>
definition create_instance :: "world \<Rightarrow> world" where
  "create_instance w = w \<lparr> w_instances := snd (Create (instanceRESTStrategies (ev_yaml ex_env) (ev_OriginatingIdentity ex_env))
     (client_ctx ex_env ''ns'') ''uid-i'' ex_instance (w_instances w)) \<rparr>"

definition delete_instance :: "world \<Rightarrow> world" where
  "delete_instance w = w \<lparr> w_instances := snd (Delete (instanceRESTStrategies (ev_yaml ex_env) (ev_OriginatingIdentity ex_env))
     (client_ctx ex_env ''ns'') 1000 (''ns'', ''db'') empty_delete_options (w_instances w)) \<rparr>"

lemma empty_store_ok: "store_ok S valid empty_store"
  by (simp add: store_ok_def empty_store_def st_objs_def)

lemma ex_world_ok: "world_ok ex_env ex_world"
  by (simp add: world_ok_def ex_world_def empty_store_ok)

lemma create_instance_ok: "world_ok ex_env w \<Longrightarrow> world_ok ex_env (create_instance w)"
  unfolding create_instance_def using client_request_ok[OF client_request.intros(1)] by blast

lemma delete_instance_ok: "world_ok ex_env w \<Longrightarrow> world_ok ex_env (delete_instance w)"
  unfolding delete_instance_def using client_request_ok[OF client_request.intros(4)] by blast

definition ex_new :: ServiceInstance where
  "ex_new = the (st_objs (w_instances (create_instance ex_world)) (''ns'', ''db''))"

lemma ex_new_stored: "st_objs (w_instances (create_instance ex_world)) (''ns'', ''db'') = Some ex_new"
  by code_simp

definition ex_deleted :: ServiceInstance where
  "ex_deleted = the (st_objs (w_instances (delete_instance (create_instance ex_world))) (''ns'', ''db''))"

lemma ex_deleted_stored: "st_objs (w_instances (delete_instance (create_instance ex_world))) (''ns'', ''db'') = Some ex_deleted"
  by code_simp

lemma ex_keys: "inst_key ex_new = (''ns'', ''db'')" "inst_key ex_deleted = (''ns'', ''db'')"
  by code_simp+

lemma ex_deleted_facts:
  "om_DeletionTimestamp (si_Meta ex_deleted) = Some 1000" "om_Finalizers (si_Meta ex_deleted) = [FinalizerServiceCatalog]"
  "si_Status ex_deleted = empty_InstanceStatus" "om_Generation (si_Meta ex_deleted) = 2"
  by code_simp+

section \<open>The registry\<close>

abbreviation ex_rest :: "ServiceInstance rest_strategy" where
  "ex_rest \<equiv> instanceRESTStrategies (ev_yaml ex_env) (ev_OriginatingIdentity ex_env)"

abbreviation ex_status :: "ServiceInstance rest_strategy" where
  "ex_status \<equiv> instanceStatusUpdateStrategy (ev_yaml ex_env) (ev_OriginatingIdentity ex_env)"

definition ex_store :: "ServiceInstance store" where
  "ex_store = w_instances (create_instance ex_world)"

lemma ex_store_ok: "store_ok ex_rest (instance_valid (ev_yaml ex_env)) ex_store"
  using create_instance_ok[OF ex_world_ok] by (simp add: world_ok_def ex_store_def)

lemma ex_store_new: "st_objs ex_store (''ns'', ''db'') = Some ex_new"
  using ex_new_stored by (simp add: ex_store_def)

text \<open>A status update of the new instance.\<close>
definition ex_touched :: ServiceInstance where
  "ex_touched = setServiceInstanceConditionInternal ex_new ConditionReady ConditionFalse ''Reason'' ''message'' 5"

definition ex_update :: "(go_error + ServiceInstance) \<times> ServiceInstance store" where
  "ex_update = Update ex_status (client_ctx ex_env ''ns'') (''ns'', ''db'') ex_touched ex_store"

lemma ex_update_accepted: "isOK (fst ex_update)" "st_rev (snd ex_update) = 2" "st_rev ex_store = 1"
  by code_simp+

lemma ex_update_eq: "Update ex_status (client_ctx ex_env ''ns'') (''ns'', ''db'') ex_touched ex_store = (Inr (projr (fst ex_update)), snd ex_update)"
  using ex_update_accepted(1) by (cases "fst ex_update") (simp_all add: isOK_iff ex_update_def prod_eq_iff)

theorem no_lost_update_witness:
  "\<exists>e. Update ex_rest (client_ctx ex_env ''ns'') (''ns'', ''db'') ex_new (snd ex_update) = (Inl e, snd ex_update) \<and> (IsConflict e \<or> IsNotFound e)"
proof -
  have "snd ex_update \<noteq> ex_store" using ex_update_accepted(2,3) by auto
  moreover have "om_ResourceVersion (si_Meta ex_new) = om_ResourceVersion (si_Meta ex_touched)"
    by (simp add: ex_touched_def setServiceInstanceConditionInternal_def)
  ultimately show ?thesis
    using no_lost_update[OF ex_store_ok _ ex_update_eq, of ex_rest ex_new "client_ctx ex_env ''ns''"] by blast
qed

theorem instance_deletion_waits_for_finalizers_witness:
  "\<exists>i. st_objs (snd (Delete ex_rest (client_ctx ex_env ''ns'') 1000 (''ns'', ''db'') empty_delete_options ex_store)) (''ns'', ''db'') = Some i \<and>
     FinalizerServiceCatalog \<in> set (om_Finalizers (si_Meta i))"
proof -
  have "FinalizerServiceCatalog \<in> set (om_Finalizers (si_Meta ex_new))" by code_simp
  then show ?thesis
    using instance_deletion_waits_for_finalizers[OF ex_store_ok ex_store_new, of "client_ctx ex_env ''ns''" 1000 empty_delete_options] by blast
qed


section \<open>Instances\<close>

lemma recordStart_ok: "world_ok E w \<Longrightarrow> world_ok E (snd (run_state (recordStartOfServiceInstanceOperation E i operation) w))"
  using inst_ok.keeps_recordStart[of i "inst_key i" E operation] by (simp add: keeps_def inv_rel_def)

text \<open>The start of a provision is recorded.\<close>
definition ex_provisioning :: world where
  "ex_provisioning = snd (run_state (recordStartOfServiceInstanceOperation ex_env
     (si_Status_update (\<lambda>s. s \<lparr> ist_InProgressProperties := Some \<lparr> ps_ExternalServicePlanName = ''small'', ps_Parameters = None,
        ps_ParametersChecksum = [], ps_UserInfo = None \<rparr> \<rparr>) ex_new) InstanceOperationProvision) (create_instance ex_world))"

definition ex_started :: ServiceInstance where
  "ex_started = the (st_objs (w_instances ex_provisioning) (''ns'', ''db''))"

lemma ex_started_facts:
  "st_objs (w_instances ex_provisioning) (''ns'', ''db'') = Some ex_started" "inst_key ex_started = (''ns'', ''db'')"
  "om_DeletionTimestamp (si_Meta ex_started) = None" "ist_CurrentOperation (si_Status ex_started) = InstanceOperationProvision"
  by code_simp+

definition ex_class :: ServiceClass where
  "ex_class = \<lparr> sc_Meta = named_meta ''c-1'', sc_Spec = \<lparr> scs_ClusterServiceBrokerName = ''broker'', scs_ExternalName = ''mysql'',
     scs_ExternalID = ''c-1'', scs_Description = ''a database'', scs_Bindable = True, scs_PlanUpdatable = False,
     scs_ExternalMetadata = None, scs_Tags = [], scs_Requires = [] \<rparr> \<rparr>"

definition ex_plan :: ServicePlan where
  "ex_plan = \<lparr> sp_Meta = named_meta ''p-1'', sp_Spec = \<lparr> sps_ClusterServiceBrokerName = ''broker'', sps_ExternalName = ''small'',
     sps_ExternalID = ''p-1'', sps_Description = ''a plan'', sps_Bindable = None, sps_Free = True, sps_ExternalMetadata = None,
     sps_ServiceInstanceCreateParameterSchema = None, sps_ServiceInstanceUpdateParameterSchema = None,
     sps_ServiceInstanceCredentialCreateParameterSchema = None, sps_ServiceClassRef = ''c-1'' \<rparr> \<rparr>"

definition ex_broker :: ClusterServiceBroker where
  "ex_broker = \<lparr> bk_Meta = named_meta ''broker'', bk_Spec = \<lparr> bks_URL = ''http://broker'', bks_AuthInfo = None,
     bks_InsecureSkipTLSVerify = False, bks_CABundle = [], bks_RelistBehavior = RelistManualBehavior, bks_RelistDuration = None,
     bks_RelistRequests = 0 \<rparr>,
     bk_Status = \<lparr> bkst_Conditions = [], bkst_ReconciledGeneration = 0, bkst_OperationStartTime = None \<rparr> \<rparr>"

definition ex_client :: ClientConfiguration where
  "ex_client = NewClientConfigurationForBroker ex_broker None"

definition ex_request :: ProvisionRequest where
  "ex_request = provision_request ex_class ex_plan ex_started ''ns-uid'' [] None"

definition ex_provision :: "(go_error + unit) \<times> world" where
  "ex_provision = run_state (provision_call ex_env ex_class ''broker'' ex_client ex_request ex_started ex_started) ex_provisioning"

lemma ex_provision_ok: "fst ex_provision = Inr ()"
  by code_simp

theorem provisioned_instance_is_settled_witness:
  "\<exists>j. st_objs (w_instances (snd ex_provision)) (''ns'', ''db'') = Some j \<and> isServiceInstanceReady j \<and>
     ist_ReconciledGeneration (si_Status j) = om_Generation (si_Meta j) \<and>
     run_state (reconcileServiceInstance ex_env j) (snd ex_provision) = (Inr (), snd ex_provision)"
proof -
  have ok: "world_ok ex_env ex_provisioning" unfolding ex_provisioning_def by (intro recordStart_ok create_instance_ok ex_world_ok)
  have st: "st_objs (w_instances ex_provisioning) (inst_key ex_started) = Some ex_started" using ex_started_facts by simp
  have answer: "ev_provision ex_env (w_tick ex_provisioning) ex_client ex_request = Inr \<lparr> prr_Async = False, prr_DashboardURL = None, prr_OperationKey = None \<rparr>"
    by (simp add: ex_env_def)
  have run: "run_state (provision_call ex_env ex_class ''broker'' ex_client ex_request ex_started ex_started) ex_provisioning = (Inr (), snd ex_provision)"
    using ex_provision_ok by (simp add: ex_provision_def prod_eq_iff)
  from provisioned_instance_is_settled[OF ok st ex_started_facts(3) answer _ run] show ?thesis
    using ex_started_facts(2) by auto
qed

theorem async_operation_is_only_polled_witness:
  "log_only (\<lambda>a. \<exists>client request. a = BrokerPollCall client request) ex_world
     (snd (run_state (reconcileServiceInstance ex_env (si_Status_update (\<lambda>s. s \<lparr> ist_AsyncOpInProgress := True \<rparr>) ex_deleted)) ex_world))"
  by (rule async_operation_is_only_polled) simp

text \<open>A credential of the instance.\<close>
definition ex_binding :: ServiceInstanceCredential where
  "ex_binding = \<lparr> cr_Meta = (named_meta ''cred'') \<lparr> om_Namespace := ''ns'' \<rparr>,
     cr_Spec = \<lparr> crs_ServiceInstanceRef = ''db'', crs_Parameters = None, crs_ParametersFrom = [], crs_SecretName = ''sec'',
       crs_ExternalID = ''b-1'', crs_UserInfo = None \<rparr>,
     cr_Status = empty_CredentialStatus \<rparr>"

definition ex_deleting :: world where
  "ex_deleting = delete_instance (create_instance ex_world)"

lemma ex_deleting_ok: "world_ok ex_env ex_deleting"
  unfolding ex_deleting_def by (intro delete_instance_ok create_instance_ok ex_world_ok)

lemma ex_deleting_stored: "st_objs (w_instances ex_deleting) (inst_key ex_deleted) = Some ex_deleted"
  using ex_deleted_stored ex_keys by (simp add: ex_deleting_def)

lemma ex_deleting_credentials: "\<not> has_credential ex_deleting i"
  by (simp add: has_credential_def ex_deleting_def delete_instance_def create_instance_def ex_world_def)

theorem deletion_blocked_by_credentials_witness:
  "log_only (\<lambda>_. False) (ex_deleting \<lparr> w_credentialCache := [ex_binding] \<rparr>)
     (snd (run_state (reconcileServiceInstance ex_env ex_deleted) (ex_deleting \<lparr> w_credentialCache := [ex_binding] \<rparr>)))"
proof -
  have names: "om_Namespace (si_Meta ex_deleted) = ''ns''" "om_Name (si_Meta ex_deleted) = ''db''"
    using ex_keys(2) by (simp_all add: inst_key_def)
  show ?thesis
    by (rule deletion_blocked_by_credentials[where s = ex_deleted, THEN conjunct1])
      (simp_all add: has_credential_def ex_deleting_ok ex_deleting_stored ex_deleted_facts empty_InstanceStatus_def ex_binding_def names)
qed

theorem unreconciled_instance_is_abandoned_witness:
  "fst (run_state (reconcileServiceInstance ex_env ex_deleted) ex_deleting) = Inr () \<and>
   st_objs (w_instances (snd (run_state (reconcileServiceInstance ex_env ex_deleted) ex_deleting))) (inst_key ex_deleted) = None"
proof -
  have run: "fst (run_state (reconcileServiceInstance ex_env ex_deleted) ex_deleting) = Inr ()" by code_simp
  then show ?thesis
    using unreconciled_instance_is_abandoned[OF ex_deleting_ok ex_deleting_stored, of "Inr ()"
        "snd (run_state (reconcileServiceInstance ex_env ex_deleted) ex_deleting)"] ex_deleting_credentials
    by (simp add: ex_deleted_facts empty_InstanceStatus_def prod_eq_iff)
qed

theorem reconciled_deletion_is_stuck_witness:
  "\<exists>e. fst (run_state (reconcileServiceInstance ex_env
     (si_Status_update (\<lambda>s. s \<lparr> ist_ReconciledGeneration := 2 \<rparr>) ex_deleted)) ex_deleting) = Inl e"
  by (rule reconciled_deletion_is_stuck[where s = ex_deleted, THEN conjunct2])
    (simp_all add: ex_deleting_stored ex_deleted_facts ex_deleting_credentials empty_InstanceStatus_def isServiceInstanceFailed_def)

theorem orphan_mitigation_is_refused_witness:
  "w_instances (snd (run_state (provision_timeout ex_env ex_started ''timeout'' (UrlError True ''timeout'')) ex_provisioning)) =
   w_instances ex_provisioning"
  by (rule orphan_mitigation_is_refused[where i = ex_started and code = 500 and E = ex_env and detail = "''timeout''" and
      err = "UrlError True ''timeout''", THEN conjunct1])
    (simp_all add: ex_started_facts shouldStartOrphanMitigation_def)

end
