(* ===== verification/SC_Examples.thy ===== *)
theory SC_Examples
  imports SC_Example
begin

text \<open>
  The properties of credentials, brokers, data transformations and admission applied to the cluster of
  \<open>SC_Example\<close>, extended by a credential, a broker with a class and a plan, and a class of another broker.
\<close>

section \<open>Credentials\<close>

abbreviation ex_cred_rest :: "ServiceInstanceCredential rest_strategy" where
  "ex_cred_rest \<equiv> bindingRESTStrategies (ev_yaml ex_env) (ev_OriginatingIdentity ex_env)"

definition create_credential :: "world \<Rightarrow> world" where
  "create_credential w = w \<lparr> w_credentials := snd (Create ex_cred_rest (client_ctx ex_env ''ns'') ''uid-b'' ex_binding (w_credentials w)) \<rparr>"

definition delete_credential :: "world \<Rightarrow> world" where
  "delete_credential w = w \<lparr> w_credentials := snd (Delete ex_cred_rest (client_ctx ex_env ''ns'') 1000 (''ns'', ''cred'')
     empty_delete_options (w_credentials w)) \<rparr>"

definition ex_bound :: ServiceInstanceCredential where
  "ex_bound = the (st_objs (w_credentials (create_credential ex_world)) (''ns'', ''cred''))"

definition ex_unbinding :: world where
  "ex_unbinding = delete_credential (create_credential ex_world)"

definition ex_unbound :: ServiceInstanceCredential where
  "ex_unbound = the (st_objs (w_credentials ex_unbinding) (''ns'', ''cred''))"

lemma ex_bound_stored: "st_objs (w_credentials (create_credential ex_world)) (''ns'', ''cred'') = Some ex_bound"
  by code_simp

lemma ex_unbound_facts:
  "st_objs (w_credentials ex_unbinding) (''ns'', ''cred'') = Some ex_unbound" "cred_key ex_unbound = (''ns'', ''cred'')"
  "om_DeletionTimestamp (cr_Meta ex_unbound) = Some 1000" "cr_Status ex_unbound = empty_CredentialStatus"
  "om_Generation (cr_Meta ex_unbound) = 2"
  by code_simp+

lemma create_credential_ok: "world_ok ex_env w \<Longrightarrow> world_ok ex_env (create_credential w)"
  unfolding create_credential_def using client_request_ok[OF client_request.intros(5)] by blast

theorem reconcileServiceInstanceCredential_frame_witness:
  "world_ok ex_env (snd (run_state (reconcileServiceInstanceCredential ex_env ex_bound) (create_credential ex_world)))"
  using reconcileServiceInstanceCredential_frame[OF create_credential_ok[OF ex_world_ok]] by blast

definition ex_inject :: "(go_error + unit) \<times> world" where
  "ex_inject = run_state (injectServiceInstanceCredential ex_env ex_bound [(''user'', JStr ''u1'')]) (create_credential ex_world)"

lemma ex_inject_ok: "fst ex_inject = Inr ()"
  by code_simp

theorem injection_respects_ownership_witness:
  "\<exists>x. st_objs (w_secrets (snd ex_inject)) (om_Namespace (cr_Meta ex_bound), crs_SecretName (cr_Spec ex_bound)) = Some x \<and>
     sec_Data x = [(''user'', ''u1'')] \<and> IsControlledBy (sec_Meta x) (cr_Meta ex_bound)"
proof -
  have run: "run_state (injectServiceInstanceCredential ex_env ex_bound [(''user'', JStr ''u1'')]) (create_credential ex_world) = (Inr (), snd ex_inject)"
    using ex_inject_ok by (simp add: ex_inject_def prod_eq_iff)
  show ?thesis
    using injection_respects_ownership[OF create_credential_ok[OF ex_world_ok] run] by (auto simp: serialize_def)
qed

theorem no_bind_before_instance_is_ready_witness:
  "log_only (\<lambda>a. \<exists>client request. a = BrokerUnbindCall client request) (ex_world \<lparr> w_instanceCache := [ex_instance] \<rparr>)
     (snd (run_state (reconcileServiceInstanceCredential ex_env ex_binding) (ex_world \<lparr> w_instanceCache := [ex_instance] \<rparr>)))"
  by (rule no_bind_before_instance_is_ready[where inst = ex_instance])
    (simp_all add: lister_get_def ex_instance_def ex_binding_def isServiceInstanceReady_def empty_InstanceStatus_def named_meta_def)

theorem reconciled_unbind_is_stuck_witness:
  "log_only (\<lambda>_. False) ex_unbinding (snd (run_state (reconcileServiceInstanceCredential ex_env
     (cr_Status_update (\<lambda>s. s \<lparr> crst_ReconciledGeneration := 2 \<rparr>) ex_unbound)) ex_unbinding))"
  by (rule reconciled_unbind_is_stuck[where s = ex_unbound])
    (simp_all add: ex_unbound_facts empty_CredentialStatus_def)

theorem binding_orphan_mitigation_is_refused_witness:
  "w_credentials (snd (run_state (bind_timeout ex_env ex_class ''broker'' ex_new ex_bound
      (cr_Status_update (\<lambda>s. s \<lparr> crst_CurrentOperation := CredentialOperationBind \<rparr>) ex_bound) (UrlError True ''timeout''))
      (create_credential ex_world))) = w_credentials (create_credential ex_world)"
  by (rule binding_orphan_mitigation_is_refused[where code = 500 and E = ex_env and sc = ex_class and brokerName = "''broker''" and
      inst = ex_new and b = ex_bound and c = "cr_Status_update (\<lambda>s. s \<lparr> crst_CurrentOperation := CredentialOperationBind \<rparr>) ex_bound" and
      err = "UrlError True ''timeout''" and detail = "''timeout''", THEN conjunct1])
    (simp_all add: bind_needs_mitigation_def)

section \<open>Data\<close>

theorem queue_key_round_trip_witness:
  "SplitMetaNamespaceKey (meta_key (si_Meta ex_new)) = Inr (om_Namespace (si_Meta ex_new), om_Name (si_Meta ex_new))"
proof -
  have "instance_valid (ev_yaml ex_env) ex_new"
    by (rule stored_valid(1)[OF create_instance_ok[OF ex_world_ok] ex_new_stored])
  moreover have "credential_valid (ev_yaml ex_env) ex_bound"
    by (rule stored_valid(2)[OF create_credential_ok[OF ex_world_ok] ex_bound_stored])
  ultimately show ?thesis by (rule queue_key_round_trip[THEN conjunct1])
qed

text \<open>An instance with parameters of its own.\<close>
definition ex_parametrised :: ServiceInstance where
  "ex_parametrised = si_Spec_update (\<lambda>s. s \<lparr> sis_Parameters := Some ''{}'' \<rparr>) ex_instance"

definition ex_prepared :: prepared_parameters where
  "ex_prepared = \<lparr> pp_parameters = [], pp_checksum = hex_sum (sha256_Sum256 (json_text (JObj []))),
     pp_redacted = Some (json_text (JObj [])) \<rparr>"

lemma ex_prepare: "run_state (prepare_parameters ex_env ex_parametrised ex_parametrised) ex_world = (Inr ex_prepared, ex_world)"
  by (simp add: prepare_parameters_def ex_parametrised_def ex_instance_def buildParameters_def UnmarshalRawParameters_def ex_env_def
      generateChecksumOfParameters_def json_Marshal_def bind_result_def MarshalRawParameters_def ex_prepared_def del: json_text.simps)


theorem credentials_are_kept_by_key_witness:
  "\<exists>d. serialize_credentials [(''user'', JStr ''u1''), (''port'', JNum ''3306'')] [] = Inr d \<and>
     map_of d ''user'' = Some ''u1'' \<and> map_of d ''port'' = Some ''3306''"
  using credentials_are_kept_by_key[of "[(''user'', JStr ''u1''), (''port'', JNum ''3306'')]"] by (auto simp: wf_map_def)

text \<open>A catalog of one service with one plan, which has a schema for the creation of instances and one for bindings.\<close>
definition ex_schemas :: AlphaParameterSchemas where
  "ex_schemas = \<lparr> aps_ServiceInstances = Some \<lparr> asis_Create = Some (Some (JStr ''create'')), asis_Update = Some None \<rparr>,
     aps_ServiceBindings = Some \<lparr> asbs_Create = Some (Some (JStr ''bind'')) \<rparr> \<rparr>"

definition ex_service :: osb_Service where
  "ex_service = \<lparr> osv_ID = ''c-1'', osv_Name = ''mysql'', osv_Description = ''a database'', osv_Tags = [], osv_Requires = [],
     osv_Bindable = True, osv_PlanUpdatable = None,
     osv_Plans = [\<lparr> opl_ID = ''p-1'', opl_Name = ''small'', opl_Description = [], opl_Free = Some True, opl_Bindable = None,
       opl_Metadata = None, opl_AlphaParameterSchemas = Some ex_schemas \<rparr>], osv_Metadata = None \<rparr>"

theorem catalog_conversion_witness:
  "\<exists>p. convertCatalog [ex_service] = Inr ([expected_class ex_service], [p]) \<and> sps_ServiceClassRef (sp_Spec p) = ''c-1'' \<and>
     sps_ServiceInstanceCreateParameterSchema (sp_Spec p) = Some (json_text (JStr ''create'')) \<and>
     sps_ServiceInstanceUpdateParameterSchema (sp_Spec p) = None \<and>
     sps_ServiceInstanceCredentialCreateParameterSchema (sp_Spec p) = Some (json_text (JStr ''bind''))"
  unfolding catalog_conversion by (simp add: ex_service_def expected_plan_def schema_at_def ex_schemas_def)

section \<open>Brokers\<close>

definition ex_other_class :: ServiceClass where
  "ex_other_class = \<lparr> sc_Meta = named_meta ''c-2'', sc_Spec = (sc_Spec ex_class) \<lparr> scs_ClusterServiceBrokerName := ''other'',
     scs_ExternalName := ''redis'', scs_ExternalID := ''c-2'' \<rparr> \<rparr>"

definition create_broker :: "world \<Rightarrow> world" where
  "create_broker w = w \<lparr> w_brokers := snd (Create brokerRESTStrategies (client_ctx ex_env []) ''uid-k'' ex_broker (w_brokers w)) \<rparr>"

definition delete_broker :: "world \<Rightarrow> world" where
  "delete_broker w = w \<lparr> w_brokers := snd (Delete brokerRESTStrategies (client_ctx ex_env []) 1000 ([], ''broker'')
     empty_delete_options (w_brokers w)) \<rparr>"

definition create_class :: "ServiceClass \<Rightarrow> world \<Rightarrow> world" where
  "create_class c w = w \<lparr> w_classes := snd (Create serviceclassRESTStrategies (client_ctx ex_env []) ''uid-c'' c (w_classes w)) \<rparr>"

definition create_plan :: "ServicePlan \<Rightarrow> world \<Rightarrow> world" where
  "create_plan p w = w \<lparr> w_plans := snd (Create serviceplanRESTStrategies (client_ctx ex_env []) ''uid-p'' p (w_plans w)) \<rparr>"

text \<open>A full cache of the classes and plans.\<close>
definition sync_catalog_cache :: "world \<Rightarrow> world" where
  "sync_catalog_cache w = w \<lparr> w_classCache := map snd (st_alist (w_classes w)), w_planCache := map snd (st_alist (w_plans w)) \<rparr>"

lemma create_broker_ok: "world_ok ex_env w \<Longrightarrow> world_ok ex_env (create_broker w)"
  unfolding create_broker_def using client_request_ok[OF client_request.intros(9)] by blast

lemma delete_broker_ok: "world_ok ex_env w \<Longrightarrow> world_ok ex_env (delete_broker w)"
  unfolding delete_broker_def using client_request_ok[OF client_request.intros(12)] by blast

lemma create_class_ok: "world_ok ex_env w \<Longrightarrow> world_ok ex_env (create_class c w)"
  by (simp add: create_class_def world_ok_def class_store.Create_store_ok)

lemma sync_catalog_cache_ok: "world_ok ex_env w \<Longrightarrow> world_ok ex_env (sync_catalog_cache w)"
  by (simp add: sync_catalog_cache_def)

definition ex_removal :: world where
  "ex_removal = sync_catalog_cache (delete_broker (create_class ex_other_class (create_class ex_class (create_broker ex_world))))"

definition ex_removed_broker :: ClusterServiceBroker where
  "ex_removed_broker = the (st_objs (w_brokers ex_removal) ([], ''broker''))"

definition ex_removed :: "(go_error + unit) \<times> world" where
  "ex_removed = run_state (reconcileClusterServiceBroker ex_env ex_removed_broker) ex_removal"

definition ex_left_class :: ServiceClass where
  "ex_left_class = the (st_objs (w_classes (snd ex_removed)) ([], ''c-2''))"

lemma ex_removal_ok: "world_ok ex_env ex_removal"
  unfolding ex_removal_def
  by (intro sync_catalog_cache_ok delete_broker_ok create_class_ok create_broker_ok ex_world_ok)

lemma ex_removed_broker_facts:
  "om_DeletionTimestamp (bk_Meta ex_removed_broker) = Some 1000" "om_Finalizers (bk_Meta ex_removed_broker) = [FinalizerServiceCatalog]"
  "om_Name (bk_Meta ex_removed_broker) = ''broker''"
  by code_simp+

lemma ex_removed_facts:
  "fst ex_removed = Inr ()" "st_objs (w_classes (snd ex_removed)) ([], ''c-2'') = Some ex_left_class"
  "st_objs (w_classes (snd ex_removed)) ([], ''c-1'') = None" "st_objs (w_classes ex_removal) ([], ''c-1'') \<noteq> None"
  by code_simp+

theorem reconcileClusterServiceBroker_frame_witness:
  "broker_frame ''broker'' ex_removal (snd ex_removed)"
  using reconcileClusterServiceBroker_frame[OF ex_removal_ok, of ex_removed_broker] ex_removed_broker_facts(3)
  by (simp add: ex_removed_def)

theorem deleted_broker_leaves_no_classes_witness:
  "st_objs (w_classes (snd ex_removed)) ([], ''c-2'') = Some ex_left_class \<and>
   scs_ClusterServiceBrokerName (sc_Spec ex_left_class) \<noteq> ''broker''"
proof -
  have cached: "c \<in> set (w_classCache ex_removal)" if "st_objs (w_classes ex_removal) k = Some c" for k c
    using that by (auto simp: ex_removal_def sync_catalog_cache_def st_objs_def dest!: map_of_SomeD intro: rev_image_eqI)
  have fault: "\<And>t. ev_fault ex_env t = None" by (simp add: ex_env_def)
  have run: "run_state (reconcileClusterServiceBroker ex_env ex_removed_broker) ex_removal = (Inr (), snd ex_removed)"
    using ex_removed_facts(1) by (simp add: ex_removed_def prod_eq_iff)
  have del: "om_DeletionTimestamp (bk_Meta ex_removed_broker) \<noteq> None" "FinalizerServiceCatalog \<in> set (om_Finalizers (bk_Meta ex_removed_broker))"
    by (simp_all add: ex_removed_broker_facts)
  show ?thesis
    using deleted_broker_leaves_no_classes[OF ex_removal_ok fault cached del run ex_removed_facts(2)] ex_removed_facts(2)
      ex_removed_broker_facts(3) by simp
qed

definition ex_ready_broker :: ClusterServiceBroker where
  "ex_ready_broker = setClusterServiceBrokerCondition (ex_broker \<lparr> bk_Spec := (bk_Spec ex_broker)
     \<lparr> bks_RelistBehavior := RelistDurationBehavior, bks_RelistDuration := Some 60 \<rparr> \<rparr>) ConditionReady ConditionTrue ''Ok'' ''ok'' 1000"

theorem broker_is_relisted_iff_witness:
  "\<not> shouldReconcileClusterServiceBroker ex_ready_broker 1060 \<and> shouldReconcileClusterServiceBroker ex_ready_broker 1061"
  unfolding broker_is_relisted_iff
  by (simp add: ex_ready_broker_def setClusterServiceBrokerCondition_def broker_set_condition_def ex_broker_def named_meta_def
      first_condition_def)

theorem broker_condition_is_shown_iff_witness:
  "\<not> (\<exists>c. first_condition ConditionFailed (bkst_Conditions (bk_Status
        (setClusterServiceBrokerCondition ex_ready_broker ConditionFailed ConditionTrue ''Timeout'' ''gone'' 2000))) = Some c \<and>
        c_Status c = ConditionTrue \<and> c_Reason c = ''Timeout'' \<and> c_Message c = ''gone'')"
  unfolding broker_condition_is_shown_iff
  by (simp add: ex_ready_broker_def setClusterServiceBrokerCondition_def broker_set_condition_def ex_broker_def named_meta_def
      first_condition_def)

theorem class_of_another_broker_is_kept_witness:
  "\<exists>e. run_state (reconcileServiceClassFromClusterServiceBrokerCatalog ex_env ex_broker ex_other_class)
      (ex_world \<lparr> w_classCache := [ex_other_class] \<rparr>) = (Inl e, ex_world \<lparr> w_classCache := [ex_other_class] \<rparr>)"
  by (rule class_of_another_broker_is_kept[where existing = ex_other_class])
    (simp_all add: lister_get_def ex_other_class_def ex_broker_def named_meta_def)

text \<open>The catalog of the broker lists a plan with the identifier of a plan of another broker.\<close>
definition ex_other_plan :: ServicePlan where
  "ex_other_plan = sp_Spec_update (\<lambda>s. s \<lparr> sps_ClusterServiceBrokerName := ''other'', sps_Description := ''theirs'' \<rparr>) ex_plan"

definition ex_stored_plan :: ServicePlan where
  "ex_stored_plan = the (st_objs (w_plans (create_plan ex_other_plan ex_world)) ([], ''p-1''))"

definition ex_overwritten :: "(go_error + unit) \<times> world" where
  "ex_overwritten = run_state (reconcileServicePlan ex_env ex_broker ex_plan) (sync_catalog_cache (create_plan ex_other_plan ex_world))"

lemma ex_overwritten_facts:
  "fst ex_overwritten = Inr ()"
  "lister_get sp_Meta (w_planCache (sync_catalog_cache (create_plan ex_other_plan ex_world))) [] ''p-1'' = Inr ex_stored_plan"
  "sps_ClusterServiceBrokerName (sp_Spec ex_stored_plan) = ''other''" "sps_ExternalID (sp_Spec ex_stored_plan) = ''p-1''"
  "om_Name (sp_Meta ex_plan) = ''p-1''" "sps_ExternalID (sp_Spec ex_plan) = ''p-1''" "sps_Description (sp_Spec ex_plan) = ''a plan''"
  by code_simp+

theorem plan_of_another_broker_is_overwritten_witness:
  "\<exists>x. st_objs (w_plans (snd ex_overwritten)) ([], ''p-1'') = Some x \<and> sps_Description (sp_Spec x) = ''a plan'' \<and>
     sps_ClusterServiceBrokerName (sp_Spec x) = ''other''"
proof -
  have run: "run_state (reconcileServicePlan ex_env ex_broker ex_plan) (sync_catalog_cache (create_plan ex_other_plan ex_world)) = (Inr (), snd ex_overwritten)"
    using ex_overwritten_facts(1) by (simp add: ex_overwritten_def prod_eq_iff)
  have "lister_get sp_Meta (w_planCache (sync_catalog_cache (create_plan ex_other_plan ex_world))) [] (om_Name (sp_Meta ex_plan)) = Inr ex_stored_plan"
    "sps_ExternalID (sp_Spec ex_stored_plan) = sps_ExternalID (sp_Spec ex_plan)"
    using ex_overwritten_facts by simp_all
  from plan_of_another_broker_is_overwritten[OF this run] show ?thesis using ex_overwritten_facts by auto
qed

section \<open>Admission\<close>

definition ex_plugins :: plugin_env where
  "ex_plugins = \<lparr> pe_ready = True, pe_classes = [ex_class], pe_plans = [ex_plan], pe_instances = [ex_deleted],
     pe_namespace_cache = (\<lambda>_. Inr NamespaceTerminating), pe_namespace_cache_later = (\<lambda>_. Inr NamespaceTerminating),
     pe_namespace_live = (\<lambda>_. Inr NamespaceTerminating), pe_list_classes = (\<lambda>_. Inr [ex_class]),
     pe_review = (\<lambda>_. Inr \<lparr> sarst_Allowed = False, sarst_Reason = [], sarst_EvaluationError = [] \<rparr>) \<rparr>"

definition ex_attributes :: "admission_operation \<Rightarrow> string \<Rightarrow> runtime_object \<Rightarrow> attributes" where
  "ex_attributes op resource obj = \<lparr> at_Operation = op, at_Group = catalog_group, at_Resource = resource, at_Subresource = [],
     at_Namespace = ''ns'', at_Object = Some obj, at_UserInfo = \<lparr> ui_Username = ''user'', ui_UID = [], ui_Groups = [], ui_Extra = [] \<rparr> \<rparr>"

lemma ex_deleted_names: "om_Namespace (si_Meta ex_deleted) = ''ns''" "om_Name (si_Meta ex_deleted) = ''db''"
  "om_Namespace (cr_Meta ex_binding) = ''ns''" "crs_ServiceInstanceRef (cr_Spec ex_binding) = ''db''"
  "sis_ExternalServicePlanName (si_Spec ex_deleted) = ''small''" "sis_ExternalServiceClassName (si_Spec ex_deleted) = ''mysql''"
  by code_simp+

theorem no_credential_for_deleted_instance_witness:
  "\<exists>e. chain_Admit ex_plugins [BrokerAuthSarCheck, ServiceInstanceCredentialsLifecycle]
     (ex_attributes AdmissionCreate ''serviceinstancecredentials'' (CredentialObject ex_binding)) = Inl e"
  by (rule no_credential_for_deleted_instance[where inst = ex_deleted and b = ex_binding])
    (simp_all add: ex_attributes_def is_resource_def ex_plugins_def lister_get_def ex_deleted_names ex_deleted_facts)

definition ex_planless :: ServiceInstance where
  "ex_planless = si_Spec_update (\<lambda>s. s \<lparr> sis_ExternalServicePlanName := [] \<rparr>) ex_instance"

theorem admission_only_fills_the_plan_witness:
  "\<exists>a'. chain_Admit ex_plugins [DefaultServicePlan] (ex_attributes AdmissionCreate ''serviceinstances'' (InstanceObject ex_planless)) = Inr a' \<and>
     a' \<noteq> ex_attributes AdmissionCreate ''serviceinstances'' (InstanceObject ex_planless) \<and>
     (\<exists>i. at_Object a' = Some (InstanceObject i) \<and> sis_ExternalServicePlanName (si_Spec i) = ''small'')"
proof -
  let ?a = "ex_attributes AdmissionCreate ''serviceinstances'' (InstanceObject ex_planless)"
  let ?a' = "projr (chain_Admit ex_plugins [DefaultServicePlan] ?a)"
  have "isOK (chain_Admit ex_plugins [DefaultServicePlan] ?a)" by code_simp
  then have run: "chain_Admit ex_plugins [DefaultServicePlan] ?a = Inr ?a'" by (auto simp: isOK_iff)
  have new: "?a' \<noteq> ?a" by code_simp
  have plan: "pe_plans ex_plugins = [ex_plan]" "sps_ExternalName (sp_Spec ex_plan) = ''small''"
    by (simp_all add: ex_plugins_def ex_plan_def)
  from admission_only_fills_the_plan[OF run] new obtain i p where
    "pe_plans ex_plugins = [p]" "?a' = ?a \<lparr> at_Object := Some (InstanceObject (si_Spec_update
      (\<lambda>s. s \<lparr> sis_ExternalServicePlanName := sps_ExternalName (sp_Spec p) \<rparr>) i)) \<rparr>" by blast
  then have "\<exists>i. at_Object ?a' = Some (InstanceObject i) \<and> sis_ExternalServicePlanName (si_Spec i) = ''small''"
    using plan by simp
  then show ?thesis using run new by blast
qed

text \<open>The class does not allow plan changes, but the change is admitted.\<close>
theorem plan_change_is_admitted_iff_witness:
  "let a = ex_attributes AdmissionUpdate ''serviceinstances''
     (InstanceObject (si_Spec_update (\<lambda>s. s \<lparr> sis_ExternalServicePlanName := ''large'' \<rparr>) ex_deleted))
   in denyPlanChangeIfNotUpdatable_Admit ex_plugins a = Inr a \<and> \<not> scs_PlanUpdatable (sc_Spec ex_class)"
  unfolding Let_def
  by (subst plan_change_is_admitted_iff[where orig = ex_deleted and
        i = "si_Spec_update (\<lambda>s. s \<lparr> sis_ExternalServicePlanName := ''large'' \<rparr>) ex_deleted"])
    (simp_all add: ex_plugins_def ex_attributes_def is_resource_def lister_get_def ex_deleted_names ex_class_def named_meta_def)

definition ex_secured :: ClusterServiceBroker where
  "ex_secured = bk_Spec_update (\<lambda>s. s \<lparr> bks_AuthInfo := Some \<lparr> ai_Basic = None, ai_Bearer = None, ai_BasicAuthSecret = None \<rparr> \<rparr>) ex_broker"

theorem broker_secret_access_is_checked_iff_witness:
  "let a = ex_attributes AdmissionCreate ''clusterservicebrokers'' (BrokerObject ex_secured) in sarcheck_Admit ex_plugins a = Inr a"
  unfolding Let_def
  by (rule broker_secret_access_is_checked_iff[where b = ex_secured and
        ai = "\<lparr> ai_Basic = None, ai_Bearer = None, ai_BasicAuthSecret = None \<rparr>", THEN conjunct1, THEN mp])
    (simp_all add: ex_plugins_def ex_attributes_def ex_secured_def ex_broker_def)

theorem no_creation_in_terminating_namespace_witness:
  "\<exists>e. chain_Admit ex_plugins [DefaultServicePlan, KubernetesNamespaceLifecycle]
     (ex_attributes AdmissionCreate ''serviceinstances'' (InstanceObject ex_instance)) = Inl e"
  by (rule no_creation_in_terminating_namespace) (simp_all add: ex_plugins_def ex_attributes_def)

end
