(* ===== verification/SC_BrokerExamples.thy ===== *)
theory SC_BrokerExamples
  imports SC_SampleBroker SC_Examples
begin

text \<open>
  The properties of the broker client and of the sample broker applied to the cluster of \<open>SC_Example\<close>:
  requests that find no broker, the client of the stored broker, and a router that delivers the requests of
  one instance and one credential to the user provided broker.
\<close>

section \<open>The client\<close>

definition ex_refused :: go_error where
  "ex_refused = PlainError ''connection refused''"

theorem plain_errors_are_unanswered_witness:
  "unanswered (\<lambda>_. None) (\<lambda>_ _. Inl ex_refused) 0 ex_client MethodPut (instance_URL ex_client (pr_InstanceID ex_request))
     (validateProvisionRequest ex_request) (pr_OriginatingIdentity ex_request) ex_refused"
proof -
  have "ev_provision (osb_env (\<lambda>_. None) (\<lambda>_ _. Inl ex_refused) ex_env) 0 ex_client ex_request = Inl ex_refused"
    by code_simp
  moreover have "IsHTTPError ex_refused = None" by code_simp
  ultimately show ?thesis using plain_errors_are_unanswered by blast
qed

lemma ex_broker_stored: "st_objs (w_brokers (create_broker ex_world)) ([], ''broker'') \<noteq> None"
  by code_simp

theorem valid_broker_has_a_client_witness:
  "\<exists>b. st_objs (w_brokers (create_broker ex_world)) ([], ''broker'') = Some b \<and>
     ev_newClient (osb_env (\<lambda>_. None) (\<lambda>_ _. Inl ex_refused) ex_env) 0 (NewClientConfigurationForBroker b None) = None"
proof -
  obtain b where b: "st_objs (w_brokers (create_broker ex_world)) ([], ''broker'') = Some b" using ex_broker_stored by blast
  have "broker_valid b" by (rule stored_valid(3)[OF create_broker_ok[OF ex_world_ok] b])
  then show ?thesis using valid_broker_has_a_client b by blast
qed

section \<open>The sample broker\<close>

abbreviation ex_instanceID :: string where
  "ex_instanceID \<equiv> sis_ExternalID (si_Spec ex_new)"

abbreviation ex_bindingID :: string where
  "ex_bindingID \<equiv> crs_ExternalID (cr_Spec ex_bound)"

definition ex_route :: "http_request \<Rightarrow> broker_call" where
  "ex_route req =
     (if hq_Method req = MethodGet then CatalogCall
      else if hq_URL req = instance_URL ex_client ex_instanceID then CreateCall ex_instanceID (hq_Body req)
      else BindCall ex_instanceID ex_bindingID (hq_Body req))"

lemma ex_route_delivers: "delivers ex_route ex_client ex_instanceID ex_bindingID"
  by (simp add: delivers_def ex_route_def binding_URL_def)

lemma ex_IDs: "ex_instanceID \<noteq> []" "ex_bindingID \<noteq> []" "ex_instanceID \<noteq> ''another''"
  by code_simp+

text \<open>Meanwhile, another instance is created and removed, and this one is bound and unbound.\<close>
definition ex_calls :: "broker_call list" where
  "ex_calls = [CreateCall ''another'' (Some (JObj [])), BindCall ex_instanceID ''b-2'' (Some (JObj [])), UnBindCall ex_instanceID ''b-2'' [],
     RemoveCall ''another'' []]"

theorem sample_broker_round_trip_witness:
  "\<exists>sc sp c1.
    bind_result (fst (run_state (client_GetCatalog (\<lambda>_. None) (broker_network userProvided ex_route) ex_client) CreateController))
      convertCatalog = Inr ([sc], [sp]) \<and>
    run_state (client_ProvisionInstance (\<lambda>_. None) (broker_network userProvided ex_route) ex_client
      (provision_request sc sp ex_new ''ns-uid'' [(''credentials'', JObj [(''user'', JStr ''u1'')])] None)) CreateController =
      (Inr \<lparr> prr_Async = False, prr_DashboardURL = None, prr_OperationKey = None \<rparr>, c1) \<and>
    fst (run_state (client_Bind (\<lambda>_. None) (broker_network userProvided ex_route) ex_client (bind_request sc sp ex_new ex_bound ''ns-uid'' [] None))
      (serve_all userProvided ex_calls c1)) = Inr \<lparr> bdrr_Credentials = [(''user'', JStr ''u1'')] \<rparr>"
  by (rule sample_broker_round_trip[OF ex_route_delivers])
    (use ex_IDs in \<open>simp_all add: isOK_iff identity_header_def ex_calls_def\<close>)

end
