(* ===== verification/SC_StorageExamples.thy ===== *)
theory SC_StorageExamples
  imports SC_Storage SC_BrokerExamples
begin

text \<open>
  The properties of listing, applied to the example cluster: an instance, two classes and a plan, created
  through the registry and kept under the keys of an etcd backend.
\<close>

definition ex_opts :: "string \<Rightarrow> Options" where
  "ex_opts prfx = \<lparr> opt_ResourcePrefix = prfx, opt_storageType = ''etcd'' \<rparr>"

definition ex_registry :: "ServiceInstance registry_Store" where
  "ex_registry = fst (the (instance_NewStorage (ex_opts ''/serviceinstances'') (ev_yaml ex_env) (ev_OriginatingIdentity ex_env)))"

definition ex_class_registry :: "ServiceClass registry_Store" where
  "ex_class_registry = the (serviceclass_NewStorage (ex_opts ''/serviceclasses''))"

definition ex_plan_registry :: "ServicePlan registry_Store" where
  "ex_plan_registry = the (serviceplan_NewStorage (ex_opts ''/serviceplans''))"

lemmas ex_stores = NewStore_def options_KeyRootFunc_def options_KeyFunc_def options_StorageType_def StorageTypeEtcd_def ex_opts_def isOK_iff

lemma ex_registry_new:
  "instance_NewStorage (ex_opts ''/serviceinstances'') (ev_yaml ex_env) (ev_OriginatingIdentity ex_env) =
   Some (ex_registry, ex_registry \<lparr> rg_UpdateStrategy := ex_status \<rparr>,
     ex_registry \<lparr> rg_UpdateStrategy := instanceReferenceUpdateStrategy (ev_yaml ex_env) (ev_OriginatingIdentity ex_env) \<rparr>)"
  by (simp add: ex_registry_def instance_NewStorage_def ex_stores)

lemma ex_class_registry_new: "serviceclass_NewStorage (ex_opts ''/serviceclasses'') = Some ex_class_registry"
  by (simp add: ex_class_registry_def serviceclass_NewStorage_def ex_stores)

lemma ex_plan_registry_new: "serviceplan_NewStorage (ex_opts ''/serviceplans'') = Some ex_plan_registry"
  by (simp add: ex_plan_registry_def serviceplan_NewStorage_def ex_stores)

lemma create_plan_ok: "world_ok ex_env w \<Longrightarrow> world_ok ex_env (create_plan p w)"
  by (simp add: create_plan_def world_ok_def plan_store.Create_store_ok)

definition ex_catalog_world :: world where
  "ex_catalog_world = create_plan ex_plan (create_class ex_other_class (create_class ex_class ex_world))"

lemma ex_catalog_world_ok: "world_ok ex_env ex_catalog_world"
  unfolding ex_catalog_world_def by (intro create_plan_ok create_class_ok ex_world_ok)

theorem listing_is_scoped_and_selected_witness:
  "ListPredicate ex_registry (client_ctx ex_env ''ns'') (hasTerm ''metadata.name'' ''db'') (backend_of ex_registry ex_store) = [ex_new] \<and>
   ListPredicate ex_registry (client_ctx ex_env ''other'') (hasTerm ''metadata.name'' ''db'') (backend_of ex_registry ex_store) = []"
proof -
  have ns: "segment (ctx_Namespace (client_ctx ex_env ''ns''))" "segment (ctx_Namespace (client_ctx ex_env ''other''))"
    by (simp_all add: segment_def client_ctx_def)
  have "list_objects (\<lambda>i. (ctx_Namespace (client_ctx ex_env ''ns'') = [] \<or> om_Namespace (si_Meta i) = ctx_Namespace (client_ctx ex_env ''ns'')) \<and>
      selector_Matches (hasTerm ''metadata.name'' ''db'') (instance_toSelectableFields i)) ex_store = [ex_new]"
    by code_simp
  moreover have "list_objects (\<lambda>i. (ctx_Namespace (client_ctx ex_env ''other'') = [] \<or> om_Namespace (si_Meta i) = ctx_Namespace (client_ctx ex_env ''other'')) \<and>
      selector_Matches (hasTerm ''metadata.name'' ''db'') (instance_toSelectableFields i)) ex_store = []"
    by code_simp
  ultimately show ?thesis
    using listing_is_scoped_and_selected[OF ex_registry_new ex_store_ok] ns by simp
qed

theorem references_are_looked_up_exactly_witness:
  "(\<exists>c. list_request ex_class_registry ServiceClassFieldLabelConversionFunc (client_ctx ex_env []) (class_selector ex_new)
       (backend_of ex_class_registry (w_classes ex_catalog_world)) = Inr [c] \<and> om_Name (sc_Meta c) = ''c-1'') \<and>
   (\<exists>p. list_request ex_plan_registry ServicePlanFieldLabelConversionFunc (client_ctx ex_env [])
       (selector_String (SelectorFromSet (rev (plan_fields_wanted ex_new ''c-1'' ex_class))))
       (backend_of ex_plan_registry (w_plans ex_catalog_world)) = Inr [p] \<and> om_Name (sp_Meta p) = ''p-1'')"
proof -
  have valid: "instance_valid (ev_yaml ex_env) ex_new" by (rule stored_valid(1)[OF create_instance_ok[OF ex_world_ok] ex_new_stored])
  have ctx: "ctx_Namespace (client_ctx ex_env []) = []" by (simp add: client_ctx_def)
  have "map (\<lambda>c. om_Name (sc_Meta c)) (list_objects (\<lambda>c. scs_ExternalName (sc_Spec c) = sis_ExternalServiceClassName (si_Spec ex_new))
      (w_classes ex_catalog_world)) = [''c-1'']" by code_simp
  moreover have "map (\<lambda>p. om_Name (sp_Meta p)) (list_objects (plan_matches ex_new ''c-1'' ex_class) (w_plans ex_catalog_world)) = [''p-1'']"
    by code_simp
  ultimately show ?thesis
    using references_are_looked_up_exactly[OF ex_catalog_world_ok valid ctx ex_class_registry_new ex_plan_registry_new,
        of "rev (plan_fields_wanted ex_new ''c-1'' ex_class)" "''c-1''" ex_class]
    by auto
qed

theorem classes_cannot_be_selected_by_broker_witness:
  "scs_ClusterServiceBrokerName (sc_Spec (snd (hd (st_alist (w_classes (create_class ex_class ex_world)))))) = ''broker'' \<and>
   list_request ex_class_registry ServiceClassFieldLabelConversionFunc (client_ctx ex_env [])
     (selector_String (SelectorFromSet [(''spec.clusterServiceBrokerName'', ''broker'')]))
     (backend_of ex_class_registry (w_classes (create_class ex_class ex_world))) = Inr []"
proof
  show "scs_ClusterServiceBrokerName (sc_Spec (snd (hd (st_alist (w_classes (create_class ex_class ex_world)))))) = ''broker''"
    by code_simp
  have "store_ok serviceclassRESTStrategies class_valid (w_classes (create_class ex_class ex_world))"
    using create_class_ok[OF ex_world_ok] by (simp add: world_ok_def)
  then show "list_request ex_class_registry ServiceClassFieldLabelConversionFunc (client_ctx ex_env [])
     (selector_String (SelectorFromSet [(''spec.clusterServiceBrokerName'', ''broker'')]))
     (backend_of ex_class_registry (w_classes (create_class ex_class ex_world))) = Inr []"
    using classes_cannot_be_selected_by_broker[OF ex_class_registry_new] by (simp add: client_ctx_def)
qed

end
