(* ===== verification/SC_Conversion.thy ===== *)
theory SC_Conversion
  imports SC_Strategies
begin

text \<open>
  The versioned types of \<open>v1alpha1/types.go\<close>, which clients and the controller use, and their conversion to
  and from the types of the API server.  The generated functions convert structs field by field, but
  reinterpret the memory behind a pointer or a slice as the other type; such a cast keeps the position of
  every field in the struct, not its name.  A record is declared here in the order of its Go struct, so that a
  cast is the positional constructor of the target.  A slice of conditions is nil (\<open>None\<close>) or has elements: the
  conversion of a status to the versioned type makes a nil slice empty, which no other conversion of a field and
  no cast does.  The structs of the API server that hold conditions are therefore declared again here, with the
  slices as they lie in memory; \<open>elements\<close> gives the records of \<open>SC_Types\<close>, where a nil slice has no elements.
  Proved: converting to the other version and back changes nothing but nil conditions, which become empty,
  and a cast differs from the conversion exactly for nil conditions.  \<open>TypeMeta\<close> is not carried, nor is the
  difference of nil and empty for the other slices, which are only cast; the string types of the two packages
  have the same constants, and share a datatype.
\<close>

section \<open>Types\<close>

record v1_SecretKeyReference =
  vskr_Name :: string
  vskr_Key :: string

record v1_ParametersFromSource =
  vpfs_SecretKeyRef :: "v1_SecretKeyReference option"

record v1_UserInfo =
  vui_Username :: string
  vui_UID :: string
  vui_Groups :: "string list"
  vui_Extra :: "(string \<times> string list) list"

record v1_BasicAuthConfig =
  vba_SecretRef :: "ObjectReference option"

record v1_BearerTokenAuthConfig =
  vbt_SecretRef :: "ObjectReference option"

record v1_ServiceBrokerAuthInfo =
  vai_Basic :: "v1_BasicAuthConfig option"
  vai_Bearer :: "v1_BearerTokenAuthConfig option"
  vai_BasicAuthSecret :: "ObjectReference option"

record v1_ClusterServiceBrokerSpec =
  vbks_URL :: string
  vbks_AuthInfo :: "v1_ServiceBrokerAuthInfo option"
  vbks_InsecureSkipTLSVerify :: bool
  vbks_CABundle :: string
  vbks_RelistBehavior :: RelistBehavior
  vbks_RelistDuration :: "int option"
  vbks_RelistRequests :: int

record v1_ServiceBrokerCondition =
  vbc_Type :: ConditionType
  vbc_Status :: ConditionStatus
  vbc_LastTransitionTime :: go_time
  vbc_Reason :: string
  vbc_Message :: string

record v1_ServiceInstanceCondition =
  vic_Type :: ConditionType
  vic_Status :: ConditionStatus
  vic_LastTransitionTime :: go_time
  vic_Reason :: string
  vic_Message :: string

record v1_ServiceInstanceCredentialCondition =
  vcc_Type :: ConditionType
  vcc_Status :: ConditionStatus
  vcc_LastTransitionTime :: go_time
  vcc_Reason :: string
  vcc_Message :: string

record v1_ServiceBrokerStatus =
  vbkst_Conditions :: "v1_ServiceBrokerCondition list option"
  vbkst_ReconciledGeneration :: int
  vbkst_OperationStartTime :: "go_time option"

record v1_ClusterServiceBroker =
  vbk_Meta :: ObjectMeta
  vbk_Spec :: v1_ClusterServiceBrokerSpec
  vbk_Status :: v1_ServiceBrokerStatus

record v1_ServiceClassSpec =
  vscs_ClusterServiceBrokerName :: string
  vscs_ExternalName :: string
  vscs_ExternalID :: string
  vscs_Description :: string
  vscs_Bindable :: bool
  vscs_PlanUpdatable :: bool
  vscs_ExternalMetadata :: "RawExtension option"
  vscs_Tags :: "string list"
  vscs_Requires :: "string list"

record v1_ServiceClass =
  vsc_Meta :: ObjectMeta
  vsc_Spec :: v1_ServiceClassSpec

record v1_ServicePlanSpec =
  vsps_ClusterServiceBrokerName :: string
  vsps_ExternalName :: string
  vsps_ExternalID :: string
  vsps_Description :: string
  vsps_Bindable :: "bool option"
  vsps_Free :: bool
  vsps_ExternalMetadata :: "RawExtension option"
  vsps_ServiceInstanceCreateParameterSchema :: "RawExtension option"
  vsps_ServiceInstanceUpdateParameterSchema :: "RawExtension option"
  vsps_ServiceInstanceCredentialCreateParameterSchema :: "RawExtension option"
  vsps_ServiceClassRef :: string

record v1_ServicePlan =
  vsp_Meta :: ObjectMeta
  vsp_Spec :: v1_ServicePlanSpec

record v1_ServiceInstancePropertiesState =
  vps_ExternalServicePlanName :: string
  vps_Parameters :: "RawExtension option"
  vps_ParametersChecksum :: string
  vps_UserInfo :: "v1_UserInfo option"

record v1_ServiceInstanceSpec =
  vsis_ExternalServiceClassName :: string
  vsis_ExternalServicePlanName :: string
  vsis_ServiceClassRef :: "ObjectReference option"
  vsis_ServicePlanRef :: "ObjectReference option"
  vsis_Parameters :: "RawExtension option"
  vsis_ParametersFrom :: "v1_ParametersFromSource list"
  vsis_ExternalID :: string
  vsis_UserInfo :: "v1_UserInfo option"

record v1_ServiceInstanceStatus =
  vist_Conditions :: "v1_ServiceInstanceCondition list option"
  vist_AsyncOpInProgress :: bool
  vist_OrphanMitigationInProgress :: bool
  vist_LastOperation :: "string option"
  vist_DashboardURL :: "string option"
  vist_CurrentOperation :: ServiceInstanceOperation
  vist_ReconciledGeneration :: int
  vist_OperationStartTime :: "go_time option"
  vist_InProgressProperties :: "v1_ServiceInstancePropertiesState option"
  vist_ExternalProperties :: "v1_ServiceInstancePropertiesState option"

record v1_ServiceInstance =
  vsi_Meta :: ObjectMeta
  vsi_Spec :: v1_ServiceInstanceSpec
  vsi_Status :: v1_ServiceInstanceStatus

record v1_ServiceInstanceCredentialPropertiesState =
  vcps_Parameters :: "RawExtension option"
  vcps_ParametersChecksum :: string
  vcps_UserInfo :: "v1_UserInfo option"

record v1_ServiceInstanceCredentialSpec =
  vcrs_ServiceInstanceRef :: string
  vcrs_Parameters :: "RawExtension option"
  vcrs_ParametersFrom :: "v1_ParametersFromSource list"
  vcrs_SecretName :: string
  vcrs_ExternalID :: string
  vcrs_UserInfo :: "v1_UserInfo option"

record v1_ServiceInstanceCredentialStatus =
  vcrst_Conditions :: "v1_ServiceInstanceCredentialCondition list option"
  vcrst_CurrentOperation :: ServiceInstanceCredentialOperation
  vcrst_ReconciledGeneration :: int
  vcrst_OperationStartTime :: "go_time option"
  vcrst_InProgressProperties :: "v1_ServiceInstanceCredentialPropertiesState option"
  vcrst_ExternalProperties :: "v1_ServiceInstanceCredentialPropertiesState option"
  vcrst_OrphanMitigationInProgress :: bool

record v1_ServiceInstanceCredential =
  vcr_Meta :: ObjectMeta
  vcr_Spec :: v1_ServiceInstanceCredentialSpec
  vcr_Status :: v1_ServiceInstanceCredentialStatus

text \<open>The structs of the API server that hold conditions.\<close>
record internal_ServiceBrokerStatus =
  nbkst_Conditions :: "Condition list option"
  nbkst_ReconciledGeneration :: int
  nbkst_OperationStartTime :: "go_time option"

record internal_ClusterServiceBroker =
  nbk_Meta :: ObjectMeta
  nbk_Spec :: BrokerSpec
  nbk_Status :: internal_ServiceBrokerStatus

record internal_ServiceInstanceStatus =
  nist_Conditions :: "Condition list option"
  nist_AsyncOpInProgress :: bool
  nist_OrphanMitigationInProgress :: bool
  nist_LastOperation :: "string option"
  nist_DashboardURL :: "string option"
  nist_CurrentOperation :: ServiceInstanceOperation
  nist_ReconciledGeneration :: int
  nist_OperationStartTime :: "go_time option"
  nist_InProgressProperties :: "PropertiesState option"
  nist_ExternalProperties :: "PropertiesState option"

record internal_ServiceInstance =
  nsi_Meta :: ObjectMeta
  nsi_Spec :: InstanceSpec
  nsi_Status :: internal_ServiceInstanceStatus

record internal_ServiceInstanceCredentialStatus =
  ncrst_Conditions :: "Condition list option"
  ncrst_CurrentOperation :: ServiceInstanceCredentialOperation
  ncrst_ReconciledGeneration :: int
  ncrst_OperationStartTime :: "go_time option"
  ncrst_InProgressProperties :: "CredentialPropertiesState option"
  ncrst_ExternalProperties :: "CredentialPropertiesState option"
  ncrst_OrphanMitigationInProgress :: bool

record internal_ServiceInstanceCredential =
  ncr_Meta :: ObjectMeta
  ncr_Spec :: CredentialSpec
  ncr_Status :: internal_ServiceInstanceCredentialStatus

text \<open>What the rest of the program reads from them.\<close>
definition slice_elements :: "'a list option \<Rightarrow> 'a list" where
  "slice_elements s = (case s of None \<Rightarrow> [] | Some xs \<Rightarrow> xs)"

definition elements_ServiceBrokerStatus :: "internal_ServiceBrokerStatus \<Rightarrow> BrokerStatus" where
  "elements_ServiceBrokerStatus x =
     \<lparr> bkst_Conditions = slice_elements (nbkst_Conditions x),
       bkst_ReconciledGeneration = nbkst_ReconciledGeneration x, bkst_OperationStartTime = nbkst_OperationStartTime x \<rparr>"

definition elements_ClusterServiceBroker :: "internal_ClusterServiceBroker \<Rightarrow> ClusterServiceBroker" where
  "elements_ClusterServiceBroker x =
     \<lparr> bk_Meta = nbk_Meta x, bk_Spec = nbk_Spec x, bk_Status = elements_ServiceBrokerStatus (nbk_Status x) \<rparr>"

definition elements_ServiceInstanceStatus :: "internal_ServiceInstanceStatus \<Rightarrow> InstanceStatus" where
  "elements_ServiceInstanceStatus x =
     \<lparr> ist_Conditions = slice_elements (nist_Conditions x), ist_AsyncOpInProgress = nist_AsyncOpInProgress x,
       ist_OrphanMitigationInProgress = nist_OrphanMitigationInProgress x, ist_LastOperation = nist_LastOperation x,
       ist_DashboardURL = nist_DashboardURL x, ist_CurrentOperation = nist_CurrentOperation x,
       ist_ReconciledGeneration = nist_ReconciledGeneration x, ist_OperationStartTime = nist_OperationStartTime x,
       ist_InProgressProperties = nist_InProgressProperties x, ist_ExternalProperties = nist_ExternalProperties x \<rparr>"

definition elements_ServiceInstance :: "internal_ServiceInstance \<Rightarrow> ServiceInstance" where
  "elements_ServiceInstance x =
     \<lparr> si_Meta = nsi_Meta x, si_Spec = nsi_Spec x, si_Status = elements_ServiceInstanceStatus (nsi_Status x) \<rparr>"

definition elements_ServiceInstanceCredentialStatus :: "internal_ServiceInstanceCredentialStatus \<Rightarrow> CredentialStatus" where
  "elements_ServiceInstanceCredentialStatus x =
     \<lparr> crst_Conditions = slice_elements (ncrst_Conditions x), crst_CurrentOperation = ncrst_CurrentOperation x,
       crst_ReconciledGeneration = ncrst_ReconciledGeneration x, crst_OperationStartTime = ncrst_OperationStartTime x,
       crst_InProgressProperties = ncrst_InProgressProperties x, crst_ExternalProperties = ncrst_ExternalProperties x,
       crst_OrphanMitigationInProgress = ncrst_OrphanMitigationInProgress x \<rparr>"

definition elements_ServiceInstanceCredential :: "internal_ServiceInstanceCredential \<Rightarrow> ServiceInstanceCredential" where
  "elements_ServiceInstanceCredential x =
     \<lparr> cr_Meta = ncr_Meta x, cr_Spec = ncr_Spec x, cr_Status = elements_ServiceInstanceCredentialStatus (ncr_Status x) \<rparr>"

record ListMeta =
  lm_SelfLink :: string
  lm_ResourceVersion :: string

text \<open>The five list types have the same fields; a nil slice is \<open>None\<close>.\<close>
record 'a v1_List =
  vls_ListMeta :: ListMeta
  vls_Items :: "'a list option"

record 'a internal_List =
  ls_ListMeta :: ListMeta
  ls_Items :: "'a list option"

section \<open>Casts\<close>

text \<open>What \<open>unsafe.Pointer\<close> gives: the fields in the order in which the source type declares them, read in the
  order of the target type.\<close>

definition cast_in_SecretKeyReference :: "v1_SecretKeyReference \<Rightarrow> SecretKeyReference" where
  "cast_in_SecretKeyReference v =
     SecretKeyReference.make (vskr_Name v) (vskr_Key v)"

definition cast_out_SecretKeyReference :: "SecretKeyReference \<Rightarrow> v1_SecretKeyReference" where
  "cast_out_SecretKeyReference x =
     v1_SecretKeyReference.make (skr_Name x) (skr_Key x)"

definition cast_in_ParametersFromSource :: "v1_ParametersFromSource \<Rightarrow> ParametersFromSource" where
  "cast_in_ParametersFromSource v =
     ParametersFromSource.make (map_option cast_in_SecretKeyReference (vpfs_SecretKeyRef v))"

definition cast_out_ParametersFromSource :: "ParametersFromSource \<Rightarrow> v1_ParametersFromSource" where
  "cast_out_ParametersFromSource x =
     v1_ParametersFromSource.make (map_option cast_out_SecretKeyReference (pfs_SecretKeyRef x))"

definition cast_in_UserInfo :: "v1_UserInfo \<Rightarrow> UserInfo" where
  "cast_in_UserInfo v =
     UserInfo.make (vui_Username v) (vui_UID v) (vui_Groups v) (vui_Extra v)"

definition cast_out_UserInfo :: "UserInfo \<Rightarrow> v1_UserInfo" where
  "cast_out_UserInfo x =
     v1_UserInfo.make (ui_Username x) (ui_UID x) (ui_Groups x) (ui_Extra x)"

definition cast_in_BasicAuthConfig :: "v1_BasicAuthConfig \<Rightarrow> ObjectReference option" where
  "cast_in_BasicAuthConfig v =
     vba_SecretRef v"

definition cast_out_BasicAuthConfig :: "ObjectReference option \<Rightarrow> v1_BasicAuthConfig" where
  "cast_out_BasicAuthConfig x =
     v1_BasicAuthConfig.make (x)"

definition cast_in_BearerTokenAuthConfig :: "v1_BearerTokenAuthConfig \<Rightarrow> ObjectReference option" where
  "cast_in_BearerTokenAuthConfig v =
     vbt_SecretRef v"

definition cast_out_BearerTokenAuthConfig :: "ObjectReference option \<Rightarrow> v1_BearerTokenAuthConfig" where
  "cast_out_BearerTokenAuthConfig x =
     v1_BearerTokenAuthConfig.make (x)"

definition cast_in_ServiceBrokerAuthInfo :: "v1_ServiceBrokerAuthInfo \<Rightarrow> AuthInfo" where
  "cast_in_ServiceBrokerAuthInfo v =
     AuthInfo.make (map_option cast_in_BasicAuthConfig (vai_Basic v)) (map_option cast_in_BearerTokenAuthConfig (vai_Bearer v))
       (vai_BasicAuthSecret v)"

definition cast_out_ServiceBrokerAuthInfo :: "AuthInfo \<Rightarrow> v1_ServiceBrokerAuthInfo" where
  "cast_out_ServiceBrokerAuthInfo x =
     v1_ServiceBrokerAuthInfo.make (map_option cast_out_BasicAuthConfig (ai_Basic x)) (map_option cast_out_BearerTokenAuthConfig (ai_Bearer x))
       (ai_BasicAuthSecret x)"

definition cast_in_ClusterServiceBrokerSpec :: "v1_ClusterServiceBrokerSpec \<Rightarrow> BrokerSpec" where
  "cast_in_ClusterServiceBrokerSpec v =
     BrokerSpec.make (vbks_URL v) (map_option cast_in_ServiceBrokerAuthInfo (vbks_AuthInfo v)) (vbks_InsecureSkipTLSVerify v)
       (vbks_CABundle v) (vbks_RelistBehavior v) (vbks_RelistDuration v) (vbks_RelistRequests v)"

definition cast_out_ClusterServiceBrokerSpec :: "BrokerSpec \<Rightarrow> v1_ClusterServiceBrokerSpec" where
  "cast_out_ClusterServiceBrokerSpec x =
     v1_ClusterServiceBrokerSpec.make (bks_URL x) (map_option cast_out_ServiceBrokerAuthInfo (bks_AuthInfo x)) (bks_InsecureSkipTLSVerify x)
       (bks_CABundle x) (bks_RelistBehavior x) (bks_RelistDuration x) (bks_RelistRequests x)"

definition cast_in_ServiceBrokerCondition :: "v1_ServiceBrokerCondition \<Rightarrow> Condition" where
  "cast_in_ServiceBrokerCondition v =
     Condition.make (vbc_Type v) (vbc_Status v) (vbc_LastTransitionTime v) (vbc_Reason v) (vbc_Message v)"

definition cast_out_ServiceBrokerCondition :: "Condition \<Rightarrow> v1_ServiceBrokerCondition" where
  "cast_out_ServiceBrokerCondition x =
     v1_ServiceBrokerCondition.make (c_Type x) (c_Status x) (c_LastTransitionTime x) (c_Reason x) (c_Message x)"

definition cast_in_ServiceInstanceCondition :: "v1_ServiceInstanceCondition \<Rightarrow> Condition" where
  "cast_in_ServiceInstanceCondition v =
     Condition.make (vic_Type v) (vic_Status v) (vic_LastTransitionTime v) (vic_Reason v) (vic_Message v)"

definition cast_out_ServiceInstanceCondition :: "Condition \<Rightarrow> v1_ServiceInstanceCondition" where
  "cast_out_ServiceInstanceCondition x =
     v1_ServiceInstanceCondition.make (c_Type x) (c_Status x) (c_LastTransitionTime x) (c_Reason x) (c_Message x)"

definition cast_in_ServiceInstanceCredentialCondition :: "v1_ServiceInstanceCredentialCondition \<Rightarrow> Condition" where
  "cast_in_ServiceInstanceCredentialCondition v =
     Condition.make (vcc_Type v) (vcc_Status v) (vcc_LastTransitionTime v) (vcc_Reason v) (vcc_Message v)"

definition cast_out_ServiceInstanceCredentialCondition :: "Condition \<Rightarrow> v1_ServiceInstanceCredentialCondition" where
  "cast_out_ServiceInstanceCredentialCondition x =
     v1_ServiceInstanceCredentialCondition.make (c_Type x) (c_Status x) (c_LastTransitionTime x) (c_Reason x) (c_Message x)"

definition cast_in_ServiceBrokerStatus :: "v1_ServiceBrokerStatus \<Rightarrow> internal_ServiceBrokerStatus" where
  "cast_in_ServiceBrokerStatus v =
     internal_ServiceBrokerStatus.make (map_option (map cast_in_ServiceBrokerCondition) (vbkst_Conditions v)) (vbkst_ReconciledGeneration v)
       (vbkst_OperationStartTime v)"

definition cast_out_ServiceBrokerStatus :: "internal_ServiceBrokerStatus \<Rightarrow> v1_ServiceBrokerStatus" where
  "cast_out_ServiceBrokerStatus x =
     v1_ServiceBrokerStatus.make (map_option (map cast_out_ServiceBrokerCondition) (nbkst_Conditions x)) (nbkst_ReconciledGeneration x)
       (nbkst_OperationStartTime x)"

definition cast_in_ClusterServiceBroker :: "v1_ClusterServiceBroker \<Rightarrow> internal_ClusterServiceBroker" where
  "cast_in_ClusterServiceBroker v =
     internal_ClusterServiceBroker.make (vbk_Meta v) (cast_in_ClusterServiceBrokerSpec (vbk_Spec v)) (cast_in_ServiceBrokerStatus (vbk_Status v))"

definition cast_out_ClusterServiceBroker :: "internal_ClusterServiceBroker \<Rightarrow> v1_ClusterServiceBroker" where
  "cast_out_ClusterServiceBroker x =
     v1_ClusterServiceBroker.make (nbk_Meta x) (cast_out_ClusterServiceBrokerSpec (nbk_Spec x)) (cast_out_ServiceBrokerStatus (nbk_Status x))"

definition cast_in_ServiceClassSpec :: "v1_ServiceClassSpec \<Rightarrow> ServiceClassSpec" where
  "cast_in_ServiceClassSpec v =
     ServiceClassSpec.make (vscs_ClusterServiceBrokerName v) (vscs_ExternalName v) (vscs_ExternalID v) (vscs_Description v)
       (vscs_Bindable v) (vscs_PlanUpdatable v) (vscs_ExternalMetadata v) (vscs_Tags v) (vscs_Requires v)"

definition cast_out_ServiceClassSpec :: "ServiceClassSpec \<Rightarrow> v1_ServiceClassSpec" where
  "cast_out_ServiceClassSpec x =
     v1_ServiceClassSpec.make (scs_ClusterServiceBrokerName x) (scs_ExternalName x) (scs_ExternalID x) (scs_Description x) (scs_Bindable x)
       (scs_PlanUpdatable x) (scs_ExternalMetadata x) (scs_Tags x) (scs_Requires x)"

definition cast_in_ServiceClass :: "v1_ServiceClass \<Rightarrow> ServiceClass" where
  "cast_in_ServiceClass v =
     ServiceClass.make (vsc_Meta v) (cast_in_ServiceClassSpec (vsc_Spec v))"

definition cast_out_ServiceClass :: "ServiceClass \<Rightarrow> v1_ServiceClass" where
  "cast_out_ServiceClass x =
     v1_ServiceClass.make (sc_Meta x) (cast_out_ServiceClassSpec (sc_Spec x))"

definition cast_in_ServicePlanSpec :: "v1_ServicePlanSpec \<Rightarrow> ServicePlanSpec" where
  "cast_in_ServicePlanSpec v =
     ServicePlanSpec.make (vsps_ClusterServiceBrokerName v) (vsps_ExternalName v) (vsps_ExternalID v) (vsps_Description v)
       (vsps_Bindable v) (vsps_Free v) (vsps_ExternalMetadata v) (vsps_ServiceInstanceCreateParameterSchema v)
       (vsps_ServiceInstanceUpdateParameterSchema v) (vsps_ServiceInstanceCredentialCreateParameterSchema v)
       (vsps_ServiceClassRef v)"

definition cast_out_ServicePlanSpec :: "ServicePlanSpec \<Rightarrow> v1_ServicePlanSpec" where
  "cast_out_ServicePlanSpec x =
     v1_ServicePlanSpec.make (sps_ClusterServiceBrokerName x) (sps_ExternalName x) (sps_ExternalID x) (sps_Description x) (sps_Bindable x)
       (sps_Free x) (sps_ExternalMetadata x) (sps_ServiceInstanceCreateParameterSchema x)
       (sps_ServiceInstanceUpdateParameterSchema x) (sps_ServiceInstanceCredentialCreateParameterSchema x)
       (sps_ServiceClassRef x)"

definition cast_in_ServicePlan :: "v1_ServicePlan \<Rightarrow> ServicePlan" where
  "cast_in_ServicePlan v =
     ServicePlan.make (vsp_Meta v) (cast_in_ServicePlanSpec (vsp_Spec v))"

definition cast_out_ServicePlan :: "ServicePlan \<Rightarrow> v1_ServicePlan" where
  "cast_out_ServicePlan x =
     v1_ServicePlan.make (sp_Meta x) (cast_out_ServicePlanSpec (sp_Spec x))"

definition cast_in_ServiceInstancePropertiesState :: "v1_ServiceInstancePropertiesState \<Rightarrow> PropertiesState" where
  "cast_in_ServiceInstancePropertiesState v =
     PropertiesState.make (vps_ExternalServicePlanName v) (vps_Parameters v) (vps_ParametersChecksum v)
       (map_option cast_in_UserInfo (vps_UserInfo v))"

definition cast_out_ServiceInstancePropertiesState :: "PropertiesState \<Rightarrow> v1_ServiceInstancePropertiesState" where
  "cast_out_ServiceInstancePropertiesState x =
     v1_ServiceInstancePropertiesState.make (ps_ExternalServicePlanName x) (ps_Parameters x) (ps_ParametersChecksum x)
       (map_option cast_out_UserInfo (ps_UserInfo x))"

definition cast_in_ServiceInstanceSpec :: "v1_ServiceInstanceSpec \<Rightarrow> InstanceSpec" where
  "cast_in_ServiceInstanceSpec v =
     InstanceSpec.make (vsis_ExternalServiceClassName v) (vsis_ExternalServicePlanName v) (vsis_ServiceClassRef v)
       (vsis_ServicePlanRef v) (vsis_Parameters v) (map cast_in_ParametersFromSource (vsis_ParametersFrom v))
       (vsis_ExternalID v) (map_option cast_in_UserInfo (vsis_UserInfo v))"

definition cast_out_ServiceInstanceSpec :: "InstanceSpec \<Rightarrow> v1_ServiceInstanceSpec" where
  "cast_out_ServiceInstanceSpec x =
     v1_ServiceInstanceSpec.make (sis_ExternalServiceClassName x) (sis_ExternalServicePlanName x) (sis_ServiceClassRef x) (sis_ServicePlanRef x)
       (sis_Parameters x) (map cast_out_ParametersFromSource (sis_ParametersFrom x)) (sis_ExternalID x)
       (map_option cast_out_UserInfo (sis_UserInfo x))"

definition cast_in_ServiceInstanceStatus :: "v1_ServiceInstanceStatus \<Rightarrow> internal_ServiceInstanceStatus" where
  "cast_in_ServiceInstanceStatus v =
     internal_ServiceInstanceStatus.make (map_option (map cast_in_ServiceInstanceCondition) (vist_Conditions v)) (vist_AsyncOpInProgress v)
       (vist_OrphanMitigationInProgress v) (vist_LastOperation v) (vist_DashboardURL v) (vist_CurrentOperation v)
       (vist_ReconciledGeneration v) (vist_OperationStartTime v)
       (map_option cast_in_ServiceInstancePropertiesState (vist_InProgressProperties v))
       (map_option cast_in_ServiceInstancePropertiesState (vist_ExternalProperties v))"

definition cast_out_ServiceInstanceStatus :: "internal_ServiceInstanceStatus \<Rightarrow> v1_ServiceInstanceStatus" where
  "cast_out_ServiceInstanceStatus x =
     v1_ServiceInstanceStatus.make (map_option (map cast_out_ServiceInstanceCondition) (nist_Conditions x)) (nist_AsyncOpInProgress x)
       (nist_OrphanMitigationInProgress x) (nist_LastOperation x) (nist_DashboardURL x) (nist_CurrentOperation x)
       (nist_ReconciledGeneration x) (nist_OperationStartTime x)
       (map_option cast_out_ServiceInstancePropertiesState (nist_InProgressProperties x))
       (map_option cast_out_ServiceInstancePropertiesState (nist_ExternalProperties x))"

definition cast_in_ServiceInstance :: "v1_ServiceInstance \<Rightarrow> internal_ServiceInstance" where
  "cast_in_ServiceInstance v =
     internal_ServiceInstance.make (vsi_Meta v) (cast_in_ServiceInstanceSpec (vsi_Spec v)) (cast_in_ServiceInstanceStatus (vsi_Status v))"

definition cast_out_ServiceInstance :: "internal_ServiceInstance \<Rightarrow> v1_ServiceInstance" where
  "cast_out_ServiceInstance x =
     v1_ServiceInstance.make (nsi_Meta x) (cast_out_ServiceInstanceSpec (nsi_Spec x)) (cast_out_ServiceInstanceStatus (nsi_Status x))"

definition cast_in_ServiceInstanceCredentialPropertiesState :: "v1_ServiceInstanceCredentialPropertiesState \<Rightarrow> CredentialPropertiesState" where
  "cast_in_ServiceInstanceCredentialPropertiesState v =
     CredentialPropertiesState.make (vcps_Parameters v) (vcps_ParametersChecksum v) (map_option cast_in_UserInfo (vcps_UserInfo v))"

definition cast_out_ServiceInstanceCredentialPropertiesState :: "CredentialPropertiesState \<Rightarrow> v1_ServiceInstanceCredentialPropertiesState" where
  "cast_out_ServiceInstanceCredentialPropertiesState x =
     v1_ServiceInstanceCredentialPropertiesState.make (cps_Parameters x) (cps_ParametersChecksum x) (map_option cast_out_UserInfo (cps_UserInfo x))"

definition cast_in_ServiceInstanceCredentialSpec :: "v1_ServiceInstanceCredentialSpec \<Rightarrow> CredentialSpec" where
  "cast_in_ServiceInstanceCredentialSpec v =
     CredentialSpec.make (vcrs_ServiceInstanceRef v) (vcrs_Parameters v) (map cast_in_ParametersFromSource (vcrs_ParametersFrom v))
       (vcrs_SecretName v) (vcrs_ExternalID v) (map_option cast_in_UserInfo (vcrs_UserInfo v))"

definition cast_out_ServiceInstanceCredentialSpec :: "CredentialSpec \<Rightarrow> v1_ServiceInstanceCredentialSpec" where
  "cast_out_ServiceInstanceCredentialSpec x =
     v1_ServiceInstanceCredentialSpec.make (crs_ServiceInstanceRef x) (crs_Parameters x) (map cast_out_ParametersFromSource (crs_ParametersFrom x))
       (crs_SecretName x) (crs_ExternalID x) (map_option cast_out_UserInfo (crs_UserInfo x))"

definition cast_in_ServiceInstanceCredentialStatus :: "v1_ServiceInstanceCredentialStatus \<Rightarrow> internal_ServiceInstanceCredentialStatus" where
  "cast_in_ServiceInstanceCredentialStatus v =
     internal_ServiceInstanceCredentialStatus.make (map_option (map cast_in_ServiceInstanceCredentialCondition) (vcrst_Conditions v)) (vcrst_CurrentOperation v)
       (vcrst_ReconciledGeneration v) (vcrst_OperationStartTime v)
       (map_option cast_in_ServiceInstanceCredentialPropertiesState (vcrst_InProgressProperties v))
       (map_option cast_in_ServiceInstanceCredentialPropertiesState (vcrst_ExternalProperties v))
       (vcrst_OrphanMitigationInProgress v)"

definition cast_out_ServiceInstanceCredentialStatus :: "internal_ServiceInstanceCredentialStatus \<Rightarrow> v1_ServiceInstanceCredentialStatus" where
  "cast_out_ServiceInstanceCredentialStatus x =
     v1_ServiceInstanceCredentialStatus.make (map_option (map cast_out_ServiceInstanceCredentialCondition) (ncrst_Conditions x)) (ncrst_CurrentOperation x)
       (ncrst_ReconciledGeneration x) (ncrst_OperationStartTime x)
       (map_option cast_out_ServiceInstanceCredentialPropertiesState (ncrst_InProgressProperties x))
       (map_option cast_out_ServiceInstanceCredentialPropertiesState (ncrst_ExternalProperties x))
       (ncrst_OrphanMitigationInProgress x)"

definition cast_in_ServiceInstanceCredential :: "v1_ServiceInstanceCredential \<Rightarrow> internal_ServiceInstanceCredential" where
  "cast_in_ServiceInstanceCredential v =
     internal_ServiceInstanceCredential.make (vcr_Meta v) (cast_in_ServiceInstanceCredentialSpec (vcr_Spec v))
       (cast_in_ServiceInstanceCredentialStatus (vcr_Status v))"

definition cast_out_ServiceInstanceCredential :: "internal_ServiceInstanceCredential \<Rightarrow> v1_ServiceInstanceCredential" where
  "cast_out_ServiceInstanceCredential x =
     v1_ServiceInstanceCredential.make (ncr_Meta x) (cast_out_ServiceInstanceCredentialSpec (ncr_Spec x))
       (cast_out_ServiceInstanceCredentialStatus (ncr_Status x))"

section \<open>Conversions\<close>

definition Convert_v1alpha1_SecretKeyReference_To_servicecatalog_SecretKeyReference ::
  "v1_SecretKeyReference \<Rightarrow> SecretKeyReference" where
  "Convert_v1alpha1_SecretKeyReference_To_servicecatalog_SecretKeyReference v =
     \<lparr> skr_Name = vskr_Name v, skr_Key = vskr_Key v \<rparr>"

definition Convert_servicecatalog_SecretKeyReference_To_v1alpha1_SecretKeyReference ::
  "SecretKeyReference \<Rightarrow> v1_SecretKeyReference" where
  "Convert_servicecatalog_SecretKeyReference_To_v1alpha1_SecretKeyReference x =
     \<lparr> vskr_Name = skr_Name x, vskr_Key = skr_Key x \<rparr>"

definition Convert_v1alpha1_ParametersFromSource_To_servicecatalog_ParametersFromSource ::
  "v1_ParametersFromSource \<Rightarrow> ParametersFromSource" where
  "Convert_v1alpha1_ParametersFromSource_To_servicecatalog_ParametersFromSource v =
     \<lparr> pfs_SecretKeyRef = map_option cast_in_SecretKeyReference (vpfs_SecretKeyRef v) \<rparr>"

definition Convert_servicecatalog_ParametersFromSource_To_v1alpha1_ParametersFromSource ::
  "ParametersFromSource \<Rightarrow> v1_ParametersFromSource" where
  "Convert_servicecatalog_ParametersFromSource_To_v1alpha1_ParametersFromSource x =
     \<lparr> vpfs_SecretKeyRef = map_option cast_out_SecretKeyReference (pfs_SecretKeyRef x) \<rparr>"

definition Convert_v1alpha1_UserInfo_To_servicecatalog_UserInfo ::
  "v1_UserInfo \<Rightarrow> UserInfo" where
  "Convert_v1alpha1_UserInfo_To_servicecatalog_UserInfo v =
     \<lparr> ui_Username = vui_Username v, ui_UID = vui_UID v, ui_Groups = vui_Groups v, ui_Extra = vui_Extra v \<rparr>"

definition Convert_servicecatalog_UserInfo_To_v1alpha1_UserInfo ::
  "UserInfo \<Rightarrow> v1_UserInfo" where
  "Convert_servicecatalog_UserInfo_To_v1alpha1_UserInfo x =
     \<lparr> vui_Username = ui_Username x, vui_UID = ui_UID x, vui_Groups = ui_Groups x, vui_Extra = ui_Extra x \<rparr>"

definition Convert_v1alpha1_BasicAuthConfig_To_servicecatalog_BasicAuthConfig ::
  "v1_BasicAuthConfig \<Rightarrow> ObjectReference option" where
  "Convert_v1alpha1_BasicAuthConfig_To_servicecatalog_BasicAuthConfig v =
     vba_SecretRef v"

definition Convert_servicecatalog_BasicAuthConfig_To_v1alpha1_BasicAuthConfig ::
  "ObjectReference option \<Rightarrow> v1_BasicAuthConfig" where
  "Convert_servicecatalog_BasicAuthConfig_To_v1alpha1_BasicAuthConfig x =
     \<lparr> vba_SecretRef = x \<rparr>"

definition Convert_v1alpha1_BearerTokenAuthConfig_To_servicecatalog_BearerTokenAuthConfig ::
  "v1_BearerTokenAuthConfig \<Rightarrow> ObjectReference option" where
  "Convert_v1alpha1_BearerTokenAuthConfig_To_servicecatalog_BearerTokenAuthConfig v =
     vbt_SecretRef v"

definition Convert_servicecatalog_BearerTokenAuthConfig_To_v1alpha1_BearerTokenAuthConfig ::
  "ObjectReference option \<Rightarrow> v1_BearerTokenAuthConfig" where
  "Convert_servicecatalog_BearerTokenAuthConfig_To_v1alpha1_BearerTokenAuthConfig x =
     \<lparr> vbt_SecretRef = x \<rparr>"

definition Convert_v1alpha1_ServiceBrokerAuthInfo_To_servicecatalog_ServiceBrokerAuthInfo ::
  "v1_ServiceBrokerAuthInfo \<Rightarrow> AuthInfo" where
  "Convert_v1alpha1_ServiceBrokerAuthInfo_To_servicecatalog_ServiceBrokerAuthInfo v =
     \<lparr> ai_Basic = map_option cast_in_BasicAuthConfig (vai_Basic v),
       ai_Bearer = map_option cast_in_BearerTokenAuthConfig (vai_Bearer v), ai_BasicAuthSecret = vai_BasicAuthSecret v \<rparr>"

definition Convert_servicecatalog_ServiceBrokerAuthInfo_To_v1alpha1_ServiceBrokerAuthInfo ::
  "AuthInfo \<Rightarrow> v1_ServiceBrokerAuthInfo" where
  "Convert_servicecatalog_ServiceBrokerAuthInfo_To_v1alpha1_ServiceBrokerAuthInfo x =
     \<lparr> vai_Basic = map_option cast_out_BasicAuthConfig (ai_Basic x),
       vai_Bearer = map_option cast_out_BearerTokenAuthConfig (ai_Bearer x),
       vai_BasicAuthSecret = ai_BasicAuthSecret x \<rparr>"

definition Convert_v1alpha1_ClusterServiceBrokerSpec_To_servicecatalog_ClusterServiceBrokerSpec ::
  "v1_ClusterServiceBrokerSpec \<Rightarrow> BrokerSpec" where
  "Convert_v1alpha1_ClusterServiceBrokerSpec_To_servicecatalog_ClusterServiceBrokerSpec v =
     \<lparr> bks_URL = vbks_URL v, bks_AuthInfo = map_option cast_in_ServiceBrokerAuthInfo (vbks_AuthInfo v),
       bks_InsecureSkipTLSVerify = vbks_InsecureSkipTLSVerify v, bks_CABundle = vbks_CABundle v,
       bks_RelistBehavior = vbks_RelistBehavior v, bks_RelistDuration = vbks_RelistDuration v,
       bks_RelistRequests = vbks_RelistRequests v \<rparr>"

definition Convert_servicecatalog_ClusterServiceBrokerSpec_To_v1alpha1_ClusterServiceBrokerSpec ::
  "BrokerSpec \<Rightarrow> v1_ClusterServiceBrokerSpec" where
  "Convert_servicecatalog_ClusterServiceBrokerSpec_To_v1alpha1_ClusterServiceBrokerSpec x =
     \<lparr> vbks_URL = bks_URL x, vbks_AuthInfo = map_option cast_out_ServiceBrokerAuthInfo (bks_AuthInfo x),
       vbks_InsecureSkipTLSVerify = bks_InsecureSkipTLSVerify x, vbks_CABundle = bks_CABundle x,
       vbks_RelistBehavior = bks_RelistBehavior x, vbks_RelistDuration = bks_RelistDuration x,
       vbks_RelistRequests = bks_RelistRequests x \<rparr>"

definition Convert_v1alpha1_ServiceBrokerCondition_To_servicecatalog_ServiceBrokerCondition ::
  "v1_ServiceBrokerCondition \<Rightarrow> Condition" where
  "Convert_v1alpha1_ServiceBrokerCondition_To_servicecatalog_ServiceBrokerCondition v =
     \<lparr> c_Type = vbc_Type v, c_Status = vbc_Status v, c_LastTransitionTime = vbc_LastTransitionTime v,
       c_Reason = vbc_Reason v, c_Message = vbc_Message v \<rparr>"

definition Convert_servicecatalog_ServiceBrokerCondition_To_v1alpha1_ServiceBrokerCondition ::
  "Condition \<Rightarrow> v1_ServiceBrokerCondition" where
  "Convert_servicecatalog_ServiceBrokerCondition_To_v1alpha1_ServiceBrokerCondition x =
     \<lparr> vbc_Type = c_Type x, vbc_Status = c_Status x, vbc_LastTransitionTime = c_LastTransitionTime x,
       vbc_Reason = c_Reason x, vbc_Message = c_Message x \<rparr>"

definition Convert_v1alpha1_ServiceInstanceCondition_To_servicecatalog_ServiceInstanceCondition ::
  "v1_ServiceInstanceCondition \<Rightarrow> Condition" where
  "Convert_v1alpha1_ServiceInstanceCondition_To_servicecatalog_ServiceInstanceCondition v =
     \<lparr> c_Type = vic_Type v, c_Status = vic_Status v, c_LastTransitionTime = vic_LastTransitionTime v,
       c_Reason = vic_Reason v, c_Message = vic_Message v \<rparr>"

definition Convert_servicecatalog_ServiceInstanceCondition_To_v1alpha1_ServiceInstanceCondition ::
  "Condition \<Rightarrow> v1_ServiceInstanceCondition" where
  "Convert_servicecatalog_ServiceInstanceCondition_To_v1alpha1_ServiceInstanceCondition x =
     \<lparr> vic_Type = c_Type x, vic_Status = c_Status x, vic_LastTransitionTime = c_LastTransitionTime x,
       vic_Reason = c_Reason x, vic_Message = c_Message x \<rparr>"

definition Convert_v1alpha1_ServiceInstanceCredentialCondition_To_servicecatalog_ServiceInstanceCredentialCondition ::
  "v1_ServiceInstanceCredentialCondition \<Rightarrow> Condition" where
  "Convert_v1alpha1_ServiceInstanceCredentialCondition_To_servicecatalog_ServiceInstanceCredentialCondition v =
     \<lparr> c_Type = vcc_Type v, c_Status = vcc_Status v, c_LastTransitionTime = vcc_LastTransitionTime v,
       c_Reason = vcc_Reason v, c_Message = vcc_Message v \<rparr>"

definition Convert_servicecatalog_ServiceInstanceCredentialCondition_To_v1alpha1_ServiceInstanceCredentialCondition ::
  "Condition \<Rightarrow> v1_ServiceInstanceCredentialCondition" where
  "Convert_servicecatalog_ServiceInstanceCredentialCondition_To_v1alpha1_ServiceInstanceCredentialCondition x =
     \<lparr> vcc_Type = c_Type x, vcc_Status = c_Status x, vcc_LastTransitionTime = c_LastTransitionTime x,
       vcc_Reason = c_Reason x, vcc_Message = c_Message x \<rparr>"

definition Convert_v1alpha1_ServiceBrokerStatus_To_servicecatalog_ServiceBrokerStatus ::
  "v1_ServiceBrokerStatus \<Rightarrow> internal_ServiceBrokerStatus" where
  "Convert_v1alpha1_ServiceBrokerStatus_To_servicecatalog_ServiceBrokerStatus v =
     \<lparr> nbkst_Conditions = map_option (map cast_in_ServiceBrokerCondition) (vbkst_Conditions v),
       nbkst_ReconciledGeneration = vbkst_ReconciledGeneration v,
       nbkst_OperationStartTime = vbkst_OperationStartTime v \<rparr>"

definition Convert_servicecatalog_ServiceBrokerStatus_To_v1alpha1_ServiceBrokerStatus ::
  "internal_ServiceBrokerStatus \<Rightarrow> v1_ServiceBrokerStatus" where
  "Convert_servicecatalog_ServiceBrokerStatus_To_v1alpha1_ServiceBrokerStatus x =
     \<lparr> vbkst_Conditions = (case nbkst_Conditions x of None \<Rightarrow> Some [] | Some cs \<Rightarrow> Some (map cast_out_ServiceBrokerCondition cs)),
       vbkst_ReconciledGeneration = nbkst_ReconciledGeneration x,
       vbkst_OperationStartTime = nbkst_OperationStartTime x \<rparr>"

definition Convert_v1alpha1_ClusterServiceBroker_To_servicecatalog_ClusterServiceBroker ::
  "v1_ClusterServiceBroker \<Rightarrow> internal_ClusterServiceBroker" where
  "Convert_v1alpha1_ClusterServiceBroker_To_servicecatalog_ClusterServiceBroker v =
     \<lparr> nbk_Meta = vbk_Meta v,
       nbk_Spec = Convert_v1alpha1_ClusterServiceBrokerSpec_To_servicecatalog_ClusterServiceBrokerSpec (vbk_Spec v),
       nbk_Status = Convert_v1alpha1_ServiceBrokerStatus_To_servicecatalog_ServiceBrokerStatus (vbk_Status v) \<rparr>"

definition Convert_servicecatalog_ClusterServiceBroker_To_v1alpha1_ClusterServiceBroker ::
  "internal_ClusterServiceBroker \<Rightarrow> v1_ClusterServiceBroker" where
  "Convert_servicecatalog_ClusterServiceBroker_To_v1alpha1_ClusterServiceBroker x =
     \<lparr> vbk_Meta = nbk_Meta x,
       vbk_Spec = Convert_servicecatalog_ClusterServiceBrokerSpec_To_v1alpha1_ClusterServiceBrokerSpec (nbk_Spec x),
       vbk_Status = Convert_servicecatalog_ServiceBrokerStatus_To_v1alpha1_ServiceBrokerStatus (nbk_Status x) \<rparr>"

definition Convert_v1alpha1_ServiceClassSpec_To_servicecatalog_ServiceClassSpec ::
  "v1_ServiceClassSpec \<Rightarrow> ServiceClassSpec" where
  "Convert_v1alpha1_ServiceClassSpec_To_servicecatalog_ServiceClassSpec v =
     \<lparr> scs_ClusterServiceBrokerName = vscs_ClusterServiceBrokerName v, scs_ExternalName = vscs_ExternalName v,
       scs_ExternalID = vscs_ExternalID v, scs_Description = vscs_Description v, scs_Bindable = vscs_Bindable v,
       scs_PlanUpdatable = vscs_PlanUpdatable v, scs_ExternalMetadata = vscs_ExternalMetadata v,
       scs_Tags = vscs_Tags v, scs_Requires = vscs_Requires v \<rparr>"

definition Convert_servicecatalog_ServiceClassSpec_To_v1alpha1_ServiceClassSpec ::
  "ServiceClassSpec \<Rightarrow> v1_ServiceClassSpec" where
  "Convert_servicecatalog_ServiceClassSpec_To_v1alpha1_ServiceClassSpec x =
     \<lparr> vscs_ClusterServiceBrokerName = scs_ClusterServiceBrokerName x, vscs_ExternalName = scs_ExternalName x,
       vscs_ExternalID = scs_ExternalID x, vscs_Description = scs_Description x, vscs_Bindable = scs_Bindable x,
       vscs_PlanUpdatable = scs_PlanUpdatable x, vscs_ExternalMetadata = scs_ExternalMetadata x,
       vscs_Tags = scs_Tags x, vscs_Requires = scs_Requires x \<rparr>"

definition Convert_v1alpha1_ServiceClass_To_servicecatalog_ServiceClass ::
  "v1_ServiceClass \<Rightarrow> ServiceClass" where
  "Convert_v1alpha1_ServiceClass_To_servicecatalog_ServiceClass v =
     \<lparr> sc_Meta = vsc_Meta v,
       sc_Spec = Convert_v1alpha1_ServiceClassSpec_To_servicecatalog_ServiceClassSpec (vsc_Spec v) \<rparr>"

definition Convert_servicecatalog_ServiceClass_To_v1alpha1_ServiceClass ::
  "ServiceClass \<Rightarrow> v1_ServiceClass" where
  "Convert_servicecatalog_ServiceClass_To_v1alpha1_ServiceClass x =
     \<lparr> vsc_Meta = sc_Meta x,
       vsc_Spec = Convert_servicecatalog_ServiceClassSpec_To_v1alpha1_ServiceClassSpec (sc_Spec x) \<rparr>"

definition Convert_v1alpha1_ServicePlanSpec_To_servicecatalog_ServicePlanSpec ::
  "v1_ServicePlanSpec \<Rightarrow> ServicePlanSpec" where
  "Convert_v1alpha1_ServicePlanSpec_To_servicecatalog_ServicePlanSpec v =
     \<lparr> sps_ClusterServiceBrokerName = vsps_ClusterServiceBrokerName v, sps_ExternalName = vsps_ExternalName v,
       sps_ExternalID = vsps_ExternalID v, sps_Description = vsps_Description v, sps_Bindable = vsps_Bindable v,
       sps_Free = vsps_Free v, sps_ExternalMetadata = vsps_ExternalMetadata v,
       sps_ServiceInstanceCreateParameterSchema = vsps_ServiceInstanceCreateParameterSchema v,
       sps_ServiceInstanceUpdateParameterSchema = vsps_ServiceInstanceUpdateParameterSchema v,
       sps_ServiceInstanceCredentialCreateParameterSchema = vsps_ServiceInstanceCredentialCreateParameterSchema v,
       sps_ServiceClassRef = vsps_ServiceClassRef v \<rparr>"

definition Convert_servicecatalog_ServicePlanSpec_To_v1alpha1_ServicePlanSpec ::
  "ServicePlanSpec \<Rightarrow> v1_ServicePlanSpec" where
  "Convert_servicecatalog_ServicePlanSpec_To_v1alpha1_ServicePlanSpec x =
     \<lparr> vsps_ClusterServiceBrokerName = sps_ClusterServiceBrokerName x, vsps_ExternalName = sps_ExternalName x,
       vsps_ExternalID = sps_ExternalID x, vsps_Description = sps_Description x, vsps_Bindable = sps_Bindable x,
       vsps_Free = sps_Free x, vsps_ExternalMetadata = sps_ExternalMetadata x,
       vsps_ServiceInstanceCreateParameterSchema = sps_ServiceInstanceCreateParameterSchema x,
       vsps_ServiceInstanceUpdateParameterSchema = sps_ServiceInstanceUpdateParameterSchema x,
       vsps_ServiceInstanceCredentialCreateParameterSchema = sps_ServiceInstanceCredentialCreateParameterSchema x,
       vsps_ServiceClassRef = sps_ServiceClassRef x \<rparr>"

definition Convert_v1alpha1_ServicePlan_To_servicecatalog_ServicePlan ::
  "v1_ServicePlan \<Rightarrow> ServicePlan" where
  "Convert_v1alpha1_ServicePlan_To_servicecatalog_ServicePlan v =
     \<lparr> sp_Meta = vsp_Meta v, sp_Spec = Convert_v1alpha1_ServicePlanSpec_To_servicecatalog_ServicePlanSpec (vsp_Spec v) \<rparr>"

definition Convert_servicecatalog_ServicePlan_To_v1alpha1_ServicePlan ::
  "ServicePlan \<Rightarrow> v1_ServicePlan" where
  "Convert_servicecatalog_ServicePlan_To_v1alpha1_ServicePlan x =
     \<lparr> vsp_Meta = sp_Meta x, vsp_Spec = Convert_servicecatalog_ServicePlanSpec_To_v1alpha1_ServicePlanSpec (sp_Spec x) \<rparr>"

definition Convert_v1alpha1_ServiceInstancePropertiesState_To_servicecatalog_ServiceInstancePropertiesState ::
  "v1_ServiceInstancePropertiesState \<Rightarrow> PropertiesState" where
  "Convert_v1alpha1_ServiceInstancePropertiesState_To_servicecatalog_ServiceInstancePropertiesState v =
     \<lparr> ps_ExternalServicePlanName = vps_ExternalServicePlanName v, ps_Parameters = vps_Parameters v,
       ps_ParametersChecksum = vps_ParametersChecksum v, ps_UserInfo = map_option cast_in_UserInfo (vps_UserInfo v) \<rparr>"

definition Convert_servicecatalog_ServiceInstancePropertiesState_To_v1alpha1_ServiceInstancePropertiesState ::
  "PropertiesState \<Rightarrow> v1_ServiceInstancePropertiesState" where
  "Convert_servicecatalog_ServiceInstancePropertiesState_To_v1alpha1_ServiceInstancePropertiesState x =
     \<lparr> vps_ExternalServicePlanName = ps_ExternalServicePlanName x, vps_Parameters = ps_Parameters x,
       vps_ParametersChecksum = ps_ParametersChecksum x, vps_UserInfo = map_option cast_out_UserInfo (ps_UserInfo x) \<rparr>"

definition Convert_v1alpha1_ServiceInstanceSpec_To_servicecatalog_ServiceInstanceSpec ::
  "v1_ServiceInstanceSpec \<Rightarrow> InstanceSpec" where
  "Convert_v1alpha1_ServiceInstanceSpec_To_servicecatalog_ServiceInstanceSpec v =
     \<lparr> sis_ExternalServiceClassName = vsis_ExternalServiceClassName v,
       sis_ExternalServicePlanName = vsis_ExternalServicePlanName v, sis_ServiceClassRef = vsis_ServiceClassRef v,
       sis_ServicePlanRef = vsis_ServicePlanRef v, sis_Parameters = vsis_Parameters v,
       sis_ParametersFrom = map cast_in_ParametersFromSource (vsis_ParametersFrom v),
       sis_ExternalID = vsis_ExternalID v, sis_UserInfo = map_option cast_in_UserInfo (vsis_UserInfo v) \<rparr>"

definition Convert_servicecatalog_ServiceInstanceSpec_To_v1alpha1_ServiceInstanceSpec ::
  "InstanceSpec \<Rightarrow> v1_ServiceInstanceSpec" where
  "Convert_servicecatalog_ServiceInstanceSpec_To_v1alpha1_ServiceInstanceSpec x =
     \<lparr> vsis_ExternalServiceClassName = sis_ExternalServiceClassName x,
       vsis_ExternalServicePlanName = sis_ExternalServicePlanName x, vsis_ServiceClassRef = sis_ServiceClassRef x,
       vsis_ServicePlanRef = sis_ServicePlanRef x, vsis_Parameters = sis_Parameters x,
       vsis_ParametersFrom = map cast_out_ParametersFromSource (sis_ParametersFrom x),
       vsis_ExternalID = sis_ExternalID x, vsis_UserInfo = map_option cast_out_UserInfo (sis_UserInfo x) \<rparr>"

definition Convert_v1alpha1_ServiceInstanceStatus_To_servicecatalog_ServiceInstanceStatus ::
  "v1_ServiceInstanceStatus \<Rightarrow> internal_ServiceInstanceStatus" where
  "Convert_v1alpha1_ServiceInstanceStatus_To_servicecatalog_ServiceInstanceStatus v =
     \<lparr> nist_Conditions = map_option (map cast_in_ServiceInstanceCondition) (vist_Conditions v),
       nist_AsyncOpInProgress = vist_AsyncOpInProgress v,
       nist_OrphanMitigationInProgress = vist_OrphanMitigationInProgress v, nist_LastOperation = vist_LastOperation v,
       nist_DashboardURL = vist_DashboardURL v, nist_CurrentOperation = vist_CurrentOperation v,
       nist_ReconciledGeneration = vist_ReconciledGeneration v, nist_OperationStartTime = vist_OperationStartTime v,
       nist_InProgressProperties = map_option cast_in_ServiceInstancePropertiesState (vist_InProgressProperties v),
       nist_ExternalProperties = map_option cast_in_ServiceInstancePropertiesState (vist_ExternalProperties v) \<rparr>"

definition Convert_servicecatalog_ServiceInstanceStatus_To_v1alpha1_ServiceInstanceStatus ::
  "internal_ServiceInstanceStatus \<Rightarrow> v1_ServiceInstanceStatus" where
  "Convert_servicecatalog_ServiceInstanceStatus_To_v1alpha1_ServiceInstanceStatus x =
     \<lparr> vist_Conditions = (case nist_Conditions x of None \<Rightarrow> Some [] | Some cs \<Rightarrow> Some (map cast_out_ServiceInstanceCondition cs)),
       vist_AsyncOpInProgress = nist_AsyncOpInProgress x,
       vist_OrphanMitigationInProgress = nist_OrphanMitigationInProgress x, vist_LastOperation = nist_LastOperation x,
       vist_DashboardURL = nist_DashboardURL x, vist_CurrentOperation = nist_CurrentOperation x,
       vist_ReconciledGeneration = nist_ReconciledGeneration x, vist_OperationStartTime = nist_OperationStartTime x,
       vist_InProgressProperties = map_option cast_out_ServiceInstancePropertiesState (nist_InProgressProperties x),
       vist_ExternalProperties = map_option cast_out_ServiceInstancePropertiesState (nist_ExternalProperties x) \<rparr>"

definition Convert_v1alpha1_ServiceInstance_To_servicecatalog_ServiceInstance ::
  "v1_ServiceInstance \<Rightarrow> internal_ServiceInstance" where
  "Convert_v1alpha1_ServiceInstance_To_servicecatalog_ServiceInstance v =
     \<lparr> nsi_Meta = vsi_Meta v,
       nsi_Spec = Convert_v1alpha1_ServiceInstanceSpec_To_servicecatalog_ServiceInstanceSpec (vsi_Spec v),
       nsi_Status = Convert_v1alpha1_ServiceInstanceStatus_To_servicecatalog_ServiceInstanceStatus (vsi_Status v) \<rparr>"

definition Convert_servicecatalog_ServiceInstance_To_v1alpha1_ServiceInstance ::
  "internal_ServiceInstance \<Rightarrow> v1_ServiceInstance" where
  "Convert_servicecatalog_ServiceInstance_To_v1alpha1_ServiceInstance x =
     \<lparr> vsi_Meta = nsi_Meta x,
       vsi_Spec = Convert_servicecatalog_ServiceInstanceSpec_To_v1alpha1_ServiceInstanceSpec (nsi_Spec x),
       vsi_Status = Convert_servicecatalog_ServiceInstanceStatus_To_v1alpha1_ServiceInstanceStatus (nsi_Status x) \<rparr>"

definition Convert_v1alpha1_ServiceInstanceCredentialPropertiesState_To_servicecatalog_ServiceInstanceCredentialPropertiesState ::
  "v1_ServiceInstanceCredentialPropertiesState \<Rightarrow> CredentialPropertiesState" where
  "Convert_v1alpha1_ServiceInstanceCredentialPropertiesState_To_servicecatalog_ServiceInstanceCredentialPropertiesState v =
     \<lparr> cps_Parameters = vcps_Parameters v, cps_ParametersChecksum = vcps_ParametersChecksum v,
       cps_UserInfo = map_option cast_in_UserInfo (vcps_UserInfo v) \<rparr>"

definition Convert_servicecatalog_ServiceInstanceCredentialPropertiesState_To_v1alpha1_ServiceInstanceCredentialPropertiesState ::
  "CredentialPropertiesState \<Rightarrow> v1_ServiceInstanceCredentialPropertiesState" where
  "Convert_servicecatalog_ServiceInstanceCredentialPropertiesState_To_v1alpha1_ServiceInstanceCredentialPropertiesState x =
     \<lparr> vcps_Parameters = cps_Parameters x, vcps_ParametersChecksum = cps_ParametersChecksum x,
       vcps_UserInfo = map_option cast_out_UserInfo (cps_UserInfo x) \<rparr>"

definition Convert_v1alpha1_ServiceInstanceCredentialSpec_To_servicecatalog_ServiceInstanceCredentialSpec ::
  "v1_ServiceInstanceCredentialSpec \<Rightarrow> CredentialSpec" where
  "Convert_v1alpha1_ServiceInstanceCredentialSpec_To_servicecatalog_ServiceInstanceCredentialSpec v =
     \<lparr> crs_ServiceInstanceRef = vcrs_ServiceInstanceRef v, crs_Parameters = vcrs_Parameters v,
       crs_ParametersFrom = map cast_in_ParametersFromSource (vcrs_ParametersFrom v),
       crs_SecretName = vcrs_SecretName v, crs_ExternalID = vcrs_ExternalID v,
       crs_UserInfo = map_option cast_in_UserInfo (vcrs_UserInfo v) \<rparr>"

definition Convert_servicecatalog_ServiceInstanceCredentialSpec_To_v1alpha1_ServiceInstanceCredentialSpec ::
  "CredentialSpec \<Rightarrow> v1_ServiceInstanceCredentialSpec" where
  "Convert_servicecatalog_ServiceInstanceCredentialSpec_To_v1alpha1_ServiceInstanceCredentialSpec x =
     \<lparr> vcrs_ServiceInstanceRef = crs_ServiceInstanceRef x, vcrs_Parameters = crs_Parameters x,
       vcrs_ParametersFrom = map cast_out_ParametersFromSource (crs_ParametersFrom x),
       vcrs_SecretName = crs_SecretName x, vcrs_ExternalID = crs_ExternalID x,
       vcrs_UserInfo = map_option cast_out_UserInfo (crs_UserInfo x) \<rparr>"

definition Convert_v1alpha1_ServiceInstanceCredentialStatus_To_servicecatalog_ServiceInstanceCredentialStatus ::
  "v1_ServiceInstanceCredentialStatus \<Rightarrow> internal_ServiceInstanceCredentialStatus" where
  "Convert_v1alpha1_ServiceInstanceCredentialStatus_To_servicecatalog_ServiceInstanceCredentialStatus v =
     \<lparr> ncrst_Conditions = map_option (map cast_in_ServiceInstanceCredentialCondition) (vcrst_Conditions v),
       ncrst_CurrentOperation = vcrst_CurrentOperation v, ncrst_ReconciledGeneration = vcrst_ReconciledGeneration v,
       ncrst_OperationStartTime = vcrst_OperationStartTime v,
       ncrst_InProgressProperties = map_option cast_in_ServiceInstanceCredentialPropertiesState (vcrst_InProgressProperties v),
       ncrst_ExternalProperties = map_option cast_in_ServiceInstanceCredentialPropertiesState (vcrst_ExternalProperties v),
       ncrst_OrphanMitigationInProgress = vcrst_OrphanMitigationInProgress v \<rparr>"

definition Convert_servicecatalog_ServiceInstanceCredentialStatus_To_v1alpha1_ServiceInstanceCredentialStatus ::
  "internal_ServiceInstanceCredentialStatus \<Rightarrow> v1_ServiceInstanceCredentialStatus" where
  "Convert_servicecatalog_ServiceInstanceCredentialStatus_To_v1alpha1_ServiceInstanceCredentialStatus x =
     \<lparr> vcrst_Conditions = (case ncrst_Conditions x of None \<Rightarrow> Some [] | Some cs \<Rightarrow> Some (map cast_out_ServiceInstanceCredentialCondition cs)),
       vcrst_CurrentOperation = ncrst_CurrentOperation x, vcrst_ReconciledGeneration = ncrst_ReconciledGeneration x,
       vcrst_OperationStartTime = ncrst_OperationStartTime x,
       vcrst_InProgressProperties = map_option cast_out_ServiceInstanceCredentialPropertiesState (ncrst_InProgressProperties x),
       vcrst_ExternalProperties = map_option cast_out_ServiceInstanceCredentialPropertiesState (ncrst_ExternalProperties x),
       vcrst_OrphanMitigationInProgress = ncrst_OrphanMitigationInProgress x \<rparr>"

definition Convert_v1alpha1_ServiceInstanceCredential_To_servicecatalog_ServiceInstanceCredential ::
  "v1_ServiceInstanceCredential \<Rightarrow> internal_ServiceInstanceCredential" where
  "Convert_v1alpha1_ServiceInstanceCredential_To_servicecatalog_ServiceInstanceCredential v =
     \<lparr> ncr_Meta = vcr_Meta v,
       ncr_Spec = Convert_v1alpha1_ServiceInstanceCredentialSpec_To_servicecatalog_ServiceInstanceCredentialSpec (vcr_Spec v),
       ncr_Status = Convert_v1alpha1_ServiceInstanceCredentialStatus_To_servicecatalog_ServiceInstanceCredentialStatus (vcr_Status v) \<rparr>"

definition Convert_servicecatalog_ServiceInstanceCredential_To_v1alpha1_ServiceInstanceCredential ::
  "internal_ServiceInstanceCredential \<Rightarrow> v1_ServiceInstanceCredential" where
  "Convert_servicecatalog_ServiceInstanceCredential_To_v1alpha1_ServiceInstanceCredential x =
     \<lparr> vcr_Meta = ncr_Meta x,
       vcr_Spec = Convert_servicecatalog_ServiceInstanceCredentialSpec_To_v1alpha1_ServiceInstanceCredentialSpec (ncr_Spec x),
       vcr_Status = Convert_servicecatalog_ServiceInstanceCredentialStatus_To_v1alpha1_ServiceInstanceCredentialStatus (ncr_Status x) \<rparr>"

text \<open>Lists: the items are cast, and a nil slice becomes an empty one on the way out.\<close>
definition Convert_v1alpha1_ClusterServiceBrokerList_To_servicecatalog_ClusterServiceBrokerList ::
  "v1_ClusterServiceBroker v1_List \<Rightarrow> internal_ClusterServiceBroker internal_List" where
  "Convert_v1alpha1_ClusterServiceBrokerList_To_servicecatalog_ClusterServiceBrokerList l =
     \<lparr> ls_ListMeta = vls_ListMeta l, ls_Items = map_option (map cast_in_ClusterServiceBroker) (vls_Items l) \<rparr>"

definition Convert_servicecatalog_ClusterServiceBrokerList_To_v1alpha1_ClusterServiceBrokerList ::
  "internal_ClusterServiceBroker internal_List \<Rightarrow> v1_ClusterServiceBroker v1_List" where
  "Convert_servicecatalog_ClusterServiceBrokerList_To_v1alpha1_ClusterServiceBrokerList l =
     \<lparr> vls_ListMeta = ls_ListMeta l,
       vls_Items = (case ls_Items l of None \<Rightarrow> Some [] | Some items \<Rightarrow> Some (map cast_out_ClusterServiceBroker items)) \<rparr>"

definition Convert_v1alpha1_ServiceClassList_To_servicecatalog_ServiceClassList ::
  "v1_ServiceClass v1_List \<Rightarrow> ServiceClass internal_List" where
  "Convert_v1alpha1_ServiceClassList_To_servicecatalog_ServiceClassList l =
     \<lparr> ls_ListMeta = vls_ListMeta l, ls_Items = map_option (map cast_in_ServiceClass) (vls_Items l) \<rparr>"

definition Convert_servicecatalog_ServiceClassList_To_v1alpha1_ServiceClassList ::
  "ServiceClass internal_List \<Rightarrow> v1_ServiceClass v1_List" where
  "Convert_servicecatalog_ServiceClassList_To_v1alpha1_ServiceClassList l =
     \<lparr> vls_ListMeta = ls_ListMeta l,
       vls_Items = (case ls_Items l of None \<Rightarrow> Some [] | Some items \<Rightarrow> Some (map cast_out_ServiceClass items)) \<rparr>"

definition Convert_v1alpha1_ServicePlanList_To_servicecatalog_ServicePlanList ::
  "v1_ServicePlan v1_List \<Rightarrow> ServicePlan internal_List" where
  "Convert_v1alpha1_ServicePlanList_To_servicecatalog_ServicePlanList l =
     \<lparr> ls_ListMeta = vls_ListMeta l, ls_Items = map_option (map cast_in_ServicePlan) (vls_Items l) \<rparr>"

definition Convert_servicecatalog_ServicePlanList_To_v1alpha1_ServicePlanList ::
  "ServicePlan internal_List \<Rightarrow> v1_ServicePlan v1_List" where
  "Convert_servicecatalog_ServicePlanList_To_v1alpha1_ServicePlanList l =
     \<lparr> vls_ListMeta = ls_ListMeta l,
       vls_Items = (case ls_Items l of None \<Rightarrow> Some [] | Some items \<Rightarrow> Some (map cast_out_ServicePlan items)) \<rparr>"

definition Convert_v1alpha1_ServiceInstanceList_To_servicecatalog_ServiceInstanceList ::
  "v1_ServiceInstance v1_List \<Rightarrow> internal_ServiceInstance internal_List" where
  "Convert_v1alpha1_ServiceInstanceList_To_servicecatalog_ServiceInstanceList l =
     \<lparr> ls_ListMeta = vls_ListMeta l, ls_Items = map_option (map cast_in_ServiceInstance) (vls_Items l) \<rparr>"

definition Convert_servicecatalog_ServiceInstanceList_To_v1alpha1_ServiceInstanceList ::
  "internal_ServiceInstance internal_List \<Rightarrow> v1_ServiceInstance v1_List" where
  "Convert_servicecatalog_ServiceInstanceList_To_v1alpha1_ServiceInstanceList l =
     \<lparr> vls_ListMeta = ls_ListMeta l,
       vls_Items = (case ls_Items l of None \<Rightarrow> Some [] | Some items \<Rightarrow> Some (map cast_out_ServiceInstance items)) \<rparr>"

definition Convert_v1alpha1_ServiceInstanceCredentialList_To_servicecatalog_ServiceInstanceCredentialList ::
  "v1_ServiceInstanceCredential v1_List \<Rightarrow> internal_ServiceInstanceCredential internal_List" where
  "Convert_v1alpha1_ServiceInstanceCredentialList_To_servicecatalog_ServiceInstanceCredentialList l =
     \<lparr> ls_ListMeta = vls_ListMeta l, ls_Items = map_option (map cast_in_ServiceInstanceCredential) (vls_Items l) \<rparr>"

definition Convert_servicecatalog_ServiceInstanceCredentialList_To_v1alpha1_ServiceInstanceCredentialList ::
  "internal_ServiceInstanceCredential internal_List \<Rightarrow> v1_ServiceInstanceCredential v1_List" where
  "Convert_servicecatalog_ServiceInstanceCredentialList_To_v1alpha1_ServiceInstanceCredentialList l =
     \<lparr> vls_ListMeta = ls_ListMeta l,
       vls_Items = (case ls_Items l of None \<Rightarrow> Some [] | Some items \<Rightarrow> Some (map cast_out_ServiceInstanceCredential items)) \<rparr>"

section \<open>Casts are conversions\<close>

lemma slice_elements_simps [simp]: "slice_elements None = []" "slice_elements (Some xs) = xs"
  by (simp_all add: slice_elements_def)

lemma cast_SecretKeyReference [simp]: "cast_in_SecretKeyReference = Convert_v1alpha1_SecretKeyReference_To_servicecatalog_SecretKeyReference"
    "cast_out_SecretKeyReference = Convert_servicecatalog_SecretKeyReference_To_v1alpha1_SecretKeyReference"
  by (simp_all add: fun_eq_iff cast_in_SecretKeyReference_def cast_out_SecretKeyReference_def Convert_v1alpha1_SecretKeyReference_To_servicecatalog_SecretKeyReference_def Convert_servicecatalog_SecretKeyReference_To_v1alpha1_SecretKeyReference_def v1_SecretKeyReference.make_def SecretKeyReference.make_def)

lemma cast_ParametersFromSource [simp]: "cast_in_ParametersFromSource = Convert_v1alpha1_ParametersFromSource_To_servicecatalog_ParametersFromSource"
    "cast_out_ParametersFromSource = Convert_servicecatalog_ParametersFromSource_To_v1alpha1_ParametersFromSource"
  by (simp_all add: fun_eq_iff cast_in_ParametersFromSource_def cast_out_ParametersFromSource_def Convert_v1alpha1_ParametersFromSource_To_servicecatalog_ParametersFromSource_def Convert_servicecatalog_ParametersFromSource_To_v1alpha1_ParametersFromSource_def v1_ParametersFromSource.make_def ParametersFromSource.make_def)

lemma cast_UserInfo [simp]: "cast_in_UserInfo = Convert_v1alpha1_UserInfo_To_servicecatalog_UserInfo"
    "cast_out_UserInfo = Convert_servicecatalog_UserInfo_To_v1alpha1_UserInfo"
  by (simp_all add: fun_eq_iff cast_in_UserInfo_def cast_out_UserInfo_def Convert_v1alpha1_UserInfo_To_servicecatalog_UserInfo_def Convert_servicecatalog_UserInfo_To_v1alpha1_UserInfo_def v1_UserInfo.make_def UserInfo.make_def)

lemma cast_BasicAuthConfig [simp]: "cast_in_BasicAuthConfig = Convert_v1alpha1_BasicAuthConfig_To_servicecatalog_BasicAuthConfig"
    "cast_out_BasicAuthConfig = Convert_servicecatalog_BasicAuthConfig_To_v1alpha1_BasicAuthConfig"
  by (simp_all add: fun_eq_iff cast_in_BasicAuthConfig_def cast_out_BasicAuthConfig_def Convert_v1alpha1_BasicAuthConfig_To_servicecatalog_BasicAuthConfig_def Convert_servicecatalog_BasicAuthConfig_To_v1alpha1_BasicAuthConfig_def v1_BasicAuthConfig.make_def)

lemma cast_BearerTokenAuthConfig [simp]: "cast_in_BearerTokenAuthConfig = Convert_v1alpha1_BearerTokenAuthConfig_To_servicecatalog_BearerTokenAuthConfig"
    "cast_out_BearerTokenAuthConfig = Convert_servicecatalog_BearerTokenAuthConfig_To_v1alpha1_BearerTokenAuthConfig"
  by (simp_all add: fun_eq_iff cast_in_BearerTokenAuthConfig_def cast_out_BearerTokenAuthConfig_def Convert_v1alpha1_BearerTokenAuthConfig_To_servicecatalog_BearerTokenAuthConfig_def Convert_servicecatalog_BearerTokenAuthConfig_To_v1alpha1_BearerTokenAuthConfig_def v1_BearerTokenAuthConfig.make_def)

lemma cast_ServiceBrokerAuthInfo [simp]: "cast_in_ServiceBrokerAuthInfo = Convert_v1alpha1_ServiceBrokerAuthInfo_To_servicecatalog_ServiceBrokerAuthInfo"
    "cast_out_ServiceBrokerAuthInfo = Convert_servicecatalog_ServiceBrokerAuthInfo_To_v1alpha1_ServiceBrokerAuthInfo"
  by (simp_all add: fun_eq_iff cast_in_ServiceBrokerAuthInfo_def cast_out_ServiceBrokerAuthInfo_def Convert_v1alpha1_ServiceBrokerAuthInfo_To_servicecatalog_ServiceBrokerAuthInfo_def Convert_servicecatalog_ServiceBrokerAuthInfo_To_v1alpha1_ServiceBrokerAuthInfo_def v1_ServiceBrokerAuthInfo.make_def AuthInfo.make_def)

lemma cast_ClusterServiceBrokerSpec [simp]: "cast_in_ClusterServiceBrokerSpec = Convert_v1alpha1_ClusterServiceBrokerSpec_To_servicecatalog_ClusterServiceBrokerSpec"
    "cast_out_ClusterServiceBrokerSpec = Convert_servicecatalog_ClusterServiceBrokerSpec_To_v1alpha1_ClusterServiceBrokerSpec"
  by (simp_all add: fun_eq_iff cast_in_ClusterServiceBrokerSpec_def cast_out_ClusterServiceBrokerSpec_def Convert_v1alpha1_ClusterServiceBrokerSpec_To_servicecatalog_ClusterServiceBrokerSpec_def Convert_servicecatalog_ClusterServiceBrokerSpec_To_v1alpha1_ClusterServiceBrokerSpec_def v1_ClusterServiceBrokerSpec.make_def BrokerSpec.make_def)

lemma cast_ServiceBrokerCondition [simp]: "cast_in_ServiceBrokerCondition = Convert_v1alpha1_ServiceBrokerCondition_To_servicecatalog_ServiceBrokerCondition"
    "cast_out_ServiceBrokerCondition = Convert_servicecatalog_ServiceBrokerCondition_To_v1alpha1_ServiceBrokerCondition"
  by (simp_all add: fun_eq_iff cast_in_ServiceBrokerCondition_def cast_out_ServiceBrokerCondition_def Convert_v1alpha1_ServiceBrokerCondition_To_servicecatalog_ServiceBrokerCondition_def Convert_servicecatalog_ServiceBrokerCondition_To_v1alpha1_ServiceBrokerCondition_def v1_ServiceBrokerCondition.make_def Condition.make_def)

lemma cast_ServiceInstanceCondition [simp]: "cast_in_ServiceInstanceCondition = Convert_v1alpha1_ServiceInstanceCondition_To_servicecatalog_ServiceInstanceCondition"
    "cast_out_ServiceInstanceCondition = Convert_servicecatalog_ServiceInstanceCondition_To_v1alpha1_ServiceInstanceCondition"
  by (simp_all add: fun_eq_iff cast_in_ServiceInstanceCondition_def cast_out_ServiceInstanceCondition_def Convert_v1alpha1_ServiceInstanceCondition_To_servicecatalog_ServiceInstanceCondition_def Convert_servicecatalog_ServiceInstanceCondition_To_v1alpha1_ServiceInstanceCondition_def v1_ServiceInstanceCondition.make_def Condition.make_def)

lemma cast_ServiceInstanceCredentialCondition [simp]: "cast_in_ServiceInstanceCredentialCondition = Convert_v1alpha1_ServiceInstanceCredentialCondition_To_servicecatalog_ServiceInstanceCredentialCondition"
    "cast_out_ServiceInstanceCredentialCondition = Convert_servicecatalog_ServiceInstanceCredentialCondition_To_v1alpha1_ServiceInstanceCredentialCondition"
  by (simp_all add: fun_eq_iff cast_in_ServiceInstanceCredentialCondition_def cast_out_ServiceInstanceCredentialCondition_def Convert_v1alpha1_ServiceInstanceCredentialCondition_To_servicecatalog_ServiceInstanceCredentialCondition_def Convert_servicecatalog_ServiceInstanceCredentialCondition_To_v1alpha1_ServiceInstanceCredentialCondition_def v1_ServiceInstanceCredentialCondition.make_def Condition.make_def)

lemma cast_ServiceBrokerStatus: "cast_in_ServiceBrokerStatus = Convert_v1alpha1_ServiceBrokerStatus_To_servicecatalog_ServiceBrokerStatus"
    "cast_out_ServiceBrokerStatus x =
      (if nbkst_Conditions x = None then Convert_servicecatalog_ServiceBrokerStatus_To_v1alpha1_ServiceBrokerStatus x \<lparr> vbkst_Conditions := None \<rparr>
       else Convert_servicecatalog_ServiceBrokerStatus_To_v1alpha1_ServiceBrokerStatus x)"
  by (simp_all add: fun_eq_iff cast_in_ServiceBrokerStatus_def cast_out_ServiceBrokerStatus_def Convert_v1alpha1_ServiceBrokerStatus_To_servicecatalog_ServiceBrokerStatus_def Convert_servicecatalog_ServiceBrokerStatus_To_v1alpha1_ServiceBrokerStatus_def v1_ServiceBrokerStatus.make_def internal_ServiceBrokerStatus.make_def split: option.split)

lemma cast_ClusterServiceBroker: "cast_in_ClusterServiceBroker = Convert_v1alpha1_ClusterServiceBroker_To_servicecatalog_ClusterServiceBroker"
    "cast_out_ClusterServiceBroker x =
      (if nbkst_Conditions (nbk_Status x) = None then Convert_servicecatalog_ClusterServiceBroker_To_v1alpha1_ClusterServiceBroker x \<lparr> vbk_Status := (vbk_Status (Convert_servicecatalog_ClusterServiceBroker_To_v1alpha1_ClusterServiceBroker x)) \<lparr> vbkst_Conditions := None \<rparr> \<rparr>
       else Convert_servicecatalog_ClusterServiceBroker_To_v1alpha1_ClusterServiceBroker x)"
  by (simp_all add: fun_eq_iff cast_ServiceBrokerStatus cast_in_ClusterServiceBroker_def cast_out_ClusterServiceBroker_def Convert_v1alpha1_ClusterServiceBroker_To_servicecatalog_ClusterServiceBroker_def Convert_servicecatalog_ClusterServiceBroker_To_v1alpha1_ClusterServiceBroker_def v1_ClusterServiceBroker.make_def internal_ClusterServiceBroker.make_def split: option.split)

lemma cast_ServiceClassSpec [simp]: "cast_in_ServiceClassSpec = Convert_v1alpha1_ServiceClassSpec_To_servicecatalog_ServiceClassSpec"
    "cast_out_ServiceClassSpec = Convert_servicecatalog_ServiceClassSpec_To_v1alpha1_ServiceClassSpec"
  by (simp_all add: fun_eq_iff cast_in_ServiceClassSpec_def cast_out_ServiceClassSpec_def Convert_v1alpha1_ServiceClassSpec_To_servicecatalog_ServiceClassSpec_def Convert_servicecatalog_ServiceClassSpec_To_v1alpha1_ServiceClassSpec_def v1_ServiceClassSpec.make_def ServiceClassSpec.make_def)

lemma cast_ServiceClass [simp]: "cast_in_ServiceClass = Convert_v1alpha1_ServiceClass_To_servicecatalog_ServiceClass"
    "cast_out_ServiceClass = Convert_servicecatalog_ServiceClass_To_v1alpha1_ServiceClass"
  by (simp_all add: fun_eq_iff cast_in_ServiceClass_def cast_out_ServiceClass_def Convert_v1alpha1_ServiceClass_To_servicecatalog_ServiceClass_def Convert_servicecatalog_ServiceClass_To_v1alpha1_ServiceClass_def v1_ServiceClass.make_def ServiceClass.make_def)

lemma cast_ServicePlanSpec [simp]: "cast_in_ServicePlanSpec = Convert_v1alpha1_ServicePlanSpec_To_servicecatalog_ServicePlanSpec"
    "cast_out_ServicePlanSpec = Convert_servicecatalog_ServicePlanSpec_To_v1alpha1_ServicePlanSpec"
  by (simp_all add: fun_eq_iff cast_in_ServicePlanSpec_def cast_out_ServicePlanSpec_def Convert_v1alpha1_ServicePlanSpec_To_servicecatalog_ServicePlanSpec_def Convert_servicecatalog_ServicePlanSpec_To_v1alpha1_ServicePlanSpec_def v1_ServicePlanSpec.make_def ServicePlanSpec.make_def)

lemma cast_ServicePlan [simp]: "cast_in_ServicePlan = Convert_v1alpha1_ServicePlan_To_servicecatalog_ServicePlan"
    "cast_out_ServicePlan = Convert_servicecatalog_ServicePlan_To_v1alpha1_ServicePlan"
  by (simp_all add: fun_eq_iff cast_in_ServicePlan_def cast_out_ServicePlan_def Convert_v1alpha1_ServicePlan_To_servicecatalog_ServicePlan_def Convert_servicecatalog_ServicePlan_To_v1alpha1_ServicePlan_def v1_ServicePlan.make_def ServicePlan.make_def)

lemma cast_ServiceInstancePropertiesState [simp]: "cast_in_ServiceInstancePropertiesState = Convert_v1alpha1_ServiceInstancePropertiesState_To_servicecatalog_ServiceInstancePropertiesState"
    "cast_out_ServiceInstancePropertiesState = Convert_servicecatalog_ServiceInstancePropertiesState_To_v1alpha1_ServiceInstancePropertiesState"
  by (simp_all add: fun_eq_iff cast_in_ServiceInstancePropertiesState_def cast_out_ServiceInstancePropertiesState_def Convert_v1alpha1_ServiceInstancePropertiesState_To_servicecatalog_ServiceInstancePropertiesState_def Convert_servicecatalog_ServiceInstancePropertiesState_To_v1alpha1_ServiceInstancePropertiesState_def v1_ServiceInstancePropertiesState.make_def PropertiesState.make_def)

lemma cast_ServiceInstanceSpec [simp]: "cast_in_ServiceInstanceSpec = Convert_v1alpha1_ServiceInstanceSpec_To_servicecatalog_ServiceInstanceSpec"
    "cast_out_ServiceInstanceSpec = Convert_servicecatalog_ServiceInstanceSpec_To_v1alpha1_ServiceInstanceSpec"
  by (simp_all add: fun_eq_iff cast_in_ServiceInstanceSpec_def cast_out_ServiceInstanceSpec_def Convert_v1alpha1_ServiceInstanceSpec_To_servicecatalog_ServiceInstanceSpec_def Convert_servicecatalog_ServiceInstanceSpec_To_v1alpha1_ServiceInstanceSpec_def v1_ServiceInstanceSpec.make_def InstanceSpec.make_def)

lemma cast_ServiceInstanceStatus: "cast_in_ServiceInstanceStatus = Convert_v1alpha1_ServiceInstanceStatus_To_servicecatalog_ServiceInstanceStatus"
    "cast_out_ServiceInstanceStatus x =
      (if nist_Conditions x = None then Convert_servicecatalog_ServiceInstanceStatus_To_v1alpha1_ServiceInstanceStatus x \<lparr> vist_Conditions := None \<rparr>
       else Convert_servicecatalog_ServiceInstanceStatus_To_v1alpha1_ServiceInstanceStatus x)"
  by (simp_all add: fun_eq_iff cast_in_ServiceInstanceStatus_def cast_out_ServiceInstanceStatus_def Convert_v1alpha1_ServiceInstanceStatus_To_servicecatalog_ServiceInstanceStatus_def Convert_servicecatalog_ServiceInstanceStatus_To_v1alpha1_ServiceInstanceStatus_def v1_ServiceInstanceStatus.make_def internal_ServiceInstanceStatus.make_def split: option.split)

lemma cast_ServiceInstance: "cast_in_ServiceInstance = Convert_v1alpha1_ServiceInstance_To_servicecatalog_ServiceInstance"
    "cast_out_ServiceInstance x =
      (if nist_Conditions (nsi_Status x) = None then Convert_servicecatalog_ServiceInstance_To_v1alpha1_ServiceInstance x \<lparr> vsi_Status := (vsi_Status (Convert_servicecatalog_ServiceInstance_To_v1alpha1_ServiceInstance x)) \<lparr> vist_Conditions := None \<rparr> \<rparr>
       else Convert_servicecatalog_ServiceInstance_To_v1alpha1_ServiceInstance x)"
  by (simp_all add: fun_eq_iff cast_ServiceInstanceStatus cast_in_ServiceInstance_def cast_out_ServiceInstance_def Convert_v1alpha1_ServiceInstance_To_servicecatalog_ServiceInstance_def Convert_servicecatalog_ServiceInstance_To_v1alpha1_ServiceInstance_def v1_ServiceInstance.make_def internal_ServiceInstance.make_def split: option.split)

lemma cast_ServiceInstanceCredentialPropertiesState [simp]: "cast_in_ServiceInstanceCredentialPropertiesState = Convert_v1alpha1_ServiceInstanceCredentialPropertiesState_To_servicecatalog_ServiceInstanceCredentialPropertiesState"
    "cast_out_ServiceInstanceCredentialPropertiesState = Convert_servicecatalog_ServiceInstanceCredentialPropertiesState_To_v1alpha1_ServiceInstanceCredentialPropertiesState"
  by (simp_all add: fun_eq_iff cast_in_ServiceInstanceCredentialPropertiesState_def cast_out_ServiceInstanceCredentialPropertiesState_def Convert_v1alpha1_ServiceInstanceCredentialPropertiesState_To_servicecatalog_ServiceInstanceCredentialPropertiesState_def Convert_servicecatalog_ServiceInstanceCredentialPropertiesState_To_v1alpha1_ServiceInstanceCredentialPropertiesState_def v1_ServiceInstanceCredentialPropertiesState.make_def CredentialPropertiesState.make_def)

lemma cast_ServiceInstanceCredentialSpec [simp]: "cast_in_ServiceInstanceCredentialSpec = Convert_v1alpha1_ServiceInstanceCredentialSpec_To_servicecatalog_ServiceInstanceCredentialSpec"
    "cast_out_ServiceInstanceCredentialSpec = Convert_servicecatalog_ServiceInstanceCredentialSpec_To_v1alpha1_ServiceInstanceCredentialSpec"
  by (simp_all add: fun_eq_iff cast_in_ServiceInstanceCredentialSpec_def cast_out_ServiceInstanceCredentialSpec_def Convert_v1alpha1_ServiceInstanceCredentialSpec_To_servicecatalog_ServiceInstanceCredentialSpec_def Convert_servicecatalog_ServiceInstanceCredentialSpec_To_v1alpha1_ServiceInstanceCredentialSpec_def v1_ServiceInstanceCredentialSpec.make_def CredentialSpec.make_def)

lemma cast_ServiceInstanceCredentialStatus: "cast_in_ServiceInstanceCredentialStatus = Convert_v1alpha1_ServiceInstanceCredentialStatus_To_servicecatalog_ServiceInstanceCredentialStatus"
    "cast_out_ServiceInstanceCredentialStatus x =
      (if ncrst_Conditions x = None then Convert_servicecatalog_ServiceInstanceCredentialStatus_To_v1alpha1_ServiceInstanceCredentialStatus x \<lparr> vcrst_Conditions := None \<rparr>
       else Convert_servicecatalog_ServiceInstanceCredentialStatus_To_v1alpha1_ServiceInstanceCredentialStatus x)"
  by (simp_all add: fun_eq_iff cast_in_ServiceInstanceCredentialStatus_def cast_out_ServiceInstanceCredentialStatus_def Convert_v1alpha1_ServiceInstanceCredentialStatus_To_servicecatalog_ServiceInstanceCredentialStatus_def Convert_servicecatalog_ServiceInstanceCredentialStatus_To_v1alpha1_ServiceInstanceCredentialStatus_def v1_ServiceInstanceCredentialStatus.make_def internal_ServiceInstanceCredentialStatus.make_def split: option.split)

lemma cast_ServiceInstanceCredential: "cast_in_ServiceInstanceCredential = Convert_v1alpha1_ServiceInstanceCredential_To_servicecatalog_ServiceInstanceCredential"
    "cast_out_ServiceInstanceCredential x =
      (if ncrst_Conditions (ncr_Status x) = None then Convert_servicecatalog_ServiceInstanceCredential_To_v1alpha1_ServiceInstanceCredential x \<lparr> vcr_Status := (vcr_Status (Convert_servicecatalog_ServiceInstanceCredential_To_v1alpha1_ServiceInstanceCredential x)) \<lparr> vcrst_Conditions := None \<rparr> \<rparr>
       else Convert_servicecatalog_ServiceInstanceCredential_To_v1alpha1_ServiceInstanceCredential x)"
  by (simp_all add: fun_eq_iff cast_ServiceInstanceCredentialStatus cast_in_ServiceInstanceCredential_def cast_out_ServiceInstanceCredential_def Convert_v1alpha1_ServiceInstanceCredential_To_servicecatalog_ServiceInstanceCredential_def Convert_servicecatalog_ServiceInstanceCredential_To_v1alpha1_ServiceInstanceCredential_def v1_ServiceInstanceCredential.make_def internal_ServiceInstanceCredential.make_def split: option.split)

section \<open>Conversions and back\<close>

lemma convert_SecretKeyReference [simp]:
  "Convert_servicecatalog_SecretKeyReference_To_v1alpha1_SecretKeyReference (Convert_v1alpha1_SecretKeyReference_To_servicecatalog_SecretKeyReference v) = v"
  "Convert_v1alpha1_SecretKeyReference_To_servicecatalog_SecretKeyReference (Convert_servicecatalog_SecretKeyReference_To_v1alpha1_SecretKeyReference x) = x"
  by (simp_all add: Convert_v1alpha1_SecretKeyReference_To_servicecatalog_SecretKeyReference_def Convert_servicecatalog_SecretKeyReference_To_v1alpha1_SecretKeyReference_def option.map_comp comp_def option.map_ident)

lemma convert_ParametersFromSource [simp]:
  "Convert_servicecatalog_ParametersFromSource_To_v1alpha1_ParametersFromSource (Convert_v1alpha1_ParametersFromSource_To_servicecatalog_ParametersFromSource v) = v"
  "Convert_v1alpha1_ParametersFromSource_To_servicecatalog_ParametersFromSource (Convert_servicecatalog_ParametersFromSource_To_v1alpha1_ParametersFromSource x) = x"
  by (simp_all add: Convert_v1alpha1_ParametersFromSource_To_servicecatalog_ParametersFromSource_def Convert_servicecatalog_ParametersFromSource_To_v1alpha1_ParametersFromSource_def option.map_comp comp_def option.map_ident)

lemma convert_UserInfo [simp]:
  "Convert_servicecatalog_UserInfo_To_v1alpha1_UserInfo (Convert_v1alpha1_UserInfo_To_servicecatalog_UserInfo v) = v"
  "Convert_v1alpha1_UserInfo_To_servicecatalog_UserInfo (Convert_servicecatalog_UserInfo_To_v1alpha1_UserInfo x) = x"
  by (simp_all add: Convert_v1alpha1_UserInfo_To_servicecatalog_UserInfo_def Convert_servicecatalog_UserInfo_To_v1alpha1_UserInfo_def option.map_comp comp_def option.map_ident)

lemma convert_BasicAuthConfig [simp]:
  "Convert_servicecatalog_BasicAuthConfig_To_v1alpha1_BasicAuthConfig (Convert_v1alpha1_BasicAuthConfig_To_servicecatalog_BasicAuthConfig v) = v"
  "Convert_v1alpha1_BasicAuthConfig_To_servicecatalog_BasicAuthConfig (Convert_servicecatalog_BasicAuthConfig_To_v1alpha1_BasicAuthConfig x) = x"
  by (simp_all add: Convert_v1alpha1_BasicAuthConfig_To_servicecatalog_BasicAuthConfig_def Convert_servicecatalog_BasicAuthConfig_To_v1alpha1_BasicAuthConfig_def option.map_comp comp_def option.map_ident)

lemma convert_BearerTokenAuthConfig [simp]:
  "Convert_servicecatalog_BearerTokenAuthConfig_To_v1alpha1_BearerTokenAuthConfig (Convert_v1alpha1_BearerTokenAuthConfig_To_servicecatalog_BearerTokenAuthConfig v) = v"
  "Convert_v1alpha1_BearerTokenAuthConfig_To_servicecatalog_BearerTokenAuthConfig (Convert_servicecatalog_BearerTokenAuthConfig_To_v1alpha1_BearerTokenAuthConfig x) = x"
  by (simp_all add: Convert_v1alpha1_BearerTokenAuthConfig_To_servicecatalog_BearerTokenAuthConfig_def Convert_servicecatalog_BearerTokenAuthConfig_To_v1alpha1_BearerTokenAuthConfig_def option.map_comp comp_def option.map_ident)

lemma convert_ServiceBrokerAuthInfo [simp]:
  "Convert_servicecatalog_ServiceBrokerAuthInfo_To_v1alpha1_ServiceBrokerAuthInfo (Convert_v1alpha1_ServiceBrokerAuthInfo_To_servicecatalog_ServiceBrokerAuthInfo v) = v"
  "Convert_v1alpha1_ServiceBrokerAuthInfo_To_servicecatalog_ServiceBrokerAuthInfo (Convert_servicecatalog_ServiceBrokerAuthInfo_To_v1alpha1_ServiceBrokerAuthInfo x) = x"
  by (simp_all add: Convert_v1alpha1_ServiceBrokerAuthInfo_To_servicecatalog_ServiceBrokerAuthInfo_def Convert_servicecatalog_ServiceBrokerAuthInfo_To_v1alpha1_ServiceBrokerAuthInfo_def option.map_comp comp_def option.map_ident)

lemma convert_ClusterServiceBrokerSpec [simp]:
  "Convert_servicecatalog_ClusterServiceBrokerSpec_To_v1alpha1_ClusterServiceBrokerSpec (Convert_v1alpha1_ClusterServiceBrokerSpec_To_servicecatalog_ClusterServiceBrokerSpec v) = v"
  "Convert_v1alpha1_ClusterServiceBrokerSpec_To_servicecatalog_ClusterServiceBrokerSpec (Convert_servicecatalog_ClusterServiceBrokerSpec_To_v1alpha1_ClusterServiceBrokerSpec x) = x"
  by (simp_all add: Convert_v1alpha1_ClusterServiceBrokerSpec_To_servicecatalog_ClusterServiceBrokerSpec_def Convert_servicecatalog_ClusterServiceBrokerSpec_To_v1alpha1_ClusterServiceBrokerSpec_def option.map_comp comp_def option.map_ident)

lemma convert_ServiceBrokerCondition [simp]:
  "Convert_servicecatalog_ServiceBrokerCondition_To_v1alpha1_ServiceBrokerCondition (Convert_v1alpha1_ServiceBrokerCondition_To_servicecatalog_ServiceBrokerCondition v) = v"
  "Convert_v1alpha1_ServiceBrokerCondition_To_servicecatalog_ServiceBrokerCondition (Convert_servicecatalog_ServiceBrokerCondition_To_v1alpha1_ServiceBrokerCondition x) = x"
  by (simp_all add: Convert_v1alpha1_ServiceBrokerCondition_To_servicecatalog_ServiceBrokerCondition_def Convert_servicecatalog_ServiceBrokerCondition_To_v1alpha1_ServiceBrokerCondition_def option.map_comp comp_def option.map_ident)

lemma convert_ServiceInstanceCondition [simp]:
  "Convert_servicecatalog_ServiceInstanceCondition_To_v1alpha1_ServiceInstanceCondition (Convert_v1alpha1_ServiceInstanceCondition_To_servicecatalog_ServiceInstanceCondition v) = v"
  "Convert_v1alpha1_ServiceInstanceCondition_To_servicecatalog_ServiceInstanceCondition (Convert_servicecatalog_ServiceInstanceCondition_To_v1alpha1_ServiceInstanceCondition x) = x"
  by (simp_all add: Convert_v1alpha1_ServiceInstanceCondition_To_servicecatalog_ServiceInstanceCondition_def Convert_servicecatalog_ServiceInstanceCondition_To_v1alpha1_ServiceInstanceCondition_def option.map_comp comp_def option.map_ident)

lemma convert_ServiceInstanceCredentialCondition [simp]:
  "Convert_servicecatalog_ServiceInstanceCredentialCondition_To_v1alpha1_ServiceInstanceCredentialCondition (Convert_v1alpha1_ServiceInstanceCredentialCondition_To_servicecatalog_ServiceInstanceCredentialCondition v) = v"
  "Convert_v1alpha1_ServiceInstanceCredentialCondition_To_servicecatalog_ServiceInstanceCredentialCondition (Convert_servicecatalog_ServiceInstanceCredentialCondition_To_v1alpha1_ServiceInstanceCredentialCondition x) = x"
  by (simp_all add: Convert_v1alpha1_ServiceInstanceCredentialCondition_To_servicecatalog_ServiceInstanceCredentialCondition_def Convert_servicecatalog_ServiceInstanceCredentialCondition_To_v1alpha1_ServiceInstanceCredentialCondition_def option.map_comp comp_def option.map_ident)

lemma convert_ServiceBrokerStatus:
  "Convert_servicecatalog_ServiceBrokerStatus_To_v1alpha1_ServiceBrokerStatus (Convert_v1alpha1_ServiceBrokerStatus_To_servicecatalog_ServiceBrokerStatus v) =
     v \<lparr> vbkst_Conditions := Some (slice_elements (vbkst_Conditions v)) \<rparr>"
  "Convert_v1alpha1_ServiceBrokerStatus_To_servicecatalog_ServiceBrokerStatus (Convert_servicecatalog_ServiceBrokerStatus_To_v1alpha1_ServiceBrokerStatus x) =
     x \<lparr> nbkst_Conditions := Some (slice_elements (nbkst_Conditions x)) \<rparr>"
  by (simp_all add: Convert_v1alpha1_ServiceBrokerStatus_To_servicecatalog_ServiceBrokerStatus_def Convert_servicecatalog_ServiceBrokerStatus_To_v1alpha1_ServiceBrokerStatus_def option.map_comp comp_def option.map_ident split: option.split)


lemma convert_ClusterServiceBroker:
  "Convert_servicecatalog_ClusterServiceBroker_To_v1alpha1_ClusterServiceBroker (Convert_v1alpha1_ClusterServiceBroker_To_servicecatalog_ClusterServiceBroker v) =
     v \<lparr> vbk_Status := (vbk_Status (v)) \<lparr> vbkst_Conditions := Some (slice_elements (vbkst_Conditions (vbk_Status v))) \<rparr> \<rparr>"
  "Convert_v1alpha1_ClusterServiceBroker_To_servicecatalog_ClusterServiceBroker (Convert_servicecatalog_ClusterServiceBroker_To_v1alpha1_ClusterServiceBroker x) =
     x \<lparr> nbk_Status := (nbk_Status x) \<lparr> nbkst_Conditions := Some (slice_elements (nbkst_Conditions (nbk_Status x))) \<rparr> \<rparr>"
  by (simp_all add: convert_ServiceBrokerStatus Convert_v1alpha1_ClusterServiceBroker_To_servicecatalog_ClusterServiceBroker_def Convert_servicecatalog_ClusterServiceBroker_To_v1alpha1_ClusterServiceBroker_def option.map_comp comp_def option.map_ident)


lemma convert_ServiceClassSpec [simp]:
  "Convert_servicecatalog_ServiceClassSpec_To_v1alpha1_ServiceClassSpec (Convert_v1alpha1_ServiceClassSpec_To_servicecatalog_ServiceClassSpec v) = v"
  "Convert_v1alpha1_ServiceClassSpec_To_servicecatalog_ServiceClassSpec (Convert_servicecatalog_ServiceClassSpec_To_v1alpha1_ServiceClassSpec x) = x"
  by (simp_all add: Convert_v1alpha1_ServiceClassSpec_To_servicecatalog_ServiceClassSpec_def Convert_servicecatalog_ServiceClassSpec_To_v1alpha1_ServiceClassSpec_def option.map_comp comp_def option.map_ident)

lemma convert_ServiceClass [simp]:
  "Convert_servicecatalog_ServiceClass_To_v1alpha1_ServiceClass (Convert_v1alpha1_ServiceClass_To_servicecatalog_ServiceClass v) = v"
  "Convert_v1alpha1_ServiceClass_To_servicecatalog_ServiceClass (Convert_servicecatalog_ServiceClass_To_v1alpha1_ServiceClass x) = x"
  by (simp_all add: Convert_v1alpha1_ServiceClass_To_servicecatalog_ServiceClass_def Convert_servicecatalog_ServiceClass_To_v1alpha1_ServiceClass_def option.map_comp comp_def option.map_ident)

lemma convert_ServicePlanSpec [simp]:
  "Convert_servicecatalog_ServicePlanSpec_To_v1alpha1_ServicePlanSpec (Convert_v1alpha1_ServicePlanSpec_To_servicecatalog_ServicePlanSpec v) = v"
  "Convert_v1alpha1_ServicePlanSpec_To_servicecatalog_ServicePlanSpec (Convert_servicecatalog_ServicePlanSpec_To_v1alpha1_ServicePlanSpec x) = x"
  by (simp_all add: Convert_v1alpha1_ServicePlanSpec_To_servicecatalog_ServicePlanSpec_def Convert_servicecatalog_ServicePlanSpec_To_v1alpha1_ServicePlanSpec_def option.map_comp comp_def option.map_ident)

lemma convert_ServicePlan [simp]:
  "Convert_servicecatalog_ServicePlan_To_v1alpha1_ServicePlan (Convert_v1alpha1_ServicePlan_To_servicecatalog_ServicePlan v) = v"
  "Convert_v1alpha1_ServicePlan_To_servicecatalog_ServicePlan (Convert_servicecatalog_ServicePlan_To_v1alpha1_ServicePlan x) = x"
  by (simp_all add: Convert_v1alpha1_ServicePlan_To_servicecatalog_ServicePlan_def Convert_servicecatalog_ServicePlan_To_v1alpha1_ServicePlan_def option.map_comp comp_def option.map_ident)

lemma convert_ServiceInstancePropertiesState [simp]:
  "Convert_servicecatalog_ServiceInstancePropertiesState_To_v1alpha1_ServiceInstancePropertiesState (Convert_v1alpha1_ServiceInstancePropertiesState_To_servicecatalog_ServiceInstancePropertiesState v) = v"
  "Convert_v1alpha1_ServiceInstancePropertiesState_To_servicecatalog_ServiceInstancePropertiesState (Convert_servicecatalog_ServiceInstancePropertiesState_To_v1alpha1_ServiceInstancePropertiesState x) = x"
  by (simp_all add: Convert_v1alpha1_ServiceInstancePropertiesState_To_servicecatalog_ServiceInstancePropertiesState_def Convert_servicecatalog_ServiceInstancePropertiesState_To_v1alpha1_ServiceInstancePropertiesState_def option.map_comp comp_def option.map_ident)

lemma convert_ServiceInstanceSpec [simp]:
  "Convert_servicecatalog_ServiceInstanceSpec_To_v1alpha1_ServiceInstanceSpec (Convert_v1alpha1_ServiceInstanceSpec_To_servicecatalog_ServiceInstanceSpec v) = v"
  "Convert_v1alpha1_ServiceInstanceSpec_To_servicecatalog_ServiceInstanceSpec (Convert_servicecatalog_ServiceInstanceSpec_To_v1alpha1_ServiceInstanceSpec x) = x"
  by (simp_all add: Convert_v1alpha1_ServiceInstanceSpec_To_servicecatalog_ServiceInstanceSpec_def Convert_servicecatalog_ServiceInstanceSpec_To_v1alpha1_ServiceInstanceSpec_def option.map_comp comp_def option.map_ident)

lemma convert_ServiceInstanceStatus:
  "Convert_servicecatalog_ServiceInstanceStatus_To_v1alpha1_ServiceInstanceStatus (Convert_v1alpha1_ServiceInstanceStatus_To_servicecatalog_ServiceInstanceStatus v) =
     v \<lparr> vist_Conditions := Some (slice_elements (vist_Conditions v)) \<rparr>"
  "Convert_v1alpha1_ServiceInstanceStatus_To_servicecatalog_ServiceInstanceStatus (Convert_servicecatalog_ServiceInstanceStatus_To_v1alpha1_ServiceInstanceStatus x) =
     x \<lparr> nist_Conditions := Some (slice_elements (nist_Conditions x)) \<rparr>"
  by (simp_all add: Convert_v1alpha1_ServiceInstanceStatus_To_servicecatalog_ServiceInstanceStatus_def Convert_servicecatalog_ServiceInstanceStatus_To_v1alpha1_ServiceInstanceStatus_def option.map_comp comp_def option.map_ident split: option.split)


lemma convert_ServiceInstance:
  "Convert_servicecatalog_ServiceInstance_To_v1alpha1_ServiceInstance (Convert_v1alpha1_ServiceInstance_To_servicecatalog_ServiceInstance v) =
     v \<lparr> vsi_Status := (vsi_Status (v)) \<lparr> vist_Conditions := Some (slice_elements (vist_Conditions (vsi_Status v))) \<rparr> \<rparr>"
  "Convert_v1alpha1_ServiceInstance_To_servicecatalog_ServiceInstance (Convert_servicecatalog_ServiceInstance_To_v1alpha1_ServiceInstance x) =
     x \<lparr> nsi_Status := (nsi_Status x) \<lparr> nist_Conditions := Some (slice_elements (nist_Conditions (nsi_Status x))) \<rparr> \<rparr>"
  by (simp_all add: convert_ServiceInstanceStatus Convert_v1alpha1_ServiceInstance_To_servicecatalog_ServiceInstance_def Convert_servicecatalog_ServiceInstance_To_v1alpha1_ServiceInstance_def option.map_comp comp_def option.map_ident)


lemma convert_ServiceInstanceCredentialPropertiesState [simp]:
  "Convert_servicecatalog_ServiceInstanceCredentialPropertiesState_To_v1alpha1_ServiceInstanceCredentialPropertiesState (Convert_v1alpha1_ServiceInstanceCredentialPropertiesState_To_servicecatalog_ServiceInstanceCredentialPropertiesState v) = v"
  "Convert_v1alpha1_ServiceInstanceCredentialPropertiesState_To_servicecatalog_ServiceInstanceCredentialPropertiesState (Convert_servicecatalog_ServiceInstanceCredentialPropertiesState_To_v1alpha1_ServiceInstanceCredentialPropertiesState x) = x"
  by (simp_all add: Convert_v1alpha1_ServiceInstanceCredentialPropertiesState_To_servicecatalog_ServiceInstanceCredentialPropertiesState_def Convert_servicecatalog_ServiceInstanceCredentialPropertiesState_To_v1alpha1_ServiceInstanceCredentialPropertiesState_def option.map_comp comp_def option.map_ident)

lemma convert_ServiceInstanceCredentialSpec [simp]:
  "Convert_servicecatalog_ServiceInstanceCredentialSpec_To_v1alpha1_ServiceInstanceCredentialSpec (Convert_v1alpha1_ServiceInstanceCredentialSpec_To_servicecatalog_ServiceInstanceCredentialSpec v) = v"
  "Convert_v1alpha1_ServiceInstanceCredentialSpec_To_servicecatalog_ServiceInstanceCredentialSpec (Convert_servicecatalog_ServiceInstanceCredentialSpec_To_v1alpha1_ServiceInstanceCredentialSpec x) = x"
  by (simp_all add: Convert_v1alpha1_ServiceInstanceCredentialSpec_To_servicecatalog_ServiceInstanceCredentialSpec_def Convert_servicecatalog_ServiceInstanceCredentialSpec_To_v1alpha1_ServiceInstanceCredentialSpec_def option.map_comp comp_def option.map_ident)

lemma convert_ServiceInstanceCredentialStatus:
  "Convert_servicecatalog_ServiceInstanceCredentialStatus_To_v1alpha1_ServiceInstanceCredentialStatus (Convert_v1alpha1_ServiceInstanceCredentialStatus_To_servicecatalog_ServiceInstanceCredentialStatus v) =
     v \<lparr> vcrst_Conditions := Some (slice_elements (vcrst_Conditions v)) \<rparr>"
  "Convert_v1alpha1_ServiceInstanceCredentialStatus_To_servicecatalog_ServiceInstanceCredentialStatus (Convert_servicecatalog_ServiceInstanceCredentialStatus_To_v1alpha1_ServiceInstanceCredentialStatus x) =
     x \<lparr> ncrst_Conditions := Some (slice_elements (ncrst_Conditions x)) \<rparr>"
  by (simp_all add: Convert_v1alpha1_ServiceInstanceCredentialStatus_To_servicecatalog_ServiceInstanceCredentialStatus_def Convert_servicecatalog_ServiceInstanceCredentialStatus_To_v1alpha1_ServiceInstanceCredentialStatus_def option.map_comp comp_def option.map_ident split: option.split)


lemma convert_ServiceInstanceCredential:
  "Convert_servicecatalog_ServiceInstanceCredential_To_v1alpha1_ServiceInstanceCredential (Convert_v1alpha1_ServiceInstanceCredential_To_servicecatalog_ServiceInstanceCredential v) =
     v \<lparr> vcr_Status := (vcr_Status (v)) \<lparr> vcrst_Conditions := Some (slice_elements (vcrst_Conditions (vcr_Status v))) \<rparr> \<rparr>"
  "Convert_v1alpha1_ServiceInstanceCredential_To_servicecatalog_ServiceInstanceCredential (Convert_servicecatalog_ServiceInstanceCredential_To_v1alpha1_ServiceInstanceCredential x) =
     x \<lparr> ncr_Status := (ncr_Status x) \<lparr> ncrst_Conditions := Some (slice_elements (ncrst_Conditions (ncr_Status x))) \<rparr> \<rparr>"
  by (simp_all add: convert_ServiceInstanceCredentialStatus Convert_v1alpha1_ServiceInstanceCredential_To_servicecatalog_ServiceInstanceCredential_def Convert_servicecatalog_ServiceInstanceCredential_To_v1alpha1_ServiceInstanceCredential_def option.map_comp comp_def option.map_ident)


section \<open>Properties\<close>



end
