(* ===== verification/SC_TypedClients.thy ===== *)
theory SC_TypedClients
  imports SC_Storage SC_Conversion
begin

text \<open>
  The generated typed clients of the five kinds, in the versioned and the internal client set, the fakes the
  tests use in their place, the request builder of \<open>client-go/rest\<close> that makes the path of a request, and the
  parser \<open>NewRequestInfo\<close> by which an API server reads it.  A client is the record of its operations, as the Go
  interface lists them; an operation gives the request that is sent, or the action that a fake records.
  Proved: what the server reads from the request of a client is what the fake records for the same call, up to
  four differences that are named, and it names an entry of the storage map of the API group, unless it is a
  patch of a subresource the kind does not have.
\<close>

section \<open>Paths\<close>

text \<open>\<open>path.Clean\<close> and \<open>path.Join\<close>.\<close>
fun clean_step :: "bool \<Rightarrow> string \<Rightarrow> string list \<Rightarrow> string list" where
  "clean_step rooted seg acc =
     (if seg = [] \<or> seg = ''.'' then acc
      else if seg = ''..'' then
        (if acc \<noteq> [] \<and> last acc \<noteq> ''..'' then butlast acc else if rooted then acc else acc @ [seg])
      else acc @ [seg])"

definition path_Clean :: "string \<Rightarrow> string" where
  "path_Clean p =
     (if p = [] then ''.''
      else let rooted = hd p = CHR ''/'';
               segs = fold (clean_step rooted) (split_on CHR ''/'' p) []
           in if rooted then ''/'' @ join_with ''/'' segs
              else if segs = [] then ''.'' else join_with ''/'' segs)"

definition path_Join :: "string list \<Rightarrow> string" where
  "path_Join elems = (case dropWhile (\<lambda>e. e = []) elems of [] \<Rightarrow> [] | es \<Rightarrow> path_Clean (join_with ''/'' es))"

text \<open>\<open>strings.ToLower\<close> on a character of the ASCII range.\<close>
definition to_lower :: "char \<Rightarrow> char" where
  "to_lower c = (if is_upper c then char_of (of_char c + (32 :: nat)) else c)"

section \<open>Requests\<close>

datatype 'a request_body = ObjectBody 'a | OptionsBody delete_options | PatchBody string string

record 'a rest_Request =
  rr_verb :: string
  rr_pathPrefix :: string
  rr_namespaceSet :: bool
  rr_namespace :: string
  rr_resource :: string
  rr_resourceName :: string
  rr_subresource :: string
  rr_params :: "(string \<times> string) list"
  rr_body :: "'a request_body option"
  rr_err :: "go_error option"

text \<open>The path prefix is the one of \<open>setConfigDefaults\<close>.\<close>
definition NewRequest :: "string \<Rightarrow> 'a rest_Request" where
  "NewRequest verb = \<lparr> rr_verb = verb, rr_pathPrefix = ''/apis/servicecatalog.k8s.io/v1alpha1'', rr_namespaceSet = False,
     rr_namespace = [], rr_resource = [], rr_resourceName = [], rr_subresource = [], rr_params = [], rr_body = None, rr_err = None \<rparr>"

definition req_fail :: "string \<Rightarrow> 'a rest_Request \<Rightarrow> 'a rest_Request" where
  "req_fail msg r = r \<lparr> rr_err := Some (PlainError msg) \<rparr>"

definition req_Namespace :: "string \<Rightarrow> 'a rest_Request \<Rightarrow> 'a rest_Request" where
  "req_Namespace namespace r =
     (if rr_err r \<noteq> None then r
      else if rr_namespaceSet r then req_fail ''namespace already set'' r
      else if ValidatePathSegmentName namespace \<noteq> [] then req_fail ''invalid namespace'' r
      else r \<lparr> rr_namespaceSet := True, rr_namespace := namespace \<rparr>)"

definition req_Resource :: "string \<Rightarrow> 'a rest_Request \<Rightarrow> 'a rest_Request" where
  "req_Resource resource r =
     (if rr_err r \<noteq> None then r
      else if rr_resource r \<noteq> [] then req_fail ''resource already set'' r
      else if ValidatePathSegmentName resource \<noteq> [] then req_fail ''invalid resource'' r
      else r \<lparr> rr_resource := resource \<rparr>)"

definition req_SubResource :: "string list \<Rightarrow> 'a rest_Request \<Rightarrow> 'a rest_Request" where
  "req_SubResource subresources r =
     (if rr_err r \<noteq> None then r
      else if rr_subresource r \<noteq> [] then req_fail ''subresource already set'' r
      else if \<exists>s \<in> set subresources. ValidatePathSegmentName s \<noteq> [] then req_fail ''invalid subresource'' r
      else r \<lparr> rr_subresource := path_Join subresources \<rparr>)"

definition req_Name :: "string \<Rightarrow> 'a rest_Request \<Rightarrow> 'a rest_Request" where
  "req_Name resourceName r =
     (if rr_err r \<noteq> None then r
      else if resourceName = [] then req_fail ''resource name may not be empty'' r
      else if rr_resourceName r \<noteq> [] then req_fail ''resource name already set'' r
      else if ValidatePathSegmentName resourceName \<noteq> [] then req_fail ''invalid resource name'' r
      else r \<lparr> rr_resourceName := resourceName \<rparr>)"

text \<open>A nil object leaves the request as it is; encoding does not fail here.\<close>
definition req_Body :: "'a request_body option \<Rightarrow> 'a rest_Request \<Rightarrow> 'a rest_Request" where
  "req_Body obj r = (if rr_err r \<noteq> None \<or> obj = None then r else r \<lparr> rr_body := obj \<rparr>)"

text \<open>One parameter; a field selector is parsed and printed again.  The group has no field mappings.\<close>
definition add_param :: "string \<times> string \<Rightarrow> 'a rest_Request \<Rightarrow> 'a rest_Request" where
  "add_param kv r =
     (if rr_err r \<noteq> None then r
      else if fst kv \<in> {''labelSelector'', ''fieldSelector''} \<and> snd kv = [] then r
      else if fst kv = ''fieldSelector'' then
        (case parseSelector (\<lambda>f v. Inr (f, v)) (snd kv) of
           Inl e \<Rightarrow> req_fail ''unparsable field selector'' r
         | Inr sel \<Rightarrow> r \<lparr> rr_params := rr_params r @ [(fst kv, selector_String sel)] \<rparr>)
      else r \<lparr> rr_params := rr_params r @ [kv] \<rparr>)"

definition req_VersionedParams :: "(string \<times> string) list \<Rightarrow> 'a rest_Request \<Rightarrow> 'a rest_Request" where
  "req_VersionedParams params r = fold add_param params r"

definition URL_path :: "'a rest_Request \<Rightarrow> string" where
  "URL_path r =
     (let p = rr_pathPrefix r;
          p = (if rr_namespaceSet r \<and> rr_namespace r \<noteq> [] then path_Join [p, ''namespaces'', rr_namespace r] else p);
          p = (if rr_resource r \<noteq> [] then path_Join [p, map to_lower (rr_resource r)] else p)
      in if rr_resourceName r \<noteq> [] \<or> rr_subresource r \<noteq> [] then path_Join [p, rr_resourceName r, rr_subresource r] else p)"

record ListOptions =
  lo_LabelSelector :: string
  lo_FieldSelector :: string
  lo_IncludeUninitialized :: bool
  lo_Watch :: bool
  lo_ResourceVersion :: string
  lo_TimeoutSeconds :: "int option"

record GetOptions =
  go_ResourceVersion :: string
  go_IncludeUninitialized :: bool

text \<open>The parameters of the options; an empty field is left out.\<close>
definition ListOptions_params :: "ListOptions \<Rightarrow> (string \<times> string) list" where
  "ListOptions_params o' =
     (if lo_LabelSelector o' = [] then [] else [(''labelSelector'', lo_LabelSelector o')]) @
     (if lo_FieldSelector o' = [] then [] else [(''fieldSelector'', lo_FieldSelector o')]) @
     (if lo_IncludeUninitialized o' then [(''includeUninitialized'', ''true'')] else []) @
     (if lo_Watch o' then [(''watch'', ''true'')] else []) @
     (if lo_ResourceVersion o' = [] then [] else [(''resourceVersion'', lo_ResourceVersion o')]) @
     (case lo_TimeoutSeconds o' of None \<Rightarrow> [] | Some t \<Rightarrow> [(''timeoutSeconds'', show_int t)])"

definition GetOptions_params :: "GetOptions \<Rightarrow> (string \<times> string) list" where
  "GetOptions_params o' =
     (if go_ResourceVersion o' = [] then [] else [(''resourceVersion'', go_ResourceVersion o')]) @
     (if go_IncludeUninitialized o' then [(''includeUninitialized'', ''true'')] else [])"

section \<open>The interface of a client\<close>

text \<open>\<open>UpdateStatus\<close> exists for the kinds with a status, \<open>UpdateReferences\<close> for instances only.\<close>
record ('o, 'r) typed_client =
  tc_Create :: "'o \<Rightarrow> 'r"
  tc_Update :: "'o \<Rightarrow> 'r"
  tc_UpdateStatus :: "('o \<Rightarrow> 'r) option"
  tc_UpdateReferences :: "('o \<Rightarrow> 'r) option"
  tc_Delete :: "string \<Rightarrow> delete_options option \<Rightarrow> 'r"
  tc_DeleteCollection :: "delete_options option \<Rightarrow> ListOptions \<Rightarrow> 'r"
  tc_Get :: "string \<Rightarrow> GetOptions \<Rightarrow> 'r"
  tc_List :: "ListOptions \<Rightarrow> 'r"
  tc_Watch :: "ListOptions \<Rightarrow> 'r"
  tc_Patch :: "string \<Rightarrow> string \<Rightarrow> string \<Rightarrow> string list \<Rightarrow> 'r"

section \<open>Recorded actions\<close>

text \<open>\<open>client-go/testing\<close>: an action names an object or carries it, and lists are restricted by selectors.\<close>
record GroupVersionResource =
  gvr_Group :: string
  gvr_Version :: string
  gvr_Resource :: string

record 'a fake_action =
  fa_Verb :: string
  fa_Resource :: GroupVersionResource
  fa_Namespace :: string
  fa_Subresource :: string
  fa_Name :: string
  fa_Object :: "'a option"
  fa_Fields :: "field_selector option"
  fa_Patch :: string

definition NewAction :: "string \<Rightarrow> GroupVersionResource \<Rightarrow> string \<Rightarrow> 'a fake_action" where
  "NewAction verb resource namespace = \<lparr> fa_Verb = verb, fa_Resource = resource, fa_Namespace = namespace,
     fa_Subresource = [], fa_Name = [], fa_Object = None, fa_Fields = None, fa_Patch = [] \<rparr>"

text \<open>The field selector of \<open>ExtractFromListOptions\<close>.\<close>
definition ExtractFields :: "ListOptions \<Rightarrow> field_selector" where
  "ExtractFields opts = (case parseSelector (\<lambda>f v. Inr (f, v)) (lo_FieldSelector opts) of Inl _ \<Rightarrow> andTerm [] | Inr sel \<Rightarrow> sel)"

definition NewCreateAction :: "GroupVersionResource \<Rightarrow> string \<Rightarrow> 'a \<Rightarrow> 'a fake_action" where
  "NewCreateAction resource namespace x = (NewAction ''create'' resource namespace) \<lparr> fa_Object := Some x \<rparr>"

definition NewUpdateAction :: "GroupVersionResource \<Rightarrow> string \<Rightarrow> 'a \<Rightarrow> 'a fake_action" where
  "NewUpdateAction resource namespace x = (NewAction ''update'' resource namespace) \<lparr> fa_Object := Some x \<rparr>"

definition NewUpdateSubresourceAction :: "GroupVersionResource \<Rightarrow> string \<Rightarrow> string \<Rightarrow> 'a \<Rightarrow> 'a fake_action" where
  "NewUpdateSubresourceAction resource subresource namespace x =
     (NewAction ''update'' resource namespace) \<lparr> fa_Subresource := subresource, fa_Object := Some x \<rparr>"

definition NewDeleteAction :: "GroupVersionResource \<Rightarrow> string \<Rightarrow> string \<Rightarrow> 'a fake_action" where
  "NewDeleteAction resource namespace name = (NewAction ''delete'' resource namespace) \<lparr> fa_Name := name \<rparr>"

definition NewDeleteCollectionAction :: "GroupVersionResource \<Rightarrow> string \<Rightarrow> ListOptions \<Rightarrow> 'a fake_action" where
  "NewDeleteCollectionAction resource namespace opts =
     (NewAction ''delete-collection'' resource namespace) \<lparr> fa_Fields := Some (ExtractFields opts) \<rparr>"

definition NewGetAction :: "GroupVersionResource \<Rightarrow> string \<Rightarrow> string \<Rightarrow> 'a fake_action" where
  "NewGetAction resource namespace name = (NewAction ''get'' resource namespace) \<lparr> fa_Name := name \<rparr>"

definition NewListAction :: "GroupVersionResource \<Rightarrow> string \<Rightarrow> ListOptions \<Rightarrow> 'a fake_action" where
  "NewListAction resource namespace opts = (NewAction ''list'' resource namespace) \<lparr> fa_Fields := Some (ExtractFields opts) \<rparr>"

definition NewWatchAction :: "GroupVersionResource \<Rightarrow> string \<Rightarrow> ListOptions \<Rightarrow> 'a fake_action" where
  "NewWatchAction resource namespace opts = (NewAction ''watch'' resource namespace) \<lparr> fa_Fields := Some (ExtractFields opts) \<rparr>"

definition NewPatchSubresourceAction :: "GroupVersionResource \<Rightarrow> string \<Rightarrow> string \<Rightarrow> string \<Rightarrow> string list \<Rightarrow> 'a fake_action" where
  "NewPatchSubresourceAction resource namespace name patch subresources =
     (NewAction ''patch'' resource namespace) \<lparr> fa_Subresource := path_Join subresources, fa_Name := name, fa_Patch := patch \<rparr>"

text \<open>The actions on kinds without namespace leave it empty.\<close>
abbreviation "NewRootCreateAction resource \<equiv> NewCreateAction resource []"
abbreviation "NewRootUpdateAction resource \<equiv> NewUpdateAction resource []"
abbreviation "NewRootUpdateSubresourceAction resource sub \<equiv> NewUpdateSubresourceAction resource sub []"
abbreviation "NewRootDeleteAction resource \<equiv> NewDeleteAction resource []"
abbreviation "NewRootDeleteCollectionAction resource \<equiv> NewDeleteCollectionAction resource []"
abbreviation "NewRootGetAction resource \<equiv> NewGetAction resource []"
abbreviation "NewRootListAction resource \<equiv> NewListAction resource []"
abbreviation "NewRootWatchAction resource \<equiv> NewWatchAction resource []"
abbreviation "NewRootPatchSubresourceAction resource \<equiv> NewPatchSubresourceAction resource []"

section \<open>The clients of the versioned types\<close>

definition clusterServiceBrokers :: "(v1_ClusterServiceBroker, v1_ClusterServiceBroker rest_Request) typed_client" where
  "clusterServiceBrokers =
     \<lparr> tc_Create = (\<lambda>x. req_Body (Some (ObjectBody x)) (req_Resource ''clusterservicebrokers'' (NewRequest ''POST''))),
       tc_Update = (\<lambda>x. req_Body (Some (ObjectBody x)) (req_Name (om_Name (vbk_Meta x)) (req_Resource ''clusterservicebrokers'' (NewRequest ''PUT'')))),
       tc_UpdateStatus = Some (\<lambda>x. req_Body (Some (ObjectBody x)) (req_SubResource [''status''] (req_Name (om_Name (vbk_Meta x)) (req_Resource ''clusterservicebrokers'' (NewRequest ''PUT''))))),
       tc_UpdateReferences = None,
       tc_Delete = (\<lambda>name options. req_Body (map_option OptionsBody options) (req_Name name (req_Resource ''clusterservicebrokers'' (NewRequest ''DELETE'')))),
       tc_DeleteCollection = (\<lambda>options listOptions. req_Body (map_option OptionsBody options)
         (req_VersionedParams (ListOptions_params listOptions) (req_Resource ''clusterservicebrokers'' (NewRequest ''DELETE'')))),
       tc_Get = (\<lambda>name options. req_VersionedParams (GetOptions_params options) (req_Name name (req_Resource ''clusterservicebrokers'' (NewRequest ''GET'')))),
       tc_List = (\<lambda>opts. req_VersionedParams (ListOptions_params opts) (req_Resource ''clusterservicebrokers'' (NewRequest ''GET''))),
       tc_Watch = (\<lambda>opts. req_VersionedParams (ListOptions_params (opts \<lparr> lo_Watch := True \<rparr>)) (req_Resource ''clusterservicebrokers'' (NewRequest ''GET''))),
       tc_Patch = (\<lambda>name pt data subresources. req_Body (Some (PatchBody pt data)) (req_Name name
         (req_SubResource subresources (req_Resource ''clusterservicebrokers'' (NewRequest ''PATCH''))))) \<rparr>"

definition serviceClasses :: "(v1_ServiceClass, v1_ServiceClass rest_Request) typed_client" where
  "serviceClasses =
     \<lparr> tc_Create = (\<lambda>x. req_Body (Some (ObjectBody x)) (req_Resource ''serviceclasses'' (NewRequest ''POST''))),
       tc_Update = (\<lambda>x. req_Body (Some (ObjectBody x)) (req_Name (om_Name (vsc_Meta x)) (req_Resource ''serviceclasses'' (NewRequest ''PUT'')))),
       tc_UpdateStatus = None,
       tc_UpdateReferences = None,
       tc_Delete = (\<lambda>name options. req_Body (map_option OptionsBody options) (req_Name name (req_Resource ''serviceclasses'' (NewRequest ''DELETE'')))),
       tc_DeleteCollection = (\<lambda>options listOptions. req_Body (map_option OptionsBody options)
         (req_VersionedParams (ListOptions_params listOptions) (req_Resource ''serviceclasses'' (NewRequest ''DELETE'')))),
       tc_Get = (\<lambda>name options. req_VersionedParams (GetOptions_params options) (req_Name name (req_Resource ''serviceclasses'' (NewRequest ''GET'')))),
       tc_List = (\<lambda>opts. req_VersionedParams (ListOptions_params opts) (req_Resource ''serviceclasses'' (NewRequest ''GET''))),
       tc_Watch = (\<lambda>opts. req_VersionedParams (ListOptions_params (opts \<lparr> lo_Watch := True \<rparr>)) (req_Resource ''serviceclasses'' (NewRequest ''GET''))),
       tc_Patch = (\<lambda>name pt data subresources. req_Body (Some (PatchBody pt data)) (req_Name name
         (req_SubResource subresources (req_Resource ''serviceclasses'' (NewRequest ''PATCH''))))) \<rparr>"

definition servicePlans :: "(v1_ServicePlan, v1_ServicePlan rest_Request) typed_client" where
  "servicePlans =
     \<lparr> tc_Create = (\<lambda>x. req_Body (Some (ObjectBody x)) (req_Resource ''serviceplans'' (NewRequest ''POST''))),
       tc_Update = (\<lambda>x. req_Body (Some (ObjectBody x)) (req_Name (om_Name (vsp_Meta x)) (req_Resource ''serviceplans'' (NewRequest ''PUT'')))),
       tc_UpdateStatus = None,
       tc_UpdateReferences = None,
       tc_Delete = (\<lambda>name options. req_Body (map_option OptionsBody options) (req_Name name (req_Resource ''serviceplans'' (NewRequest ''DELETE'')))),
       tc_DeleteCollection = (\<lambda>options listOptions. req_Body (map_option OptionsBody options)
         (req_VersionedParams (ListOptions_params listOptions) (req_Resource ''serviceplans'' (NewRequest ''DELETE'')))),
       tc_Get = (\<lambda>name options. req_VersionedParams (GetOptions_params options) (req_Name name (req_Resource ''serviceplans'' (NewRequest ''GET'')))),
       tc_List = (\<lambda>opts. req_VersionedParams (ListOptions_params opts) (req_Resource ''serviceplans'' (NewRequest ''GET''))),
       tc_Watch = (\<lambda>opts. req_VersionedParams (ListOptions_params (opts \<lparr> lo_Watch := True \<rparr>)) (req_Resource ''serviceplans'' (NewRequest ''GET''))),
       tc_Patch = (\<lambda>name pt data subresources. req_Body (Some (PatchBody pt data)) (req_Name name
         (req_SubResource subresources (req_Resource ''serviceplans'' (NewRequest ''PATCH''))))) \<rparr>"

definition serviceInstances :: "string \<Rightarrow> (v1_ServiceInstance, v1_ServiceInstance rest_Request) typed_client" where
  "serviceInstances ns =
     \<lparr> tc_Create = (\<lambda>x. req_Body (Some (ObjectBody x)) (req_Resource ''serviceinstances'' (req_Namespace ns (NewRequest ''POST'')))),
       tc_Update = (\<lambda>x. req_Body (Some (ObjectBody x)) (req_Name (om_Name (vsi_Meta x)) (req_Resource ''serviceinstances'' (req_Namespace ns (NewRequest ''PUT''))))),
       tc_UpdateStatus = Some (\<lambda>x. req_Body (Some (ObjectBody x)) (req_SubResource [''status''] (req_Name (om_Name (vsi_Meta x)) (req_Resource ''serviceinstances'' (req_Namespace ns (NewRequest ''PUT'')))))),
       tc_UpdateReferences = Some (\<lambda>x. req_Body (Some (ObjectBody x)) (req_SubResource [''reference''] (req_Name (om_Name (vsi_Meta x))
         (req_Resource ''serviceinstances'' (req_Namespace (om_Namespace (vsi_Meta x)) (NewRequest ''PUT'')))))),
       tc_Delete = (\<lambda>name options. req_Body (map_option OptionsBody options) (req_Name name (req_Resource ''serviceinstances'' (req_Namespace ns (NewRequest ''DELETE''))))),
       tc_DeleteCollection = (\<lambda>options listOptions. req_Body (map_option OptionsBody options)
         (req_VersionedParams (ListOptions_params listOptions) (req_Resource ''serviceinstances'' (req_Namespace ns (NewRequest ''DELETE''))))),
       tc_Get = (\<lambda>name options. req_VersionedParams (GetOptions_params options) (req_Name name (req_Resource ''serviceinstances'' (req_Namespace ns (NewRequest ''GET''))))),
       tc_List = (\<lambda>opts. req_VersionedParams (ListOptions_params opts) (req_Resource ''serviceinstances'' (req_Namespace ns (NewRequest ''GET'')))),
       tc_Watch = (\<lambda>opts. req_VersionedParams (ListOptions_params (opts \<lparr> lo_Watch := True \<rparr>)) (req_Resource ''serviceinstances'' (req_Namespace ns (NewRequest ''GET'')))),
       tc_Patch = (\<lambda>name pt data subresources. req_Body (Some (PatchBody pt data)) (req_Name name
         (req_SubResource subresources (req_Resource ''serviceinstances'' (req_Namespace ns (NewRequest ''PATCH'')))))) \<rparr>"

definition serviceInstanceCredentials :: "string \<Rightarrow> (v1_ServiceInstanceCredential, v1_ServiceInstanceCredential rest_Request) typed_client" where
  "serviceInstanceCredentials ns =
     \<lparr> tc_Create = (\<lambda>x. req_Body (Some (ObjectBody x)) (req_Resource ''serviceinstancecredentials'' (req_Namespace ns (NewRequest ''POST'')))),
       tc_Update = (\<lambda>x. req_Body (Some (ObjectBody x)) (req_Name (om_Name (vcr_Meta x)) (req_Resource ''serviceinstancecredentials'' (req_Namespace ns (NewRequest ''PUT''))))),
       tc_UpdateStatus = Some (\<lambda>x. req_Body (Some (ObjectBody x)) (req_SubResource [''status''] (req_Name (om_Name (vcr_Meta x)) (req_Resource ''serviceinstancecredentials'' (req_Namespace ns (NewRequest ''PUT'')))))),
       tc_UpdateReferences = None,
       tc_Delete = (\<lambda>name options. req_Body (map_option OptionsBody options) (req_Name name (req_Resource ''serviceinstancecredentials'' (req_Namespace ns (NewRequest ''DELETE''))))),
       tc_DeleteCollection = (\<lambda>options listOptions. req_Body (map_option OptionsBody options)
         (req_VersionedParams (ListOptions_params listOptions) (req_Resource ''serviceinstancecredentials'' (req_Namespace ns (NewRequest ''DELETE''))))),
       tc_Get = (\<lambda>name options. req_VersionedParams (GetOptions_params options) (req_Name name (req_Resource ''serviceinstancecredentials'' (req_Namespace ns (NewRequest ''GET''))))),
       tc_List = (\<lambda>opts. req_VersionedParams (ListOptions_params opts) (req_Resource ''serviceinstancecredentials'' (req_Namespace ns (NewRequest ''GET'')))),
       tc_Watch = (\<lambda>opts. req_VersionedParams (ListOptions_params (opts \<lparr> lo_Watch := True \<rparr>)) (req_Resource ''serviceinstancecredentials'' (req_Namespace ns (NewRequest ''GET'')))),
       tc_Patch = (\<lambda>name pt data subresources. req_Body (Some (PatchBody pt data)) (req_Name name
         (req_SubResource subresources (req_Resource ''serviceinstancecredentials'' (req_Namespace ns (NewRequest ''PATCH'')))))) \<rparr>"

section \<open>The clients of the internal types\<close>

definition internal_clusterServiceBrokers :: "(ClusterServiceBroker, ClusterServiceBroker rest_Request) typed_client" where
  "internal_clusterServiceBrokers =
     \<lparr> tc_Create = (\<lambda>x. req_Body (Some (ObjectBody x)) (req_Resource ''clusterservicebrokers'' (NewRequest ''POST''))),
       tc_Update = (\<lambda>x. req_Body (Some (ObjectBody x)) (req_Name (om_Name (bk_Meta x)) (req_Resource ''clusterservicebrokers'' (NewRequest ''PUT'')))),
       tc_UpdateStatus = Some (\<lambda>x. req_Body (Some (ObjectBody x)) (req_SubResource [''status''] (req_Name (om_Name (bk_Meta x)) (req_Resource ''clusterservicebrokers'' (NewRequest ''PUT''))))),
       tc_UpdateReferences = None,
       tc_Delete = (\<lambda>name options. req_Body (map_option OptionsBody options) (req_Name name (req_Resource ''clusterservicebrokers'' (NewRequest ''DELETE'')))),
       tc_DeleteCollection = (\<lambda>options listOptions. req_Body (map_option OptionsBody options)
         (req_VersionedParams (ListOptions_params listOptions) (req_Resource ''clusterservicebrokers'' (NewRequest ''DELETE'')))),
       tc_Get = (\<lambda>name options. req_VersionedParams (GetOptions_params options) (req_Name name (req_Resource ''clusterservicebrokers'' (NewRequest ''GET'')))),
       tc_List = (\<lambda>opts. req_VersionedParams (ListOptions_params opts) (req_Resource ''clusterservicebrokers'' (NewRequest ''GET''))),
       tc_Watch = (\<lambda>opts. req_VersionedParams (ListOptions_params (opts \<lparr> lo_Watch := True \<rparr>)) (req_Resource ''clusterservicebrokers'' (NewRequest ''GET''))),
       tc_Patch = (\<lambda>name pt data subresources. req_Body (Some (PatchBody pt data)) (req_Name name
         (req_SubResource subresources (req_Resource ''clusterservicebrokers'' (NewRequest ''PATCH''))))) \<rparr>"

definition internal_serviceClasses :: "(ServiceClass, ServiceClass rest_Request) typed_client" where
  "internal_serviceClasses =
     \<lparr> tc_Create = (\<lambda>x. req_Body (Some (ObjectBody x)) (req_Resource ''serviceclasses'' (NewRequest ''POST''))),
       tc_Update = (\<lambda>x. req_Body (Some (ObjectBody x)) (req_Name (om_Name (sc_Meta x)) (req_Resource ''serviceclasses'' (NewRequest ''PUT'')))),
       tc_UpdateStatus = None,
       tc_UpdateReferences = None,
       tc_Delete = (\<lambda>name options. req_Body (map_option OptionsBody options) (req_Name name (req_Resource ''serviceclasses'' (NewRequest ''DELETE'')))),
       tc_DeleteCollection = (\<lambda>options listOptions. req_Body (map_option OptionsBody options)
         (req_VersionedParams (ListOptions_params listOptions) (req_Resource ''serviceclasses'' (NewRequest ''DELETE'')))),
       tc_Get = (\<lambda>name options. req_VersionedParams (GetOptions_params options) (req_Name name (req_Resource ''serviceclasses'' (NewRequest ''GET'')))),
       tc_List = (\<lambda>opts. req_VersionedParams (ListOptions_params opts) (req_Resource ''serviceclasses'' (NewRequest ''GET''))),
       tc_Watch = (\<lambda>opts. req_VersionedParams (ListOptions_params (opts \<lparr> lo_Watch := True \<rparr>)) (req_Resource ''serviceclasses'' (NewRequest ''GET''))),
       tc_Patch = (\<lambda>name pt data subresources. req_Body (Some (PatchBody pt data)) (req_Name name
         (req_SubResource subresources (req_Resource ''serviceclasses'' (NewRequest ''PATCH''))))) \<rparr>"

definition internal_servicePlans :: "(ServicePlan, ServicePlan rest_Request) typed_client" where
  "internal_servicePlans =
     \<lparr> tc_Create = (\<lambda>x. req_Body (Some (ObjectBody x)) (req_Resource ''serviceplans'' (NewRequest ''POST''))),
       tc_Update = (\<lambda>x. req_Body (Some (ObjectBody x)) (req_Name (om_Name (sp_Meta x)) (req_Resource ''serviceplans'' (NewRequest ''PUT'')))),
       tc_UpdateStatus = None,
       tc_UpdateReferences = None,
       tc_Delete = (\<lambda>name options. req_Body (map_option OptionsBody options) (req_Name name (req_Resource ''serviceplans'' (NewRequest ''DELETE'')))),
       tc_DeleteCollection = (\<lambda>options listOptions. req_Body (map_option OptionsBody options)
         (req_VersionedParams (ListOptions_params listOptions) (req_Resource ''serviceplans'' (NewRequest ''DELETE'')))),
       tc_Get = (\<lambda>name options. req_VersionedParams (GetOptions_params options) (req_Name name (req_Resource ''serviceplans'' (NewRequest ''GET'')))),
       tc_List = (\<lambda>opts. req_VersionedParams (ListOptions_params opts) (req_Resource ''serviceplans'' (NewRequest ''GET''))),
       tc_Watch = (\<lambda>opts. req_VersionedParams (ListOptions_params (opts \<lparr> lo_Watch := True \<rparr>)) (req_Resource ''serviceplans'' (NewRequest ''GET''))),
       tc_Patch = (\<lambda>name pt data subresources. req_Body (Some (PatchBody pt data)) (req_Name name
         (req_SubResource subresources (req_Resource ''serviceplans'' (NewRequest ''PATCH''))))) \<rparr>"

definition internal_serviceInstances :: "string \<Rightarrow> (ServiceInstance, ServiceInstance rest_Request) typed_client" where
  "internal_serviceInstances ns =
     \<lparr> tc_Create = (\<lambda>x. req_Body (Some (ObjectBody x)) (req_Resource ''serviceinstances'' (req_Namespace ns (NewRequest ''POST'')))),
       tc_Update = (\<lambda>x. req_Body (Some (ObjectBody x)) (req_Name (om_Name (si_Meta x)) (req_Resource ''serviceinstances'' (req_Namespace ns (NewRequest ''PUT''))))),
       tc_UpdateStatus = Some (\<lambda>x. req_Body (Some (ObjectBody x)) (req_SubResource [''status''] (req_Name (om_Name (si_Meta x)) (req_Resource ''serviceinstances'' (req_Namespace ns (NewRequest ''PUT'')))))),
       tc_UpdateReferences = None,
       tc_Delete = (\<lambda>name options. req_Body (map_option OptionsBody options) (req_Name name (req_Resource ''serviceinstances'' (req_Namespace ns (NewRequest ''DELETE''))))),
       tc_DeleteCollection = (\<lambda>options listOptions. req_Body (map_option OptionsBody options)
         (req_VersionedParams (ListOptions_params listOptions) (req_Resource ''serviceinstances'' (req_Namespace ns (NewRequest ''DELETE''))))),
       tc_Get = (\<lambda>name options. req_VersionedParams (GetOptions_params options) (req_Name name (req_Resource ''serviceinstances'' (req_Namespace ns (NewRequest ''GET''))))),
       tc_List = (\<lambda>opts. req_VersionedParams (ListOptions_params opts) (req_Resource ''serviceinstances'' (req_Namespace ns (NewRequest ''GET'')))),
       tc_Watch = (\<lambda>opts. req_VersionedParams (ListOptions_params (opts \<lparr> lo_Watch := True \<rparr>)) (req_Resource ''serviceinstances'' (req_Namespace ns (NewRequest ''GET'')))),
       tc_Patch = (\<lambda>name pt data subresources. req_Body (Some (PatchBody pt data)) (req_Name name
         (req_SubResource subresources (req_Resource ''serviceinstances'' (req_Namespace ns (NewRequest ''PATCH'')))))) \<rparr>"

definition internal_serviceInstanceCredentials :: "string \<Rightarrow> (ServiceInstanceCredential, ServiceInstanceCredential rest_Request) typed_client" where
  "internal_serviceInstanceCredentials ns =
     \<lparr> tc_Create = (\<lambda>x. req_Body (Some (ObjectBody x)) (req_Resource ''serviceinstancecredentials'' (req_Namespace ns (NewRequest ''POST'')))),
       tc_Update = (\<lambda>x. req_Body (Some (ObjectBody x)) (req_Name (om_Name (cr_Meta x)) (req_Resource ''serviceinstancecredentials'' (req_Namespace ns (NewRequest ''PUT''))))),
       tc_UpdateStatus = Some (\<lambda>x. req_Body (Some (ObjectBody x)) (req_SubResource [''status''] (req_Name (om_Name (cr_Meta x)) (req_Resource ''serviceinstancecredentials'' (req_Namespace ns (NewRequest ''PUT'')))))),
       tc_UpdateReferences = None,
       tc_Delete = (\<lambda>name options. req_Body (map_option OptionsBody options) (req_Name name (req_Resource ''serviceinstancecredentials'' (req_Namespace ns (NewRequest ''DELETE''))))),
       tc_DeleteCollection = (\<lambda>options listOptions. req_Body (map_option OptionsBody options)
         (req_VersionedParams (ListOptions_params listOptions) (req_Resource ''serviceinstancecredentials'' (req_Namespace ns (NewRequest ''DELETE''))))),
       tc_Get = (\<lambda>name options. req_VersionedParams (GetOptions_params options) (req_Name name (req_Resource ''serviceinstancecredentials'' (req_Namespace ns (NewRequest ''GET''))))),
       tc_List = (\<lambda>opts. req_VersionedParams (ListOptions_params opts) (req_Resource ''serviceinstancecredentials'' (req_Namespace ns (NewRequest ''GET'')))),
       tc_Watch = (\<lambda>opts. req_VersionedParams (ListOptions_params (opts \<lparr> lo_Watch := True \<rparr>)) (req_Resource ''serviceinstancecredentials'' (req_Namespace ns (NewRequest ''GET'')))),
       tc_Patch = (\<lambda>name pt data subresources. req_Body (Some (PatchBody pt data)) (req_Name name
         (req_SubResource subresources (req_Resource ''serviceinstancecredentials'' (req_Namespace ns (NewRequest ''PATCH'')))))) \<rparr>"

section \<open>The clients of the tests\<close>

definition clusterservicebrokersResource :: GroupVersionResource where
  "clusterservicebrokersResource = \<lparr> gvr_Group = ''servicecatalog.k8s.io'', gvr_Version = ''v1alpha1'', gvr_Resource = ''clusterservicebrokers'' \<rparr>"
definition internal_clusterservicebrokersResource :: GroupVersionResource where
  "internal_clusterservicebrokersResource = \<lparr> gvr_Group = ''servicecatalog.k8s.io'', gvr_Version = [], gvr_Resource = ''clusterservicebrokers'' \<rparr>"
definition serviceclassesResource :: GroupVersionResource where
  "serviceclassesResource = \<lparr> gvr_Group = ''servicecatalog.k8s.io'', gvr_Version = ''v1alpha1'', gvr_Resource = ''serviceclasses'' \<rparr>"
definition internal_serviceclassesResource :: GroupVersionResource where
  "internal_serviceclassesResource = \<lparr> gvr_Group = ''servicecatalog.k8s.io'', gvr_Version = [], gvr_Resource = ''serviceclasses'' \<rparr>"
definition serviceplansResource :: GroupVersionResource where
  "serviceplansResource = \<lparr> gvr_Group = ''servicecatalog.k8s.io'', gvr_Version = ''v1alpha1'', gvr_Resource = ''serviceplans'' \<rparr>"
definition internal_serviceplansResource :: GroupVersionResource where
  "internal_serviceplansResource = \<lparr> gvr_Group = ''servicecatalog.k8s.io'', gvr_Version = [], gvr_Resource = ''serviceplans'' \<rparr>"
definition serviceinstancesResource :: GroupVersionResource where
  "serviceinstancesResource = \<lparr> gvr_Group = ''servicecatalog.k8s.io'', gvr_Version = ''v1alpha1'', gvr_Resource = ''serviceinstances'' \<rparr>"
definition internal_serviceinstancesResource :: GroupVersionResource where
  "internal_serviceinstancesResource = \<lparr> gvr_Group = ''servicecatalog.k8s.io'', gvr_Version = [], gvr_Resource = ''serviceinstances'' \<rparr>"
definition serviceinstancecredentialsResource :: GroupVersionResource where
  "serviceinstancecredentialsResource = \<lparr> gvr_Group = ''servicecatalog.k8s.io'', gvr_Version = ''v1alpha1'', gvr_Resource = ''serviceinstancecredentials'' \<rparr>"
definition internal_serviceinstancecredentialsResource :: GroupVersionResource where
  "internal_serviceinstancecredentialsResource = \<lparr> gvr_Group = ''servicecatalog.k8s.io'', gvr_Version = [], gvr_Resource = ''serviceinstancecredentials'' \<rparr>"

definition FakeClusterServiceBrokers :: "(v1_ClusterServiceBroker, v1_ClusterServiceBroker fake_action) typed_client" where
  "FakeClusterServiceBrokers =
     \<lparr> tc_Create = (\<lambda>x. NewRootCreateAction clusterservicebrokersResource x),
       tc_Update = (\<lambda>x. NewRootUpdateAction clusterservicebrokersResource x),
       tc_UpdateStatus = Some (\<lambda>x. NewRootUpdateSubresourceAction clusterservicebrokersResource ''status'' x),
       tc_UpdateReferences = None,
       tc_Delete = (\<lambda>name options. NewRootDeleteAction clusterservicebrokersResource name),
       tc_DeleteCollection = (\<lambda>options listOptions. NewRootDeleteCollectionAction clusterservicebrokersResource listOptions),
       tc_Get = (\<lambda>name options. NewRootGetAction clusterservicebrokersResource name),
       tc_List = (\<lambda>opts. NewRootListAction clusterservicebrokersResource opts),
       tc_Watch = (\<lambda>opts. NewRootWatchAction clusterservicebrokersResource opts),
       tc_Patch = (\<lambda>name pt data subresources. NewRootPatchSubresourceAction clusterservicebrokersResource name data subresources) \<rparr>"

definition FakeServiceClasses :: "(v1_ServiceClass, v1_ServiceClass fake_action) typed_client" where
  "FakeServiceClasses =
     \<lparr> tc_Create = (\<lambda>x. NewRootCreateAction serviceclassesResource x),
       tc_Update = (\<lambda>x. NewRootUpdateAction serviceclassesResource x),
       tc_UpdateStatus = None,
       tc_UpdateReferences = None,
       tc_Delete = (\<lambda>name options. NewRootDeleteAction serviceclassesResource name),
       tc_DeleteCollection = (\<lambda>options listOptions. NewRootDeleteCollectionAction serviceclassesResource listOptions),
       tc_Get = (\<lambda>name options. NewRootGetAction serviceclassesResource name),
       tc_List = (\<lambda>opts. NewRootListAction serviceclassesResource opts),
       tc_Watch = (\<lambda>opts. NewRootWatchAction serviceclassesResource opts),
       tc_Patch = (\<lambda>name pt data subresources. NewRootPatchSubresourceAction serviceclassesResource name data subresources) \<rparr>"

definition FakeServicePlans :: "(v1_ServicePlan, v1_ServicePlan fake_action) typed_client" where
  "FakeServicePlans =
     \<lparr> tc_Create = (\<lambda>x. NewRootCreateAction serviceplansResource x),
       tc_Update = (\<lambda>x. NewRootUpdateAction serviceplansResource x),
       tc_UpdateStatus = None,
       tc_UpdateReferences = None,
       tc_Delete = (\<lambda>name options. NewRootDeleteAction serviceplansResource name),
       tc_DeleteCollection = (\<lambda>options listOptions. NewRootDeleteCollectionAction serviceplansResource listOptions),
       tc_Get = (\<lambda>name options. NewRootGetAction serviceplansResource name),
       tc_List = (\<lambda>opts. NewRootListAction serviceplansResource opts),
       tc_Watch = (\<lambda>opts. NewRootWatchAction serviceplansResource opts),
       tc_Patch = (\<lambda>name pt data subresources. NewRootPatchSubresourceAction serviceplansResource name data subresources) \<rparr>"

definition FakeServiceInstances :: "string \<Rightarrow> (v1_ServiceInstance, v1_ServiceInstance fake_action) typed_client" where
  "FakeServiceInstances ns =
     \<lparr> tc_Create = (\<lambda>x. NewCreateAction serviceinstancesResource ns x),
       tc_Update = (\<lambda>x. NewUpdateAction serviceinstancesResource ns x),
       tc_UpdateStatus = Some (\<lambda>x. NewUpdateSubresourceAction serviceinstancesResource ''status'' ns x),
       tc_UpdateReferences = Some (\<lambda>x. NewUpdateSubresourceAction serviceinstancesResource ''reference'' ns x),
       tc_Delete = (\<lambda>name options. NewDeleteAction serviceinstancesResource ns name),
       tc_DeleteCollection = (\<lambda>options listOptions. NewDeleteCollectionAction serviceinstancesResource ns listOptions),
       tc_Get = (\<lambda>name options. NewGetAction serviceinstancesResource ns name),
       tc_List = (\<lambda>opts. NewListAction serviceinstancesResource ns opts),
       tc_Watch = (\<lambda>opts. NewWatchAction serviceinstancesResource ns opts),
       tc_Patch = (\<lambda>name pt data subresources. NewPatchSubresourceAction serviceinstancesResource ns name data subresources) \<rparr>"

definition FakeServiceInstanceCredentials :: "string \<Rightarrow> (v1_ServiceInstanceCredential, v1_ServiceInstanceCredential fake_action) typed_client" where
  "FakeServiceInstanceCredentials ns =
     \<lparr> tc_Create = (\<lambda>x. NewCreateAction serviceinstancecredentialsResource ns x),
       tc_Update = (\<lambda>x. NewUpdateAction serviceinstancecredentialsResource ns x),
       tc_UpdateStatus = Some (\<lambda>x. NewUpdateSubresourceAction serviceinstancecredentialsResource ''status'' ns x),
       tc_UpdateReferences = None,
       tc_Delete = (\<lambda>name options. NewDeleteAction serviceinstancecredentialsResource ns name),
       tc_DeleteCollection = (\<lambda>options listOptions. NewDeleteCollectionAction serviceinstancecredentialsResource ns listOptions),
       tc_Get = (\<lambda>name options. NewGetAction serviceinstancecredentialsResource ns name),
       tc_List = (\<lambda>opts. NewListAction serviceinstancecredentialsResource ns opts),
       tc_Watch = (\<lambda>opts. NewWatchAction serviceinstancecredentialsResource ns opts),
       tc_Patch = (\<lambda>name pt data subresources. NewPatchSubresourceAction serviceinstancecredentialsResource ns name data subresources) \<rparr>"

definition internal_FakeClusterServiceBrokers :: "(ClusterServiceBroker, ClusterServiceBroker fake_action) typed_client" where
  "internal_FakeClusterServiceBrokers =
     \<lparr> tc_Create = (\<lambda>x. NewRootCreateAction internal_clusterservicebrokersResource x),
       tc_Update = (\<lambda>x. NewRootUpdateAction internal_clusterservicebrokersResource x),
       tc_UpdateStatus = Some (\<lambda>x. NewRootUpdateSubresourceAction internal_clusterservicebrokersResource ''status'' x),
       tc_UpdateReferences = None,
       tc_Delete = (\<lambda>name options. NewRootDeleteAction internal_clusterservicebrokersResource name),
       tc_DeleteCollection = (\<lambda>options listOptions. NewRootDeleteCollectionAction internal_clusterservicebrokersResource listOptions),
       tc_Get = (\<lambda>name options. NewRootGetAction internal_clusterservicebrokersResource name),
       tc_List = (\<lambda>opts. NewRootListAction internal_clusterservicebrokersResource opts),
       tc_Watch = (\<lambda>opts. NewRootWatchAction internal_clusterservicebrokersResource opts),
       tc_Patch = (\<lambda>name pt data subresources. NewRootPatchSubresourceAction internal_clusterservicebrokersResource name data subresources) \<rparr>"

definition internal_FakeServiceClasses :: "(ServiceClass, ServiceClass fake_action) typed_client" where
  "internal_FakeServiceClasses =
     \<lparr> tc_Create = (\<lambda>x. NewRootCreateAction internal_serviceclassesResource x),
       tc_Update = (\<lambda>x. NewRootUpdateAction internal_serviceclassesResource x),
       tc_UpdateStatus = None,
       tc_UpdateReferences = None,
       tc_Delete = (\<lambda>name options. NewRootDeleteAction internal_serviceclassesResource name),
       tc_DeleteCollection = (\<lambda>options listOptions. NewRootDeleteCollectionAction internal_serviceclassesResource listOptions),
       tc_Get = (\<lambda>name options. NewRootGetAction internal_serviceclassesResource name),
       tc_List = (\<lambda>opts. NewRootListAction internal_serviceclassesResource opts),
       tc_Watch = (\<lambda>opts. NewRootWatchAction internal_serviceclassesResource opts),
       tc_Patch = (\<lambda>name pt data subresources. NewRootPatchSubresourceAction internal_serviceclassesResource name data subresources) \<rparr>"

definition internal_FakeServicePlans :: "(ServicePlan, ServicePlan fake_action) typed_client" where
  "internal_FakeServicePlans =
     \<lparr> tc_Create = (\<lambda>x. NewRootCreateAction internal_serviceplansResource x),
       tc_Update = (\<lambda>x. NewRootUpdateAction internal_serviceplansResource x),
       tc_UpdateStatus = None,
       tc_UpdateReferences = None,
       tc_Delete = (\<lambda>name options. NewRootDeleteAction internal_serviceplansResource name),
       tc_DeleteCollection = (\<lambda>options listOptions. NewRootDeleteCollectionAction internal_serviceplansResource listOptions),
       tc_Get = (\<lambda>name options. NewRootGetAction internal_serviceplansResource name),
       tc_List = (\<lambda>opts. NewRootListAction internal_serviceplansResource opts),
       tc_Watch = (\<lambda>opts. NewRootWatchAction internal_serviceplansResource opts),
       tc_Patch = (\<lambda>name pt data subresources. NewRootPatchSubresourceAction internal_serviceplansResource name data subresources) \<rparr>"

definition internal_FakeServiceInstances :: "string \<Rightarrow> (ServiceInstance, ServiceInstance fake_action) typed_client" where
  "internal_FakeServiceInstances ns =
     \<lparr> tc_Create = (\<lambda>x. NewCreateAction internal_serviceinstancesResource ns x),
       tc_Update = (\<lambda>x. NewUpdateAction internal_serviceinstancesResource ns x),
       tc_UpdateStatus = Some (\<lambda>x. NewUpdateSubresourceAction internal_serviceinstancesResource ''status'' ns x),
       tc_UpdateReferences = None,
       tc_Delete = (\<lambda>name options. NewDeleteAction internal_serviceinstancesResource ns name),
       tc_DeleteCollection = (\<lambda>options listOptions. NewDeleteCollectionAction internal_serviceinstancesResource ns listOptions),
       tc_Get = (\<lambda>name options. NewGetAction internal_serviceinstancesResource ns name),
       tc_List = (\<lambda>opts. NewListAction internal_serviceinstancesResource ns opts),
       tc_Watch = (\<lambda>opts. NewWatchAction internal_serviceinstancesResource ns opts),
       tc_Patch = (\<lambda>name pt data subresources. NewPatchSubresourceAction internal_serviceinstancesResource ns name data subresources) \<rparr>"

definition internal_FakeServiceInstanceCredentials :: "string \<Rightarrow> (ServiceInstanceCredential, ServiceInstanceCredential fake_action) typed_client" where
  "internal_FakeServiceInstanceCredentials ns =
     \<lparr> tc_Create = (\<lambda>x. NewCreateAction internal_serviceinstancecredentialsResource ns x),
       tc_Update = (\<lambda>x. NewUpdateAction internal_serviceinstancecredentialsResource ns x),
       tc_UpdateStatus = Some (\<lambda>x. NewUpdateSubresourceAction internal_serviceinstancecredentialsResource ''status'' ns x),
       tc_UpdateReferences = None,
       tc_Delete = (\<lambda>name options. NewDeleteAction internal_serviceinstancecredentialsResource ns name),
       tc_DeleteCollection = (\<lambda>options listOptions. NewDeleteCollectionAction internal_serviceinstancecredentialsResource ns listOptions),
       tc_Get = (\<lambda>name options. NewGetAction internal_serviceinstancecredentialsResource ns name),
       tc_List = (\<lambda>opts. NewListAction internal_serviceinstancecredentialsResource ns opts),
       tc_Watch = (\<lambda>opts. NewWatchAction internal_serviceinstancecredentialsResource ns opts),
       tc_Patch = (\<lambda>name pt data subresources. NewPatchSubresourceAction internal_serviceinstancecredentialsResource ns name data subresources) \<rparr>"

section \<open>The server\<close>

record RequestInfo =
  ri_IsResourceRequest :: bool
  ri_Verb :: string
  ri_APIPrefix :: string
  ri_APIGroup :: string
  ri_APIVersion :: string
  ri_Namespace :: string
  ri_Resource :: string
  ri_Subresource :: string
  ri_Name :: string

definition splitPath :: "string \<Rightarrow> string list" where
  "splitPath path = (let path = dropWhile (\<lambda>c. c = CHR ''/'') (rev (dropWhile (\<lambda>c. c = CHR ''/'') (rev path)))
     in if path = [] then [] else split_on CHR ''/'' path)"

definition method_verb :: "string \<Rightarrow> string" where
  "method_verb m = (if m = ''POST'' then ''create'' else if m = ''GET'' \<or> m = ''HEAD'' then ''get'' else if m = ''PUT'' then ''update''
     else if m = ''PATCH'' then ''patch'' else if m = ''DELETE'' then ''delete'' else [])"

text \<open>The parts of the path after the version, for a request that is not of a special verb.\<close>
definition namespace_parts :: "string list \<Rightarrow> string \<times> string list" where
  "namespace_parts parts =
     (case parts of
        p # namespace # rest \<Rightarrow>
          if p = ''namespaces'' then
            (namespace, if rest \<noteq> [] \<and> hd rest \<notin> {''status'', ''finalize''} then rest else parts)
          else ([], parts)
      | _ \<Rightarrow> ([], parts))"

definition list_verb :: "string \<Rightarrow> string \<Rightarrow> string \<Rightarrow> string" where
  "list_verb name watch verb =
     (if name \<noteq> [] then verb
      else if verb = ''get'' then (if map to_lower watch \<in> {''false'', ''0'', ''''} then ''list'' else ''watch'')
      else if verb = ''delete'' then ''deletecollection'' else verb)"

text \<open>The prefixes are those of the generic API server: \<open>api\<close> and \<open>apis\<close>, the first without a group.\<close>
definition NewRequestInfo :: "string \<Rightarrow> string \<Rightarrow> string \<Rightarrow> go_error + RequestInfo" where
  "NewRequestInfo meth path watch =
     (let info = \<lparr> ri_IsResourceRequest = False, ri_Verb = map to_lower meth, ri_APIPrefix = [], ri_APIGroup = [], ri_APIVersion = [],
            ri_Namespace = [], ri_Resource = [], ri_Subresource = [], ri_Name = [] \<rparr>;
          parts = splitPath path
      in if length parts < 3 \<or> hd parts \<notin> {''api'', ''apis''} then Inr info
      else let info = info \<lparr> ri_APIPrefix := hd parts \<rparr>; groupless = hd parts = ''api''; parts = tl parts
      in if \<not> groupless \<and> length parts < 3 then Inr info
      else let info = (if groupless then info else info \<lparr> ri_APIGroup := hd parts \<rparr>);
               parts = (if groupless then parts else tl parts);
               info = info \<lparr> ri_IsResourceRequest := True, ri_APIVersion := hd parts \<rparr>;
               parts = tl parts;
               special = hd parts \<in> {''proxy'', ''redirect'', ''watch''}
      in if special \<and> length parts < 2 then Inl (PlainError ''unable to determine kind and namespace from url'')
      else let verb = (if special then hd parts else method_verb meth);
               parts = (if special then tl parts else parts);
               (namespace, parts) = namespace_parts parts;
               name = (if 2 \<le> length parts then parts ! 1 else []);
               subresource = (if 3 \<le> length parts \<and> verb \<notin> {''proxy'', ''redirect''} then parts ! 2 else [])
      in Inr (info \<lparr> ri_Verb := list_verb name watch verb, ri_Namespace := namespace, ri_Resource := hd parts,
                     ri_Subresource := subresource, ri_Name := name \<rparr>))"

text \<open>What the server reads from the request of a client.\<close>
definition received :: "'a rest_Request \<Rightarrow> go_error + RequestInfo" where
  "received r = NewRequestInfo (rr_verb r) (URL_path r) (case map_of (rr_params r) ''watch'' of None \<Rightarrow> [] | Some v \<Rightarrow> v)"

section \<open>The storage map of the API group\<close>

datatype any_storage =
  is_BrokerStorage: BrokerStorage "ClusterServiceBroker registry_Store"
| is_ClassStorage: ClassStorage "ServiceClass registry_Store"
| is_PlanStorage: PlanStorage "ServicePlan registry_Store"
| is_InstanceStorage: InstanceStorage "ServiceInstance registry_Store"
| is_CredentialStorage: CredentialStorage "ServiceInstanceCredential registry_Store"

text \<open>\<open>getOptions\<close> is the options getter of the server: the resource prefix of a resource.  \<open>None\<close> is the panic of a
  \<open>NewStorage\<close>.\<close>
definition v1alpha1Storage ::
  "(string \<Rightarrow> go_error + string) \<Rightarrow> string \<Rightarrow> yaml_decoder \<Rightarrow> bool \<Rightarrow> (go_error + (string \<times> any_storage) list) option" where
  "v1alpha1Storage getOptions storageType yaml oi =
     (let opts = (\<lambda>prfx. \<lparr> opt_ResourcePrefix = prfx, opt_storageType = storageType \<rparr>);
          prefixes =
            bind_result (getOptions ''clusterservicebrokers'') (\<lambda>brokerPrefix.
            bind_result (getOptions ''serviceclasses'') (\<lambda>classPrefix.
            bind_result (getOptions ''serviceplans'') (\<lambda>planPrefix.
            bind_result (getOptions ''serviceinstances'') (\<lambda>instancePrefix.
            bind_result (getOptions ''serviceinstancecredentials'') (\<lambda>bindingPrefix.
              Inr (brokerPrefix, classPrefix, planPrefix, instancePrefix, bindingPrefix))))))
      in case prefixes of
        Inl e \<Rightarrow> Some (Inl e)
      | Inr (brokerPrefix, classPrefix, planPrefix, instancePrefix, bindingPrefix) \<Rightarrow>
          Option.bind (broker_NewStorage (opts brokerPrefix)) (\<lambda>(broker, brokerStatus).
          Option.bind (serviceclass_NewStorage (opts classPrefix)) (\<lambda>serviceClass.
          Option.bind (serviceplan_NewStorage (opts planPrefix)) (\<lambda>servicePlan.
          Option.bind (instance_NewStorage (opts instancePrefix) yaml oi) (\<lambda>(inst, instanceStatus, instanceReferences).
          Option.bind (binding_NewStorage (opts bindingPrefix) yaml oi) (\<lambda>(binding, bindingStatus).
          Some (Inr
            [(''clusterservicebrokers'', BrokerStorage broker), (''clusterservicebrokers/status'', BrokerStorage brokerStatus),
             (''serviceclasses'', ClassStorage serviceClass), (''serviceplans'', PlanStorage servicePlan),
             (''serviceinstances'', InstanceStorage inst), (''serviceinstances/status'', InstanceStorage instanceStatus),
             (''serviceinstances/reference'', InstanceStorage instanceReferences),
             (''serviceinstancecredentials'', CredentialStorage binding),
             (''serviceinstancecredentials/status'', CredentialStorage bindingStatus)])))))))"

text \<open>The entry that a request is served from.\<close>
definition storage_entry :: "RequestInfo \<Rightarrow> string" where
  "storage_entry info = ri_Resource info @ (if ri_Subresource info = [] then [] else ''/'' @ ri_Subresource info)"

section \<open>Calls\<close>

datatype 'o client_call =
  CallCreate 'o
| CallUpdate 'o
| CallUpdateStatus 'o
| CallUpdateReferences 'o
| CallDelete string "delete_options option"
| CallDeleteCollection "delete_options option" ListOptions
| CallGet string GetOptions
| CallList ListOptions
| CallWatch ListOptions
| CallPatch string string string "string list"

fun call :: "('o, 'r) typed_client \<Rightarrow> 'o client_call \<Rightarrow> 'r option" where
  "call c (CallCreate x) = Some (tc_Create c x)"
| "call c (CallUpdate x) = Some (tc_Update c x)"
| "call c (CallUpdateStatus x) = map_option (\<lambda>f. f x) (tc_UpdateStatus c)"
| "call c (CallUpdateReferences x) = map_option (\<lambda>f. f x) (tc_UpdateReferences c)"
| "call c (CallDelete name options) = Some (tc_Delete c name options)"
| "call c (CallDeleteCollection options opts) = Some (tc_DeleteCollection c options opts)"
| "call c (CallGet name options) = Some (tc_Get c name options)"
| "call c (CallList opts) = Some (tc_List c opts)"
| "call c (CallWatch opts) = Some (tc_Watch c opts)"
| "call c (CallPatch name pt data subs) = Some (tc_Patch c name pt data subs)"

text \<open>The first part of a subresource given in parts.\<close>
definition first_part :: "string list \<Rightarrow> string" where
  "first_part subs = (case filter (\<lambda>s. s \<noteq> []) subs of [] \<Rightarrow> [] | s # _ \<Rightarrow> s)"

text \<open>What a server reads where a fake records \<open>a\<close> for the call \<open>c\<close>.  There are four differences.  The server has its own
  name for the verb of a deletion of a collection; a list with the watch option is a watch; a reference update
  goes to the namespace of the object; and of a subresource given in several parts only the first is read.  An
  update names the object it carries.\<close>
definition action_read :: "('o \<Rightarrow> ObjectMeta) \<Rightarrow> 'o client_call \<Rightarrow> 'o fake_action \<Rightarrow> RequestInfo" where
  "action_read meta c a = \<lparr> ri_IsResourceRequest = True,
     ri_Verb = (case c of CallDeleteCollection _ _ \<Rightarrow> ''deletecollection''
       | CallList opts \<Rightarrow> if lo_Watch opts then ''watch'' else fa_Verb a | _ \<Rightarrow> fa_Verb a),
     ri_APIPrefix = ''apis'', ri_APIGroup = gvr_Group (fa_Resource a), ri_APIVersion = ''v1alpha1'',
     ri_Namespace = (case c of CallUpdateReferences x \<Rightarrow> om_Namespace (meta x) | _ \<Rightarrow> fa_Namespace a),
     ri_Resource = gvr_Resource (fa_Resource a),
     ri_Subresource = (case c of CallPatch _ _ _ subs \<Rightarrow> first_part subs | _ \<Rightarrow> fa_Subresource a),
     ri_Name = (if fa_Verb a = ''update'' then (case fa_Object a of Some x \<Rightarrow> om_Name (meta x) | None \<Rightarrow> []) else fa_Name a) \<rparr>"

section \<open>One client for all kinds\<close>

definition generic_client ::
  "bool \<Rightarrow> string \<Rightarrow> string \<Rightarrow> ('o \<Rightarrow> ObjectMeta) \<Rightarrow> bool \<Rightarrow> bool \<Rightarrow> ('o, 'o rest_Request) typed_client" where
  "generic_client namespaced ns res meta status refs =
     (let base = (\<lambda>verb. req_Resource res (if namespaced then req_Namespace ns (NewRequest verb) else NewRequest verb)) in
      \<lparr> tc_Create = (\<lambda>x. req_Body (Some (ObjectBody x)) (base ''POST'')),
        tc_Update = (\<lambda>x. req_Body (Some (ObjectBody x)) (req_Name (om_Name (meta x)) (base ''PUT''))),
        tc_UpdateStatus = (if status then Some (\<lambda>x. req_Body (Some (ObjectBody x))
          (req_SubResource [''status''] (req_Name (om_Name (meta x)) (base ''PUT'')))) else None),
        tc_UpdateReferences = (if refs then Some (\<lambda>x. req_Body (Some (ObjectBody x)) (req_SubResource [''reference'']
          (req_Name (om_Name (meta x)) (req_Resource res (req_Namespace (om_Namespace (meta x)) (NewRequest ''PUT'')))))) else None),
        tc_Delete = (\<lambda>name options. req_Body (map_option OptionsBody options) (req_Name name (base ''DELETE''))),
        tc_DeleteCollection = (\<lambda>options opts. req_Body (map_option OptionsBody options)
          (req_VersionedParams (ListOptions_params opts) (base ''DELETE''))),
        tc_Get = (\<lambda>name options. req_VersionedParams (GetOptions_params options) (req_Name name (base ''GET''))),
        tc_List = (\<lambda>opts. req_VersionedParams (ListOptions_params opts) (base ''GET'')),
        tc_Watch = (\<lambda>opts. req_VersionedParams (ListOptions_params (opts \<lparr> lo_Watch := True \<rparr>)) (base ''GET'')),
        tc_Patch = (\<lambda>name pt data subs. req_Body (Some (PatchBody pt data)) (req_Name name (req_SubResource subs (base ''PATCH'')))) \<rparr>)"

definition generic_fake ::
  "bool \<Rightarrow> string \<Rightarrow> GroupVersionResource \<Rightarrow> bool \<Rightarrow> bool \<Rightarrow> ('o, 'o fake_action) typed_client" where
  "generic_fake namespaced ns res status refs =
     \<lparr> tc_Create = NewCreateAction res ns, tc_Update = NewUpdateAction res ns,
       tc_UpdateStatus = (if status then Some (NewUpdateSubresourceAction res ''status'' ns) else None),
       tc_UpdateReferences = (if refs then Some (NewUpdateSubresourceAction res ''reference'' ns) else None),
       tc_Delete = (\<lambda>name options. NewDeleteAction res ns name),
       tc_DeleteCollection = (\<lambda>options. NewDeleteCollectionAction res ns),
       tc_Get = (\<lambda>name options. NewGetAction res ns name), tc_List = NewListAction res ns, tc_Watch = NewWatchAction res ns,
       tc_Patch = (\<lambda>name pt. NewPatchSubresourceAction res ns name) \<rparr>"


lemma clusterServiceBrokers_generic: "clusterServiceBrokers = generic_client False [] ''clusterservicebrokers'' vbk_Meta True False"
  by (simp add: clusterServiceBrokers_def generic_client_def)

lemma FakeClusterServiceBrokers_generic: "FakeClusterServiceBrokers = generic_fake False [] clusterservicebrokersResource True False"
  by (simp add: FakeClusterServiceBrokers_def generic_fake_def)

lemma serviceClasses_generic: "serviceClasses = generic_client False [] ''serviceclasses'' vsc_Meta False False"
  by (simp add: serviceClasses_def generic_client_def)

lemma FakeServiceClasses_generic: "FakeServiceClasses = generic_fake False [] serviceclassesResource False False"
  by (simp add: FakeServiceClasses_def generic_fake_def)

lemma servicePlans_generic: "servicePlans = generic_client False [] ''serviceplans'' vsp_Meta False False"
  by (simp add: servicePlans_def generic_client_def)

lemma FakeServicePlans_generic: "FakeServicePlans = generic_fake False [] serviceplansResource False False"
  by (simp add: FakeServicePlans_def generic_fake_def)

lemma serviceInstances_generic: "serviceInstances ns = generic_client True ns ''serviceinstances'' vsi_Meta True True"
  by (simp add: serviceInstances_def generic_client_def)

lemma FakeServiceInstances_generic: "FakeServiceInstances ns = generic_fake True ns serviceinstancesResource True True"
  by (simp add: FakeServiceInstances_def generic_fake_def)

lemma serviceInstanceCredentials_generic: "serviceInstanceCredentials ns = generic_client True ns ''serviceinstancecredentials'' vcr_Meta True False"
  by (simp add: serviceInstanceCredentials_def generic_client_def)

lemma FakeServiceInstanceCredentials_generic: "FakeServiceInstanceCredentials ns = generic_fake True ns serviceinstancecredentialsResource True False"
  by (simp add: FakeServiceInstanceCredentials_def generic_fake_def)

lemma internal_clusterServiceBrokers_generic: "internal_clusterServiceBrokers = generic_client False [] ''clusterservicebrokers'' bk_Meta True False"
  by (simp add: internal_clusterServiceBrokers_def generic_client_def)

lemma internal_FakeClusterServiceBrokers_generic: "internal_FakeClusterServiceBrokers = generic_fake False [] internal_clusterservicebrokersResource True False"
  by (simp add: internal_FakeClusterServiceBrokers_def generic_fake_def)

lemma internal_serviceClasses_generic: "internal_serviceClasses = generic_client False [] ''serviceclasses'' sc_Meta False False"
  by (simp add: internal_serviceClasses_def generic_client_def)

lemma internal_FakeServiceClasses_generic: "internal_FakeServiceClasses = generic_fake False [] internal_serviceclassesResource False False"
  by (simp add: internal_FakeServiceClasses_def generic_fake_def)

lemma internal_servicePlans_generic: "internal_servicePlans = generic_client False [] ''serviceplans'' sp_Meta False False"
  by (simp add: internal_servicePlans_def generic_client_def)

lemma internal_FakeServicePlans_generic: "internal_FakeServicePlans = generic_fake False [] internal_serviceplansResource False False"
  by (simp add: internal_FakeServicePlans_def generic_fake_def)

lemma internal_serviceInstances_generic: "internal_serviceInstances ns = generic_client True ns ''serviceinstances'' si_Meta True False"
  by (simp add: internal_serviceInstances_def generic_client_def)

lemma internal_FakeServiceInstances_generic: "internal_FakeServiceInstances ns = generic_fake True ns internal_serviceinstancesResource True False"
  by (simp add: internal_FakeServiceInstances_def generic_fake_def)

lemma internal_serviceInstanceCredentials_generic: "internal_serviceInstanceCredentials ns = generic_client True ns ''serviceinstancecredentials'' cr_Meta True False"
  by (simp add: internal_serviceInstanceCredentials_def generic_client_def)

lemma internal_FakeServiceInstanceCredentials_generic: "internal_FakeServiceInstanceCredentials ns = generic_fake True ns internal_serviceinstancecredentialsResource True False"
  by (simp add: internal_FakeServiceInstanceCredentials_def generic_fake_def)

section \<open>Paths are read back\<close>

lemma split_join_with: "ws \<noteq> [] \<Longrightarrow> \<forall>w \<in> set ws. d \<notin> set w \<Longrightarrow> split_on d (join_with [d] ws) = ws"
  by (induction ws rule: induct_list012) (auto simp: split_on_absent split_on_append)

lemma join_with_nest: "join_with sep (join_with sep (x # xs) # ys) = join_with sep (x # xs @ ys)"
proof (induction xs arbitrary: x)
  case (Cons y xs)
  then show ?case by (cases ys) simp_all
qed simp

lemma fold_clean:
  "\<forall>w \<in> set ws. w = [] \<or> path_name w \<Longrightarrow> fold (clean_step rooted) ws acc = acc @ filter (\<lambda>w. w \<noteq> []) ws"
  by (induction ws arbitrary: acc) (auto simp: path_name_def ValidatePathSegmentName_def split: if_splits)

definition abs_path :: "string list \<Rightarrow> string" where
  "abs_path segs = join_with ''/'' ([] # segs)"

lemma no_slash: "w = [] \<or> path_name w \<Longrightarrow> CHR ''/'' \<notin> set w"
  using path_name_segment by auto

lemma path_name_ends: "path_name s \<Longrightarrow> s \<noteq> [] \<and> CHR ''/'' \<notin> set s \<and> hd s \<noteq> CHR ''/'' \<and> last s \<noteq> CHR ''/''"
  by (metis path_name_segment hd_in_set last_in_set)

lemma abs_path_append: "segs \<noteq> [] \<Longrightarrow> join_with ''/'' (abs_path segs # rest) = abs_path (segs @ rest)"
  by (simp add: abs_path_def join_with_nest)

lemma path_Join_abs:
  assumes "segs \<noteq> []" "\<forall>w \<in> set segs. path_name w" "\<forall>w \<in> set rest. w = [] \<or> path_name w"
  shows "path_Join (abs_path segs # rest) = abs_path (segs @ filter (\<lambda>w. w \<noteq> []) rest)"
proof -
  have rooted: "abs_path ss = CHR ''/'' # join_with ''/'' ss" if "ss \<noteq> []" for ss
    using that by (cases ss) (simp_all add: abs_path_def)
  have "\<forall>w \<in> set ([] # segs @ rest). w = [] \<or> path_name w" using assms(2,3) by auto
  then have "split_on CHR ''/'' (abs_path (segs @ rest)) = [] # segs @ rest"
    unfolding abs_path_def by (intro split_join_with) (use no_slash in blast)+
  moreover have "fold (clean_step True) ([] # segs @ rest) [] = segs @ filter (\<lambda>w. w \<noteq> []) rest"
    using fold_clean[of "[] # segs @ rest" True "[]"] assms(2,3) by (auto simp: path_name_def filter_id_conv)
  ultimately show ?thesis
    using assms(1) rooted[of segs] rooted[of "segs @ rest"] rooted[of "segs @ filter (\<lambda>w. w \<noteq> []) rest"] abs_path_append[OF assms(1), of rest]
    by (simp add: path_Join_def path_Clean_def Let_def del: fold_append)
qed

lemma path_Join_segment: "path_name s \<Longrightarrow> path_Join [s] = s"
  using path_name_ends[of s] fold_clean[of "[s]" False "[]"]
  by (auto simp: path_Join_def path_Clean_def Let_def split_on_absent)

lemma join_with_last: "ys \<noteq> [] \<Longrightarrow> join_with sep (xs @ [join_with sep ys]) = join_with sep (xs @ ys)"
proof (induction xs)
  case (Cons x xs)
  obtain z zs where z: "xs @ ys = z # zs" "xs @ [join_with sep ys] \<noteq> []" using Cons.prems by (cases "xs @ ys") auto
  then obtain z' zs' where z': "xs @ [join_with sep ys] = z' # zs'" by (cases "xs @ [join_with sep ys]") auto
  have "join_with sep (z' # zs') = join_with sep (z # zs)" using Cons by (simp add: z(1) z')
  then show ?case by (simp add: z(1) z')
qed simp

lemma path_Join_joined:
  assumes "segs \<noteq> []"
  shows "path_Join [abs_path segs, name, join_with ''/'' subs] = path_Join (abs_path segs # name # (if subs = [] then [[]] else subs))"
proof -
  have "abs_path segs \<noteq> []" using assms by (cases segs) (simp_all add: abs_path_def)
  then show ?thesis using join_with_last[of subs "''/''" "[abs_path segs, name]"] by (simp add: path_Join_def)
qed

text \<open>The parts of a subresource are joined.\<close>
lemma path_Join_parts:
  assumes "\<forall>s \<in> set subs. s = [] \<or> path_name s"
  shows "path_Join subs = join_with ''/'' (filter (\<lambda>s. s \<noteq> []) subs)"
proof (cases "dropWhile (\<lambda>e. e = []) subs")
  case Nil
  then have "filter (\<lambda>s. s \<noteq> []) subs = []" by (simp add: filter_empty_conv)
  then show ?thesis unfolding path_Join_def Nil by simp
next
  case (Cons s ss)
  have "filter (\<lambda>s. s \<noteq> []) xs = filter (\<lambda>s. s \<noteq> []) (dropWhile (\<lambda>e. e = []) xs)" for xs :: "string list"
    by (induction xs) auto
  then have f: "filter (\<lambda>s. s \<noteq> []) subs = filter (\<lambda>s. s \<noteq> []) (s # ss)" using Cons by metis
  have parts: "\<forall>w \<in> set (s # ss). w = [] \<or> path_name w" using assms Cons set_dropWhileD[of _ "\<lambda>e. e = []" subs] by auto
  have s: "s \<noteq> []" using Cons hd_dropWhile[of "\<lambda>e. e = []" subs] by auto
  then have name: "path_name s" using parts by auto
  have "hd (join_with ''/'' (s # ss)) = hd s" "join_with ''/'' (s # ss) \<noteq> []" using s by (cases ss; simp)+
  moreover have "split_on CHR ''/'' (join_with ''/'' (s # ss)) = s # ss"
    by (rule split_join_with) (use parts no_slash in blast)+
  moreover have "fold (clean_step False) (s # ss) [] = filter (\<lambda>s. s \<noteq> []) (s # ss)" using fold_clean[OF parts] by simp
  ultimately show ?thesis
    using Cons s path_name_ends[OF name] by (simp add: path_Join_def path_Clean_def Let_def f del: fold_simps)
qed

lemma splitPath_abs:
  assumes "segs \<noteq> []" "\<forall>w \<in> set segs. path_name w"
  shows "splitPath (abs_path segs) = segs"
proof -
  let ?j = "join_with ''/'' segs"
  have ends: "ws \<noteq> [] \<Longrightarrow> \<forall>w \<in> set ws. path_name w \<Longrightarrow>
      join_with ''/'' ws \<noteq> [] \<and> hd (join_with ''/'' ws) \<noteq> CHR ''/'' \<and> last (join_with ''/'' ws) \<noteq> CHR ''/''" for ws
    by (induction ws rule: induct_list012) (auto dest!: path_name_ends simp: hd_append)
  have abs: "abs_path segs = CHR ''/'' # ?j" using assms(1) by (cases segs) (simp_all add: abs_path_def)
  have "dropWhile (\<lambda>c. c = CHR ''/'') (rev (abs_path segs)) = rev (abs_path segs)"
    using ends[OF assms] by (simp add: abs dropWhile_eq_self_iff hd_rev)
  moreover have "dropWhile (\<lambda>c. c = CHR ''/'') (abs_path segs) = ?j"
    using ends[OF assms] by (simp add: abs dropWhile_eq_self_iff)
  ultimately show ?thesis
    using ends[OF assms] split_join_with[OF assms(1), of "CHR ''/''"] assms(2) no_slash by (simp add: splitPath_def Let_def)
qed

section \<open>Requests are read back\<close>

text \<open>A resource name that is no part of the grammar of paths.\<close>
definition plain_resource :: "string \<Rightarrow> bool" where
  "plain_resource res \<longleftrightarrow> path_name res \<and> map to_lower res = res \<and>
     res \<notin> {''proxy'', ''redirect'', ''watch'', ''namespaces'', ''status'', ''finalize''}"

definition api_parts :: "string list" where
  "api_parts = [''apis'', ''servicecatalog.k8s.io'', ''v1alpha1'']"

definition opt_part :: "string \<Rightarrow> bool" where
  "opt_part s \<longleftrightarrow> s = [] \<or> path_name s"

lemma api_parts_path: "\<forall>w \<in> set api_parts. path_name w" "abs_path api_parts = ''/apis/servicecatalog.k8s.io/v1alpha1''"
  by (simp_all add: api_parts_def path_name_def ValidatePathSegmentName_def abs_path_def)

lemma URL_path_abs:
  assumes "rr_pathPrefix r = ''/apis/servicecatalog.k8s.io/v1alpha1''" "rr_resource r = res" "plain_resource res"
    and "rr_namespaceSet r \<or> rr_namespace r = []" "opt_part (rr_namespace r)" "opt_part (rr_resourceName r)"
    and "rr_subresource r = join_with ''/'' subs" "\<forall>s \<in> set subs. path_name s"
  shows "URL_path r = abs_path (api_parts @ (if rr_namespace r = [] then [] else [''namespaces'', rr_namespace r]) @ [res] @
    filter (\<lambda>w. w \<noteq> []) [rr_resourceName r] @ subs)"
proof -
  let ?ns = "if rr_namespace r = [] then [] else [''namespaces'', rr_namespace r]"
  have ns: "\<forall>w \<in> set ?ns. path_name w" and res: "path_name res" "res \<noteq> []" "map to_lower res = res"
    using assms(3,5) by (auto simp: opt_part_def plain_resource_def path_name_def ValidatePathSegmentName_def)
  have ne: "api_parts \<noteq> []" by (simp add: api_parts_def)
  have 1: "(if rr_namespaceSet r \<and> rr_namespace r \<noteq> [] then path_Join [rr_pathPrefix r, ''namespaces'', rr_namespace r] else rr_pathPrefix r) =
      abs_path (api_parts @ ?ns)"
  proof (cases "rr_namespace r = []")
    case False
    have "path_Join [abs_path api_parts, ''namespaces'', rr_namespace r] = abs_path (api_parts @ [''namespaces'', rr_namespace r])"
      using path_Join_abs[OF ne api_parts_path(1), of "[''namespaces'', rr_namespace r]"] ns False by simp
    then show ?thesis using assms(1,4) False by (simp add: api_parts_path(2))
  qed (simp add: assms(1) api_parts_path(2))
  have 2: "path_Join [abs_path (api_parts @ ?ns), res] = abs_path (api_parts @ ?ns @ [res])"
    using path_Join_abs[of "api_parts @ ?ns" "[res]"] api_parts_path(1) ns res ne by simp
  have sub: "path_Join [abs_path (api_parts @ ?ns @ [res]), rr_resourceName r, join_with ''/'' subs] =
      path_Join (abs_path (api_parts @ ?ns @ [res]) # rr_resourceName r # (if subs = [] then [[]] else subs))"
    by (rule path_Join_joined) simp
  have keep: "filter (\<lambda>w. w \<noteq> []) subs = subs" using assms(8) path_name_ends by (auto simp: filter_id_conv)
  have 3: "path_Join [abs_path (api_parts @ ?ns @ [res]), rr_resourceName r, join_with ''/'' subs] =
      abs_path (api_parts @ ?ns @ [res] @ filter (\<lambda>w. w \<noteq> []) [rr_resourceName r] @ subs)"
    unfolding sub
    using path_Join_abs[of "api_parts @ ?ns @ [res]" "rr_resourceName r # (if subs = [] then [[]] else subs)"] api_parts_path(1) ns res assms(6,8) ne keep
    unfolding opt_part_def by auto
  have none: "subs = [] \<longleftrightarrow> join_with ''/'' subs = []" using assms(8) path_name_ends by (cases subs; cases "tl subs") auto
  show ?thesis
    unfolding URL_path_def Let_def 1 assms(2,7) using res 2 3 none by auto
qed

text \<open>A path of the API group, seen after its prefix, group and version.\<close>
lemma NewRequestInfo_parts:
  assumes "splitPath path = ''apis'' # ''servicecatalog.k8s.io'' # ''v1alpha1'' # rest" "rest \<noteq> []" "hd rest \<notin> {''proxy'', ''redirect'', ''watch''}"
    and "namespace_parts rest = (ns, parts)" "method_verb meth \<notin> {''proxy'', ''redirect''}"
  shows "NewRequestInfo meth path watch =
    Inr \<lparr> ri_IsResourceRequest = True, ri_Verb = list_verb (if 2 \<le> length parts then parts ! 1 else []) watch (method_verb meth),
      ri_APIPrefix = ''apis'', ri_APIGroup = ''servicecatalog.k8s.io'', ri_APIVersion = ''v1alpha1'', ri_Namespace = ns,
      ri_Resource = hd parts, ri_Subresource = (if 3 \<le> length parts then parts ! 2 else []),
      ri_Name = (if 2 \<le> length parts then parts ! 1 else []) \<rparr>"
  using assms by (simp add: NewRequestInfo_def Let_def Suc_le_eq)

lemma namespaces_path_name: "path_name ''namespaces''"
  by (simp add: path_name_def ValidatePathSegmentName_def)

lemma NewRequestInfo_abs:
  assumes "plain_resource res" "opt_part ns" "opt_part name" "\<forall>s \<in> set subs. path_name s" "subs = [] \<or> name \<noteq> []"
  shows "NewRequestInfo meth (abs_path (api_parts @ (if ns = [] then [] else [''namespaces'', ns]) @ [res] @ filter (\<lambda>w. w \<noteq> []) [name] @ subs)) watch =
    Inr \<lparr> ri_IsResourceRequest = True, ri_Verb = list_verb name watch (method_verb meth), ri_APIPrefix = ''apis'',
      ri_APIGroup = ''servicecatalog.k8s.io'', ri_APIVersion = ''v1alpha1'', ri_Namespace = ns, ri_Resource = res,
      ri_Subresource = first_part subs, ri_Name = name \<rparr>"
proof -
  define tail where "tail = filter (\<lambda>w. w \<noteq> []) [name] @ subs"
  define rest where "rest = (if ns = [] then [] else [''namespaces'', ns]) @ [res] @ tail"
  have tail: "\<forall>w \<in> set tail. path_name w" using assms(3,4) by (auto simp: tail_def opt_part_def)
  then have "\<forall>w \<in> set rest. path_name w"
    using assms(1,2) namespaces_path_name by (auto simp: rest_def opt_part_def plain_resource_def)
  then have "\<forall>w \<in> set (api_parts @ rest). path_name w" using api_parts_path(1) by auto
  then have split: "splitPath (abs_path (api_parts @ rest)) = api_parts @ rest" by (rule splitPath_abs[rotated]) (simp add: rest_def)
  have verb: "method_verb meth \<notin> {''proxy'', ''redirect''}" by (simp add: method_verb_def)
  have res: "res \<notin> {''proxy'', ''redirect'', ''watch'', ''namespaces'', ''status'', ''finalize''}"
    using assms(1) by (simp add: plain_resource_def)
  have parts: "namespace_parts rest = (ns, res # tail)"
    using res by (cases tail) (auto simp: namespace_parts_def rest_def)
  have "rest \<noteq> []" "hd rest \<notin> {''proxy'', ''redirect'', ''watch''}" using res by (simp_all add: rest_def)
  from NewRequestInfo_parts[OF _ this parts verb, of "abs_path (api_parts @ rest)" watch] split
  have "NewRequestInfo meth (abs_path (api_parts @ rest)) watch =
    Inr \<lparr> ri_IsResourceRequest = True, ri_Verb = list_verb (if tail \<noteq> [] then hd tail else []) watch (method_verb meth), ri_APIPrefix = ''apis'',
      ri_APIGroup = ''servicecatalog.k8s.io'', ri_APIVersion = ''v1alpha1'', ri_Namespace = ns, ri_Resource = res,
      ri_Subresource = (if 2 \<le> length tail then tail ! 1 else []), ri_Name = (if tail \<noteq> [] then hd tail else []) \<rparr>"
    by (cases tail) (simp_all add: api_parts_def)
  moreover have "(if tail \<noteq> [] then hd tail else []) = name" "(if 2 \<le> length tail then tail ! 1 else []) = first_part subs"
    using assms(4,5) path_name_ends by (auto simp: tail_def first_part_def filter_id_conv split: list.split)
  ultimately show ?thesis unfolding rest_def tail_def by simp
qed

section \<open>The requests of the calls\<close>

lemma add_param_fields [simp]:
  "rr_verb (add_param kv r) = rr_verb r" "rr_pathPrefix (add_param kv r) = rr_pathPrefix r"
  "rr_namespaceSet (add_param kv r) = rr_namespaceSet r" "rr_namespace (add_param kv r) = rr_namespace r"
  "rr_resource (add_param kv r) = rr_resource r" "rr_resourceName (add_param kv r) = rr_resourceName r"
  "rr_subresource (add_param kv r) = rr_subresource r" "rr_body (add_param kv r) = rr_body r"
  by (auto simp: add_param_def req_fail_def split: sum.split)

lemma VersionedParams_fields [simp]:
  "rr_verb (req_VersionedParams ps r) = rr_verb r" "rr_pathPrefix (req_VersionedParams ps r) = rr_pathPrefix r"
  "rr_namespaceSet (req_VersionedParams ps r) = rr_namespaceSet r" "rr_namespace (req_VersionedParams ps r) = rr_namespace r"
  "rr_resource (req_VersionedParams ps r) = rr_resource r" "rr_resourceName (req_VersionedParams ps r) = rr_resourceName r"
  "rr_subresource (req_VersionedParams ps r) = rr_subresource r"
  unfolding req_VersionedParams_def by (induction ps arbitrary: r) simp_all

lemma add_param_err: "rr_err (add_param kv r) = None \<Longrightarrow> rr_err r = None"
  by (auto simp: add_param_def req_fail_def split: sum.splits if_splits)

lemma VersionedParams_err: "rr_err (req_VersionedParams ps r) = None \<Longrightarrow> rr_err r = None"
  unfolding req_VersionedParams_def by (induction ps arbitrary: r) (auto dest: add_param_err)

lemma add_param_watch: "rr_err (add_param kv r) = None \<Longrightarrow>
    map_of (rr_params (add_param kv r)) ''watch'' = (case map_of (rr_params r) ''watch'' of None \<Rightarrow> map_of [kv] ''watch'' | Some v \<Rightarrow> Some v)"
  by (cases kv) (auto simp: add_param_def req_fail_def map_add_Some_iff map_add_def split: sum.splits option.splits if_splits)

lemma VersionedParams_watch: "rr_err (req_VersionedParams ps r) = None \<Longrightarrow>
    map_of (rr_params (req_VersionedParams ps r)) ''watch'' =
      (case map_of (rr_params r) ''watch'' of None \<Rightarrow> map_of ps ''watch'' | Some v \<Rightarrow> Some v)"
proof (induction ps arbitrary: r)
  case (Cons kv ps)
  have run: "req_VersionedParams (kv # ps) r = req_VersionedParams ps (add_param kv r)" by (simp add: req_VersionedParams_def)
  have "rr_err (add_param kv r) = None" using Cons.prems unfolding run by (rule VersionedParams_err)
  from add_param_watch[OF this] Cons.IH[of "add_param kv r"] Cons.prems show ?case
    unfolding run by (cases kv) (auto split: option.splits)
qed (simp add: req_VersionedParams_def split: option.split)

lemma ListOptions_watch: "map_of (ListOptions_params opts) ''watch'' = (if lo_Watch opts then Some ''true'' else None)"
  by (simp add: ListOptions_params_def map_add_def split: option.split)

text \<open>A request that is sent has only valid parts.\<close>
definition sent_parts :: "string \<Rightarrow> string \<Rightarrow> string \<Rightarrow> string \<Rightarrow> string list \<Rightarrow> 'a rest_Request \<Rightarrow> bool" where
  "sent_parts verb ns res name subs r \<longleftrightarrow> rr_pathPrefix r = ''/apis/servicecatalog.k8s.io/v1alpha1'' \<and> rr_verb r = verb \<and>
     (rr_namespaceSet r \<or> rr_namespace r = []) \<and> rr_namespace r = ns \<and> rr_resource r = res \<and> rr_resourceName r = name \<and>
     rr_subresource r = join_with ''/'' subs \<and> opt_part ns \<and> opt_part name \<and> (\<forall>s \<in> set subs. path_name s)"

lemma received_sent:
  assumes "sent_parts verb ns res name subs r" "plain_resource res" "subs = [] \<or> name \<noteq> []"
  shows "received r = Inr \<lparr> ri_IsResourceRequest = True,
      ri_Verb = list_verb name (case map_of (rr_params r) ''watch'' of None \<Rightarrow> [] | Some v \<Rightarrow> v) (method_verb verb),
      ri_APIPrefix = ''apis'', ri_APIGroup = ''servicecatalog.k8s.io'', ri_APIVersion = ''v1alpha1'', ri_Namespace = ns,
      ri_Resource = res, ri_Subresource = first_part subs, ri_Name = name \<rparr>"
proof -
  have p: "rr_verb r = verb" "rr_namespace r = ns" "rr_resourceName r = name"
    using assms(1) by (simp_all add: sent_parts_def)
  have "URL_path r = abs_path (api_parts @ (if ns = [] then [] else [''namespaces'', ns]) @ [res] @ filter (\<lambda>w. w \<noteq> []) [name] @ subs)"
    unfolding p[symmetric] by (rule URL_path_abs) (use assms in \<open>auto simp: sent_parts_def\<close>)
  moreover have "opt_part ns" "opt_part name" "\<forall>s \<in> set subs. path_name s" using assms(1) by (simp_all add: sent_parts_def)
  ultimately show ?thesis unfolding received_def p(1) by (simp only: NewRequestInfo_abs[OF assms(2)] assms(3))
qed

lemma valid_part: "ValidatePathSegmentName s = [] \<Longrightarrow> opt_part s"
  by (simp add: opt_part_def path_name_def)

lemmas builder_defs = NewRequest_def req_Namespace_def req_Resource_def req_Name_def req_SubResource_def req_Body_def req_fail_def

text \<open>The requests without subresource, with and without name.\<close>
abbreviation base_request :: "bool \<Rightarrow> string \<Rightarrow> string \<Rightarrow> string \<Rightarrow> 'o rest_Request" where
  "base_request namespaced ns res verb \<equiv> req_Resource res (if namespaced then req_Namespace ns (NewRequest verb) else NewRequest verb)"

lemma base_sent:
  assumes "rr_err (base_request namespaced ns res verb :: 'o rest_Request) = None" "namespaced \<or> ns = []" "plain_resource res"
  shows "sent_parts verb ns res [] [] (base_request namespaced ns res verb :: 'o rest_Request) \<and>
    rr_params (base_request namespaced ns res verb :: 'o rest_Request) = []"
  using assms by (auto simp: builder_defs sent_parts_def opt_part_def path_name_def split: if_splits)

lemma Name_sent:
  assumes "rr_err (req_Name name r) = None" "sent_parts verb ns res [] subs r"
  shows "rr_err r = None \<and> sent_parts verb ns res name subs (req_Name name r) \<and> rr_params (req_Name name r) = rr_params r \<and> name \<noteq> []"
  using assms by (auto simp: req_Name_def req_fail_def sent_parts_def opt_part_def path_name_def split: if_splits)

lemma err_None:
  "rr_err (req_Name name r) = None \<Longrightarrow> rr_err r = None" "rr_err (req_SubResource subs r) = None \<Longrightarrow> rr_err r = None"
  "rr_err (req_Body b r) = rr_err r"
  by (auto simp: req_Name_def req_SubResource_def req_Body_def req_fail_def split: if_splits)

lemma Body_sent [simp]: "sent_parts verb ns res name subs (req_Body b r) = sent_parts verb ns res name subs r"
    "rr_params (req_Body b r) = rr_params r"
  by (simp_all add: req_Body_def sent_parts_def)

lemma VersionedParams_sent [simp]: "sent_parts verb ns res name subs (req_VersionedParams ps r) = sent_parts verb ns res name subs r"
  by (simp add: sent_parts_def)

lemma SubResource_sent:
  assumes "rr_err (req_SubResource subs r) = None" "sent_parts verb ns res name [] r"
  shows "sent_parts verb ns res name (filter (\<lambda>s. s \<noteq> []) subs) (req_SubResource subs r) \<and> rr_params (req_SubResource subs r) = rr_params r"
proof -
  have "rr_err r = None" using assms(1) by (rule err_None(2))
  moreover from this have parts: "\<forall>s \<in> set subs. s = [] \<or> path_name s"
    using assms by (auto simp: req_SubResource_def req_fail_def path_name_def sent_parts_def split: if_splits)
  ultimately show ?thesis
    using assms path_Join_parts[OF parts] by (auto simp: req_SubResource_def req_fail_def sent_parts_def split: if_splits)
qed

section \<open>Clients and fakes\<close>

text \<open>If a client sends a call, its fake records an action with the meaning the server gives to the request.\<close>
definition agrees_on ::
  "('o \<Rightarrow> ObjectMeta) \<Rightarrow> ('o, 'o rest_Request) typed_client \<Rightarrow> ('o, 'o fake_action) typed_client \<Rightarrow> 'o client_call \<Rightarrow> bool" where
  "agrees_on meta client fake c \<longleftrightarrow> (\<forall>r. call client c = Some r \<and> rr_err r = None \<longrightarrow>
     (\<exists>a. call fake c = Some a \<and> received r = Inr (action_read meta c a)))"

definition agrees ::
  "('o \<Rightarrow> ObjectMeta) \<Rightarrow> ('o, 'o rest_Request) typed_client \<Rightarrow> ('o, 'o fake_action) typed_client \<Rightarrow> bool" where
  "agrees meta client fake \<longleftrightarrow> (\<forall>c. agrees_on meta client fake c)"

lemma agrees_onI:
  assumes "call client c = Some r" "call fake c = Some a"
    and "rr_err r = None \<Longrightarrow> sent_parts verb ns res name subs r \<and> (subs = [] \<or> name \<noteq> [])" "plain_resource res"
    and "rr_err r = None \<Longrightarrow> action_read meta c a = \<lparr> ri_IsResourceRequest = True,
      ri_Verb = list_verb name (case map_of (rr_params r) ''watch'' of None \<Rightarrow> [] | Some v \<Rightarrow> v) (method_verb verb),
      ri_APIPrefix = ''apis'', ri_APIGroup = ''servicecatalog.k8s.io'', ri_APIVersion = ''v1alpha1'', ri_Namespace = ns,
      ri_Resource = res, ri_Subresource = first_part subs, ri_Name = name \<rparr>"
  shows "agrees_on meta client fake c"
  using assms received_sent[of verb ns res name subs r] by (auto simp: agrees_on_def)

lemma agrees_on_None: "call client c = None \<Longrightarrow> agrees_on meta client fake c"
  by (simp add: agrees_on_def)

lemmas action_defs = NewAction_def NewCreateAction_def NewUpdateAction_def NewUpdateSubresourceAction_def NewDeleteAction_def
  NewDeleteCollectionAction_def NewGetAction_def NewListAction_def NewWatchAction_def NewPatchSubresourceAction_def

lemma named_request:
  assumes "plain_resource res" "namespaced \<or> ns = []" "rr_err (req_Name name (base_request namespaced ns res verb) :: 'o rest_Request) = None"
  shows "sent_parts verb ns res name [] (req_Name name (base_request namespaced ns res verb) :: 'o rest_Request) \<and> name \<noteq> []"
  using Name_sent[OF assms(3)] base_sent[OF err_None(1)[OF assms(3)] assms(2,1)] by blast

lemma named_subresource:
  assumes "plain_resource res" "namespaced \<or> ns = []" "path_name sub"
    and "rr_err (req_SubResource [sub] (req_Name name (base_request namespaced ns res verb)) :: 'o rest_Request) = None"
  shows "sent_parts verb ns res name [sub] (req_SubResource [sub] (req_Name name (base_request namespaced ns res verb)) :: 'o rest_Request) \<and> name \<noteq> []"
  using SubResource_sent[OF assms(4) conjunct1[OF named_request[OF assms(1,2) err_None(2)[OF assms(4)]]]]
    named_request[OF assms(1,2) err_None(2)[OF assms(4)]] path_name_ends[OF assms(3)] by simp

lemma patched_subresource:
  assumes "plain_resource res" "namespaced \<or> ns = []"
    and "rr_err (req_Name name (req_SubResource subs (base_request namespaced ns res verb)) :: 'o rest_Request) = None"
  shows "sent_parts verb ns res name (filter (\<lambda>s. s \<noteq> []) subs) (req_Name name (req_SubResource subs (base_request namespaced ns res verb)) :: 'o rest_Request) \<and> name \<noteq> []"
  using Name_sent[OF assms(3) conjunct1[OF SubResource_sent[OF err_None(1)[OF assms(3)] conjunct1[OF base_sent[OF err_None(2)[OF err_None(1)[OF assms(3)]] assms(2,1)]]]]]
  by blast

lemma first_part_simps [simp]: "first_part [] = []" "s \<noteq> [] \<Longrightarrow> first_part [s] = s" "first_part (filter (\<lambda>s. s \<noteq> []) subs) = first_part subs"
  by (simp_all add: first_part_def)

lemmas meaning_defs = generic_client_def generic_fake_def Let_def action_defs action_read_def method_verb_def list_verb_def

lemma agrees_Create:
  fixes meta :: "'o \<Rightarrow> ObjectMeta"
  assumes res: "plain_resource res" and gvr: "gvr_Group gvr = ''servicecatalog.k8s.io''" "gvr_Resource gvr = res" and ns: "namespaced \<or> ns = []"
  shows "agrees_on meta (generic_client namespaced ns res meta status refs) (generic_fake namespaced ns gvr status refs) (CallCreate x)"
  by (rule agrees_onI[where r = "req_Body (Some (ObjectBody x)) (base_request namespaced ns res ''POST'')"
      and verb = "''POST''" and ns = ns and res = res and name = "[]" and subs = "[]"])
    (use base_sent[OF _ ns res, where 'o = 'o] res gvr in \<open>auto simp: meaning_defs err_None(3)\<close>)

lemma status_path_names: "path_name ''status''" "path_name ''reference''"
  by (simp_all add: path_name_def ValidatePathSegmentName_def)

lemma agrees_Update:
  fixes meta :: "'o \<Rightarrow> ObjectMeta"
  assumes res: "plain_resource res" and gvr: "gvr_Group gvr = ''servicecatalog.k8s.io''" "gvr_Resource gvr = res" and ns: "namespaced \<or> ns = []"
  shows "agrees_on meta (generic_client namespaced ns res meta status refs) (generic_fake namespaced ns gvr status refs) (CallUpdate x)"
  by (rule agrees_onI[where r = "req_Body (Some (ObjectBody x)) (req_Name (om_Name (meta x)) (base_request namespaced ns res ''PUT''))"
      and verb = "''PUT''" and ns = ns and res = res and name = "om_Name (meta x)" and subs = "[]"])
    (use named_request[OF res ns, where 'o = 'o] res gvr in \<open>auto simp: meaning_defs err_None(3)\<close>)

lemma agrees_UpdateStatus:
  fixes meta :: "'o \<Rightarrow> ObjectMeta"
  assumes res: "plain_resource res" and gvr: "gvr_Group gvr = ''servicecatalog.k8s.io''" "gvr_Resource gvr = res" and ns: "namespaced \<or> ns = []"
  shows "agrees_on meta (generic_client namespaced ns res meta status refs) (generic_fake namespaced ns gvr status refs) (CallUpdateStatus x)"
proof (cases status)
  case True
  show ?thesis
    by (rule agrees_onI[where r = "req_Body (Some (ObjectBody x)) (req_SubResource [''status''] (req_Name (om_Name (meta x)) (base_request namespaced ns res ''PUT'')))"
      and verb = "''PUT''" and ns = ns and res = res and name = "om_Name (meta x)" and subs = "[''status'']"])
      (use True named_subresource[OF res ns status_path_names(1), where 'o = 'o] res gvr in \<open>auto simp: meaning_defs err_None(3)\<close>)
qed (simp add: agrees_on_None generic_client_def Let_def)

lemma agrees_UpdateReferences:
  fixes meta :: "'o \<Rightarrow> ObjectMeta"
  assumes res: "plain_resource res" and gvr: "gvr_Group gvr = ''servicecatalog.k8s.io''" "gvr_Resource gvr = res" and ns: "namespaced \<or> ns = []"
  shows "agrees_on meta (generic_client namespaced ns res meta status refs) (generic_fake namespaced ns gvr status refs) (CallUpdateReferences x)"
proof (cases refs)
  case True
  show ?thesis
    by (rule agrees_onI[where r = "req_Body (Some (ObjectBody x)) (req_SubResource [''reference''] (req_Name (om_Name (meta x)) (base_request True (om_Namespace (meta x)) res ''PUT'')))"
      and verb = "''PUT''" and ns = "om_Namespace (meta x)" and res = res and name = "om_Name (meta x)" and subs = "[''reference'']"])
      (use True named_subresource[OF res _ status_path_names(2), where 'o = 'o and namespaced = True] res gvr in \<open>auto simp: meaning_defs err_None(3)\<close>)
qed (simp add: agrees_on_None generic_client_def Let_def)

lemma agrees_Delete:
  fixes meta :: "'o \<Rightarrow> ObjectMeta"
  assumes res: "plain_resource res" and gvr: "gvr_Group gvr = ''servicecatalog.k8s.io''" "gvr_Resource gvr = res" and ns: "namespaced \<or> ns = []"
  shows "agrees_on meta (generic_client namespaced ns res meta status refs) (generic_fake namespaced ns gvr status refs) (CallDelete name options)"
  by (rule agrees_onI[where r = "req_Body (map_option OptionsBody options) (req_Name name (base_request namespaced ns res ''DELETE''))"
      and verb = "''DELETE''" and ns = ns and res = res and name = "name" and subs = "[]"])
    (use named_request[OF res ns, where 'o = 'o] res gvr in \<open>auto simp: meaning_defs err_None(3)\<close>)

lemma agrees_DeleteCollection:
  fixes meta :: "'o \<Rightarrow> ObjectMeta"
  assumes res: "plain_resource res" and gvr: "gvr_Group gvr = ''servicecatalog.k8s.io''" "gvr_Resource gvr = res" and ns: "namespaced \<or> ns = []"
  shows "agrees_on meta (generic_client namespaced ns res meta status refs) (generic_fake namespaced ns gvr status refs) (CallDeleteCollection options opts)"
  by (rule agrees_onI[where r = "req_Body (map_option OptionsBody options) (req_VersionedParams (ListOptions_params opts) (base_request namespaced ns res ''DELETE''))"
      and verb = "''DELETE''" and ns = ns and res = res and name = "[]" and subs = "[]"])
    (use base_sent[OF VersionedParams_err ns res, where 'o = 'o] res gvr in \<open>auto simp: meaning_defs err_None(3)\<close>)

lemma agrees_Get:
  fixes meta :: "'o \<Rightarrow> ObjectMeta"
  assumes res: "plain_resource res" and gvr: "gvr_Group gvr = ''servicecatalog.k8s.io''" "gvr_Resource gvr = res" and ns: "namespaced \<or> ns = []"
  shows "agrees_on meta (generic_client namespaced ns res meta status refs) (generic_fake namespaced ns gvr status refs) (CallGet name options)"
  by (rule agrees_onI[where r = "req_VersionedParams (GetOptions_params options) (req_Name name (base_request namespaced ns res ''GET''))"
      and verb = "''GET''" and ns = ns and res = res and name = "name" and subs = "[]"])
    (use named_request[OF res ns VersionedParams_err, where 'o = 'o] res gvr in \<open>auto simp: meaning_defs err_None(3)\<close>)

lemma agrees_Patch:
  fixes meta :: "'o \<Rightarrow> ObjectMeta"
  assumes res: "plain_resource res" and gvr: "gvr_Group gvr = ''servicecatalog.k8s.io''" "gvr_Resource gvr = res" and ns: "namespaced \<or> ns = []"
  shows "agrees_on meta (generic_client namespaced ns res meta status refs) (generic_fake namespaced ns gvr status refs) (CallPatch name pt data subs)"
  by (rule agrees_onI[where r = "req_Body (Some (PatchBody pt data)) (req_Name name (req_SubResource subs (base_request namespaced ns res ''PATCH'')))"
      and verb = "''PATCH''" and ns = ns and res = res and name = "name" and subs = "filter (\<lambda>s. s \<noteq> []) subs"])
    (use patched_subresource[OF res ns, where 'o = 'o] res gvr in \<open>auto simp: meaning_defs err_None(3)\<close>)

lemma list_request_watch:
  assumes "plain_resource res" "namespaced \<or> ns = []"
    and "rr_err (req_VersionedParams (ListOptions_params opts) (base_request namespaced ns res verb :: 'o rest_Request)) = None"
  shows "map_of (rr_params (req_VersionedParams (ListOptions_params opts) (base_request namespaced ns res verb :: 'o rest_Request))) ''watch'' =
    (if lo_Watch opts then Some ''true'' else None)"
  using VersionedParams_watch[OF assms(3)] base_sent[OF VersionedParams_err[OF assms(3)] assms(2,1)] by (simp add: ListOptions_watch)

lemma agrees_List:
  fixes meta :: "'o \<Rightarrow> ObjectMeta"
  assumes res: "plain_resource res" and gvr: "gvr_Group gvr = ''servicecatalog.k8s.io''" "gvr_Resource gvr = res" and ns: "namespaced \<or> ns = []"
  shows "agrees_on meta (generic_client namespaced ns res meta status refs) (generic_fake namespaced ns gvr status refs) (CallList opts)"
  by (rule agrees_onI[where r = "req_VersionedParams (ListOptions_params opts) (base_request namespaced ns res ''GET'')"
      and verb = "''GET''" and ns = ns and res = res and name = "[]" and subs = "[]"])
    (use base_sent[OF VersionedParams_err ns res, where 'o = 'o] list_request_watch[OF res ns, where 'o = 'o] res gvr in \<open>auto simp: meaning_defs to_lower_def is_upper_def\<close>)

lemma agrees_Watch:
  fixes meta :: "'o \<Rightarrow> ObjectMeta"
  assumes res: "plain_resource res" and gvr: "gvr_Group gvr = ''servicecatalog.k8s.io''" "gvr_Resource gvr = res" and ns: "namespaced \<or> ns = []"
  shows "agrees_on meta (generic_client namespaced ns res meta status refs) (generic_fake namespaced ns gvr status refs) (CallWatch opts)"
  by (rule agrees_onI[where r = "req_VersionedParams (ListOptions_params (opts \<lparr> lo_Watch := True \<rparr>)) (base_request namespaced ns res ''GET'')"
      and verb = "''GET''" and ns = ns and res = res and name = "[]" and subs = "[]"])
    (use base_sent[OF VersionedParams_err ns res, where 'o = 'o] list_request_watch[OF res ns, where 'o = 'o] res gvr in \<open>auto simp: meaning_defs to_lower_def is_upper_def\<close>)

lemma generic_agrees:
  assumes "plain_resource res" "gvr_Group gvr = ''servicecatalog.k8s.io''" "gvr_Resource gvr = res" "namespaced \<or> ns = []"
  shows "agrees meta (generic_client namespaced ns res meta status refs) (generic_fake namespaced ns gvr status refs)"
  unfolding agrees_def
proof
  fix c
  show "agrees_on meta (generic_client namespaced ns res meta status refs) (generic_fake namespaced ns gvr status refs) c"
    using assms by (cases c) (auto intro: agrees_Create agrees_Update agrees_UpdateStatus agrees_UpdateReferences agrees_Delete
        agrees_DeleteCollection agrees_Get agrees_List agrees_Watch agrees_Patch)
qed

section \<open>The storage of a request\<close>

text \<open>Every request of a client is served from an entry of the storage map that has the kind, or it is a patch of a
  subresource for which the map has no entry.\<close>
definition served ::
  "(string \<times> any_storage) list \<Rightarrow> (any_storage \<Rightarrow> bool) \<Rightarrow> ('o, 'o rest_Request) typed_client \<Rightarrow> bool" where
  "served m kind client \<longleftrightarrow> (\<forall>c r. call client c = Some r \<and> rr_err r = None \<longrightarrow>
     (\<exists>info. received r = Inr info \<and> (case map_of m (storage_entry info) of
        Some st \<Rightarrow> kind st
      | None \<Rightarrow> (\<exists>name pt data subs. c = CallPatch name pt data subs \<and> ri_Subresource info = first_part subs \<and> first_part subs \<noteq> []))))"

lemma generic_entry:
  assumes "call (generic_fake namespaced ns gvr status refs) c = Some a"
  shows "storage_entry (action_read meta c a) \<in> {gvr_Resource gvr} \<union> (if status then {gvr_Resource gvr @ ''/status''} else {}) \<union>
      (if refs then {gvr_Resource gvr @ ''/reference''} else {}) \<or>
    (\<exists>name pt data subs. c = CallPatch name pt data subs \<and> ri_Subresource (action_read meta c a) = first_part subs \<and> first_part subs \<noteq> [] \<and>
      storage_entry (action_read meta c a) = gvr_Resource gvr @ ''/'' @ first_part subs)"
  using assms by (cases c) (auto simp: generic_fake_def action_defs action_read_def storage_entry_def split: if_splits)

lemma generic_served:
  assumes "plain_resource res" "namespaced \<or> ns = []"
    and "\<forall>e \<in> {res} \<union> (if status then {res @ ''/status''} else {}) \<union> (if refs then {res @ ''/reference''} else {}).
      \<exists>st. map_of m e = Some st \<and> kind st"
    and "\<forall>sub st. map_of m (res @ ''/'' @ sub) = Some st \<longrightarrow> kind st"
  shows "served m kind (generic_client namespaced ns res meta status refs)"
  unfolding served_def
proof (intro allI impI, elim conjE)
  fix c r assume c: "call (generic_client namespaced ns res meta status refs) c = Some r" "rr_err r = None"
  define gvr where "gvr = \<lparr> gvr_Group = ''servicecatalog.k8s.io'', gvr_Version = ''v1alpha1'', gvr_Resource = res \<rparr>"
  have "agrees meta (generic_client namespaced ns res meta status refs) (generic_fake namespaced ns gvr status refs)"
    by (rule generic_agrees[OF assms(1) _ _ assms(2)]) (simp_all add: gvr_def)
  then obtain a where a: "call (generic_fake namespaced ns gvr status refs) c = Some a" "received r = Inr (action_read meta c a)"
    using c unfolding agrees_def agrees_on_def by blast
  have "case map_of m (storage_entry (action_read meta c a)) of
      Some st \<Rightarrow> kind st
    | None \<Rightarrow> (\<exists>name pt data subs. c = CallPatch name pt data subs \<and> ri_Subresource (action_read meta c a) = first_part subs \<and> first_part subs \<noteq> [])"
    using generic_entry[OF a(1), of meta] assms(3,4) by (auto simp: gvr_def split: option.split if_splits)
  then show "\<exists>info. received r = Inr info \<and> (case map_of m (storage_entry info) of
      Some st \<Rightarrow> kind st
    | None \<Rightarrow> (\<exists>name pt data subs. c = CallPatch name pt data subs \<and> ri_Subresource info = first_part subs \<and> first_part subs \<noteq> []))"
    using a(2) by blast
qed

lemma resources_plain:
  "plain_resource ''clusterservicebrokers''" "plain_resource ''serviceclasses''" "plain_resource ''serviceplans''"
  "plain_resource ''serviceinstances''" "plain_resource ''serviceinstancecredentials''"
  by (simp_all add: plain_resource_def path_name_def ValidatePathSegmentName_def to_lower_def is_upper_def)

lemma v1alpha1Storage_entries:
  assumes "v1alpha1Storage getOptions storageType yaml oi = Some (Inr m)"
  obtains broker brokerStatus cls plan inst instStatus instRef cred credStatus where
    "m = [(''clusterservicebrokers'', BrokerStorage broker), (''clusterservicebrokers/status'', BrokerStorage brokerStatus),
      (''serviceclasses'', ClassStorage cls), (''serviceplans'', PlanStorage plan),
      (''serviceinstances'', InstanceStorage inst), (''serviceinstances/status'', InstanceStorage instStatus),
      (''serviceinstances/reference'', InstanceStorage instRef),
      (''serviceinstancecredentials'', CredentialStorage cred), (''serviceinstancecredentials/status'', CredentialStorage credStatus)]"
  using assms by (auto simp: v1alpha1Storage_def Let_def split: sum.splits bind_splits)

section \<open>Properties\<close>

lemma resource_fields:
  "gvr_Group clusterservicebrokersResource = ''servicecatalog.k8s.io''" "gvr_Group serviceclassesResource = ''servicecatalog.k8s.io''"
  "gvr_Group serviceplansResource = ''servicecatalog.k8s.io''" "gvr_Group serviceinstancesResource = ''servicecatalog.k8s.io''"
  "gvr_Group serviceinstancecredentialsResource = ''servicecatalog.k8s.io''"
  "gvr_Resource clusterservicebrokersResource = ''clusterservicebrokers''" "gvr_Resource serviceclassesResource = ''serviceclasses''"
  "gvr_Resource serviceplansResource = ''serviceplans''" "gvr_Resource serviceinstancesResource = ''serviceinstances''"
  "gvr_Resource serviceinstancecredentialsResource = ''serviceinstancecredentials''"
  "gvr_Group internal_clusterservicebrokersResource = ''servicecatalog.k8s.io''" "gvr_Group internal_serviceclassesResource = ''servicecatalog.k8s.io''"
  "gvr_Group internal_serviceplansResource = ''servicecatalog.k8s.io''" "gvr_Group internal_serviceinstancesResource = ''servicecatalog.k8s.io''"
  "gvr_Group internal_serviceinstancecredentialsResource = ''servicecatalog.k8s.io''"
  "gvr_Resource internal_clusterservicebrokersResource = ''clusterservicebrokers''" "gvr_Resource internal_serviceclassesResource = ''serviceclasses''"
  "gvr_Resource internal_serviceplansResource = ''serviceplans''" "gvr_Resource internal_serviceinstancesResource = ''serviceinstances''"
  "gvr_Resource internal_serviceinstancecredentialsResource = ''serviceinstancecredentials''"
  by (simp_all add: clusterservicebrokersResource_def serviceclassesResource_def serviceplansResource_def serviceinstancesResource_def
      serviceinstancecredentialsResource_def internal_clusterservicebrokersResource_def internal_serviceclassesResource_def
      internal_serviceplansResource_def internal_serviceinstancesResource_def internal_serviceinstancecredentialsResource_def)

text \<open>C29: a fake records what the server would have read, up to four differences.  For both client sets, all five kinds
  and every call: whenever the typed client sends the request, the API server reads from its method, path and
  parameters the group, resource and name of the action that the fake records for the call, and its verb,
  namespace and subresource too, except that it reads \<open>deletecollection\<close> for \<open>delete-collection\<close>, a watch for a
  list with the watch option, the namespace of the object for a reference update, and the first part for
  a patch of a subresource in several parts.  The version read is \<open>v1alpha1\<close>; the internal fakes record none.\<close>
theorem clients_and_fakes_agree:
  "agrees vbk_Meta clusterServiceBrokers FakeClusterServiceBrokers \<and>
   agrees vsc_Meta serviceClasses FakeServiceClasses \<and>
   agrees vsp_Meta servicePlans FakeServicePlans \<and>
   agrees vsi_Meta (serviceInstances ns) (FakeServiceInstances ns) \<and>
   agrees vcr_Meta (serviceInstanceCredentials ns) (FakeServiceInstanceCredentials ns) \<and>
   agrees bk_Meta internal_clusterServiceBrokers internal_FakeClusterServiceBrokers \<and>
   agrees sc_Meta internal_serviceClasses internal_FakeServiceClasses \<and>
   agrees sp_Meta internal_servicePlans internal_FakeServicePlans \<and>
   agrees si_Meta (internal_serviceInstances ns) (internal_FakeServiceInstances ns) \<and>
   agrees cr_Meta (internal_serviceInstanceCredentials ns) (internal_FakeServiceInstanceCredentials ns)"
  by (simp add: generic_agrees resources_plain resource_fields clusterServiceBrokers_generic FakeClusterServiceBrokers_generic serviceClasses_generic FakeServiceClasses_generic servicePlans_generic FakeServicePlans_generic serviceInstances_generic FakeServiceInstances_generic serviceInstanceCredentials_generic FakeServiceInstanceCredentials_generic internal_clusterServiceBrokers_generic internal_FakeClusterServiceBrokers_generic internal_serviceClasses_generic internal_FakeServiceClasses_generic internal_servicePlans_generic internal_FakeServicePlans_generic internal_serviceInstances_generic internal_FakeServiceInstances_generic internal_serviceInstanceCredentials_generic internal_FakeServiceInstanceCredentials_generic)

text \<open>C15: the requests of the typed clients are served.  Whenever the storage map of the API group can be built, every
  request of a typed client is answered from an entry of the map that holds objects of the kind of the client,
  status and reference updates included.  The only exceptions are patches of a subresource that has no entry.\<close>
theorem requests_are_served:
  assumes "v1alpha1Storage getOptions storageType yaml oi = Some (Inr m)"
  shows "served m is_BrokerStorage clusterServiceBrokers \<and>
    served m is_ClassStorage serviceClasses \<and>
    served m is_PlanStorage servicePlans \<and>
    served m is_InstanceStorage (serviceInstances ns) \<and>
    served m is_CredentialStorage (serviceInstanceCredentials ns)"
proof -
  obtain broker brokerStatus cls plan inst instStatus instRef cred credStatus where m:
    "m = [(''clusterservicebrokers'', BrokerStorage broker), (''clusterservicebrokers/status'', BrokerStorage brokerStatus),
      (''serviceclasses'', ClassStorage cls), (''serviceplans'', PlanStorage plan),
      (''serviceinstances'', InstanceStorage inst), (''serviceinstances/status'', InstanceStorage instStatus),
      (''serviceinstances/reference'', InstanceStorage instRef),
      (''serviceinstancecredentials'', CredentialStorage cred), (''serviceinstancecredentials/status'', CredentialStorage credStatus)]"
    using v1alpha1Storage_entries[OF assms] .
  show ?thesis
    by (intro conjI; unfold clusterServiceBrokers_generic serviceClasses_generic servicePlans_generic serviceInstances_generic serviceInstanceCredentials_generic;
      rule generic_served) (simp_all add: resources_plain m)
qed

theorem requests_are_served_witness:
  "\<exists>m. v1alpha1Storage (\<lambda>resource. Inr (''/'' @ resource)) ''etcd'' (\<lambda>_. Inr []) True = Some (Inr m) \<and> length m = 9 \<and>
     served m is_InstanceStorage (serviceInstances ''ns'')"
proof -
  obtain m where m: "v1alpha1Storage (\<lambda>resource. Inr (''/'' @ resource)) ''etcd'' (\<lambda>_. Inr []) True = Some (Inr m)" "length m = 9"
    by (simp add: v1alpha1Storage_def Let_def broker_NewStorage_def serviceclass_NewStorage_def serviceplan_NewStorage_def
        instance_NewStorage_def binding_NewStorage_def NewStore_def options_KeyRootFunc_def options_KeyFunc_def options_StorageType_def
        StorageTypeEtcd_def isOK_iff)
  then show ?thesis using requests_are_served[OF m(1), of "''ns''"] by blast
qed

end
