(* ===== verification/SC_FakeServer.thy ===== *)
theory SC_FakeServer
  imports SC_TypedClients "HOL-Library.AList"
begin

text \<open>
  The in-process API server of \<open>pkg/rest/core/fake\<close>, which answers the requests of a REST client from memory:
  its storage of nested maps, its response writer, its router and its handlers.  The codec of the test API is
  a parameter.  Proved: the storage is a map from namespace, type and name, deletion waits for the
  finalizers as on the real server, but an update never conflicts, and the requests for kinds without
  namespace have no route.
\<close>

section \<open>Storage\<close>

text \<open>What the handlers read and write of an object; the rest is opaque.  Times are nanoseconds.\<close>
record 'a fake_object =
  fo_Name :: string
  fo_ResourceVersion :: string
  fo_Finalizers :: "string list"
  fo_DeletionTimestamp :: "go_time option"
  fo_content :: 'a

type_synonym 'a ObjStorage = "(string \<times> 'a fake_object) list"
type_synonym 'a TypedStorage = "(string \<times> 'a ObjStorage) list"
type_synonym 'a NamespacedStorage = "(string \<times> 'a TypedStorage) list"

text \<open>Reading a missing key of a Go map gives the nil map, which is empty.\<close>
definition nil_map :: "'b list option \<Rightarrow> 'b list" where
  "nil_map m = (case m of None \<Rightarrow> [] | Some x \<Rightarrow> x)"

definition storage_Set :: "'a NamespacedStorage \<Rightarrow> string \<Rightarrow> string \<Rightarrow> string \<Rightarrow> 'a fake_object \<Rightarrow> 'a NamespacedStorage" where
  "storage_Set s ns tipe name obj =
     (let s = (if map_of s ns = None then AList.update ns [] s else s);
          t = nil_map (map_of s ns);
          t = (if map_of t tipe = None then AList.update tipe [] t else t)
      in AList.update ns (AList.update tipe (AList.update name obj (nil_map (map_of t tipe))) t) s)"

definition storage_GetList :: "'a NamespacedStorage \<Rightarrow> string \<Rightarrow> string \<Rightarrow> 'a fake_object list" where
  "storage_GetList s ns tipe = map snd (nil_map (map_of (nil_map (map_of s ns)) tipe))"

definition storage_Get :: "'a NamespacedStorage \<Rightarrow> string \<Rightarrow> string \<Rightarrow> string \<Rightarrow> 'a fake_object option" where
  "storage_Get s ns tipe name = map_of (nil_map (map_of (nil_map (map_of s ns)) tipe)) name"

text \<open>Deleting from a nil map does nothing.\<close>
definition storage_Delete :: "'a NamespacedStorage \<Rightarrow> string \<Rightarrow> string \<Rightarrow> string \<Rightarrow> 'a NamespacedStorage" where
  "storage_Delete s ns tipe name =
     (case map_of s ns of
        None \<Rightarrow> s
      | Some t \<Rightarrow> (case map_of t tipe of
          None \<Rightarrow> s
        | Some objs \<Rightarrow> AList.update ns (AList.update tipe (AList.delete name objs) t) s))"

section \<open>Responses\<close>

record responseWriter =
  rw_status :: "nat option"
  rw_headerSet :: bool
  rw_contentType :: string
  rw_body :: string

definition newResponseWriter :: responseWriter where
  "newResponseWriter = \<lparr> rw_status = None, rw_headerSet = False, rw_contentType = [], rw_body = [] \<rparr>"

definition WriteHeader :: "nat \<Rightarrow> responseWriter \<Rightarrow> responseWriter" where
  "WriteHeader status rw = rw \<lparr> rw_headerSet := True, rw_status := Some status \<rparr>"

definition Write :: "string \<Rightarrow> responseWriter \<Rightarrow> responseWriter" where
  "Write bytes rw = (let rw = (if rw_headerSet rw then rw else WriteHeader 200 rw) in rw \<lparr> rw_body := rw_body rw @ bytes \<rparr>)"

definition setContentType :: "responseWriter \<Rightarrow> responseWriter" where
  "setContentType rw = rw \<lparr> rw_contentType := ''application/json'' \<rparr>"

definition http_Error :: "string \<Rightarrow> nat \<Rightarrow> responseWriter \<Rightarrow> responseWriter" where
  "http_Error msg status rw = Write (msg @ [CHR 0x0A]) (WriteHeader status (rw \<lparr> rw_contentType := ''text/plain; charset=utf-8'' \<rparr>))"

text \<open>\<open>None\<close> is the panic on a response without status.\<close>
definition getResponse :: "responseWriter \<Rightarrow> (nat \<times> string) option" where
  "getResponse rw = map_option (\<lambda>status. (status, rw_body rw)) (rw_status rw)"

section \<open>Handlers\<close>

text \<open>The codec of the test API, by what its calls return: \<open>GetCodecForObject\<close>, \<open>Encode\<close>, \<open>Decode\<close>; for lists of objects the
  deep copy of an item, \<open>meta.SetList\<close>, \<open>GetCodecForObject\<close> and \<open>Encode\<close>; and the encodings of namespaces and watch
  events.\<close>
record 'a test_codec =
  cd_newEmptyObj :: "'a fake_object"
  cd_GetCodecForObject :: "'a fake_object \<Rightarrow> go_error option"
  cd_Encode :: "'a fake_object \<Rightarrow> go_error + string"
  cd_Decode :: "string \<Rightarrow> go_error + 'a fake_object"
  cd_DeepCopy :: "'a fake_object \<Rightarrow> go_error + 'a fake_object"
  cd_SetList :: "string \<Rightarrow> 'a fake_object list \<Rightarrow> go_error option"
  cd_GetCodecForList :: "string \<Rightarrow> go_error option"
  cd_EncodeList :: "string \<Rightarrow> 'a fake_object list \<Rightarrow> go_error + string"
  cd_EncodeNamespaces :: "string list \<Rightarrow> string"
  cd_EncodeEvent :: "string \<Rightarrow> string \<Rightarrow> string"

type_synonym 'a handled = "responseWriter \<times> 'a NamespacedStorage"

text \<open>\<open>strconv.Atoi\<close>: zero on a syntax error, the nearest bound out of range.\<close>
definition Atoi :: "string \<Rightarrow> int" where
  "Atoi s =
     (let neg = s \<noteq> [] \<and> hd s = CHR ''-'';
          digits = (if s \<noteq> [] \<and> hd s \<in> {CHR ''-'', CHR ''+''} then tl s else s);
          v = foldl (\<lambda>n c. 10 * n + (of_char c - 48)) 0 digits
      in if digits = [] \<or> \<not> list_all is_digit digits then 0
         else if neg then max (- (2 ^ 63)) (- v) else min (2 ^ 63 - 1) v)"

text \<open>The increment of a 64-bit integer.\<close>
definition incr64 :: "int \<Rightarrow> int" where
  "incr64 i = (i + 1 + 2 ^ 63) mod 2 ^ 64 - 2 ^ 63"

definition Unix :: "go_time \<Rightarrow> int" where
  "Unix t = t div 1000000000"

definition getItems :: "'a test_codec \<Rightarrow> string \<Rightarrow> string \<Rightarrow> 'a NamespacedStorage \<Rightarrow> responseWriter" where
  "getItems C ns tipe s =
     (case map_results (cd_DeepCopy C) (storage_GetList s ns tipe) of
        Inl e \<Rightarrow> http_Error (''error performing deep copy: '' @ error_string e) 500 newResponseWriter
      | Inr items \<Rightarrow>
          if tipe \<notin> {''clusterservicebrokers'', ''serviceclasses'', ''serviceinstances'', ''serviceinstancecredentials''}
          then http_Error (''unrecognized resource type: '' @ tipe) 500 newResponseWriter
          else case cd_SetList C tipe items of
            Some e \<Rightarrow> http_Error (''Error setting list items ('' @ error_string e @ '')'') 500 newResponseWriter
          | None \<Rightarrow> (case cd_GetCodecForList C tipe of
              Some e \<Rightarrow> http_Error (''error getting codec: '' @ error_string e) 500 newResponseWriter
            | None \<Rightarrow> (case cd_EncodeList C tipe items of
                Inl e \<Rightarrow> http_Error (''error encoding list: '' @ error_string e) 500 newResponseWriter
              | Inr listBytes \<Rightarrow> Write listBytes newResponseWriter)))"

text \<open>The item is in the storage before it is encoded: a failure of the encoder changes the status of the answer only.\<close>
definition createItem :: "'a test_codec \<Rightarrow> string \<Rightarrow> string \<Rightarrow> string \<Rightarrow> 'a NamespacedStorage \<Rightarrow> 'a handled" where
  "createItem C ns tipe body s =
     (let rw = newResponseWriter in
      case cd_GetCodecForObject C (cd_newEmptyObj C) of
        Some e \<Rightarrow> (http_Error (''error getting a codec: '' @ error_string e) 500 rw, s)
      | None \<Rightarrow> (case cd_Decode C body of
          Inl e \<Rightarrow> (http_Error (''error decoding body bytes: '' @ error_string e) 500 rw, s)
        | Inr item \<Rightarrow>
            if storage_Get s ns tipe (fo_Name item) \<noteq> None then (WriteHeader 409 rw, s)
            else let item = item \<lparr> fo_ResourceVersion := ''1'' \<rparr>;
                     s = storage_Set s ns tipe (fo_Name item) item;
                     rw = WriteHeader 201 (setContentType rw)
                 in (case cd_Encode C item of
                       Inl e \<Rightarrow> http_Error (''error encoding item '' @ error_string e) 500 rw
                     | Inr bytes \<Rightarrow> Write bytes rw, s)))"

definition getItem :: "'a test_codec \<Rightarrow> string \<Rightarrow> string \<Rightarrow> string \<Rightarrow> 'a NamespacedStorage \<Rightarrow> responseWriter" where
  "getItem C ns tipe name s =
     (let rw = newResponseWriter in
      case storage_Get s ns tipe name of
        None \<Rightarrow> WriteHeader 404 rw
      | Some item \<Rightarrow> (case cd_GetCodecForObject C item of
          Some e \<Rightarrow> http_Error (''error getting codec '' @ error_string e) 500 rw
        | None \<Rightarrow> (case cd_Encode C item of
            Inl e \<Rightarrow> http_Error (''error encoding item '' @ error_string e) 500 rw
          | Inr bytes \<Rightarrow> Write bytes (setContentType rw))))"

text \<open>Both versions are read from the item of the request.\<close>
definition updateItem :: "'a test_codec \<Rightarrow> string \<Rightarrow> string \<Rightarrow> string \<Rightarrow> string \<Rightarrow> 'a NamespacedStorage \<Rightarrow> 'a handled" where
  "updateItem C ns tipe name body s =
     (let rw = newResponseWriter in
      case storage_Get s ns tipe name of
        None \<Rightarrow> (WriteHeader 404 rw, s)
      | Some origItem \<Rightarrow> (case cd_GetCodecForObject C (cd_newEmptyObj C) of
          Some e \<Rightarrow> (http_Error (''error getting codec: '' @ error_string e) 500 rw, s)
        | None \<Rightarrow> (case cd_Decode C body of
            Inl e \<Rightarrow> (http_Error (''error decoding body bytes: '' @ error_string e) 500 rw, s)
          | Inr item \<Rightarrow>
              let origResourceVersionStr = fo_ResourceVersion item; resourceVersionStr = fo_ResourceVersion item in
              if resourceVersionStr \<noteq> ''0'' \<and> resourceVersionStr \<noteq> origResourceVersionStr then (WriteHeader 400 rw, s)
              else let item = item \<lparr> fo_ResourceVersion := show_int (incr64 (Atoi origResourceVersionStr)) \<rparr>;
                       oldDT = fo_DeletionTimestamp origItem; newDT = fo_DeletionTimestamp item in
              if newDT \<noteq> None \<and> oldDT \<noteq> None \<and> Unix (the newDT) \<noteq> Unix (the oldDT)
              then (http_Error ''you cannot update the deletion timestamp'' 400 rw, s)
              else let s = (if fo_Finalizers item = [] \<and> newDT \<noteq> None then storage_Delete s ns tipe name
                            else storage_Set s ns tipe name item)
                   in (case cd_Encode C item of
                         Inl e \<Rightarrow> http_Error (''error encoding item: '' @ error_string e) 500 rw
                       | Inr bytes \<Rightarrow> Write bytes (setContentType rw), s))))"

definition deleteItem :: "go_time \<Rightarrow> string \<Rightarrow> string \<Rightarrow> string \<Rightarrow> 'a NamespacedStorage \<Rightarrow> 'a handled" where
  "deleteItem now ns tipe name s =
     (let rw = newResponseWriter in
      case storage_Get s ns tipe name of
        None \<Rightarrow> (WriteHeader 404 rw, s)
      | Some item \<Rightarrow>
          (WriteHeader 200 rw,
           if fo_Finalizers item = [] then storage_Delete s ns tipe name
           else storage_Set s ns tipe name (item \<lparr> fo_DeletionTimestamp := Some now \<rparr>)))"

definition listNamespaces :: "'a test_codec \<Rightarrow> 'a NamespacedStorage \<Rightarrow> responseWriter" where
  "listNamespaces C s = Write (cd_EncodeNamespaces C (map fst s)) (setContentType newResponseWriter)"

text \<open>The events received until the channel is closed; \<open>None\<close> is the end of the process in \<open>log.Fatal\<close>.\<close>
fun doWatch :: "'a test_codec \<Rightarrow> (string \<times> 'a fake_object) list \<Rightarrow> responseWriter \<Rightarrow> responseWriter option" where
  "doWatch C [] rw = Some rw"
| "doWatch C ((evt, obj) # ch) rw =
     (if cd_GetCodecForObject C obj \<noteq> None then None
      else case cd_Encode C obj of
        Inl _ \<Rightarrow> None
      | Inr objBytes \<Rightarrow> doWatch C ch (Write (cd_EncodeEvent C evt objBytes) (rw \<lparr> rw_contentType := ''application/json, */*'' \<rparr>)))"

section \<open>The router\<close>

text \<open>The routes by method and path, in the order of \<open>getRouter\<close>; \<open>ch\<close> are the events of the watcher.  Paths are
  canonical: \<open>mux\<close> redirects the others.\<close>
definition getRouter ::
  "'a test_codec \<Rightarrow> (string \<times> 'a fake_object) list \<Rightarrow> go_time \<Rightarrow> string \<Rightarrow> string list \<Rightarrow> string \<Rightarrow> 'a NamespacedStorage \<Rightarrow>
   (responseWriter \<times> 'a NamespacedStorage) option" where
  "getRouter C ch now meth path body s =
     (let group = [''apis'', ''servicecatalog.k8s.io'', ''v1alpha1''];
          items = take 4 path = group @ [''namespaces''] \<and> length path = 6;
          item = take 4 path = group @ [''namespaces''] \<and> length path = 7;
          watched = take 5 path = group @ [''watch'', ''namespaces''] \<and> length path \<in> {7, 8}
      in if items \<and> meth = ''GET'' then Some (getItems C (path ! 4) (path ! 5) s, s)
         else if items \<and> meth = ''POST'' then Some (createItem C (path ! 4) (path ! 5) body s)
         else if item \<and> meth = ''GET'' then Some (getItem C (path ! 4) (path ! 5) (path ! 6) s, s)
         else if item \<and> meth = ''PUT'' then Some (updateItem C (path ! 4) (path ! 5) (path ! 6) body s)
         else if item \<and> meth = ''DELETE'' then Some (deleteItem now (path ! 4) (path ! 5) (path ! 6) s)
         else if watched \<and> meth = ''GET'' then map_option (\<lambda>rw. (rw, s)) (doWatch C ch newResponseWriter)
         else if path = [''api'', ''v1'', ''namespaces''] \<and> meth = ''GET'' then Some (listNamespaces C s, s)
         else Some (WriteHeader 404 newResponseWriter, s))"

text \<open>A request of a REST client; the outer \<open>None\<close> is the end of the process, the inner one a panic.\<close>
definition fake_serve ::
  "'a test_codec \<Rightarrow> (string \<times> 'a fake_object) list \<Rightarrow> go_time \<Rightarrow> string \<Rightarrow> string \<Rightarrow> string \<Rightarrow> 'a NamespacedStorage \<Rightarrow>
   ((nat \<times> string) option \<times> 'a NamespacedStorage) option" where
  "fake_serve C ch now meth path body s =
     map_option (\<lambda>(rw, s). (getResponse rw, s)) (getRouter C ch now meth (splitPath path) body s)"

section \<open>The storage is a map\<close>

lemma nil_map_simps [simp]: "nil_map None = []" "nil_map (Some x) = x"
  by (simp_all add: nil_map_def)

lemma Get_Set [simp]:
  "storage_Get (storage_Set s ns tipe name x) ns' tipe' name' =
   (if ns' = ns \<and> tipe' = tipe \<and> name' = name then Some x else storage_Get s ns' tipe' name')"
  by (auto simp: storage_Get_def storage_Set_def Let_def AList.update_conv')

lemma Get_Delete [simp]:
  "storage_Get (storage_Delete s ns tipe name) ns' tipe' name' =
   (if ns' = ns \<and> tipe' = tipe \<and> name' = name then None else storage_Get s ns' tipe' name')"
  by (auto simp: storage_Get_def storage_Delete_def AList.update_conv' AList.delete_conv' split: option.split)

lemma rw_simps [simp]:
  "rw_status (WriteHeader st rw) = Some st" "rw_headerSet (WriteHeader st rw)" "rw_body (WriteHeader st rw) = rw_body rw"
  "rw_status (Write b rw) = (if rw_headerSet rw then rw_status rw else Some 200)" "rw_status (setContentType rw) = rw_status rw"
  "rw_headerSet (setContentType rw) = rw_headerSet rw" "rw_headerSet newResponseWriter = False" "rw_body newResponseWriter = []"
  by (simp_all add: WriteHeader_def Write_def setContentType_def newResponseWriter_def Let_def)

text \<open>Every handler but the watch answers: there is no panic.\<close>
lemma handlers_answer:
  "rw_status (getItems C ns tipe s) \<noteq> None" "rw_status (fst (createItem C ns tipe body s)) \<noteq> None"
  "rw_status (getItem C ns tipe name s) \<noteq> None" "rw_status (fst (updateItem C ns tipe name body s)) \<noteq> None"
  "rw_status (fst (deleteItem now ns tipe name s)) \<noteq> None" "rw_status (listNamespaces C s) \<noteq> None"
  by (auto simp: getItems_def createItem_def getItem_def updateItem_def deleteItem_def listNamespaces_def http_Error_def Let_def
      split: sum.split option.split)

section \<open>Requests without namespace\<close>

text \<open>The request of a call that is sent has valid parts.\<close>
lemma sent_call:
  fixes meta :: "'o \<Rightarrow> ObjectMeta"
  assumes "plain_resource res" "call (generic_client False [] res meta status False) c = Some r" "rr_err r = None"
  shows "\<exists>verb name subs. sent_parts verb [] res name subs r"
proof -
  note base = base_sent[where namespaced = False and ns = "[]" and 'o = 'o, OF _ _ assms(1), simplified]
  note named = named_request[where namespaced = False and ns = "[]" and 'o = 'o, OF assms(1), simplified]
  note status = named_subresource[where namespaced = False and ns = "[]" and 'o = 'o, OF assms(1) _ status_path_names(1), simplified]
  note patched = patched_subresource[where namespaced = False and ns = "[]" and 'o = 'o, OF assms(1), simplified]
  show ?thesis
    using assms(2,3) by (cases c) (auto simp: generic_client_def Let_def err_None(3) split: if_splits
        intro!: exI dest!: VersionedParams_err dest: base named status patched)
qed

lemma cluster_path:
  assumes "sent_parts verb [] res name subs r" "plain_resource res"
  shows "splitPath (URL_path r) = api_parts @ [res] @ filter (\<lambda>w. w \<noteq> []) [name] @ subs"
proof -
  have "URL_path r = abs_path (api_parts @ [res] @ filter (\<lambda>w. w \<noteq> []) [name] @ subs)"
    using URL_path_abs[of r res subs] assms by (auto simp: sent_parts_def)
  moreover have "\<forall>w \<in> set (api_parts @ [res] @ filter (\<lambda>w. w \<noteq> []) [name] @ subs). path_name w"
    using assms api_parts_path(1) by (auto simp: sent_parts_def opt_part_def plain_resource_def)
  ultimately show ?thesis by (metis splitPath_abs append_is_Nil_conv not_Cons_self2)
qed

lemma cluster_not_found:
  assumes "plain_resource res" "call (generic_client False [] res meta status False) c = Some r" "rr_err r = None"
  shows "fake_serve C ch now meth (URL_path r) body s = Some (Some (404, []), s)"
proof -
  obtain verb name subs where "sent_parts verb [] res name subs r" using sent_call[OF assms] by blast
  from cluster_path[OF this assms(1)] have path: "splitPath (URL_path r) = api_parts @ [res] @ filter (\<lambda>w. w \<noteq> []) [name] @ subs" .
  have "res \<noteq> ''namespaces''" "res \<noteq> ''watch''" using assms(1) by (auto simp: plain_resource_def)
  then show ?thesis by (simp add: fake_serve_def getRouter_def path api_parts_def getResponse_def)
qed

section \<open>Properties\<close>

text \<open>C31: the in-memory server deletes as the real one does.  An object created with finalizers survives its
  deletion with a deletion timestamp; an update that removes the last finalizer and carries the timestamp, as
  one that was read from the server does, removes the object, so that it is not found any more; and no
  request touches another object.\<close>
theorem fake_deletion_waits_for_finalizers:
  assumes codec: "cd_GetCodecForObject C (cd_newEmptyObj C) = None" "\<forall>x. isOK (cd_Encode C x)"
    and create: "cd_Decode C body = Inr x" "storage_Get s ns tipe (fo_Name x) = None" "fo_Finalizers x \<noteq> []"
    and update: "cd_Decode C body' = Inr y" "fo_Finalizers y = []" "fo_DeletionTimestamp y = Some t" "Unix t = Unix now"
    and run: "createItem C ns tipe body s = (rw1, s1)" "deleteItem now ns tipe (fo_Name x) s1 = (rw2, s2)"
      "updateItem C ns tipe (fo_Name x) body' s2 = (rw3, s3)"
  shows "map rw_status [rw1, rw2, rw3, getItem C ns tipe (fo_Name x) s3] = [Some 201, Some 200, Some 200, Some 404] \<and>
    storage_Get s1 ns tipe (fo_Name x) = Some (x \<lparr> fo_ResourceVersion := ''1'' \<rparr>) \<and>
    storage_Get s2 ns tipe (fo_Name x) = Some (x \<lparr> fo_ResourceVersion := ''1'', fo_DeletionTimestamp := Some now \<rparr>) \<and>
    storage_Get s3 ns tipe (fo_Name x) = None \<and>
    (\<forall>ns' tipe' name'. (ns', tipe', name') \<noteq> (ns, tipe, fo_Name x) \<longrightarrow> storage_Get s3 ns' tipe' name' = storage_Get s ns' tipe' name')"
proof -
  have enc: "\<exists>b. cd_Encode C z = Inr b" for z using codec(2) by (simp add: isOK_iff)
  have 1: "rw_status rw1 = Some 201" "s1 = storage_Set s ns tipe (fo_Name x) (x \<lparr> fo_ResourceVersion := ''1'' \<rparr>)"
    using run(1) codec(1) create(1,2) enc[of "x \<lparr> fo_ResourceVersion := ''1'' \<rparr>"] by (auto simp: createItem_def Let_def)
  have 2: "rw_status rw2 = Some 200"
      "s2 = storage_Set s1 ns tipe (fo_Name x) (x \<lparr> fo_ResourceVersion := ''1'', fo_DeletionTimestamp := Some now \<rparr>)"
    using run(2) create(3) by (auto simp: deleteItem_def Let_def 1(2))
  have 3: "rw_status rw3 = Some 200" "s3 = storage_Delete s2 ns tipe (fo_Name x)"
    using run(3) codec(1) update enc[of "y \<lparr> fo_ResourceVersion := show_int (incr64 (Atoi (fo_ResourceVersion y))) \<rparr>"]
    by (auto simp: updateItem_def Let_def 2(2))
  show ?thesis by (simp add: 1 2 3 getItem_def)
qed

text \<open>C33: the in-memory server never refuses a stale update.  The version of the stored object is not compared:
  whatever version a writer read, its update of an object is accepted and overwrites what is stored.\<close>
theorem fake_updates_never_conflict:
  assumes "cd_GetCodecForObject C (cd_newEmptyObj C) = None" "\<forall>x. isOK (cd_Encode C x)"
    and "storage_Get s ns tipe name = Some stored" "cd_Decode C body = Inr item" "fo_DeletionTimestamp item = None"
  shows "\<exists>rw s'. updateItem C ns tipe name body s = (rw, s') \<and> rw_status rw = Some 200 \<and>
    storage_Get s' ns tipe name = Some (item \<lparr> fo_ResourceVersion := show_int (incr64 (Atoi (fo_ResourceVersion item))) \<rparr>)"
proof -
  obtain bytes where "cd_Encode C (item \<lparr> fo_ResourceVersion := show_int (incr64 (Atoi (fo_ResourceVersion item))) \<rparr>) = Inr bytes"
    using spec[OF assms(2)] unfolding isOK_iff by blast
  then show ?thesis using assms(1,3,4,5) by (simp add: updateItem_def Let_def)
qed

text \<open>The in-memory server has no route for the kinds without namespace: every request that the typed clients
  of brokers, classes and plans send is answered with "not found", whatever is stored.\<close>
theorem cluster_requests_have_no_route:
  assumes "call clusterServiceBrokers bc = Some br" "rr_err br = None"
    and "call serviceClasses cc = Some cr" "rr_err cr = None"
    and "call servicePlans pc = Some pr" "rr_err pr = None"
  shows "fake_serve C ch now (rr_verb br) (URL_path br) body s = Some (Some (404, []), s) \<and>
    fake_serve C ch now (rr_verb cr) (URL_path cr) body s = Some (Some (404, []), s) \<and>
    fake_serve C ch now (rr_verb pr) (URL_path pr) body s = Some (Some (404, []), s)"
proof -
  note sent = assms[unfolded clusterServiceBrokers_generic serviceClasses_generic servicePlans_generic]
  show ?thesis
    by (simp add: cluster_not_found[OF resources_plain(1) sent(1,2)] cluster_not_found[OF resources_plain(2) sent(3,4)]
        cluster_not_found[OF resources_plain(3) sent(5,6)])
qed

section \<open>Examples\<close>

text \<open>A codec that knows three bodies: an object with a finalizer, the same without, and the same at an old version.\<close>
definition ex_fake_object :: "unit fake_object" where
  "ex_fake_object = \<lparr> fo_Name = ''db'', fo_ResourceVersion = [], fo_Finalizers = [FinalizerServiceCatalog],
     fo_DeletionTimestamp = None, fo_content = () \<rparr>"

definition ex_codec :: "unit test_codec" where
  "ex_codec = \<lparr> cd_newEmptyObj = ex_fake_object, cd_GetCodecForObject = (\<lambda>_. None), cd_Encode = (\<lambda>x. Inr (fo_Name x)),
     cd_Decode = (\<lambda>body. if body = ''new'' then Inr ex_fake_object
       else if body = ''release'' then Inr (ex_fake_object \<lparr> fo_Finalizers := [], fo_DeletionTimestamp := Some 5000000000 \<rparr>)
       else if body = ''stale'' then Inr (ex_fake_object \<lparr> fo_ResourceVersion := ''3'' \<rparr>) else Inl (PlainError ''unknown'')),
     cd_DeepCopy = Inr, cd_SetList = (\<lambda>_ _. None), cd_GetCodecForList = (\<lambda>_. None), cd_EncodeList = (\<lambda>_ xs. Inr (concat (map fo_Name xs))), cd_EncodeNamespaces = concat, cd_EncodeEvent = (\<lambda>_ bytes. bytes) \<rparr>"

definition ex_fake_created :: "unit handled" where
  "ex_fake_created = createItem ex_codec ''ns'' ''serviceinstances'' ''new'' []"

definition ex_marked :: "unit handled" where
  "ex_marked = deleteItem 5100000000 ''ns'' ''serviceinstances'' ''db'' (snd ex_fake_created)"

definition ex_released :: "unit handled" where
  "ex_released = updateItem ex_codec ''ns'' ''serviceinstances'' ''db'' ''release'' (snd ex_marked)"

lemma ex_codec_ok: "cd_GetCodecForObject ex_codec (cd_newEmptyObj ex_codec) = None" "\<forall>x. isOK (cd_Encode ex_codec x)"
  by (simp_all add: ex_codec_def isOK_iff)

theorem fake_deletion_waits_for_finalizers_witness:
  "storage_Get (snd ex_marked) ''ns'' ''serviceinstances'' ''db'' \<noteq> None \<and>
   storage_Get (snd ex_released) ''ns'' ''serviceinstances'' ''db'' = None \<and> rw_status (fst ex_released) = Some 200"
proof -
  let ?y = "ex_fake_object \<lparr> fo_Finalizers := [], fo_DeletionTimestamp := Some 5000000000 \<rparr>"
  have "cd_Decode ex_codec ''new'' = Inr ex_fake_object" "storage_Get [] ''ns'' ''serviceinstances'' (fo_Name ex_fake_object) = None"
      "fo_Finalizers ex_fake_object \<noteq> []" "cd_Decode ex_codec ''release'' = Inr ?y" "fo_Finalizers ?y = []"
      "fo_DeletionTimestamp ?y = Some 5000000000" "Unix 5000000000 = Unix 5100000000"
    by (simp_all add: ex_codec_def ex_fake_object_def storage_Get_def Unix_def)
  from fake_deletion_waits_for_finalizers[OF ex_codec_ok this, of "fst ex_fake_created" "snd ex_fake_created" "fst ex_marked" "snd ex_marked"
      "fst ex_released" "snd ex_released"]
  show ?thesis by (simp add: ex_fake_created_def ex_marked_def ex_released_def ex_fake_object_def)
qed

theorem fake_updates_never_conflict_witness:
  "\<exists>rw s'. updateItem ex_codec ''ns'' ''serviceinstances'' ''db'' ''stale'' (snd ex_fake_created) = (rw, s') \<and> rw_status rw = Some 200 \<and>
     map_option fo_ResourceVersion (storage_Get (snd ex_fake_created) ''ns'' ''serviceinstances'' ''db'') = Some ''1'' \<and>
     map_option fo_ResourceVersion (storage_Get s' ''ns'' ''serviceinstances'' ''db'') = Some ''4''"
proof -
  let ?item = "ex_fake_object \<lparr> fo_ResourceVersion := ''3'' \<rparr>"
  have stored: "storage_Get (snd ex_fake_created) ''ns'' ''serviceinstances'' ''db'' = Some (ex_fake_object \<lparr> fo_ResourceVersion := ''1'' \<rparr>)"
    by code_simp
  have "cd_Decode ex_codec ''stale'' = Inr ?item" "fo_DeletionTimestamp ?item = None"
    by (simp_all add: ex_codec_def ex_fake_object_def)
  from fake_updates_never_conflict[OF ex_codec_ok stored this] obtain rw s' where
    "updateItem ex_codec ''ns'' ''serviceinstances'' ''db'' ''stale'' (snd ex_fake_created) = (rw, s')" "rw_status rw = Some 200"
    "storage_Get s' ''ns'' ''serviceinstances'' ''db'' = Some (?item \<lparr> fo_ResourceVersion := show_int (incr64 (Atoi (fo_ResourceVersion ?item))) \<rparr>)"
    by blast
  moreover have "show_int (incr64 (Atoi ''3'')) = ''4''" by code_simp
  ultimately show ?thesis using stored by simp
qed

definition ex_get :: "'o client_call" where
  "ex_get = CallGet ''b'' \<lparr> go_ResourceVersion = [], go_IncludeUninitialized = False \<rparr>"

theorem cluster_requests_have_no_route_witness:
  "\<exists>br. call clusterServiceBrokers ex_get = Some br \<and> URL_path br = ''/apis/servicecatalog.k8s.io/v1alpha1/clusterservicebrokers/b'' \<and>
     fake_serve ex_codec [] 0 (rr_verb br) (URL_path br) [] (snd ex_fake_created) = Some (Some (404, []), snd ex_fake_created)"
proof -
  let ?br = "the (call clusterServiceBrokers ex_get)" and ?cr = "the (call serviceClasses ex_get)" and ?pr = "the (call servicePlans ex_get)"
  have "call clusterServiceBrokers ex_get = Some ?br" "call serviceClasses ex_get = Some ?cr" "call servicePlans ex_get = Some ?pr"
    by (simp_all add: ex_get_def)
  moreover have "rr_err ?br = None" "rr_err ?cr = None" "rr_err ?pr = None" by code_simp+
  moreover have "URL_path ?br = ''/apis/servicecatalog.k8s.io/v1alpha1/clusterservicebrokers/b''" by code_simp
  ultimately show ?thesis
    using cluster_requests_have_no_route[of ex_get ?br ex_get ?cr ex_get ?pr ex_codec "[]" 0 "[]" "snd ex_fake_created"] by blast
qed

end
