(* ===== verification/SC_WorkerLoop.thy ===== *)
theory SC_WorkerLoop
  imports SC_Workqueue
begin

text \<open>
  The loop of one worker, as \<open>worker\<close> of the controller writes it, among the other threads that use its
  queue: the loop may wait for ever, and ends once the queue has been shut down.
\<close>

section \<open>The loop\<close>

text \<open>
  \<open>reconciler\<close> runs while the other threads use the queue, and gives back the state and the queue as they are when
  it returns; \<open>others\<close> is what these threads do while the worker waits in \<open>Get\<close>.  \<open>now\<close> and \<open>bucket\<close> read
  the clock and the delay of the token bucket.  A worker that never ends is \<open>None\<close>.
\<close>
partial_function (option) worker ::
  "nat \<Rightarrow> bool \<Rightarrow> ('k \<Rightarrow> 's \<times> 'k rate_limiting_queue \<Rightarrow> (go_error + unit) \<times> 's \<times> 'k rate_limiting_queue) \<Rightarrow>
   ('s \<times> 'k rate_limiting_queue \<Rightarrow> 's \<times> 'k rate_limiting_queue) \<Rightarrow> ('s \<Rightarrow> go_time) \<Rightarrow> ('s \<Rightarrow> int) \<Rightarrow>
   's \<times> 'k rate_limiting_queue \<Rightarrow> ('s \<times> 'k rate_limiting_queue) option" where
  [code]: "worker retries forgetAfterSuccess reconciler others now bucket sq =
     (case wq_Get (rq_q (snd sq)) of (got, q1) \<Rightarrow>
       (case got of
          Shutdown \<Rightarrow> Some sq
        | Blocked \<Rightarrow> worker retries forgetAfterSuccess reconciler others now bucket (others sq)
        | Item key \<Rightarrow>
            (case reconciler key (fst sq, (snd sq) \<lparr> rq_q := q1 \<rparr>) of (r, s', q') \<Rightarrow>
               worker retries forgetAfterSuccess reconciler others now bucket
                 (s', worker_finish retries forgetAfterSuccess (now s') (bucket s') key r q'))))"

section \<open>The other threads\<close>

text \<open>What other threads do to the queue while a worker holds \<open>own\<close>: informers add keys, the handlers of other
  queues start and end polling, the waiting loop turns, other workers take keys and finish theirs, and the
  controller shuts the queue down.\<close>
inductive used_by_others :: "'k \<Rightarrow> 'k rate_limiting_queue \<Rightarrow> 'k rate_limiting_queue \<Rightarrow> bool" for own where
  unused: "used_by_others own q q"
| used_add: "used_by_others own q q' \<Longrightarrow> used_by_others own q (rq_Add k q')"
| used_poll: "used_by_others own q q' \<Longrightarrow> used_by_others own q (AddRateLimited now bucket k q')"
| used_forget: "used_by_others own q q' \<Longrightarrow> used_by_others own q (Forget k q')"
| used_turn: "used_by_others own q q' \<Longrightarrow> used_by_others own q (waitingLoop_turn now now' q')"
| used_get: "used_by_others own q q' \<Longrightarrow> wq_Get (rq_q q') = (Item k, q1) \<Longrightarrow> used_by_others own q (q' \<lparr> rq_q := q1 \<rparr>)"
| used_finish: "used_by_others own q q' \<Longrightarrow> k \<in> wq_processing (rq_q q') \<Longrightarrow> k \<noteq> own \<Longrightarrow>
    used_by_others own q (worker_finish retries forget now bucket k r q')"
| used_shutdown: "used_by_others own q q' \<Longrightarrow> used_by_others own q (q' \<lparr> rq_q := wq_ShutDown (rq_q q') \<rparr>)"

section \<open>A queue that shuts down takes no keys\<close>

text \<open>From a queue that shuts down, what is left to do only shrinks.\<close>
definition closing :: "'k set \<Rightarrow> 'k workqueue \<Rightarrow> bool" where
  "closing D q \<longleftrightarrow> wq_ok q \<and> wq_shuttingDown q \<and> wq_dirty q \<subseteq> D"

lemma closing_Add [simp]: "wq_shuttingDown q \<Longrightarrow> wq_Add k q = q"
  by (simp add: wq_Add_def)

lemma closing_AddRateLimited: "wq_shuttingDown (rq_q q) \<Longrightarrow> rq_q (AddRateLimited now bucket k q) = rq_q q"
  by (simp add: AddRateLimited_def AddAfter_def split: prod.split)

lemma closing_finish:
  "wq_shuttingDown (rq_q q) \<Longrightarrow> rq_q (worker_finish retries forget now bucket k r q) = wq_Done k (rq_q q)"
  by (auto simp: worker_finish_def Let_def closing_AddRateLimited split: sum.split)

lemma closing_Get:
  assumes "closing D q" "wq_Get q = (Item k, q')"
  shows "closing (D - {k}) q' \<and> k \<in> D \<and> k \<in> wq_processing q'"
  using wq_ok_Get[of q k q'] assms by (auto simp: closing_def wq_Get_Item)

lemma closing_Done: "closing D q \<Longrightarrow> k \<in> wq_processing q \<Longrightarrow> closing D (wq_Done k q)"
  by (simp add: closing_def wq_ok_Done)

lemma closing_mono: "closing D q \<Longrightarrow> D \<subseteq> D' \<Longrightarrow> closing D' q"
  by (auto simp: closing_def)

lemma closing_used:
  assumes "used_by_others own q q'" "closing D (rq_q q)" "own \<in> wq_processing (rq_q q)"
  shows "closing D (rq_q q') \<and> own \<in> wq_processing (rq_q q')"
  using assms
proof (induction rule: used_by_others.induct)
  case (used_get q q' k q1)
  then have "closing (D - {k}) q1" "wq_processing q1 = insert k (wq_processing (rq_q q'))"
    using closing_Get[of D "rq_q q'" k q1] by (auto simp: wq_Get_Item)
  then show ?case using used_get closing_mono[of "D - {k}" q1 D] by auto
next
  case (used_finish q q' k retries forget now bucket r)
  then show ?case using closing_Done[of D "rq_q q'" k] by (simp add: closing_def closing_finish)
next
  case (used_turn q q' now now')
  then show ?case by (simp add: closing_def waitingLoop_turn_def)
qed (simp_all add: closing_def rq_Add_def closing_AddRateLimited)

lemma worker_ends:
  assumes "finite D" "closing D (rq_q (snd sq))"
    and others: "\<And>key s q. used_by_others key q (snd (snd (reconciler key (s, q))))"
  shows "\<exists>sq'. worker retries forget reconciler oth now bucket sq = Some sq' \<and> closing D (rq_q (snd sq')) \<and> wq_queue (rq_q (snd sq')) = []"
  using assms(1,2)
proof (induction D arbitrary: sq rule: finite_psubset_induct)
  case (psubset D)
  show ?case
  proof (cases "wq_queue (rq_q (snd sq))")
    case Nil
    then have "wq_Get (rq_q (snd sq)) = (Shutdown, rq_q (snd sq))"
      using psubset.prems by (simp add: wq_Get_def closing_def)
    then show ?thesis using Nil psubset.prems by (subst worker.simps) simp
  next
    case (Cons key rest)
    then obtain q1 where get: "wq_Get (rq_q (snd sq)) = (Item key, q1)" by (simp add: wq_Get_def)
    obtain r s' q' where run: "reconciler key (fst sq, (snd sq) \<lparr> rq_q := q1 \<rparr>) = (r, s', q')" by (metis prod_cases3)
    have "closing (D - {key}) (rq_q q') \<and> key \<in> wq_processing (rq_q q')"
      using closing_used[of key "(snd sq) \<lparr> rq_q := q1 \<rparr>" q' "D - {key}"] others[of key "(snd sq) \<lparr> rq_q := q1 \<rparr>" "fst sq"]
        closing_Get[OF psubset.prems get] run by simp
    then have "closing (D - {key}) (rq_q (worker_finish retries forget (now s') (bucket s') key r q'))"
      by (simp add: closing_finish closing_Done closing_def[of _ "rq_q q'"])
    moreover have "D - {key} \<subset> D" using closing_Get[OF psubset.prems get] by blast
    ultimately obtain sq' where "worker retries forget reconciler oth now bucket
          (s', worker_finish retries forget (now s') (bucket s') key r q') = Some sq'"
        "closing (D - {key}) (rq_q (snd sq'))" "wq_queue (rq_q (snd sq')) = []"
      using psubset.IH[of "D - {key}" "(s', worker_finish retries forget (now s') (bucket s') key r q')"] by auto
    then show ?thesis using get run closing_mono[of "D - {key}" _ D] by (subst worker.simps) auto
  qed
qed

text \<open>A worker returns for no other reason: the queue has shut down and is empty.\<close>
lemma worker_ends_only_after_shutdown:
  assumes "worker retries forget reconciler oth now bucket sq = Some sq'"
  shows "wq_shuttingDown (rq_q (snd sq')) \<and> wq_queue (rq_q (snd sq')) = []"
  by (rule worker.raw_induct[OF _ assms, where P = "\<lambda>_ _ _ _ _ _ _ sq'. wq_shuttingDown (rq_q (snd sq')) \<and> wq_queue (rq_q (snd sq')) = []"])
    (auto simp: wq_Get_def split: prod.splits list.splits if_splits)

section \<open>Property\<close>

text \<open>C13: once its queue is shut down a worker ends.  Whatever the results of the reconciler and whatever the other
  threads do to the queue meanwhile, the loop returns, and it returns with an empty queue: the keys that were
  waiting are handled, no key is put back, and no key that did not need work needs it now.\<close>
theorem worker_ends_after_shutdown:
  assumes "wq_ok (rq_q q)" "wq_shuttingDown (rq_q q)" "finite (wq_dirty (rq_q q))"
    and "\<And>key s q. used_by_others key q (snd (snd (reconciler key (s, q))))"
  shows "\<exists>s' q'. worker retries forgetAfterSuccess reconciler others now bucket (s, q) = Some (s', q') \<and>
    wq_queue (rq_q q') = [] \<and> wq_shuttingDown (rq_q q') \<and> wq_dirty (rq_q q') \<subseteq> wq_dirty (rq_q q)"
  using worker_ends[of "wq_dirty (rq_q q)" "(s, q)" reconciler retries forgetAfterSuccess others now bucket, OF assms(3) _ assms(4)] assms(1,2)
  by (auto simp: closing_def)

text \<open>Two keys wait when the queue is shut down; the reconciler fails on every key while an informer
  adds the key again.\<close>
definition ex_queue :: "string rate_limiting_queue" where
  "ex_queue = (let q = rq_Add ''ns/b'' (rq_Add ''ns/a'' (NewNamedRateLimitingQueue DefaultControllerRateLimiter))
     in q \<lparr> rq_q := wq_ShutDown (rq_q q) \<rparr>)"

definition ex_reconciler ::
  "string \<Rightarrow> string list \<times> string rate_limiting_queue \<Rightarrow> (go_error + unit) \<times> string list \<times> string rate_limiting_queue" where
  "ex_reconciler key sq = (Inl (PlainError ''failed''), fst sq @ [key], rq_Add key (snd sq))"

theorem worker_ends_after_shutdown_witness:
  "\<exists>s' q'. worker 15 True ex_reconciler (\<lambda>sq. sq) (\<lambda>_. 0) (\<lambda>_. 0) ([], ex_queue) = Some (s', q') \<and> wq_queue (rq_q q') = []"
proof -
  have "wq_ok (rq_q ex_queue)" "wq_shuttingDown (rq_q ex_queue)" "finite (wq_dirty (rq_q ex_queue))"
    by (simp_all add: ex_queue_def NewNamedRateLimitingQueue_def rq_Add_def Let_def) (simp add: NewNamed_def)
  from worker_ends_after_shutdown[OF this, of ex_reconciler 15 True "\<lambda>sq. sq" "\<lambda>_. 0" "\<lambda>_. 0" "[]"]
  show ?thesis by (auto simp: ex_reconciler_def intro: used_by_others.intros)
qed

end
