(* ===== verification/Spec2Isabelle.thy ===== *)
theory Spec2Isabelle
  imports SC_StorageExamples SC_FakeServer SC_WorkerLoop
begin

text \<open>
  A model of the Kubernetes service catalog and its correctness.

  \<^bold>\<open>The program.\<close>  The service catalog lets users of a cluster order services from brokers that speak the
  Open Service Broker API.  An API server stores five resources (brokers, service classes, service plans,
  service instances and service instance credentials), and a controller manager drives the outside world
  towards them.  A request to the API server passes defaulting and a chain of admission plugins, and
  then the generic registry, which calls the strategy of the resource to prepare and validate the object.
  Informers copy the stored objects into caches and put their keys into work queues.  Workers take keys
  from the queues and run a reconciler, which reads the caches, sends requests to brokers and writes the
  status of the object back through the API server.

  \<^bold>\<open>The theories.\<close>
  \<^item> \<open>SC_Prelude\<close>: results as sums, handlers in the state monad, the rules for weakest preconditions and for
    relations between the state before and after a handler (\<open>keeps\<close>, the locale \<open>handler_relation\<close>).
  \<^item> \<open>SC_Types\<close>: the API types (\<open>pkg/apis/servicecatalog/types.go\<close>).  \<open>SC_FieldValidation\<close> and
    \<open>SC_Validation\<close>: names, metadata and the validators (\<open>pkg/apis/servicecatalog/validation\<close>).
  \<^item> \<open>SC_Registry\<close>: creation, update with optimistic concurrency, graceful deletion and finalizers of the
    generic store (\<open>k8s.io/apiserver/pkg/registry\<close>), verified against the locale \<open>strategy_contract\<close>;
    \<open>SC_Strategies\<close>: the strategies of \<open>pkg/registry/servicecatalog\<close>, each an interpretation of it.
  \<^item> \<open>SC_Admission\<close>: \<open>v1alpha1/defaults.go\<close>, the five plugins of \<open>plugin/pkg/admission\<close> and their chain, and
    the helpers of \<open>pkg/api/meta\<close>.
  \<^item> \<open>SC_World\<close> and \<open>SC_Client\<close>: the state (stores, caches, action log) and the environment, the typed clients
    and listers the controller calls, and the locale \<open>client_relation\<close> for what all of them respect.
  \<^item> \<open>SC_Encoding\<close>, \<open>SC_Constants\<close>, \<open>SC_Conditions\<close>, \<open>SC_Parameters\<close>, \<open>SC_Catalog\<close>: JSON text and SHA-256, the
    messages, status conditions, request parameters and identities, and the conversion of catalogs.
  \<^item> \<open>SC_Instance\<close>, \<open>SC_Binding\<close>, \<open>SC_Broker\<close>: the control loops of \<open>controller_instance.go\<close>,
    \<open>controller_binding.go\<close> and \<open>controller_broker.go\<close>, function by function.  A long Go function is split into
    the blocks between its early returns, in the order of the code.
  \<^item> \<open>SC_Workqueue\<close>: the rate limited work queue of \<open>client-go\<close> and the worker of \<open>controller.go\<close>;
    \<open>SC_System\<close>: the informer handlers, the queues, and the step relation of the whole controller.
  \<^item> \<open>SC_OSBClient\<close>: the client of the Open Service Broker API (\<open>go-open-service-broker-client/v2\<close>) over a network,
    with the decoding of JSON into Go structs; \<open>osb_env\<close> is the environment of the controller that results.
    \<open>SC_SampleBroker\<close>: the handlers of \<open>contrib/pkg/broker/server\<close>, the locale \<open>broker_controller\<close> for the
    interface they call, and the user provided controller (\<open>contrib/pkg/broker/user_provided\<close>) as its interpretation.
  \<^item> \<open>SC_WorkerLoop\<close>: the worker of \<open>controller.go\<close> as a loop that need not end, with the other threads that use its queue.
  \<^item> \<open>SC_Selection\<close>: field selectors (\<open>k8s.io/apimachinery/pkg/fields\<close>), printed by clients and parsed by the server, and
    the label conversions of \<open>v1alpha1/conversion.go\<close>.  \<open>SC_Storage\<close>: the storage options
    (\<open>pkg/registry/servicecatalog/server/options.go\<close>), the selectable fields and stores of the five \<open>storage.go\<close>, and
    listing over the keys of a backend; the locale \<open>key_scheme\<close> says what a pair of key functions must satisfy for
    listing to be right, with the two schemes of the program as interpretations.
  \<^item> \<open>SC_Conversion\<close>: the versioned types (\<open>v1alpha1/types.go\<close>) and the conversions between them and the internal types
    (\<open>zz_generated.conversion.go\<close>); a cast through \<open>unsafe.Pointer\<close> copies the fields in their order, and slices of
    conditions may be nil, as in memory.
  \<^item> \<open>SC_TypedClients\<close>: the versioned and the internal client set and their fakes (\<open>pkg/client/clientset_generated\<close>), the
    requests they build, what the server reads from a request, and the storage map of
    \<open>rest/storage_servicecatalog.go\<close> from which it is served.
  \<^item> \<open>SC_FakeServer\<close>: the in-memory API server of the tests (\<open>pkg/rest/core/fake\<close>).
  \<^item> \<open>SC_Example\<close>, \<open>SC_Examples\<close>, \<open>SC_BrokerExamples\<close> and \<open>SC_StorageExamples\<close>: a concrete cluster on which the
    properties are applied.

  \<^bold>\<open>What is shown.\<close>
  \<^item> The whole system (this theory, \<open>SC_System\<close>): in every interleaving of clients, informers, workers and
    waiting loops, stored and cached objects are valid, no two workers share a key, and retries are bounded.
  \<^item> Frames (\<open>SC_InstanceFrame\<close>, \<open>SC_BindingFrame\<close>, \<open>SC_BrokerFrame\<close>): what one run of a control loop can
    change, on every path, under failing API requests and stale caches.
  \<^item> Traces (\<open>SC_Trace\<close>, \<open>SC_InstanceTrace\<close>, \<open>SC_BindingTrace\<close>): a run sends at most one request to a broker,
    after the operation has been recorded in the status.
  \<^item> The API server (\<open>SC_ApiProps\<close>, \<open>SC_Admission\<close>): no lost updates, finalizers, what each endpoint writes of status and
    specification, and what each admission plugin admits.
  \<^item> The work queue (\<open>SC_Workqueue\<close>, \<open>SC_WorkerLoop\<close>): refinement of a set of keys per state, progress and bounded
    backoff, and that every worker ends once its queue is shut down.
  \<^item> Requests (\<open>SC_Storage\<close>, \<open>SC_TypedClients\<close>, \<open>SC_Conversion\<close>): a selector survives printing and parsing, listing gives
    exactly the stored objects that are asked for, the two queries that resolve the references of an instance
    included; every request of a typed client is served from a store of its kind, patches of unknown
    subresources apart; the fakes record what the server would have read, up to four differences that are
    named; conversions between the versions keep everything but the difference of nil and empty conditions.
  \<^item> The in-memory server (\<open>SC_FakeServer\<close>): its deletion respects finalizers as the registry does, but it accepts stale
    updates and has no routes for kinds without namespace.
  \<^item> Branches of the control loops (\<open>SC_InstanceProps\<close>, \<open>SC_BindingProps\<close>, \<open>SC_BrokerProps\<close>) and data
    transformations (\<open>SC_DataProps\<close>), with several theorems on defects: states in which the status that the
    controller computes is refused by the validation of its own API server, so that orphan mitigation is
    never recorded and a deletion is stuck.
  \<^item> Brokers (\<open>SC_OSBClient\<close>, \<open>SC_SampleBroker\<close>): when the client returns an error the controller retries, that
    valid brokers have clients, and that the controller's requests for the catalog, for an instance and for its
    credentials succeed at the sample broker and give back the credentials that were provisioned.

  \<^bold>\<open>Conventions.\<close>  Pointers are options; reading a field of a nil pointer, which panics in Go, is the result
  \<open>NilDereference\<close>.  Go integers that only count are \<open>int\<close> or \<open>nat\<close>; the words of SHA-256 are 32 bit words.
  The clock is a function of the number of requests made so far.  Errors of the API server have their
  reason and an abbreviated message.  Loops are recursions over lists and total, and no fuel is used.  The one
  exception is the loop of a worker, which runs as long as its queue is open: it is a partial function whose
  value is \<open>None\<close> where it does not end, and its end after a shutdown is proved.

  \<^bold>\<open>Parameters.\<close>  The environment record of \<open>SC_World\<close> holds what is not part of the program: clock, transport
  errors of API requests, the brokers, the YAML and JSON decoders and the feature gate.  Nothing is assumed of
  them unless a theorem says so; \<open>SC_OSBClient\<close> gives the part of it that the broker client determines.  There, the
  network and the check of JSON text are arguments, and in \<open>SC_SampleBroker\<close> the router (\<open>gorilla/mux\<close>) is, with
  \<open>delivers\<close> as the hypothesis that it dispatches on method and path.  The codecs of \<open>SC_FakeServer\<close>, and the
  reconciler and the other threads of \<open>SC_WorkerLoop\<close>, are arguments too.

  \<^bold>\<open>Not modelled.\<close>  The run of a reconciler is one atomic step of the system, though its own API requests may
  fail one by one and its caches may be stale.  Classes and plans are written by the broker control loop
  only; in the system other clients may delete but not create them.  Left out are: process start-up, flags and
  wiring (\<open>cmd\<close>, \<open>pkg/apiserver\<close>, \<open>pkg/kubernetes\<close>), which only connect the parts above; generated code
  (deep copies, codecs, informers, OpenAPI); label selectors, watches of the registry and the filter by labels in
  the fakes; the storage backends (etcd and \<open>pkg/storage/tpr\<close>), of which the stores of \<open>SC_Registry\<close> and the
  lists of keys and values of \<open>SC_Storage\<close> are the contract; the HTTP and TLS
  transport and the operation \<open>UpdateInstance\<close> of the broker client, which the controller never calls; the command
  line tools and the legacy broker client under \<open>contrib\<close>; metrics, logging and health checks.
\<close>

section \<open>The controller as a whole\<close>

lemma NewController_ok:
  assumes "world_ok E w" "caches w = ([], [], [], [], [])"
  shows "system_ok E (NewController w)"
proof -
  have "pools_ok (NewController w)"
    by (simp add: pools_ok_def NewController_def pool_init_def NewNamedRateLimitingQueue_def wq.exclusive_start[OF wq_ok_new]
        NewNamed_processing)
  moreover have "retries_ok (NewController w)"
    by (simp add: retries_ok_def NewController_def pool_init_def NewNamedRateLimitingQueue_def NumRequeues_def rl_NumRequeues_def
        DefaultControllerRateLimiter_def NewItemExponentialFailureRateLimiter_def)
  ultimately show ?thesis
    using assms by (simp add: system_ok_def NewController_def caches_def caches_ok_def)
qed

lemma reachable_system_ok:
  "(system_step E)\<^sup>*\<^sup>* c c' \<Longrightarrow> system_ok E c \<Longrightarrow> system_ok E c'"
  by (induction rule: rtranclp_induct) (blast intro: system_step_ok)+

text \<open>C1: soundness of the controller manager.  Start it with empty caches on any valid cluster and let
  clients of the API server, informers, workers and the waiting loops of the queues take turns in any
  order, with any transport errors and broker answers.  Then all stored objects pass the validation of
  the API server and are stored under their keys, all cached objects are valid, no two workers of a queue
  work on the same key, and no key of a resource queue has been retried more than \<open>maxRetries\<close> times.\<close>
theorem controller_is_sound:
  assumes "world_ok E w" "caches w = ([], [], [], [], [])" "(system_step E)\<^sup>*\<^sup>* (NewController w) c"
  shows "world_ok E (ct_world c) \<and> caches_ok E (ct_world c) \<and>
    (\<forall>kind i j key. pl_busy (ct_pools c kind) i = Some key \<and> pl_busy (ct_pools c kind) j = Some key \<longrightarrow> i = j) \<and>
    (\<forall>kind key. kind \<noteq> PollingQueue \<longrightarrow> NumRequeues key (pl_queue (ct_pools c kind)) \<le> maxRetries)"
proof -
  have ok: "system_ok E c" by (rule reachable_system_ok[OF assms(3) NewController_ok[OF assms(1,2)]])
  moreover have "i = j" if "pl_busy (ct_pools c kind) i = Some key" "pl_busy (ct_pools c kind) j = Some key" for kind i j key
    using wq.one_worker[of "pl_busy (ct_pools c kind)" "rq_q (pl_queue (ct_pools c kind))" i key j] that ok
    by (simp add: system_ok_def pools_ok_def)
  ultimately show ?thesis by (auto simp: system_ok_def retries_ok_def)
qed

text \<open>A client creates the instance, the informer queues it, worker 0 takes its key and reconciles it.\<close>
definition ex_created :: controller where
  "ex_created = (NewController ex_world) \<lparr> ct_world := create_instance ex_world \<rparr>"

definition ex_informed :: controller where
  "ex_informed = upd_world (\<lambda>w. w \<lparr> w_instanceCache := recache si_Meta ex_new (w_instanceCache w) \<rparr>) (instanceAdd ex_new ex_created)"

definition ex_taken :: controller where
  "ex_taken = worker_begin InstanceQueue 0 ex_informed"

definition ex_handled :: controller where
  "ex_handled = worker_end ex_env 0 0 InstanceQueue 0 ''ns/db'' ex_taken"

lemma ex_busy: "pl_busy (ct_pools ex_taken InstanceQueue) 0 = Some ''ns/db''"
proof -
  have "meta_key (si_Meta ex_new) = ''ns/db''" by code_simp
  then show ?thesis
    by (simp add: ex_taken_def worker_begin_def Let_def ex_informed_def ex_created_def NewController_def instanceAdd_def upd_queue_def
        upd_world_def pool_init_def NewNamedRateLimitingQueue_def NewNamed_def rq_Add_def wq_Add_def wq_Get_def)
qed

lemma ex_handled_reachable: "(system_step ex_env)\<^sup>*\<^sup>* (NewController ex_world) ex_handled"
proof -
  have "client_request ex_env ex_world (create_instance ex_world)"
    unfolding create_instance_def by (rule client_request.intros(1))
  then have "system_step ex_env (NewController ex_world) ex_created"
    unfolding ex_created_def by (intro step_client) (simp add: NewController_def)
  moreover have "informer_event ex_created ex_informed"
    unfolding ex_informed_def
    by (rule informer_event.intros(1)[where k = "(''ns'', ''db'')"]) (simp_all add: ex_created_def ex_new_stored)
  then have "system_step ex_env ex_created ex_informed" by (rule step_informer)
  moreover have "system_step ex_env ex_informed ex_taken"
    unfolding ex_taken_def
    by (rule step_begin) (simp_all add: ex_informed_def ex_created_def NewController_def instanceAdd_def upd_queue_def upd_world_def pool_init_def)
  moreover have "system_step ex_env ex_taken ex_handled"
    unfolding ex_handled_def by (rule step_end[OF ex_busy])
  ultimately show ?thesis by (meson rtranclp.rtrancl_into_rtrancl rtranclp.rtrancl_refl)
qed

theorem controller_is_sound_witness:
  "world_ok ex_env (ct_world ex_handled) \<and> NumRequeues ''ns/db'' (pl_queue (ct_pools ex_handled InstanceQueue)) \<le> maxRetries"
proof -
  have "caches ex_world = ([], [], [], [], [])" by (simp add: caches_def ex_world_def)
  from controller_is_sound[OF ex_world_ok this ex_handled_reachable] show ?thesis by blast
qed

end
